(* ===== verification/Prelude.thy ===== *)
theory Prelude
  imports Main "HOL-Library.Word" "HOL-Library.Multiset"
begin

text \<open>
  What every theory of the development shares: the Rust machine types, the result type of
  code that may panic, arithmetic with the two build profiles of the workspace (overflow
  checks on or off), little-endian byte strings, the near-sdk \<open>UnorderedMap\<close> container,
  reachability in a transition system and the interface (a locale) through which the
  components prove their invariants.

  Rust code that panics is a value of \<open>'a res\<close>: \<open>Inl\<close> of the panic, \<open>Inr\<close> of the
  result. A NEAR call that panics leaves the storage as it was, so \<open>Inl\<close> carries no state.
\<close>

named_theorems res_simps \<open>equations of the result type and of checked arithmetic\<close>
named_theorems umap_simps \<open>lookups, keys and domains of unordered maps\<close>


section \<open>Machine types\<close>

type_synonym u8 = "8 word"
type_synonym u32 = "32 word"
type_synonym u64 = "64 word"
type_synonym u128 = "128 word"
type_synonym u256 = "256 word"
type_synonym bytes = "u8 list"
type_synonym account_id = string


section \<open>Results of code that may panic\<close>

datatype panic =
    Panic string          \<comment> \<open>\<open>assert!\<close>, \<open>expect\<close> and \<open>panic!\<close> with their message\<close>
  | UnwrapNone            \<comment> \<open>\<open>unwrap\<close> of \<open>None\<close> or of an \<open>Err\<close>\<close>
  | ArithmeticOverflow    \<comment> \<open>overflow in a build with overflow checks\<close>
  | DivisionByZero
  | IndexOutOfBounds
  | OutOfGas              \<comment> \<open>the host stops a call that does not end\<close>

type_synonym 'a res = "panic + 'a"

definition and_then :: "'e + 'a \<Rightarrow> ('a \<Rightarrow> 'e + 'b) \<Rightarrow> 'e + 'b" where
  "and_then m f = (case m of Inl e \<Rightarrow> Inl e | Inr a \<Rightarrow> f a)"

definition unwrap :: "'a option \<Rightarrow> 'a res" where
  "unwrap x = (case x of None \<Rightarrow> Inl UnwrapNone | Some a \<Rightarrow> Inr a)"

definition expect :: "string \<Rightarrow> 'a option \<Rightarrow> 'a res" where
  "expect msg x = (case x of None \<Rightarrow> Inl (Panic msg) | Some a \<Rightarrow> Inr a)"

definition ensure :: "bool \<Rightarrow> panic \<Rightarrow> unit res" where
  "ensure b e = (if b then Inr () else Inl e)"

definition index :: "'a list \<Rightarrow> nat \<Rightarrow> 'a res" where
  "index xs i = (if i < length xs then Inr (xs ! i) else Inl IndexOutOfBounds)"

lemma and_then_Inl [simp]: "and_then (Inl e) f = Inl e"
  and and_then_Inr [simp]: "and_then (Inr a) f = f a"
  by (simp_all add: and_then_def)

lemma and_then_eq_Inr [res_simps]:
  "and_then m f = Inr b \<longleftrightarrow> (\<exists>a. m = Inr a \<and> f a = Inr b)"
  by (cases m) auto

lemma and_then_eq_Inl [res_simps]:
  "and_then m f = Inl e \<longleftrightarrow> m = Inl e \<or> (\<exists>a. m = Inr a \<and> f a = Inl e)"
  by (cases m) auto

lemma and_then_cong [fundef_cong]:
  assumes "m = m'" and "\<And>a. m' = Inr a \<Longrightarrow> f a = g a"
  shows "and_then m f = and_then m' g"
  using assms by (cases m') auto

lemma unwrap_eq_Inr [res_simps]: "unwrap x = Inr a \<longleftrightarrow> x = Some a"
  by (cases x) (auto simp: unwrap_def)

lemma unwrap_eq_Inl [res_simps]: "unwrap x = Inl e \<longleftrightarrow> x = None \<and> e = UnwrapNone"
  by (cases x) (auto simp: unwrap_def)

lemma unwrap_simps [simp]: "unwrap (Some a) = Inr a" "unwrap None = Inl UnwrapNone"
  by (simp_all add: unwrap_def)

lemma expect_eq_Inr [res_simps]: "expect msg x = Inr a \<longleftrightarrow> x = Some a"
  by (cases x) (auto simp: expect_def)

lemma expect_eq_Inl [res_simps]: "expect msg x = Inl e \<longleftrightarrow> x = None \<and> e = Panic msg"
  by (cases x) (auto simp: expect_def)

lemma expect_simps [simp]: "expect msg (Some a) = Inr a" "expect msg None = Inl (Panic msg)"
  by (simp_all add: expect_def)

lemma ensure_eq_Inr [res_simps]: "ensure b e = Inr u \<longleftrightarrow> b"
  by (simp add: ensure_def)

lemma ensure_eq_Inl [res_simps]: "ensure b e = Inl e' \<longleftrightarrow> \<not> b \<and> e' = e"
  by (auto simp: ensure_def)

lemma ensure_simps [simp]: "ensure True e = Inr ()" "ensure False e = Inl e"
  by (simp_all add: ensure_def)

lemma index_eq_Inr [res_simps]: "index xs i = Inr x \<longleftrightarrow> i < length xs \<and> xs ! i = x"
  by (auto simp: index_def)

lemma index_in_range [simp]: "i < length xs \<Longrightarrow> index xs i = Inr (xs ! i)"
  by (simp add: index_def)


section \<open>Integer arithmetic under the two build profiles\<close>

text \<open>
  \<open>cargo test\<close> builds with overflow checks, \<open>make build-contracts\<close> builds with
  \<open>--release\<close>, whose profile in the workspace's \<open>Cargo.toml\<close> does not turn them on. The
  first argument of each operation says which profile is meant: \<open>True\<close> panics on overflow,
  \<open>False\<close> wraps around.
\<close>

definition arith_add :: "bool \<Rightarrow> 'a::len word \<Rightarrow> 'a word \<Rightarrow> 'a word res" where
  "arith_add checks a b =
     (if checks \<and> 2 ^ LENGTH('a) \<le> unat a + unat b then Inl ArithmeticOverflow else Inr (a + b))"

definition arith_sub :: "bool \<Rightarrow> 'a::len word \<Rightarrow> 'a word \<Rightarrow> 'a word res" where
  "arith_sub checks a b = (if checks \<and> a < b then Inl ArithmeticOverflow else Inr (a - b))"

definition arith_mul :: "bool \<Rightarrow> 'a::len word \<Rightarrow> 'a word \<Rightarrow> 'a word res" where
  "arith_mul checks a b =
     (if checks \<and> 2 ^ LENGTH('a) \<le> unat a * unat b then Inl ArithmeticOverflow else Inr (a * b))"

lemma arith_add_exact:
  fixes a b c :: "'a::len word"
  assumes "arith_add True a b = Inr c"
  shows "unat c = unat a + unat b"
  using assms by (auto simp: arith_add_def unat_word_ariths split: if_splits)

lemma arith_sub_exact:
  fixes a b c :: "'a::len word"
  assumes "arith_sub True a b = Inr c"
  shows "unat b \<le> unat a" "unat c = unat a - unat b"
  using assms by (auto simp: arith_sub_def word_le_nat_alt not_less unat_sub_if' split: if_splits)

lemma arith_mul_exact:
  fixes a b c :: "'a::len word"
  assumes "arith_mul True a b = Inr c"
  shows "unat c = unat a * unat b"
  using assms by (auto simp: arith_mul_def unat_word_ariths split: if_splits)

lemma arith_eq_Inr [res_simps]:
  "arith_add p a b = Inr c \<longleftrightarrow> \<not> (p \<and> 2 ^ LENGTH('a) \<le> unat a + unat b) \<and> c = a + b"
  "arith_sub p a b = Inr c \<longleftrightarrow> \<not> (p \<and> a < b) \<and> c = a - b"
  "arith_mul p a b = Inr c \<longleftrightarrow> \<not> (p \<and> 2 ^ LENGTH('a) \<le> unat a * unat b) \<and> c = a * b"
  for a b c :: "'a::len word"
  by (auto simp: arith_add_def arith_sub_def arith_mul_def)

lemma arith_unchecked [simp]:
  "arith_add False a b = Inr (a + b)"
  "arith_sub False a b = Inr (a - b)"
  "arith_mul False a b = Inr (a * b)"
  by (simp_all add: arith_add_def arith_sub_def arith_mul_def)


section \<open>Little-endian byte strings\<close>

definition to_le_bytes :: "nat \<Rightarrow> 'a::len word \<Rightarrow> bytes" where
  "to_le_bytes n w = map (\<lambda>i. of_nat (unat w div 256 ^ i)) [0..<n]"

primrec from_le_bytes_nat :: "bytes \<Rightarrow> nat" where
  "from_le_bytes_nat [] = 0"
| "from_le_bytes_nat (b # bs) = unat b + 256 * from_le_bytes_nat bs"

definition from_le_bytes :: "bytes \<Rightarrow> 'a::len word" where
  "from_le_bytes bs = of_nat (from_le_bytes_nat bs)"

lemma length_to_le_bytes [simp]: "length (to_le_bytes n w) = n"
  by (simp add: to_le_bytes_def)

lemma from_le_bytes_nat_digits:
  "from_le_bytes_nat (map (\<lambda>i. of_nat (x div 256 ^ i)) [0..<n]) = x mod 256 ^ n"
proof (induction n arbitrary: x)
  case 0
  show ?case by simp
next
  case (Suc n)
  have "map (\<lambda>i. of_nat (x div 256 ^ i) :: u8) [0..<Suc n]
      = of_nat x # map (\<lambda>i. of_nat (x div 256 div 256 ^ i)) [0..<n]"
    by (simp only: upt_conv_Cons [OF zero_less_Suc] map_Suc_upt [symmetric] list.map list.map_comp)
      (simp add: comp_def div_mult2_eq)
  then have "from_le_bytes_nat (map (\<lambda>i. of_nat (x div 256 ^ i)) [0..<Suc n])
      = x mod 256 + 256 * (x div 256 mod 256 ^ n)"
    by (simp only: from_le_bytes_nat.simps Suc.IH) (simp add: unat_of_nat)
  also have "\<dots> = x mod 256 ^ Suc n"
    by (simp add: mod_mult2_eq)
  finally show ?case .
qed

lemma from_to_le_bytes:
  "from_le_bytes_nat (to_le_bytes n w) = unat w mod 256 ^ n"
  by (simp add: to_le_bytes_def from_le_bytes_nat_digits)

lemma from_le_bytes_nat_zeros: "from_le_bytes_nat (bs @ replicate n 0) = from_le_bytes_nat bs"
proof (induction bs)
  case Nil
  show ?case by (induction n) simp_all
qed simp

lemma unat_u64_less: "unat w < 2 ^ 64" for w :: u64
proof -
  have "unat w < 2 ^ LENGTH(64)" by (rule unsigned_less)
  then show ?thesis by simp
qed

lemma from_to_le_bytes_u64: "from_le_bytes_nat (to_le_bytes 8 w) = unat w" for w :: u64
  using unat_u64_less [of w] by (simp add: from_to_le_bytes)


section \<open>near-sdk's UnorderedMap\<close>

text \<open>
  \<open>near_sdk::collections::UnorderedMap\<close> is a map with a vector of its keys. A key that is
  not there yet is appended to the vector. How the vector is reordered when a key is removed
  is the library's own business: the order is an argument of the operation, and what the code
  relies on is \<open>valid_remove_order\<close>, that exactly the removed key disappears.
\<close>

record ('k, 'v) unordered_map =
  um_keys :: "'k list"
  um_map :: "'k \<rightharpoonup> 'v"

definition um_new :: "('k, 'v) unordered_map" where
  "um_new = \<lparr>um_keys = [], um_map = Map.empty\<rparr>"

definition um_get :: "('k, 'v) unordered_map \<Rightarrow> 'k \<Rightarrow> 'v option" where
  "um_get m k = um_map m k"

definition um_insert :: "'k \<Rightarrow> 'v \<Rightarrow> ('k, 'v) unordered_map \<Rightarrow> ('k, 'v) unordered_map" where
  "um_insert k v m =
     \<lparr>um_keys = (if um_map m k = None then um_keys m @ [k] else um_keys m),
      um_map = (um_map m)(k \<mapsto> v)\<rparr>"

definition um_remove ::
  "('k list \<Rightarrow> 'k \<Rightarrow> 'k list) \<Rightarrow> 'k \<Rightarrow> ('k, 'v) unordered_map \<Rightarrow> ('k, 'v) unordered_map" where
  "um_remove order k m =
     (if um_map m k = None then m
      else \<lparr>um_keys = order (um_keys m) k, um_map = (um_map m)(k := None)\<rparr>)"

definition um_len :: "('k, 'v) unordered_map \<Rightarrow> u64" where
  "um_len m = of_nat (length (um_keys m))"

definition um_iter :: "('k, 'v) unordered_map \<Rightarrow> ('k \<times> 'v) list" where
  "um_iter m =
     concat (map (\<lambda>k. case um_map m k of None \<Rightarrow> [] | Some v \<Rightarrow> [(k, v)]) (um_keys m))"

definition um_invar :: "('k, 'v) unordered_map \<Rightarrow> bool" where
  "um_invar m \<longleftrightarrow> distinct (um_keys m) \<and> set (um_keys m) = dom (um_map m)"

definition valid_remove_order :: "('k list \<Rightarrow> 'k \<Rightarrow> 'k list) \<Rightarrow> bool" where
  "valid_remove_order order \<longleftrightarrow>
     (\<forall>ks k. distinct ks \<longrightarrow> k \<in> set ks \<longrightarrow> mset (order ks k) = mset (remove1 k ks))"

text \<open>
  The order of \<open>Vector::swap_remove\<close>: the last key takes the place of the removed one. It is
  the instance at which the theorems about removal are exercised.
\<close>

definition swap_remove :: "'k list \<Rightarrow> 'k \<Rightarrow> 'k list" where
  "swap_remove ks k =
     (if ks = [] then []
      else if last ks = k then butlast ks
      else map (\<lambda>x. if x = k then last ks else x) (butlast ks))"

lemma image_swap_fresh:
  "k \<notin> set xs \<Longrightarrow> image_mset (\<lambda>x. if x = k then y else x) (mset xs) = mset xs"
  by (induction xs) auto

lemma image_swap:
  assumes "distinct xs" and "k \<in> set xs"
  shows "image_mset (\<lambda>x. if x = k then y else x) (mset xs) = add_mset y (mset xs - {#k#})"
  using assms by (induction xs) (auto simp: image_swap_fresh)

lemma swap_remove_valid [simp]: "valid_remove_order swap_remove"
proof -
  have "mset (swap_remove ks k) = mset (remove1 k ks)"
    if d: "distinct ks" and k: "k \<in> set ks" for ks :: "'a list" and k
  proof -
    from k have "ks \<noteq> []" by auto
    then obtain bs l where ks: "ks = bs @ [l]" by (metis append_butlast_last_id)
    show ?thesis
    proof (cases "l = k")
      case True
      with d ks show ?thesis by (simp add: swap_remove_def remove1_append)
    next
      case False
      with d k ks have "distinct bs" "k \<in> set bs" by auto
      with False ks show ?thesis
        using image_swap [of bs k l] by (simp add: swap_remove_def remove1_append cong: if_cong)
    qed
  qed
  then show ?thesis by (simp add: valid_remove_order_def)
qed

lemma um_get_new [simp]: "um_get um_new k = None"
  by (simp add: um_get_def um_new_def)

lemma um_get_insert [umap_simps]:
  "um_get (um_insert k v m) k' = (if k' = k then Some v else um_get m k')"
  by (simp add: um_get_def um_insert_def)

lemma um_get_remove [umap_simps]:
  "um_get (um_remove order k m) k' = (if k' = k then None else um_get m k')"
  by (simp add: um_get_def um_remove_def)

lemma um_map_eq_get: "um_map m = um_get m"
  by (simp add: um_get_def fun_eq_iff)

lemma um_invar_new [simp]: "um_invar um_new"
  by (simp add: um_invar_def um_new_def)

lemma um_invar_insert [intro]: "um_invar m \<Longrightarrow> um_invar (um_insert k v m)"
  by (auto simp: um_invar_def um_insert_def)

lemma um_invar_remove [intro]:
  assumes "valid_remove_order order" and "um_invar m"
  shows "um_invar (um_remove order k m)"
proof (cases "um_map m k = None")
  case True
  with assms(2) show ?thesis by (simp add: um_remove_def)
next
  case False
  with assms have k: "k \<in> set (um_keys m)" and d: "distinct (um_keys m)"
    and dom: "set (um_keys m) = dom (um_map m)"
    by (auto simp: um_invar_def)
  from assms(1) k d have eq: "mset (order (um_keys m) k) = mset (remove1 k (um_keys m))"
    by (simp add: valid_remove_order_def)
  have "distinct (order (um_keys m) k)"
    using d eq by (metis distinct_remove1 mset_eq_imp_distinct_iff)
  moreover have "set (order (um_keys m) k) = set (um_keys m) - {k}"
    using d eq by (metis mset_eq_setD set_remove1_eq)
  ultimately show ?thesis
    using False dom by (auto simp: um_invar_def um_remove_def)
qed

lemma set_um_keys: "um_invar m \<Longrightarrow> set (um_keys m) = {k. um_get m k \<noteq> None}"
  by (auto simp: um_invar_def um_get_def)

lemma finite_um_get [intro]: "um_invar m \<Longrightarrow> finite {k. um_get m k \<noteq> None}"
  by (metis List.finite_set set_um_keys)

lemma um_get_fun [umap_simps]:
  "um_get (um_insert k v m) = (um_get m)(k \<mapsto> v)"
  "um_get (um_remove order k m) = (um_get m)(k := None)"
  by (simp_all add: fun_eq_iff um_get_insert um_get_remove)

lemma finite_dom_um_get [simp, intro]: "um_invar m \<Longrightarrow> finite (dom (um_get m))"
  using finite_um_get by (simp add: dom_def)

lemma set_um_iter: "um_invar m \<Longrightarrow> set (um_iter m) = {(k, v). um_get m k = Some v}"
  by (fastforce simp: um_iter_def um_invar_def um_get_def split: option.splits)


section \<open>Sums over a map\<close>

definition map_sum :: "('v \<Rightarrow> nat) \<Rightarrow> ('k \<rightharpoonup> 'v) \<Rightarrow> nat" where
  "map_sum w f = (\<Sum>k \<in> dom f. w (the (f k)))"

definition weight_at :: "('v \<Rightarrow> nat) \<Rightarrow> 'v option \<Rightarrow> nat" where
  "weight_at w x = (case x of None \<Rightarrow> 0 | Some v \<Rightarrow> w v)"

lemma weight_at_simps [simp]: "weight_at w None = 0" "weight_at w (Some v) = w v"
  by (simp_all add: weight_at_def)

lemma map_sum_split:
  assumes "finite (dom f)"
  shows "map_sum w f = weight_at w (f k) + (\<Sum>a \<in> dom f - {k}. w (the (f a)))"
proof (cases "f k")
  case None
  then have "dom f - {k} = dom f" by auto
  with None show ?thesis by (simp add: map_sum_def)
next
  case (Some v)
  then show ?thesis
    using sum.remove [OF assms, of k "\<lambda>a. w (the (f a))"] by (auto simp: map_sum_def)
qed

lemma map_sum_change:
  assumes "finite (dom f)"
  shows "map_sum w (f(k := x)) + weight_at w (f k) = map_sum w f + weight_at w x"
proof -
  have fin: "finite (dom (f(k := x)))" using assms by (cases x) auto
  have "dom (f(k := x)) - {k} = dom f - {k}" by auto
  then have "(\<Sum>a \<in> dom (f(k := x)) - {k}. w (the ((f(k := x)) a)))
      = (\<Sum>a \<in> dom f - {k}. w (the (f a)))"
    by (intro sum.cong) auto
  then show ?thesis
    using map_sum_split [OF assms, of w k] map_sum_split [OF fin, of w k] by simp
qed


section \<open>Reachable states and invariants\<close>

inductive reachable :: "('s \<Rightarrow> bool) \<Rightarrow> ('s \<Rightarrow> 's \<Rightarrow> bool) \<Rightarrow> 's \<Rightarrow> bool"
  for init :: "'s \<Rightarrow> bool" and step :: "'s \<Rightarrow> 's \<Rightarrow> bool" where
  start: "init s \<Longrightarrow> reachable init step s"
| step: "reachable init step s \<Longrightarrow> step s t \<Longrightarrow> reachable init step t"

text \<open>
  The interface of a component whose operations keep an invariant: its initial states, its
  steps and the predicate. What a provider proves once (the start and one step) gives every
  reachable state and every run.
\<close>

locale inductive_invariant =
  fixes init :: "'s \<Rightarrow> bool" and step :: "'s \<Rightarrow> 's \<Rightarrow> bool" and inv :: "'s \<Rightarrow> bool"
  assumes inv_init: "init s \<Longrightarrow> inv s"
    and inv_step: "inv s \<Longrightarrow> step s t \<Longrightarrow> inv t"
begin

lemma reachable_inv: "reachable init step s \<Longrightarrow> inv s"
  by (induction rule: reachable.induct) (auto intro: inv_init inv_step)

lemma run_inv: "step\<^sup>*\<^sup>* s t \<Longrightarrow> inv s \<Longrightarrow> inv t"
  by (induction rule: rtranclp_induct) (auto intro: inv_step)

end

end
