(* ===== verification/Merkle.thy ===== *)
theory Merkle
  imports Prelude "HOL-Library.List_Lexorder"
begin

text \<open>
  \<open>contracts/src/merkle.rs\<close>: the hash type, the in-place Merkle tree over the hashes of a
  slice, a recursive reference definition of the root, and the lemmas that the loop computes
  the reference, that the root ignores the order of the elements and that two lists with equal
  roots expose a collision among the values that were hashed for them.

  SHA-256 and the Borsh serialisers are other crates: they are arguments of the definitions.
\<close>

section \<open>The hash type\<close>

text \<open>\<open>[u8; 32]\<close>, with the lexicographic order that Rust derives for arrays.\<close>

typedef array32 = "{b :: bytes. length b = 32}" morphisms array_bytes Array32
  by (rule exI [of _ "replicate 32 0"]) simp

declare array_bytes_inverse [code abstype]

text \<open>The array that starts with the given bytes and is filled up with zeros.\<close>

definition array32 :: "bytes \<Rightarrow> array32" where
  "array32 b = Array32 (take 32 (b @ replicate 32 0))"

lemma array_bytes_take [code abstract]: "array_bytes (array32 b) = take 32 (b @ replicate 32 0)"
  by (simp add: array32_def Array32_inverse)

lemma length_array_bytes [simp]: "length (array_bytes a) = 32"
  using array_bytes [of a] by simp

lemma array_bytes_array32: "length b \<le> 32 \<Longrightarrow> array_bytes (array32 b) = b @ replicate (32 - length b) 0"
  by (simp add: array_bytes_take)

instantiation array32 :: linorder
begin

definition less_eq_array32 :: "array32 \<Rightarrow> array32 \<Rightarrow> bool" where
  "less_eq_array32 a b \<longleftrightarrow> array_bytes a \<le> array_bytes b"

definition less_array32 :: "array32 \<Rightarrow> array32 \<Rightarrow> bool" where
  "less_array32 a b \<longleftrightarrow> array_bytes a < array_bytes b"

instance
  by standard
    (auto simp: less_eq_array32_def less_array32_def less_le_not_le array_bytes_inject [symmetric])

end

instantiation array32 :: equal
begin

definition equal_array32 :: "array32 \<Rightarrow> array32 \<Rightarrow> bool" where
  "equal_array32 a b \<longleftrightarrow> array_bytes a = array_bytes b"

instance
  by standard (simp add: equal_array32_def array_bytes_inject)

end

datatype crypto_hash = CryptoHash (hash_bytes: array32)

instantiation crypto_hash :: linorder
begin

definition less_eq_crypto_hash :: "crypto_hash \<Rightarrow> crypto_hash \<Rightarrow> bool" where
  "less_eq_crypto_hash a b \<longleftrightarrow> hash_bytes a \<le> hash_bytes b"

definition less_crypto_hash :: "crypto_hash \<Rightarrow> crypto_hash \<Rightarrow> bool" where
  "less_crypto_hash a b \<longleftrightarrow> hash_bytes a < hash_bytes b"

instance
  by standard
    (auto simp: less_eq_crypto_hash_def less_crypto_hash_def crypto_hash.expand)

end

definition crypto_hash_default :: crypto_hash where
  "crypto_hash_default = CryptoHash (array32 (replicate 32 0))"

definition hash_borsh :: "(bytes \<Rightarrow> array32) \<Rightarrow> ('t \<Rightarrow> bytes) \<Rightarrow> 't \<Rightarrow> crypto_hash" where
  "hash_borsh sha256 borsh v = CryptoHash (sha256 (borsh v))"

definition combine_hash ::
  "(bytes \<Rightarrow> array32) \<Rightarrow> (crypto_hash \<times> crypto_hash \<Rightarrow> bytes) \<Rightarrow> crypto_hash \<Rightarrow> crypto_hash \<Rightarrow> crypto_hash"
  where "combine_hash sha256 borsh_pair hash1 hash2 = hash_borsh sha256 borsh_pair (hash1, hash2)"


section \<open>The in-place tree\<close>

text \<open>\<open>usize::next_power_of_two\<close> of the standard library.\<close>

fun next_power_of_two :: "nat \<Rightarrow> nat" where
  "next_power_of_two n = (if n \<le> 1 then 1 else 2 * next_power_of_two ((n + 1) div 2))"

declare next_power_of_two.simps [simp del]

definition set_index :: "'a list \<Rightarrow> nat \<Rightarrow> 'a \<Rightarrow> 'a list res" where
  "set_index xs i x = (if i < length xs then Inr (xs[i := x]) else Inl IndexOutOfBounds)"

text \<open>The \<open>for\<close> loop of one level, over the indices still to visit.\<close>

fun merklize_level :: "('h \<Rightarrow> 'h \<Rightarrow> 'h) \<Rightarrow> nat \<Rightarrow> nat list \<Rightarrow> 'h list \<Rightarrow> 'h list res" where
  "merklize_level combine arr_len [] hashes = Inr hashes"
| "merklize_level combine arr_len (i # is) hashes =
     (if 2 * i \<ge> arr_len then merklize_level combine arr_len is hashes
      else and_then
        (if 2 * i + 1 \<ge> arr_len then index hashes (2 * i)
         else and_then (index hashes (2 * i)) (\<lambda>a.
              and_then (index hashes (2 * i + 1)) (\<lambda>b. Inr (combine a b))))
        (\<lambda>hash. and_then (set_index hashes i hash) (\<lambda>hashes'.
           merklize_level combine arr_len is hashes')))"

text \<open>The \<open>while\<close> loop over the levels.\<close>

fun merklize_loop :: "('h \<Rightarrow> 'h \<Rightarrow> 'h) \<Rightarrow> nat \<Rightarrow> nat \<Rightarrow> 'h list \<Rightarrow> 'h list res" where
  "merklize_loop combine len arr_len hashes =
     (if len > 1
      then and_then (merklize_level combine arr_len [0..<len div 2] hashes) (\<lambda>hashes'.
             merklize_loop combine (len div 2) ((arr_len + 1) div 2) hashes')
      else Inr hashes)"

declare merklize_loop.simps [simp del]

definition merklize ::
  "(bytes \<Rightarrow> array32) \<Rightarrow> ('t \<Rightarrow> bytes) \<Rightarrow> (crypto_hash \<times> crypto_hash \<Rightarrow> bytes) \<Rightarrow> 't list \<Rightarrow> crypto_hash res"
  where
  "merklize sha256 borsh borsh_pair arr =
     (if arr = [] then Inr crypto_hash_default
      else let len = next_power_of_two (length arr);
               hashes = sort (map (hash_borsh sha256 borsh) arr)
           in if len = 1 then index hashes 0
              else and_then
                (merklize_loop (combine_hash sha256 borsh_pair) len (length arr) hashes)
                (\<lambda>hashes. index hashes 0))"


section \<open>The reference\<close>

fun pair_level :: "('h \<Rightarrow> 'h \<Rightarrow> 'h) \<Rightarrow> 'h list \<Rightarrow> 'h list" where
  "pair_level combine (a # b # xs) = combine a b # pair_level combine xs"
| "pair_level combine xs = xs"

lemma length_pair_level [simp]: "length (pair_level c xs) = (length xs + 1) div 2"
  by (induction c xs rule: pair_level.induct) auto

fun tree_root :: "('h \<Rightarrow> 'h \<Rightarrow> 'h) \<Rightarrow> 'h list \<Rightarrow> 'h option" where
  "tree_root combine [] = None"
| "tree_root combine [h] = Some h"
| "tree_root combine (a # b # xs) = tree_root combine (pair_level combine (a # b # xs))"

lemma tree_root_step:
  "length xs > 1 \<Longrightarrow> tree_root c xs = tree_root c (pair_level c xs)"
  by (cases "(c, xs)" rule: tree_root.cases) auto

lemma tree_root_single: "length xs = 1 \<Longrightarrow> tree_root c xs = Some (xs ! 0)"
  by (cases "(c, xs)" rule: tree_root.cases) auto

lemma nth_pair_level:
  "j < (length xs + 1) div 2 \<Longrightarrow>
   pair_level c xs ! j =
     (if 2 * j + 1 < length xs then c (xs ! (2 * j)) (xs ! (2 * j + 1)) else xs ! (2 * j))"
proof (induction c xs arbitrary: j rule: pair_level.induct)
  case (1 c a b xs)
  then show ?case by (cases j) auto
qed (auto simp: less_Suc_eq)


section \<open>The loop computes the reference\<close>

lemma merklize_level_append:
  "merklize_level c n (is @ js) hs = and_then (merklize_level c n is hs) (merklize_level c n js)"
proof (induction "is" arbitrary: hs)
  case (Cons i "is")
  show ?case
    by (cases "2 * i \<ge> n") (auto simp: Cons and_then_def split: sum.splits)
qed simp

definition level_prefix :: "('h \<Rightarrow> 'h \<Rightarrow> 'h) \<Rightarrow> nat \<Rightarrow> nat \<Rightarrow> 'h list \<Rightarrow> 'h list" where
  "level_prefix c n k hs =
     map (\<lambda>j. if j < k \<and> j < (n + 1) div 2 then pair_level c (take n hs) ! j else hs ! j)
       [0..<length hs]"

lemma merklize_level_prefix:
  assumes "n \<le> length hs"
  shows "merklize_level c n [0..<k] hs = Inr (level_prefix c n k hs)"
proof (induction k)
  case 0
  show ?case by (simp add: level_prefix_def map_nth)
next
  case (Suc k)
  let ?hs = "level_prefix c n k hs"
  have len: "length ?hs = length hs" by (simp add: level_prefix_def)
  have "merklize_level c n [k] ?hs = Inr (level_prefix c n (Suc k) hs)"
  proof (cases "2 * k \<ge> n")
    case True
    then have "level_prefix c n (Suc k) hs = ?hs"
      by (auto simp: level_prefix_def less_Suc_eq)
    with True show ?thesis by simp
  next
    case False
    then have k: "k < (n + 1) div 2" "2 * k < n" by auto
    with assms have "?hs[k := pair_level c (take n hs) ! k] = level_prefix c n (Suc k) hs"
      by (intro nth_equalityI) (auto simp: level_prefix_def nth_list_update less_Suc_eq)
    moreover have "?hs ! (2 * k) = hs ! (2 * k)"
      using k assms by (auto simp: level_prefix_def)
    moreover have "2 * k + 1 < n \<Longrightarrow> ?hs ! (2 * k + 1) = hs ! (2 * k + 1)"
      using assms by (auto simp: level_prefix_def)
    ultimately show ?thesis
      using k assms len by (auto simp: nth_pair_level set_index_def)
  qed
  with Suc show ?case by (simp add: merklize_level_append)
qed

lemma take_level_prefix:
  assumes "n \<le> length hs" and "(n + 1) div 2 \<le> k"
  shows "take ((n + 1) div 2) (level_prefix c n k hs) = pair_level c (take n hs)"
  using assms by (intro nth_equalityI) (auto simp: level_prefix_def)

lemma merklize_loop_root:
  assumes "0 < n" "n \<le> len" "n \<le> length hs" "len = 2 ^ p"
  shows "\<exists>hs'. merklize_loop c len n hs = Inr hs' \<and> length hs' = length hs \<and>
           tree_root c (take n hs) = Some (hs' ! 0)"
  using assms
proof (induction p arbitrary: len n hs)
  case 0
  then have "n = 1" and "hs \<noteq> []" by auto
  with 0 show ?case
    by (auto simp: merklize_loop.simps[of c 1, simplified] tree_root_single)
next
  case (Suc p)
  let ?hs = "level_prefix c n (len div 2) hs" and ?n = "(n + 1) div 2"
  have gt: "len > 1" unfolding Suc.prems(4) by (rule one_less_power) simp_all
  have len: "len div 2 = 2 ^ p" "?n \<le> len div 2" "?n \<le> length ?hs" "0 < ?n"
    using Suc.prems by (auto simp: level_prefix_def)
  from Suc.IH[OF len(4) len(2) len(3) len(1)] obtain hs' where
    hs': "merklize_loop c (len div 2) ?n ?hs = Inr hs'" "length hs' = length ?hs"
      "tree_root c (take ?n ?hs) = Some (hs' ! 0)"
    by blast
  have "tree_root c (take n hs) = tree_root c (pair_level c (take n hs))"
  proof (cases "n = 1")
    case True
    then obtain h where "take n hs = [h]"
      using Suc.prems(3) by (cases hs) auto
    then show ?thesis by simp
  next
    case False
    with Suc.prems show ?thesis by (intro tree_root_step) auto
  qed
  also have "\<dots> = Some (hs' ! 0)"
    using hs'(3) take_level_prefix[OF Suc.prems(3) len(2), of c] by simp
  finally show ?case
    using hs' gt merklize_level_prefix[OF Suc.prems(3)]
    by (simp add: merklize_loop.simps[of c len] level_prefix_def)
qed

lemma next_power_of_two_ge: "n \<le> next_power_of_two n"
proof (induction n rule: next_power_of_two.induct)
  case (1 n)
  show ?case
  proof (cases "n \<le> 1")
    case False
    with 1 have "(n + 1) div 2 \<le> next_power_of_two ((n + 1) div 2)" by blast
    with False show ?thesis by (subst next_power_of_two.simps) simp
  qed (simp add: next_power_of_two.simps[of n])
qed

lemma next_power_of_two_power: "\<exists>p. next_power_of_two n = 2 ^ p"
proof (induction n rule: next_power_of_two.induct)
  case (1 n)
  show ?case
  proof (cases "n \<le> 1")
    case True
    then have "next_power_of_two n = 2 ^ 0" by (subst next_power_of_two.simps) simp
    then show ?thesis by blast
  next
    case False
    with 1 obtain p where "next_power_of_two ((n + 1) div 2) = 2 ^ p" by blast
    with False have "next_power_of_two n = 2 ^ Suc p"
      by (subst next_power_of_two.simps) simp
    then show ?thesis by blast
  qed
qed

lemma merklize_nonempty:
  assumes "arr \<noteq> []"
  shows "\<exists>h. merklize sha256 borsh borsh_pair arr = Inr h \<and>
    tree_root (combine_hash sha256 borsh_pair) (sort (map (hash_borsh sha256 borsh) arr)) = Some h"
proof -
  let ?c = "combine_hash sha256 borsh_pair" and ?hs = "sort (map (hash_borsh sha256 borsh) arr)"
    and ?len = "next_power_of_two (length arr)"
  obtain p where p: "?len = 2 ^ p" using next_power_of_two_power by blast
  have "0 < length arr" using assms by simp
  from merklize_loop_root[OF this next_power_of_two_ge _ p, of ?hs ?c]
  obtain hs' where hs': "merklize_loop ?c ?len (length arr) ?hs = Inr hs'" "length hs' = length ?hs"
    "tree_root ?c ?hs = Some (hs' ! 0)" by auto
  show ?thesis
  proof (cases "?len = 1")
    case True
    with next_power_of_two_ge[of "length arr"] assms have "length ?hs = 1"
      by (cases arr) auto
    with True assms show ?thesis
      by (simp add: merklize_def tree_root_single Let_def)
  next
    case False
    with assms hs' show ?thesis by (simp add: merklize_def Let_def)
  qed
qed

lemma merklize_empty: "merklize sha256 borsh borsh_pair [] = Inr crypto_hash_default"
  by (simp add: merklize_def)

text \<open>
  C1: On every list of serialisable elements \<open>merklize\<close> returns (no index is out of
  range), and its result is the root of the reference tree over the sorted leaf hashes; the
  empty list gives the all-zero hash.
\<close>

theorem merklize_correct:
  "merklize sha256 borsh borsh_pair arr =
     Inr (case tree_root (combine_hash sha256 borsh_pair) (sort (map (hash_borsh sha256 borsh) arr))
          of None \<Rightarrow> crypto_hash_default | Some h \<Rightarrow> h)"
  using merklize_nonempty[of arr sha256 borsh borsh_pair]
  by (cases "arr = []") (auto simp: merklize_empty)


section \<open>What the root commits to\<close>

text \<open>
  The leaves are sorted before the tree is built, so the root depends on the
  elements and their number of occurrences only, not on the order they were posted in.
\<close>

theorem merklize_order_independent:
  assumes "mset xs = mset ys"
  shows "merklize sha256 borsh borsh_pair xs = merklize sha256 borsh borsh_pair ys"
proof -
  have "mset (map (hash_borsh sha256 borsh) xs) = mset (map (hash_borsh sha256 borsh) ys)"
    using assms by simp
  then have "sort (map (hash_borsh sha256 borsh) xs) = sort (map (hash_borsh sha256 borsh) ys)"
    by (metis sorted_list_of_multiset_mset)
  moreover have "length xs = length ys" using assms mset_eq_length by blast
  ultimately show ?thesis
    using assms by (auto simp: merklize_def Let_def)
qed

theorem merklize_order_independent_witness:
  "merklize array32 (\<lambda>x. [x]) (\<lambda>(a, b). array_bytes (hash_bytes a) @ array_bytes (hash_bytes b)) [3, 1, 2] =
   merklize array32 (\<lambda>x. [x]) (\<lambda>(a, b). array_bytes (hash_bytes a) @ array_bytes (hash_bytes b)) [1, 2, 3 :: u8]"
  by (rule merklize_order_independent) (simp add: add_mset_commute)

text \<open>
  The pairs that are hashed on the way to the root. A hash of 32 bytes always has collisions
  somewhere; what matters is a collision among the values that were hashed.
\<close>

fun level_pairs :: "'h list \<Rightarrow> ('h \<times> 'h) list" where
  "level_pairs (a # b # xs) = (a, b) # level_pairs xs"
| "level_pairs xs = []"

fun tree_pairs :: "('h \<Rightarrow> 'h \<Rightarrow> 'h) \<Rightarrow> 'h list \<Rightarrow> ('h \<times> 'h) list" where
  "tree_pairs combine [] = []"
| "tree_pairs combine [h] = []"
| "tree_pairs combine (a # b # xs) =
     level_pairs (a # b # xs) @ tree_pairs combine (pair_level combine (a # b # xs))"

definition collides :: "('a \<Rightarrow> 'b) \<Rightarrow> 'a set \<Rightarrow> 'a set \<Rightarrow> bool" where
  "collides f A B \<longleftrightarrow> (\<exists>x \<in> A. \<exists>y \<in> B. x \<noteq> y \<and> f x = f y)"

lemma collides_mono: "collides f A B \<Longrightarrow> A \<subseteq> A' \<Longrightarrow> B \<subseteq> B' \<Longrightarrow> collides f A' B'"
  by (auto simp: collides_def)

lemma tree_pairs_step:
  "length xs > 1 \<Longrightarrow> set (tree_pairs c xs) = set (level_pairs xs) \<union> set (tree_pairs c (pair_level c xs))"
  by (cases "(c, xs)" rule: tree_pairs.cases) auto

lemma pair_level_collision:
  assumes "length xs = length ys" and "pair_level c xs = pair_level c ys"
  shows "xs = ys \<or> collides (case_prod c) (set (level_pairs xs)) (set (level_pairs ys))"
  using assms
proof (induction c xs arbitrary: ys rule: pair_level.induct)
  case (1 c a b xs)
  then obtain a' b' ys' where ys: "ys = a' # b' # ys'"
    by (metis length_Suc_conv)
  with "1.prems" have "c a b = c a' b'" and rest: "xs = ys' \<or> collides (case_prod c) (set (level_pairs xs)) (set (level_pairs ys'))"
    using "1.IH" [of ys'] by simp_all
  from rest show ?case
  proof
    assume "xs = ys'"
    with \<open>c a b = c a' b'\<close> show ?thesis unfolding ys by (auto simp: collides_def)
  next
    assume "collides (case_prod c) (set (level_pairs xs)) (set (level_pairs ys'))"
    from collides_mono [OF this] show ?thesis unfolding ys by (simp add: subset_insertI)
  qed
qed (auto simp: Suc_length_conv)

lemma tree_root_collision:
  assumes "length xs = length ys" and "tree_root c xs = tree_root c ys"
  shows "xs = ys \<or> collides (case_prod c) (set (tree_pairs c xs)) (set (tree_pairs c ys))"
  using assms
proof (induction "length xs" arbitrary: xs ys rule: less_induct)
  case less
  show ?case
  proof (cases "length xs > 1")
    case True
    then have step: "tree_root c xs = tree_root c (pair_level c xs)" "tree_root c ys = tree_root c (pair_level c ys)"
      "set (tree_pairs c xs) = set (level_pairs xs) \<union> set (tree_pairs c (pair_level c xs))"
      "set (tree_pairs c ys) = set (level_pairs ys) \<union> set (tree_pairs c (pair_level c ys))"
      using less.prems(1) by (simp_all add: tree_root_step tree_pairs_step)
    have "pair_level c xs = pair_level c ys \<or>
        collides (case_prod c) (set (tree_pairs c (pair_level c xs))) (set (tree_pairs c (pair_level c ys)))"
      using True less.prems step(1,2) by (intro less.hyps) simp_all
    then show ?thesis
      using pair_level_collision [OF less.prems(1)] collides_mono unfolding step(3,4) by (meson Un_upper1 Un_upper2)
  next
    case False
    with less.prems show ?thesis
      by (cases xs; cases ys) auto
  qed
qed

lemma mset_map_collision:
  assumes "mset (map h xs) = mset (map h ys)"
  shows "mset xs = mset ys \<or> collides h (set xs) (set ys)"
  using assms
proof (induction xs arbitrary: ys)
  case (Cons x xs)
  then have "h x \<in> set (map h ys)" by (metis list.set_intros(1) list.simps(9) set_mset_mset)
  then obtain y where y: "y \<in> set ys" "h x = h y" by auto
  show ?case
  proof (cases "x = y")
    case True
    with y(1) have "mset (map h ys) = add_mset (h x) (mset (map h (remove1 x ys)))"
      by (simp flip: image_mset_add_mset)
    with Cons.prems have "mset (map h xs) = mset (map h (remove1 x ys))" by simp
    from Cons.IH [OF this] show ?thesis
    proof
      assume "mset xs = mset (remove1 x ys)"
      with True y(1) show ?thesis by simp
    next
      assume "collides h (set xs) (set (remove1 x ys))"
      from collides_mono [OF this _ set_remove1_subset] show ?thesis by (simp add: subset_insertI)
    qed
  next
    case False
    with y show ?thesis by (auto simp: collides_def)
  qed
qed simp

text \<open>
  C2: The root binds the elements: when two lists of the same length have the same root, they hold
  the same elements, or the two computations have hashed two different values to the same hash: an
  element of the one list and one of the other, or a pair of hashes of the one tree and one of the
  other.
\<close>

theorem merklize_binding:
  assumes len: "length xs = length ys"
    and root: "merklize sha256 borsh borsh_pair xs = merklize sha256 borsh borsh_pair ys"
  shows "mset xs = mset ys
    \<or> collides (hash_borsh sha256 borsh) (set xs) (set ys)
    \<or> collides (\<lambda>(a, b). combine_hash sha256 borsh_pair a b)
        (set (tree_pairs (combine_hash sha256 borsh_pair) (sort (map (hash_borsh sha256 borsh) xs))))
        (set (tree_pairs (combine_hash sha256 borsh_pair) (sort (map (hash_borsh sha256 borsh) ys))))"
proof -
  let ?h = "hash_borsh sha256 borsh" and ?c = "combine_hash sha256 borsh_pair"
  have "tree_root ?c (sort (map ?h xs)) = tree_root ?c (sort (map ?h ys))"
  proof (cases "xs = []")
    case False
    with len have "ys \<noteq> []" by auto
    with False root show ?thesis
      using merklize_nonempty[of xs sha256 borsh borsh_pair]
        merklize_nonempty[of ys sha256 borsh borsh_pair] by auto
  qed (use len in simp)
  then have "sort (map ?h xs) = sort (map ?h ys) \<or>
      collides (case_prod ?c) (set (tree_pairs ?c (sort (map ?h xs)))) (set (tree_pairs ?c (sort (map ?h ys))))"
    by (intro tree_root_collision) (simp_all add: len)
  moreover have "mset (map ?h xs) = mset (map ?h ys)" if "sort (map ?h xs) = sort (map ?h ys)"
    using that by (metis mset_sort)
  ultimately show ?thesis using mset_map_collision [of ?h xs ys] by blast
qed

text \<open>With a hash that is constant, two lists of one element have the same root, and collide.\<close>

theorem merklize_binding_witness:
  "collides (hash_borsh (\<lambda>_. array32 []) (\<lambda>x :: u8. [x])) {1} {2}"
  using merklize_binding [of "[1]" "[2]" "\<lambda>_. array32 []" "\<lambda>x :: u8. [x]" "\<lambda>_. []"]
  by (simp add: merklize_def hash_borsh_def next_power_of_two.simps)
    (simp add: collides_def)

end
