(* ===== verification/Mainchain_State.thy ===== *)
theory Mainchain_State
  imports Merkle
begin

text \<open>
  The data of the main-chain contract: the types shared through \<open>common/\<close>, the DAO's
  configuration, the batches, the contract's storage (\<open>contracts/src/lib.rs\<close>) and the host
  environment a call runs in; its constants, its constructor, and the storage-deposit
  bookkeeping that wraps its methods (\<open>contracts/src/storage.rs\<close>).

  A \<open>LookupMap\<close> is a partial map, an \<open>UnorderedMap\<close> the container of \<open>Prelude\<close>, a
  \<open>Vector\<close> a list. The maps nested in \<open>depositors\<close> and \<open>withdraw_requests\<close> live under
  storage prefixes made from a SHA-256 digest; prefixes of different owners are taken to be
  different, so they are nested maps here.
\<close>

section \<open>Types of common/\<close>

record node =
  multi_addr :: string
  balance :: u128
  bn254_public_key :: bytes
  ed25519_public_key :: bytes

record node_info =
  ni_account_id :: string
  ni_multi_addr :: string
  ni_balance :: u128
  ni_bn254_public_key :: bytes
  ni_ed25519_public_key :: bytes

record deposit_info =
  di_node_ed25519_public_key :: bytes
  di_amount :: u128

record withdraw_request =
  wr_amount :: u128
  wr_epoch :: u64

record compute_merkle_root_result =
  cm_merkle_root :: bytes
  cm_current_slot :: u64
  cm_current_slot_leader :: "string option"

record request_withdraw_result =
  rw_current_epoch :: u64
  rw_withdraw_epoch :: u64

datatype update_node_command = SetSocketAddress string


section \<open>Configuration and batches\<close>

record config =
  minimum_stake :: u128
  epoch_delay_for_election :: u64
  committee_size :: u64
  withdraw_delay :: u64

datatype update_config_key = MinimumStake | EpochDelayForElection

type_synonym epoch_height = u64
type_synonym batch_height = u64
type_synonym batch_id = crypto_hash

record batch_header =
  height :: batch_height
  state_root :: crypto_hash

record batch =
  header :: batch_header
  transactions :: "string list"

record merklized_batch =
  mb_prev_root :: batch_id
  mb_header :: batch_header
  mb_transactions :: bytes

definition INIT_MINIMUM_STAKE :: u128 where
  "INIT_MINIMUM_STAKE = 100000000000000000000000000"

definition INIT_EPOCH_DELAY_FOR_ELECTION :: u64 where
  "INIT_EPOCH_DELAY_FOR_ELECTION = 2"

definition DEFAULT_COMMITTEE_SIZE :: u64 where
  "DEFAULT_COMMITTEE_SIZE = 2"

definition SLOTS_PER_EPOCH :: u64 where
  "SLOTS_PER_EPOCH = 32"

definition NEAR_BLOCKS_PER_SEDA_SLOT :: u64 where
  "NEAR_BLOCKS_PER_SEDA_SLOT = 10"

definition EPOCH_COMMITTEES_LOOKAHEAD :: u64 where
  "EPOCH_COMMITTEES_LOOKAHEAD = 2"

lemmas mainchain_consts = INIT_MINIMUM_STAKE_def INIT_EPOCH_DELAY_FOR_ELECTION_def
  DEFAULT_COMMITTEE_SIZE_def SLOTS_PER_EPOCH_def NEAR_BLOCKS_PER_SEDA_SLOT_def
  EPOCH_COMMITTEES_LOOKAHEAD_def

definition config_default :: config where
  "config_default =
     \<lparr>minimum_stake = INIT_MINIMUM_STAKE,
      epoch_delay_for_election = INIT_EPOCH_DELAY_FOR_ELECTION,
      committee_size = DEFAULT_COMMITTEE_SIZE,
      withdraw_delay = INIT_EPOCH_DELAY_FOR_ELECTION\<rparr>"


section \<open>The contract's storage\<close>

text \<open>
  Of the NEP-141 token the contract's own code touches the balances and, in the constructor,
  the total supply.
\<close>

record fungible_token =
  accounts :: "account_id \<rightharpoonup> u128"
  total_supply :: u128

record fungible_token_metadata =
  md_spec :: string
  md_name :: string
  md_symbol :: string
  md_icon :: "string option"
  md_reference :: "string option"
  md_decimals :: u8

text \<open>
  The last field is not storage: it collects the transfers (receiver and amount) the calls
  have scheduled with \<open>Promise::new(..).transfer(..)\<close>.
\<close>

record mainchain_contract =
  token :: fungible_token
  metadata :: "fungible_token_metadata option"
  dao :: account_id
  config :: config
  active_nodes :: "(account_id, node) unordered_map"
  inactive_nodes :: "(account_id, node) unordered_map"
  pending_nodes :: "(account_id, epoch_height) unordered_map"
  nodes_by_ed25519_public_key :: "bytes \<rightharpoonup> account_id"
  depositors :: "account_id \<rightharpoonup> (bytes, u128) unordered_map"
  committees :: "epoch_height \<rightharpoonup> account_id list"
  data_request_accumulator :: "string list"
  num_batches :: batch_height
  batch_ids_by_height :: "batch_height \<rightharpoonup> batch_id"
  batch_by_id :: "batch_id \<rightharpoonup> batch"
  last_total_balance :: u128
  nodes_by_bn254_public_key :: "bytes \<rightharpoonup> account_id"
  random_seed :: crypto_hash
  bootstrapping_phase :: bool
  last_processed_epoch :: epoch_height
  last_generated_random_number :: u256
  withdraw_requests :: "bytes \<rightharpoonup> (account_id \<rightharpoonup> withdraw_request)"
  transfers :: "(account_id \<times> u128) list"


section \<open>The host environment of a call\<close>

text \<open>
  What the NEAR host and the crates the contract calls answer during one call: the block, the
  signer, the attached deposit, the storage the contract occupies (a function of its storage)
  and its price, the build profile, the order \<open>UnorderedMap::remove\<close> leaves its keys in, the
  number of rerolls the attached gas pays for, SHA-256, and the two halves of a signature check:
  the encoding of its arguments (\<open>None\<close> when they cannot be decoded) and the host's pairing
  function.
\<close>

record near_env =
  block_height :: u64
  signer_account_id :: account_id
  signer_account_pk :: bytes
  attached_deposit :: u128
  storage_byte_cost :: u128
  storage_usage :: "mainchain_contract \<Rightarrow> u64"
  overflow_checks :: bool
  remove_order :: "account_id list \<Rightarrow> account_id \<Rightarrow> account_id list"
  gas_rerolls :: nat
  sha256 :: "bytes \<Rightarrow> array32"
  format_pairing_check_uncompressed_values :: "bytes \<Rightarrow> bytes \<Rightarrow> bytes \<Rightarrow> bytes option"
  alt_bn128_pairing_check :: "bytes \<Rightarrow> u64"


section \<open>The constructor\<close>

text \<open>
  \<open>internal_register_account\<close> and \<open>internal_deposit\<close> of the token, the validity checks of
  the metadata and of the account id belong to the libraries and are arguments.
\<close>

definition new ::
  "(account_id \<Rightarrow> bool) \<Rightarrow> (fungible_token_metadata \<Rightarrow> unit res) \<Rightarrow>
   (account_id \<Rightarrow> fungible_token \<Rightarrow> fungible_token res) \<Rightarrow>
   (account_id \<Rightarrow> u128 \<Rightarrow> fungible_token \<Rightarrow> fungible_token res) \<Rightarrow>
   bool \<Rightarrow> account_id \<Rightarrow> u128 \<Rightarrow> fungible_token_metadata \<Rightarrow> u64 \<Rightarrow> u256 \<Rightarrow> mainchain_contract res" where
  "new is_valid_account_id assert_valid internal_register_account internal_deposit
     state_exists dao_id initial_supply meta c_size seed =
   and_then (ensure (\<not> state_exists) (Panic ''Already initialized'')) (\<lambda>_.
   and_then (ensure (is_valid_account_id dao_id) (Panic ''The DAO account ID is invalid'')) (\<lambda>_.
   and_then (assert_valid meta) (\<lambda>_.
   and_then (internal_register_account dao_id \<lparr>accounts = Map.empty, total_supply = 0\<rparr>) (\<lambda>tok.
   and_then (internal_deposit dao_id initial_supply tok) (\<lambda>tok.
   Inr \<lparr>token = tok,
        metadata = Some meta,
        dao = dao_id,
        config = config_default\<lparr>committee_size := c_size\<rparr>,
        active_nodes = um_new,
        inactive_nodes = um_new,
        pending_nodes = um_new,
        nodes_by_ed25519_public_key = Map.empty,
        depositors = Map.empty,
        committees = Map.empty,
        data_request_accumulator = [],
        num_batches = 0,
        batch_ids_by_height = Map.empty,
        batch_by_id = Map.empty,
        last_total_balance = 0,
        nodes_by_bn254_public_key = Map.empty,
        random_seed = crypto_hash_default,
        bootstrapping_phase = True,
        last_processed_epoch = 0,
        last_generated_random_number = seed,
        withdraw_requests = Map.empty,
        transfers = []\<rparr>)))))"


section \<open>Storage deposits\<close>

definition require_storage_deposit :: "near_env \<Rightarrow> mainchain_contract \<Rightarrow> u64 \<Rightarrow> unit res" where
  "require_storage_deposit env s initial_storage_usage =
   and_then (arith_sub (overflow_checks env) (storage_usage env s) initial_storage_usage) (\<lambda>used.
   and_then (arith_mul (overflow_checks env) (storage_byte_cost env) (ucast used)) (\<lambda>storage_cost.
   ensure (storage_cost \<le> attached_deposit env) (Panic ''Insufficient storage'')))"

definition refund_storage_deposit ::
  "near_env \<Rightarrow> mainchain_contract \<Rightarrow> u64 \<Rightarrow> mainchain_contract res" where
  "refund_storage_deposit env s initial_storage_usage =
   and_then (arith_sub (overflow_checks env) initial_storage_usage (storage_usage env s)) (\<lambda>freed.
   and_then (arith_mul (overflow_checks env) (storage_byte_cost env) (ucast freed)) (\<lambda>storage_cost.
   Inr (s\<lparr>transfers := transfers s @ [(signer_account_id env, storage_cost)]\<rparr>)))"

text \<open>
  The three arms of the macro \<open>manage_storage_deposit!\<close>. The macro pastes its block into the
  method, so a \<open>return\<close> inside the block leaves the method and skips the check that follows:
  the block of the third arm says whether it fell through or returned.
\<close>

datatype flow = FallThrough | Returned

definition manage_storage_deposit_require ::
  "near_env \<Rightarrow> mainchain_contract \<Rightarrow> (mainchain_contract \<Rightarrow> mainchain_contract res) \<Rightarrow>
   mainchain_contract res" where
  "manage_storage_deposit_require env s block =
   (let initial_storage_usage = storage_usage env s in
    and_then (block s) (\<lambda>s'.
    and_then (require_storage_deposit env s' initial_storage_usage) (\<lambda>_. Inr s')))"

definition manage_storage_deposit_refund ::
  "near_env \<Rightarrow> mainchain_contract \<Rightarrow> (mainchain_contract \<Rightarrow> mainchain_contract res) \<Rightarrow>
   mainchain_contract res" where
  "manage_storage_deposit_refund env s block =
   (let initial_storage_usage = storage_usage env s in
    and_then (block s) (\<lambda>s'. refund_storage_deposit env s' initial_storage_usage))"

definition manage_storage_deposit ::
  "near_env \<Rightarrow> mainchain_contract \<Rightarrow> (mainchain_contract \<Rightarrow> (flow \<times> mainchain_contract) res) \<Rightarrow>
   mainchain_contract res" where
  "manage_storage_deposit env s block =
   (let initial_storage_usage = storage_usage env s in
    and_then (block s) (\<lambda>(fl, s').
    if fl = Returned then Inr s'
    else if storage_usage env s' > initial_storage_usage
    then and_then (require_storage_deposit env s' initial_storage_usage) (\<lambda>_. Inr s')
    else refund_storage_deposit env s' initial_storage_usage))"

text \<open>
  A managed block that succeeds leaves its own result, up to the transfers scheduled by the
  refund.
\<close>

lemma manage_storage_deposit_require_Inr:
  assumes "manage_storage_deposit_require env s block = Inr s'"
  shows "block s = Inr s'"
  using assms by (auto simp: manage_storage_deposit_require_def Let_def res_simps)

lemma manage_storage_deposit_refund_Inr:
  assumes "manage_storage_deposit_refund env s block = Inr s'"
  shows "\<exists>s1 ts. block s = Inr s1 \<and> s' = s1\<lparr>transfers := ts\<rparr>"
  using assms
  by (auto simp: manage_storage_deposit_refund_def refund_storage_deposit_def Let_def res_simps)

lemma manage_storage_deposit_refund_result:
  assumes "manage_storage_deposit_refund env s block = Inr s'"
  shows "\<exists>s1. block s = Inr s1 \<and> s' = s1\<lparr>transfers := transfers s'\<rparr>"
  using manage_storage_deposit_refund_Inr [OF assms] by auto

lemma manage_storage_deposit_Inr:
  assumes "manage_storage_deposit env s block = Inr s'"
  shows "\<exists>fl s1 ts. block s = Inr (fl, s1) \<and> s' = s1\<lparr>transfers := ts\<rparr>"
proof -
  from assms obtain fl s1 where block: "block s = Inr (fl, s1)"
    by (auto simp: manage_storage_deposit_def Let_def res_simps split: prod.splits)
  have "s' = s1 \<or> (\<exists>ts. s' = s1\<lparr>transfers := ts\<rparr>)"
    using assms block
    by (auto simp: manage_storage_deposit_def refund_storage_deposit_def Let_def res_simps
        split: if_splits)
  then have "\<exists>ts. s' = s1\<lparr>transfers := ts\<rparr>"
    by (metis mainchain_contract.surjective mainchain_contract.update_convs(22))
  with block show ?thesis by blast
qed

lemma manage_storage_deposit_result:
  assumes "manage_storage_deposit env s block = Inr s'"
  shows "\<exists>fl s1. block s = Inr (fl, s1) \<and> s' = s1\<lparr>transfers := transfers s'\<rparr>"
  using manage_storage_deposit_Inr [OF assms] by auto

end
