(* ===== verification/Contract_Basics.thy ===== *)
theory Contract_Basics
  imports Mainchain_State
begin

text \<open>
  The small modules of the contract that the others call: the token's \<open>mint\<close> and \<open>burn\<close>
  (\<open>contracts/src/fungible_token.rs\<close>), the DAO's configuration (\<open>dao.rs\<close>), the slot and
  epoch clocks (\<open>slot.rs\<close>, \<open>epoch.rs\<close>) and the signature check (\<open>verify.rs\<close>).
\<close>

section \<open>Token\<close>

definition mint :: "near_env \<Rightarrow> account_id \<Rightarrow> u128 \<Rightarrow> mainchain_contract \<Rightarrow> mainchain_contract res" where
  "mint env account amount s =
   and_then (unwrap (accounts (token s) account)) (\<lambda>b.
   and_then (arith_add (overflow_checks env) b amount) (\<lambda>new_user_balance.
   Inr (s\<lparr>token := (token s)\<lparr>accounts := (accounts (token s))(account \<mapsto> new_user_balance)\<rparr>\<rparr>)))"

definition burn :: "near_env \<Rightarrow> account_id \<Rightarrow> u128 \<Rightarrow> mainchain_contract \<Rightarrow> mainchain_contract res" where
  "burn env account amount s =
   and_then (unwrap (accounts (token s) account)) (\<lambda>b.
   and_then (arith_sub (overflow_checks env) b amount) (\<lambda>new_user_balance.
   Inr (s\<lparr>token := (token s)\<lparr>accounts := (accounts (token s))(account \<mapsto> new_user_balance)\<rparr>\<rparr>)))"

definition ft_metadata :: "mainchain_contract \<Rightarrow> fungible_token_metadata res" where
  "ft_metadata s = unwrap (metadata s)"

text \<open>What all accounts of the token hold together.\<close>

definition circulating :: "mainchain_contract \<Rightarrow> nat" where
  "circulating s = map_sum unat (accounts (token s))"

lemma burn_circulating:
  assumes "burn env a amount s = Inr s'" and "overflow_checks env"
    and "finite (dom (accounts (token s)))"
  shows "circulating s = circulating s' + unat amount"
proof -
  from assms(1,2) obtain b c where b: "accounts (token s) a = Some b"
    and c: "arith_sub True b amount = Inr c"
    and s': "s' = s\<lparr>token := (token s)\<lparr>accounts := (accounts (token s))(a \<mapsto> c)\<rparr>\<rparr>"
    by (auto simp: burn_def and_then_eq_Inr unwrap_eq_Inr)
  show ?thesis
    using map_sum_change [OF assms(3), of unat a "Some c"] b arith_sub_exact [OF c]
    by (simp add: circulating_def s')
qed

lemma mint_circulating:
  assumes "mint env a amount s = Inr s'" and "overflow_checks env"
    and "finite (dom (accounts (token s)))"
  shows "circulating s' = circulating s + unat amount"
proof -
  from assms(1,2) obtain b c where b: "accounts (token s) a = Some b"
    and c: "arith_add True b amount = Inr c"
    and s': "s' = s\<lparr>token := (token s)\<lparr>accounts := (accounts (token s))(a \<mapsto> c)\<rparr>\<rparr>"
    by (auto simp: mint_def and_then_eq_Inr unwrap_eq_Inr)
  show ?thesis
    using map_sum_change [OF assms(3), of unat a "Some c"] b arith_add_exact [OF c]
    by (simp add: circulating_def s')
qed

text \<open>Both change the token's accounts and nothing else.\<close>

lemma burn_Inr:
  assumes "burn env a amount s = Inr s'"
  shows "\<exists>b c. accounts (token s) a = Some b \<and> arith_sub (overflow_checks env) b amount = Inr c
    \<and> s' = s\<lparr>token := (token s)\<lparr>accounts := (accounts (token s))(a \<mapsto> c)\<rparr>\<rparr>"
  using assms by (auto simp: burn_def and_then_eq_Inr unwrap_eq_Inr)

lemma mint_Inr:
  assumes "mint env a amount s = Inr s'"
  shows "\<exists>b c. accounts (token s) a = Some b \<and> arith_add (overflow_checks env) b amount = Inr c
    \<and> s' = s\<lparr>token := (token s)\<lparr>accounts := (accounts (token s))(a \<mapsto> c)\<rparr>\<rparr>"
  using assms by (auto simp: mint_def and_then_eq_Inr unwrap_eq_Inr)


section \<open>Methods that take no deposit\<close>

text \<open>
  \<open>near_bindgen\<close> puts a check in front of every method that changes state and is not marked
  \<open>payable\<close>.
\<close>

definition assert_not_payable :: "string \<Rightarrow> near_env \<Rightarrow> unit res" where
  "assert_not_payable method env =
     ensure (attached_deposit env = 0) (Panic (''Method '' @ method @ '' doesn't accept deposit''))"


section \<open>DAO\<close>

definition assert_dao :: "account_id \<Rightarrow> mainchain_contract \<Rightarrow> unit res" where
  "assert_dao account s = ensure (account = dao s) (Panic ''Only DAO can call this method'')"

definition get_config :: "mainchain_contract \<Rightarrow> config" where
  "get_config s = config s"

definition update_config ::
  "near_env \<Rightarrow> update_config_key \<Rightarrow> u128 \<Rightarrow> mainchain_contract \<Rightarrow> mainchain_contract res" where
  "update_config env key value s =
   and_then (assert_not_payable ''update_config'' env) (\<lambda>_.
   and_then (assert_dao (signer_account_id env) s) (\<lambda>_.
   Inr (case key of
          MinimumStake \<Rightarrow> s\<lparr>config := (config s)\<lparr>minimum_stake := value\<rparr>\<rparr>
        | EpochDelayForElection \<Rightarrow>
            s\<lparr>config := (config s)\<lparr>epoch_delay_for_election := ucast value\<rparr>\<rparr>)))"

lemma update_config_Inr:
  assumes "update_config env key v s = Inr s'"
  shows "signer_account_id env = dao s" "\<exists>c. s' = s\<lparr>config := c\<rparr>"
    "committee_size (config s') = committee_size (config s)"
    "withdraw_delay (config s') = withdraw_delay (config s)"
  using assms
  by (auto simp: update_config_def assert_not_payable_def assert_dao_def res_simps split: update_config_key.splits)


section \<open>Slots and epochs\<close>

definition get_current_slot :: "near_env \<Rightarrow> u64" where
  "get_current_slot env = block_height env div NEAR_BLOCKS_PER_SEDA_SLOT"

definition get_current_epoch :: "near_env \<Rightarrow> u64" where
  "get_current_epoch env = block_height env div (NEAR_BLOCKS_PER_SEDA_SLOT * SLOTS_PER_EPOCH)"

lemma unat_get_current_slot: "unat (get_current_slot env) = unat (block_height env) div 10"
  by (simp add: get_current_slot_def mainchain_consts unat_div_distrib)

lemma unat_get_current_epoch: "unat (get_current_epoch env) = unat (block_height env) div 320"
  by (simp add: get_current_epoch_def mainchain_consts unat_div_distrib)

lemma epoch_of_slot: "unat (get_current_epoch env) = unat (get_current_slot env) div 32"
  by (simp add: unat_get_current_slot unat_get_current_epoch div_mult2_eq [symmetric])

lemma get_current_epoch_mono:
  "block_height env \<le> block_height env' \<Longrightarrow> get_current_epoch env \<le> get_current_epoch env'"
  by (simp add: word_le_nat_alt unat_get_current_epoch div_le_mono)


section \<open>Signatures\<close>

definition bn254_verify :: "near_env \<Rightarrow> bytes \<Rightarrow> bytes \<Rightarrow> bytes \<Rightarrow> bool res" where
  "bn254_verify env message signature public_key =
   and_then (unwrap (format_pairing_check_uncompressed_values env message signature public_key)) (\<lambda>vals.
   Inr (alt_bn128_pairing_check env vals = 1))"

end
