(* ===== verification/Node_Registry.thy ===== *)
theory Node_Registry
  imports Contract_Basics
begin

text \<open>
  The node registry and the stakes (\<open>contracts/src/node_registry.rs\<close>): registration,
  deposits, withdrawal requests, withdrawals and the views. Each method is a function of the
  environment, its arguments and the contract, with the storage-deposit macro around the part
  the code puts in it.
\<close>

section \<open>Private methods\<close>

definition internal_get_node :: "account_id \<Rightarrow> mainchain_contract \<Rightarrow> node option" where
  "internal_get_node account s =
     (case um_get (active_nodes s) account of
        Some n \<Rightarrow> Some n
      | None \<Rightarrow> (case um_get (inactive_nodes s) account of Some n \<Rightarrow> Some n | None \<Rightarrow> None))"

definition get_expect_node :: "account_id \<Rightarrow> mainchain_contract \<Rightarrow> node res" where
  "get_expect_node account s = expect ''Node does not exist'' (internal_get_node account s)"

definition get_expect_node_by_ed25519_public_key :: "bytes \<Rightarrow> mainchain_contract \<Rightarrow> node res" where
  "get_expect_node_by_ed25519_public_key pk s =
   and_then (expect ''Node does not exist'' (nodes_by_ed25519_public_key s pk)) (\<lambda>account.
   expect ''Node does not exist'' (internal_get_node account s))"

definition handle_node_balance_update ::
  "near_env \<Rightarrow> account_id \<Rightarrow> node \<Rightarrow> mainchain_contract \<Rightarrow> mainchain_contract res" where
  "handle_node_balance_update env account n s =
   (if minimum_stake (config s) \<le> balance n then
      if um_get (active_nodes s) account \<noteq> None
      then Inr (s\<lparr>active_nodes := um_insert account n (active_nodes s)\<rparr>)
      else
        and_then (arith_add (overflow_checks env) (get_current_epoch env)
                   (epoch_delay_for_election (config s))) (\<lambda>epoch_when_eligible.
        Inr (s\<lparr>inactive_nodes := um_insert account n (inactive_nodes s),
               pending_nodes := um_insert account epoch_when_eligible (pending_nodes s)\<rparr>))
    else
      if um_get (active_nodes s) account \<noteq> None
      then Inr (s\<lparr>active_nodes := um_remove (remove_order env) account (active_nodes s),
                  inactive_nodes := um_insert account n (inactive_nodes s)\<rparr>)
      else Inr (s\<lparr>inactive_nodes := um_insert account n (inactive_nodes s)\<rparr>))"

definition internal_deposit ::
  "near_env \<Rightarrow> u128 \<Rightarrow> bytes \<Rightarrow> mainchain_contract \<Rightarrow> mainchain_contract res" where
  "internal_deposit env amount pk s =
   manage_storage_deposit_require env s (\<lambda>s.
   let depositor_account_id = signer_account_id env in
   and_then (burn env depositor_account_id amount s) (\<lambda>s.
   and_then (get_expect_node_by_ed25519_public_key pk s) (\<lambda>n.
   and_then (arith_add (overflow_checks env) (balance n) amount) (\<lambda>new_balance.
   and_then (unwrap (nodes_by_ed25519_public_key s pk)) (\<lambda>node_account_id.
   and_then (handle_node_balance_update env node_account_id (n\<lparr>balance := new_balance\<rparr>) s) (\<lambda>s.
   let depositor = (case depositors s depositor_account_id of None \<Rightarrow> um_new | Some d \<Rightarrow> d);
       s = s\<lparr>depositors := (depositors s)(depositor_account_id \<mapsto> um_insert pk amount depositor)\<rparr> in
   and_then (arith_add (overflow_checks env) (last_total_balance s) amount) (\<lambda>total.
   Inr (s\<lparr>last_total_balance := total\<rparr>))))))))"

definition internal_withdraw ::
  "near_env \<Rightarrow> u128 \<Rightarrow> bytes \<Rightarrow> mainchain_contract \<Rightarrow> mainchain_contract res" where
  "internal_withdraw env amount pk s =
   manage_storage_deposit env s (\<lambda>s.
   and_then (ensure (0 < amount) (Panic ''Withdrawal amount should be positive'')) (\<lambda>_.
   and_then (get_expect_node_by_ed25519_public_key pk s) (\<lambda>n.
   and_then (ensure (amount \<le> balance n) (Panic ''Not enough balance to withdraw'')) (\<lambda>_.
   let depositor_account_id = signer_account_id env in
   and_then (expect ''No deposit info found for this account'' (depositors s depositor_account_id)) (\<lambda>depositor.
   and_then (expect ''No deposit info found for this node'' (um_get depositor pk)) (\<lambda>deposited.
   and_then (ensure (amount \<le> deposited) (Panic ''Not enough balance to withdraw'')) (\<lambda>_.
   let node_withdraw_requests =
         (case withdraw_requests s pk of None \<Rightarrow> Map.empty | Some m \<Rightarrow> m) in
   and_then (expect ''No pending withdrawal request found for this account''
               (node_withdraw_requests depositor_account_id)) (\<lambda>request.
   and_then (ensure (wr_epoch request \<le> get_current_epoch env)
               (Panic ''epochs remain until withdrawal is allowed'')) (\<lambda>_.
   and_then (mint env depositor_account_id amount s) (\<lambda>s.
   and_then (arith_sub (overflow_checks env) (balance n) amount) (\<lambda>new_balance.
   and_then (unwrap (nodes_by_ed25519_public_key s pk)) (\<lambda>node_account_id.
   and_then (handle_node_balance_update env node_account_id (n\<lparr>balance := new_balance\<rparr>) s) (\<lambda>s.
   and_then (arith_sub (overflow_checks env) deposited amount) (\<lambda>rest.
   let s = s\<lparr>depositors := (depositors s)(depositor_account_id \<mapsto> um_insert pk rest depositor)\<rparr> in
   and_then (arith_sub (overflow_checks env) (last_total_balance s) amount) (\<lambda>total.
   Inr (FallThrough,
     s\<lparr>last_total_balance := total,
       withdraw_requests := (withdraw_requests s)
         (pk \<mapsto> node_withdraw_requests(depositor_account_id := None))\<rparr>))))))))))))))))"

text \<open>The struct literal every view of a node builds.\<close>

definition node_info_of :: "account_id \<Rightarrow> node \<Rightarrow> node_info" where
  "node_info_of account n =
     \<lparr>ni_account_id = account, ni_multi_addr = multi_addr n, ni_balance = balance n,
      ni_bn254_public_key = bn254_public_key n, ni_ed25519_public_key = ed25519_public_key n\<rparr>"

text \<open>
  \<open>usize\<close> has 32 bits in the contract's target \<open>wasm32\<close>: the limit must fit in it and the
  index is truncated to it.
\<close>

function internal_get_nodes_loop ::
  "bool \<Rightarrow> (account_id, node) unordered_map \<Rightarrow> u64 \<Rightarrow> u64 \<Rightarrow> node_info list \<Rightarrow> node_info list res" where
  "internal_get_nodes_loop checks nodes_map limit idx nodes =
   (if idx = 0 then Inr nodes
    else if 2 ^ 32 \<le> unat limit then Inl UnwrapNone
    else if unat limit \<le> length nodes then Inr nodes
    else
      and_then (arith_sub checks (ucast idx :: u32) 1) (\<lambda>i.
      and_then (if unat i < length (um_keys nodes_map)
                then and_then (unwrap (um_get nodes_map (um_keys nodes_map ! unat i))) (\<lambda>n.
                     Inr (nodes @ [node_info_of (um_keys nodes_map ! unat i) n]))
                else Inr nodes) (\<lambda>nodes.
      internal_get_nodes_loop checks nodes_map limit (idx - 1) nodes)))"
  by pat_completeness auto

termination internal_get_nodes_loop
  by (relation "measure (\<lambda>(_, _, _, idx, _). unat idx)")
    (auto simp: unat_sub_if' word_le_nat_alt unat_eq_zero Suc_le_eq)

declare internal_get_nodes_loop.simps [simp del]

definition internal_get_nodes ::
  "near_env \<Rightarrow> (account_id, node) unordered_map \<Rightarrow> u64 \<Rightarrow> u64 \<Rightarrow> node_info list res" where
  "internal_get_nodes env nodes_map limit offset =
   and_then (arith_sub (overflow_checks env) (um_len nodes_map) offset) (\<lambda>idx.
   internal_get_nodes_loop (overflow_checks env) nodes_map limit idx [])"


section \<open>Public methods\<close>

definition register_node ::
  "near_env \<Rightarrow> string \<Rightarrow> bytes \<Rightarrow> bytes \<Rightarrow> mainchain_contract \<Rightarrow> mainchain_contract res" where
  "register_node env addr bn_pk signature s =
   (let account = signer_account_id env; ed_pk = signer_account_pk env in
    and_then (ensure (nodes_by_bn254_public_key s bn_pk = None)
                (Panic ''bn254_public_key already exists'')) (\<lambda>_.
    and_then (ensure (nodes_by_ed25519_public_key s ed_pk = None)
                (Panic ''ed25519_public_key already exists'')) (\<lambda>_.
    and_then (bn254_verify env (map (of_nat \<circ> of_char) account) signature bn_pk) (\<lambda>valid.
    and_then (ensure valid (Panic ''Invalid signature'')) (\<lambda>_.
    let n = \<lparr>multi_addr = addr, balance = 0, bn254_public_key = bn_pk, ed25519_public_key = ed_pk\<rparr> in
    manage_storage_deposit_require env s (\<lambda>s.
    Inr (s\<lparr>inactive_nodes := um_insert account n (inactive_nodes s),
           nodes_by_bn254_public_key := (nodes_by_bn254_public_key s)(bn_pk \<mapsto> account),
           nodes_by_ed25519_public_key :=
             (nodes_by_ed25519_public_key s)(ed25519_public_key n \<mapsto> account)\<rparr>)))))))"

definition unregister_node ::
  "near_env \<Rightarrow> bytes \<Rightarrow> mainchain_contract \<Rightarrow> mainchain_contract res" where
  "unregister_node env pk s =
   and_then (assert_not_payable ''unregister_node'' env) (\<lambda>_.
   manage_storage_deposit_refund env s (\<lambda>s.
   and_then (ensure (signer_account_pk env = pk) (Panic ''Invalid ed25519_public_key'')) (\<lambda>_.
   and_then (get_expect_node_by_ed25519_public_key pk s) (\<lambda>n.
   and_then (ensure (balance n = 0) (Panic ''Node balance is not zero'')) (\<lambda>_.
   and_then (unwrap (nodes_by_ed25519_public_key s pk)) (\<lambda>account.
   Inr (s\<lparr>inactive_nodes := um_remove (remove_order env) account (inactive_nodes s)\<rparr>)))))))"

definition update_node ::
  "near_env \<Rightarrow> update_node_command \<Rightarrow> mainchain_contract \<Rightarrow> mainchain_contract res" where
  "update_node env command s =
   (let account = signer_account_id env in
    and_then (get_expect_node account s) (\<lambda>n.
    let n = (case command of SetSocketAddress new_multi_addr \<Rightarrow> n\<lparr>multi_addr := new_multi_addr\<rparr>) in
    manage_storage_deposit env s (\<lambda>s.
    Inr (FallThrough,
      if um_get (active_nodes s) account \<noteq> None
      then s\<lparr>active_nodes := um_insert account n (active_nodes s)\<rparr>
      else s\<lparr>inactive_nodes := um_insert account n (inactive_nodes s)\<rparr>))))"

definition deposit :: "near_env \<Rightarrow> u128 \<Rightarrow> bytes \<Rightarrow> mainchain_contract \<Rightarrow> mainchain_contract res" where
  "deposit env amount pk s = internal_deposit env amount pk s"

definition request_withdraw ::
  "near_env \<Rightarrow> u128 \<Rightarrow> bytes \<Rightarrow> mainchain_contract \<Rightarrow> (request_withdraw_result \<times> mainchain_contract) res" where
  "request_withdraw env amount pk s =
   and_then (manage_storage_deposit_require env s (\<lambda>s.
     and_then (ensure (0 < amount) (Panic ''Withdrawal amount should be positive'')) (\<lambda>_.
     and_then (get_expect_node_by_ed25519_public_key pk s) (\<lambda>n.
     and_then (ensure (amount \<le> balance n) (Panic ''Not enough balance to withdraw'')) (\<lambda>_.
     let depositor_account_id = signer_account_id env in
     and_then (expect ''No deposit info found for this account'' (depositors s depositor_account_id)) (\<lambda>depositor.
     and_then (expect ''No deposit info found for this node'' (um_get depositor pk)) (\<lambda>deposited.
     and_then (ensure (amount \<le> deposited) (Panic ''Not enough balance to withdraw'')) (\<lambda>_.
     let node_withdraw_requests =
           (case withdraw_requests s pk of None \<Rightarrow> Map.empty | Some m \<Rightarrow> m) in
     and_then (ensure (node_withdraw_requests depositor_account_id = None)
                 (Panic ''There is already a pending withdrawal for this account'')) (\<lambda>_.
     and_then (arith_add (overflow_checks env) (get_current_epoch env) (withdraw_delay (config s))) (\<lambda>epoch.
     and_then (unwrap (nodes_by_ed25519_public_key s pk)) (\<lambda>node_account_id.
     Inr (s\<lparr>withdraw_requests := (withdraw_requests s)
              (pk \<mapsto> node_withdraw_requests
                 (depositor_account_id \<mapsto> \<lparr>wr_amount = amount, wr_epoch = epoch\<rparr>))\<rparr>)))))))))))) (\<lambda>s.
   and_then (arith_add (overflow_checks env) (withdraw_delay (config s)) (get_current_epoch env)) (\<lambda>epoch.
   Inr (\<lparr>rw_current_epoch = get_current_epoch env, rw_withdraw_epoch = epoch\<rparr>, s)))"

definition cancel_withdraw_request ::
  "near_env \<Rightarrow> bytes \<Rightarrow> mainchain_contract \<Rightarrow> mainchain_contract res" where
  "cancel_withdraw_request env pk s =
   manage_storage_deposit env s (\<lambda>s.
   let depositor_account_id = signer_account_id env;
       node_withdraw_requests = (case withdraw_requests s pk of None \<Rightarrow> Map.empty | Some m \<Rightarrow> m);
       s = s\<lparr>withdraw_requests := (withdraw_requests s)
               (pk \<mapsto> node_withdraw_requests(depositor_account_id := None))\<rparr> in
   and_then (unwrap (nodes_by_ed25519_public_key s pk)) (\<lambda>node_account_id. Inr (FallThrough, s)))"

definition withdraw :: "near_env \<Rightarrow> u128 \<Rightarrow> bytes \<Rightarrow> mainchain_contract \<Rightarrow> mainchain_contract res" where
  "withdraw env amount pk s = internal_withdraw env amount pk s"


section \<open>Views\<close>

definition is_node_active :: "account_id \<Rightarrow> mainchain_contract \<Rightarrow> bool" where
  "is_node_active account s \<longleftrightarrow> um_get (active_nodes s) account \<noteq> None"

definition get_node_balance :: "account_id \<Rightarrow> mainchain_contract \<Rightarrow> u128 res" where
  "get_node_balance account s =
   and_then (unwrap (internal_get_node account s)) (\<lambda>n. Inr (balance n))"

definition get_node :: "account_id \<Rightarrow> mainchain_contract \<Rightarrow> node_info option" where
  "get_node account s =
   (case internal_get_node account s of Some n \<Rightarrow> Some (node_info_of account n) | None \<Rightarrow> None)"

definition get_inactive_nodes :: "near_env \<Rightarrow> u64 \<Rightarrow> u64 \<Rightarrow> mainchain_contract \<Rightarrow> node_info list res" where
  "get_inactive_nodes env limit offset s = internal_get_nodes env (inactive_nodes s) limit offset"

definition get_active_nodes :: "near_env \<Rightarrow> u64 \<Rightarrow> u64 \<Rightarrow> mainchain_contract \<Rightarrow> node_info list res" where
  "get_active_nodes env limit offset s = internal_get_nodes env (active_nodes s) limit offset"

definition get_deposits :: "account_id \<Rightarrow> mainchain_contract \<Rightarrow> deposit_info list res" where
  "get_deposits account s =
   and_then (unwrap (depositors s account)) (\<lambda>depositor.
   Inr (map (\<lambda>(pk, amount). \<lparr>di_node_ed25519_public_key = pk, di_amount = amount\<rparr>)
         (um_iter depositor)))"

definition get_node_by_ed25519_public_key :: "bytes \<Rightarrow> mainchain_contract \<Rightarrow> node_info res" where
  "get_node_by_ed25519_public_key pk s =
   and_then (unwrap (nodes_by_ed25519_public_key s pk)) (\<lambda>account.
   and_then (unwrap (internal_get_node account s)) (\<lambda>n. Inr (node_info_of account n)))"

definition get_node_by_bn254_public_key :: "bytes \<Rightarrow> mainchain_contract \<Rightarrow> node_info res" where
  "get_node_by_bn254_public_key pk s =
   and_then (unwrap (nodes_by_bn254_public_key s pk)) (\<lambda>account.
   and_then (unwrap (internal_get_node account s)) (\<lambda>n. Inr (node_info_of account n)))"


section \<open>What each operation does when it succeeds\<close>

lemma internal_get_node_eq_Some:
  "internal_get_node a s = Some n \<longleftrightarrow>
     um_get (active_nodes s) a = Some n \<or>
     um_get (active_nodes s) a = None \<and> um_get (inactive_nodes s) a = Some n"
  by (auto simp: internal_get_node_def split: option.splits)

lemma get_expect_node_by_ed25519_public_key_Inr:
  "get_expect_node_by_ed25519_public_key pk s = Inr n \<longleftrightarrow>
     (\<exists>a. nodes_by_ed25519_public_key s pk = Some a \<and> internal_get_node a s = Some n)"
  by (auto simp: get_expect_node_by_ed25519_public_key_def res_simps)

lemma internal_get_node_cong:
  "active_nodes s' = active_nodes s \<Longrightarrow> inactive_nodes s' = inactive_nodes s \<Longrightarrow>
   internal_get_node a s' = internal_get_node a s"
  by (simp add: internal_get_node_def split: option.splits)

lemma internal_get_node_frame [simp]:
  "internal_get_node a (s\<lparr>token := t\<rparr>) = internal_get_node a s"
  "internal_get_node a (s\<lparr>transfers := ts\<rparr>) = internal_get_node a s"
  "internal_get_node a (s\<lparr>depositors := d, last_total_balance := l\<rparr>) = internal_get_node a s"
  "internal_get_node a (s\<lparr>withdraw_requests := w\<rparr>) = internal_get_node a s"
  by (auto intro: internal_get_node_cong)

text \<open>A balance update touches the three node maps only.\<close>

lemma handle_node_balance_update_frame:
  assumes "handle_node_balance_update env a n s = Inr s'"
  shows "\<exists>ac ia pe. s' = s\<lparr>active_nodes := ac, inactive_nodes := ia, pending_nodes := pe\<rparr>"
proof -
  have "s' = s\<lparr>active_nodes := active_nodes s', inactive_nodes := inactive_nodes s',
              pending_nodes := pending_nodes s'\<rparr>"
    using assms
    by (auto simp: handle_node_balance_update_def res_simps split: if_splits)
  then show ?thesis by blast
qed

lemma handle_node_balance_update_get:
  assumes "handle_node_balance_update env a n s = Inr s'"
  shows "internal_get_node a s' = Some n"
    and "b \<noteq> a \<Longrightarrow> internal_get_node b s' = internal_get_node b s"
  using assms
  by (auto simp: handle_node_balance_update_def res_simps internal_get_node_def umap_simps
      split: if_splits option.splits)

lemma deposit_elim:
  assumes "deposit env amount pk s = Inr s'"
  obtains b tb a n nb s1 total where
    "accounts (token s) (signer_account_id env) = Some b"
    and "arith_sub (overflow_checks env) b amount = Inr tb"
    and "nodes_by_ed25519_public_key s pk = Some a" and "internal_get_node a s = Some n"
    and "arith_add (overflow_checks env) (balance n) amount = Inr nb"
    and "burn env (signer_account_id env) amount s
      = Inr (s\<lparr>token := (token s)\<lparr>accounts := (accounts (token s))(signer_account_id env \<mapsto> tb)\<rparr>\<rparr>)"
    and "handle_node_balance_update env a (n\<lparr>balance := nb\<rparr>)
      (s\<lparr>token := (token s)\<lparr>accounts := (accounts (token s))(signer_account_id env \<mapsto> tb)\<rparr>\<rparr>) = Inr s1"
    and "arith_add (overflow_checks env) (last_total_balance s) amount = Inr total"
    and "s' = s1\<lparr>depositors := (depositors s)(signer_account_id env \<mapsto> um_insert pk amount
                 (case depositors s (signer_account_id env) of None \<Rightarrow> um_new | Some d \<Rightarrow> d)),
               last_total_balance := total\<rparr>"
proof -
  from assms have blk: "block s = Inr s'" if
    "internal_deposit env amount pk s = manage_storage_deposit_require env s block" for block
    using that manage_storage_deposit_require_Inr by (metis deposit_def)
  note * = blk [OF internal_deposit_def, unfolded Let_def]
  from * obtain s0 a n nb s1 total where
    burn: "burn env (signer_account_id env) amount s = Inr s0"
    and a: "nodes_by_ed25519_public_key s0 pk = Some a"
    and n: "internal_get_node a s0 = Some n"
    and nb: "arith_add (overflow_checks env) (balance n) amount = Inr nb"
    and h: "handle_node_balance_update env a (n\<lparr>balance := nb\<rparr>) s0 = Inr s1"
    and total: "arith_add (overflow_checks env) (last_total_balance s1) amount = Inr total"
    and s': "s' = s1\<lparr>depositors := (depositors s1)(signer_account_id env \<mapsto> um_insert pk amount
                 (case depositors s1 (signer_account_id env) of None \<Rightarrow> um_new | Some d \<Rightarrow> d)),
               last_total_balance := total\<rparr>"
    by (auto simp: and_then_eq_Inr get_expect_node_by_ed25519_public_key_Inr unwrap_eq_Inr)
  from burn_Inr [OF burn] obtain b tb where
    b: "accounts (token s) (signer_account_id env) = Some b"
    and tb: "arith_sub (overflow_checks env) b amount = Inr tb"
    and s0: "s0 = s\<lparr>token := (token s)\<lparr>accounts := (accounts (token s))(signer_account_id env \<mapsto> tb)\<rparr>\<rparr>"
    by blast
  from handle_node_balance_update_frame [OF h] have
    s1: "depositors s1 = depositors s" "last_total_balance s1 = last_total_balance s"
    by (auto simp: s0)
  show thesis
    by (rule that [OF b tb _ _ nb _ h [unfolded s0] total [unfolded s1] s' [unfolded s1]])
      (use a n burn s0 in simp_all)
qed

text \<open>The requests recorded for a node, and the guards a withdrawal passes.\<close>

abbreviation requests_of :: "mainchain_contract \<Rightarrow> bytes \<Rightarrow> (account_id \<rightharpoonup> withdraw_request)" where
  "requests_of s pk \<equiv> (case withdraw_requests s pk of None \<Rightarrow> Map.empty | Some m \<Rightarrow> m)"

lemma withdraw_elim:
  assumes "withdraw env amount pk s = Inr s'"
  obtains b tb a n nb dep deposited rest req s1 total ts where
    "0 < amount" and "nodes_by_ed25519_public_key s pk = Some a" and "internal_get_node a s = Some n"
    and "amount \<le> balance n"
    and "depositors s (signer_account_id env) = Some dep" and "um_get dep pk = Some deposited"
    and "amount \<le> deposited"
    and "requests_of s pk (signer_account_id env) = Some req"
    and "wr_epoch req \<le> get_current_epoch env"
    and "accounts (token s) (signer_account_id env) = Some b"
    and "arith_add (overflow_checks env) b amount = Inr tb"
    and "mint env (signer_account_id env) amount s
      = Inr (s\<lparr>token := (token s)\<lparr>accounts := (accounts (token s))(signer_account_id env \<mapsto> tb)\<rparr>\<rparr>)"
    and "arith_sub (overflow_checks env) (balance n) amount = Inr nb"
    and "handle_node_balance_update env a (n\<lparr>balance := nb\<rparr>)
      (s\<lparr>token := (token s)\<lparr>accounts := (accounts (token s))(signer_account_id env \<mapsto> tb)\<rparr>\<rparr>) = Inr s1"
    and "arith_sub (overflow_checks env) deposited amount = Inr rest"
    and "arith_sub (overflow_checks env) (last_total_balance s) amount = Inr total"
    and "s' = s1\<lparr>depositors := (depositors s)(signer_account_id env \<mapsto> um_insert pk rest dep),
               last_total_balance := total,
               withdraw_requests := (withdraw_requests s)
                 (pk \<mapsto> (requests_of s pk)(signer_account_id env := None)),
               transfers := ts\<rparr>"
proof -
  let ?d = "signer_account_id env"
  from manage_storage_deposit_Inr [OF assms [unfolded withdraw_def internal_withdraw_def Let_def]]
  obtain a n dep deposited req s0 nb a' s1 rest total s2 ts where
    g: "0 < amount" "nodes_by_ed25519_public_key s pk = Some a" "internal_get_node a s = Some n"
      "amount \<le> balance n" "depositors s ?d = Some dep" "um_get dep pk = Some deposited"
      "amount \<le> deposited" "requests_of s pk ?d = Some req" "wr_epoch req \<le> get_current_epoch env"
    and m: "mint env ?d amount s = Inr s0"
    and nb: "arith_sub (overflow_checks env) (balance n) amount = Inr nb"
    and a': "nodes_by_ed25519_public_key s0 pk = Some a'"
    and h: "handle_node_balance_update env a' (n\<lparr>balance := nb\<rparr>) s0 = Inr s1"
    and rest: "arith_sub (overflow_checks env) deposited amount = Inr rest"
    and total: "arith_sub (overflow_checks env) (last_total_balance s1) amount = Inr total"
    and s2: "s1\<lparr>depositors := (depositors s1)(?d \<mapsto> um_insert pk rest dep),
               last_total_balance := total,
               withdraw_requests := (withdraw_requests (s1\<lparr>depositors := (depositors s1)(?d \<mapsto> um_insert pk rest dep)\<rparr>))
                 (pk \<mapsto> (requests_of s pk)(?d := None))\<rparr> = s2"
    and s': "s' = s2\<lparr>transfers := ts\<rparr>"
    by (simp only: and_then_eq_Inr get_expect_node_by_ed25519_public_key_Inr unwrap_eq_Inr
        expect_eq_Inr ensure_eq_Inr sum.inject prod.inject)
      (elim exE conjE, rule that, simp_all)
  from mint_Inr [OF m] obtain b tb where
    b: "accounts (token s) ?d = Some b" and tb: "arith_add (overflow_checks env) b amount = Inr tb"
    and s0: "s0 = s\<lparr>token := (token s)\<lparr>accounts := (accounts (token s))(?d \<mapsto> tb)\<rparr>\<rparr>"
    by blast
  from handle_node_balance_update_frame [OF h] have s1: "depositors s1 = depositors s"
    "last_total_balance s1 = last_total_balance s" "withdraw_requests s1 = withdraw_requests s"
    by (auto simp: s0)
  show thesis
    by (rule that [OF g b tb m [unfolded s0] nb _ rest total [unfolded s1], where ts = ts])
      (use a' g(2) h s' s2 [symmetric] in \<open>simp_all add: s1 s0\<close>)
qed


section \<open>Paging\<close>

abbreviation view_of :: "(account_id, node) unordered_map \<Rightarrow> account_id \<Rightarrow> node_info" where
  "view_of m k \<equiv> node_info_of k (the (um_get m k))"

lemma internal_get_nodes_loop_page:
  assumes "um_invar m" and "length (um_keys m) < 2 ^ 32" and "unat limit < 2 ^ 32"
    and "unat idx \<le> length (um_keys m)"
  shows "internal_get_nodes_loop p m limit idx acc =
    Inr (acc @ map (view_of m) (take (unat limit - length acc) (rev (take (unat idx) (um_keys m)))))"
  using assms(4)
proof (induction "unat idx" arbitrary: idx acc)
  case 0
  then have "idx = 0" by (simp add: unat_eq_zero)
  then show ?case by (simp add: internal_get_nodes_loop.simps)
next
  case (Suc i)
  have nz: "idx \<noteq> 0" using Suc.hyps(2) by auto
  have pred: "unat (idx - 1) = i"
    using Suc.hyps(2) by (simp add: unat_sub_if' word_le_nat_alt)
  have small: "unat idx < 2 ^ 32" using Suc.prems assms(2) by simp
  have cast: "unat (ucast idx :: u32) = Suc i"
    using Suc.hyps(2) small
    by (simp add: unsigned_ucast_eq unsigned_take_bit_eq take_bit_nat_eq_self)
  then have sub: "arith_sub p (ucast idx :: u32) 1 = Inr (ucast idx - 1)"
    "unat ((ucast idx :: u32) - 1) = i"
    by (simp_all add: arith_sub_def word_less_nat_alt unat_sub_if' word_le_nat_alt)
  have i: "i < length (um_keys m)" using Suc.hyps(2) Suc.prems by simp
  then obtain n where n: "um_get m (um_keys m ! i) = Some n"
    using assms(1) set_um_keys [OF assms(1)] nth_mem by fastforce
  show ?case
  proof (cases "unat limit \<le> length acc")
    case True
    with nz assms(3) show ?thesis by (simp add: internal_get_nodes_loop.simps [of p m limit idx])
  next
    case False
    have "internal_get_nodes_loop p m limit idx acc
        = internal_get_nodes_loop p m limit (idx - 1) (acc @ [node_info_of (um_keys m ! i) n])"
      using nz assms(3) False sub i n by (simp add: internal_get_nodes_loop.simps [of p m limit idx])
    also have "\<dots> = Inr ((acc @ [node_info_of (um_keys m ! i) n]) @
        map (view_of m) (take (unat limit - Suc (length acc)) (rev (take i (um_keys m)))))"
      using Suc.hyps(1) [of "idx - 1" "acc @ [node_info_of (um_keys m ! i) n]"] pred i by simp
    also have "\<dots> = Inr (acc @ map (view_of m)
        (take (unat limit - length acc) (rev (take (unat idx) (um_keys m)))))"
      using False n i Suc.hyps(2) [symmetric]
      by (simp add: take_Suc_conv_app_nth Suc_diff_Suc [symmetric] not_le take_Cons')
    finally show ?thesis .
  qed
qed

lemma internal_get_nodes_page:
  assumes "um_invar m" and "length (um_keys m) < 2 ^ 32" and "unat limit < 2 ^ 32"
    and "unat offset \<le> length (um_keys m)"
  shows "internal_get_nodes env m limit offset =
    Inr (map (view_of m) (take (unat limit) (rev (take (length (um_keys m) - unat offset) (um_keys m)))))"
proof -
  have len: "unat (um_len m) = length (um_keys m)"
    using assms(2) by (simp add: um_len_def unat_of_nat)
  then have "arith_sub (overflow_checks env) (um_len m) offset = Inr (um_len m - offset)"
    "unat (um_len m - offset) = length (um_keys m) - unat offset"
    using assms(4) by (simp_all add: arith_sub_def word_less_nat_alt unat_sub_if' word_le_nat_alt)
  with internal_get_nodes_loop_page [OF assms(1-3), of "um_len m - offset" _ "[]"] show ?thesis
    by (simp add: internal_get_nodes_def)
qed

end
