(* ===== verification/Committee.thy ===== *)
theory Committee
  imports Node_Registry
begin

text \<open>
  Committee selection, the slot leader (\<open>contracts/src/committee.rs\<close>) and the processing of
  an epoch (\<open>contracts/src/epoch.rs\<close>).

  The inner loop of \<open>select_committee\<close> draws again while the drawn index is taken, and
  nothing in the code bounds it. On chain the gas of the call does: \<open>gas_rerolls\<close> is the
  number of draws it pays for, and running out of it is the panic \<open>OutOfGas\<close>. How many
  draws are enough is a theorem below.
\<close>

section \<open>Drawing an index\<close>

text \<open>
  One draw: the hash of the seed and a counter, read as a little-endian 256-bit number, modulo
  the number of validators; the remainder by zero panics.
\<close>

definition draw :: "near_env \<Rightarrow> u256 \<Rightarrow> nat \<Rightarrow> u64 \<Rightarrow> nat res" where
  "draw env seed n counter =
   (let prn = (from_le_bytes (array_bytes (sha256 env (to_le_bytes 32 seed @ to_le_bytes 8 counter))) :: u256) in
    and_then (ensure (n \<noteq> 0) DivisionByZero) (\<lambda>_. Inr (unat prn mod n)))"

fun reroll ::
  "near_env \<Rightarrow> u256 \<Rightarrow> u64 \<Rightarrow> nat \<Rightarrow> u64 \<Rightarrow> nat list \<Rightarrow> nat \<Rightarrow> u64 \<Rightarrow> nat \<Rightarrow> (nat \<times> u64 \<times> nat) res" where
  "reroll env seed c_size n i chosen_indices gas rerolls chosen_index =
   (if chosen_index \<in> set chosen_indices then
      (case gas of
         0 \<Rightarrow> Inl OutOfGas
       | Suc gas \<Rightarrow>
           and_then (arith_add (overflow_checks env) rerolls 1) (\<lambda>rerolls.
           and_then (arith_add (overflow_checks env) i c_size) (\<lambda>base.
           and_then (arith_add (overflow_checks env) base rerolls) (\<lambda>counter.
           and_then (draw env seed n counter) (\<lambda>chosen_index.
           reroll env seed c_size n i chosen_indices gas rerolls chosen_index)))))
    else Inr (gas, rerolls, chosen_index))"

declare reroll.simps [simp del]

text \<open>
  The outer loop, over the indices still to be chosen; its state is the remaining gas, the
  rerolls so far and the indices and validators chosen so far.
\<close>

primrec select_loop ::
  "near_env \<Rightarrow> u256 \<Rightarrow> u64 \<Rightarrow> account_id list \<Rightarrow> nat list \<Rightarrow>
   nat \<Rightarrow> u64 \<Rightarrow> nat list \<Rightarrow> account_id list \<Rightarrow> account_id list res" where
  "select_loop env seed c_size validators [] gas rerolls chosen_indices chosen_committee =
     Inr chosen_committee"
| "select_loop env seed c_size validators (i # is) gas rerolls chosen_indices chosen_committee =
   and_then (draw env seed (length validators) (of_nat i)) (\<lambda>chosen_index.
   and_then (reroll env seed c_size (length validators) (of_nat i) chosen_indices gas rerolls
               chosen_index) (\<lambda>(gas, rerolls, chosen_index).
   and_then (expect ''couldn't fetch validator''
               (if chosen_index < length validators then Some (validators ! chosen_index) else None))
     (\<lambda>validator.
   select_loop env seed c_size validators is gas rerolls (chosen_indices @ [chosen_index])
     (chosen_committee @ [validator]))))"

definition select_committee ::
  "near_env \<Rightarrow> u256 \<Rightarrow> mainchain_contract \<Rightarrow> account_id list res" where
  "select_committee env random_number s =
   select_loop env random_number (committee_size (config s)) (um_keys (active_nodes s))
     [0..<unat (committee_size (config s))] (gas_rerolls env) 0 [] []"


section \<open>Views\<close>

definition get_committee :: "u64 \<Rightarrow> mainchain_contract \<Rightarrow> account_id list option" where
  "get_committee epoch s = committees s epoch"

definition get_last_generated_random_number :: "mainchain_contract \<Rightarrow> u256" where
  "get_last_generated_random_number s = last_generated_random_number s"

definition get_current_slot_leader :: "near_env \<Rightarrow> mainchain_contract \<Rightarrow> account_id option res" where
  "get_current_slot_leader env s =
   (case committees s (get_current_epoch env) of
      None \<Rightarrow> Inr None
    | Some current_committee \<Rightarrow>
        and_then (draw env (last_generated_random_number s) (unat (committee_size (config s)))
                    (get_current_slot env)) (\<lambda>chosen_index.
        Inr (if chosen_index < length current_committee
             then Some (current_committee ! chosen_index) else None)))"


section \<open>Processing an epoch\<close>

definition activate_node ::
  "near_env \<Rightarrow> account_id \<Rightarrow> mainchain_contract \<Rightarrow> mainchain_contract res" where
  "activate_node env account s =
   and_then (unwrap (um_get (inactive_nodes s) account)) (\<lambda>n.
   Inr (s\<lparr>active_nodes := um_insert account n (active_nodes s),
          inactive_nodes := um_remove (remove_order env) account (inactive_nodes s),
          pending_nodes := um_remove (remove_order env) account (pending_nodes s)\<rparr>))"

primrec activate_nodes ::
  "near_env \<Rightarrow> account_id list \<Rightarrow> mainchain_contract \<Rightarrow> mainchain_contract res" where
  "activate_nodes env [] s = Inr s"
| "activate_nodes env (a # as) s = and_then (activate_node env a s) (activate_nodes env as)"

definition eligible_nodes :: "u64 \<Rightarrow> mainchain_contract \<Rightarrow> account_id list" where
  "eligible_nodes epoch s =
     map fst (filter (\<lambda>(_, activation_epoch). activation_epoch \<le> epoch) (um_iter (pending_nodes s)))"

primrec select_lookahead ::
  "near_env \<Rightarrow> u64 \<Rightarrow> nat list \<Rightarrow> mainchain_contract \<Rightarrow> mainchain_contract res" where
  "select_lookahead env epoch [] s = Inr s"
| "select_lookahead env epoch (i # is) s =
   and_then (select_committee env (last_generated_random_number s) s) (\<lambda>committee.
   and_then (arith_add (overflow_checks env) epoch (of_nat i)) (\<lambda>e.
   select_lookahead env epoch is (s\<lparr>committees := (committees s)(e \<mapsto> committee)\<rparr>)))"

definition process_epoch :: "near_env \<Rightarrow> mainchain_contract \<Rightarrow> mainchain_contract res" where
  "process_epoch env s =
   manage_storage_deposit env s (\<lambda>s.
   let epoch = get_current_epoch env in
   if epoch \<le> last_processed_epoch s then Inr (Returned, s)
   else
     and_then (activate_nodes env (eligible_nodes epoch s) s) (\<lambda>s.
     if bootstrapping_phase s \<and> um_len (active_nodes s) < committee_size (config s)
     then Inr (Returned, s)
     else
       and_then (if bootstrapping_phase s
                 then select_lookahead env epoch [0..<unat EPOCH_COMMITTEES_LOOKAHEAD]
                        (s\<lparr>bootstrapping_phase := False\<rparr>)
                 else Inr s) (\<lambda>s.
       and_then (select_committee env (last_generated_random_number s) s) (\<lambda>committee.
       and_then (arith_add (overflow_checks env) epoch EPOCH_COMMITTEES_LOOKAHEAD) (\<lambda>e.
       Inr (FallThrough,
         s\<lparr>committees := (committees s)(e \<mapsto> committee), last_processed_epoch := epoch\<rparr>))))))"


section \<open>What a committee is\<close>

lemma draw_Inr: "draw env seed n c = Inr j \<Longrightarrow> j < n"
  by (auto simp: draw_def Let_def res_simps)

lemma draw_total: "0 < n \<Longrightarrow> \<exists>j. draw env seed n c = Inr j"
  by (simp add: draw_def)

lemma reroll_Inr:
  assumes "reroll env seed cs n i chosen gas r idx = Inr (gas', r', j)" and "idx < n"
  shows "j \<notin> set chosen \<and> j < n"
  using assms
proof (induction gas arbitrary: r idx)
  case 0
  then show ?case by (auto simp: reroll.simps [of _ _ _ _ _ _ 0] split: if_splits)
next
  case (Suc gas)
  then show ?case
    by (auto simp: reroll.simps [of _ _ _ _ _ _ "Suc gas"] res_simps split: if_splits
        dest: draw_Inr)
qed

lemma select_loop_Inr:
  assumes "select_loop env seed cs vs is gas r idxs (map ((!) vs) idxs) = Inr c"
    and "distinct idxs" and "set idxs \<subseteq> {..<length vs}"
  shows "\<exists>js. c = map ((!) vs) js \<and> distinct js \<and> set js \<subseteq> {..<length vs}
    \<and> length js = length idxs + length is"
  using assms
proof (induction "is" arbitrary: gas r idxs)
  case Nil
  then show ?case by auto
next
  case (Cons i "is")
  from Cons.prems(1) obtain j0 gas' r' j where
    draw: "draw env seed (length vs) (of_nat i) = Inr j0"
    and re: "reroll env seed cs (length vs) (of_nat i) idxs gas r j0 = Inr (gas', r', j)"
    and j: "j < length vs"
    and rest: "select_loop env seed cs vs is gas' r' (idxs @ [j]) (map ((!) vs) (idxs @ [j])) = Inr c"
    by (auto simp: res_simps split: prod.splits if_splits)
  from reroll_Inr [OF re draw_Inr [OF draw]] have "j \<notin> set idxs" by simp
  with Cons.IH [OF rest] Cons.prems(2,3) j show ?case by simp
qed

lemma select_committee_indices:
  assumes "select_committee env seed s = Inr c"
  shows "\<exists>js. c = map ((!) (um_keys (active_nodes s))) js \<and> distinct js
    \<and> set js \<subseteq> {..<length (um_keys (active_nodes s))}
    \<and> length js = unat (committee_size (config s))"
proof -
  from assms have "select_loop env seed (committee_size (config s)) (um_keys (active_nodes s))
      [0..<unat (committee_size (config s))] (gas_rerolls env) 0 []
      (map ((!) (um_keys (active_nodes s))) []) = Inr c"
    by (simp add: select_committee_def)
  from select_loop_Inr [OF this] show ?thesis by simp
qed

lemma select_committee_members:
  assumes "select_committee env seed s = Inr c" and "um_invar (active_nodes s)"
  shows "distinct c" "length c = unat (committee_size (config s))"
    "set c \<subseteq> {a. um_get (active_nodes s) a \<noteq> None}"
proof -
  from select_committee_indices [OF assms(1)] obtain js where
    c: "c = map ((!) (um_keys (active_nodes s))) js" and d: "distinct js"
    and sub: "set js \<subseteq> {..<length (um_keys (active_nodes s))}"
    and len: "length js = unat (committee_size (config s))"
    by blast
  have inj: "inj_on ((!) (um_keys (active_nodes s))) (set js)"
    using sub assms(2) unfolding um_invar_def
    by (intro inj_onI) (metis lessThan_iff nth_eq_iff_index_eq subsetD)
  show "distinct c" using c d inj by (simp add: distinct_map)
  show "length c = unat (committee_size (config s))" using c len by simp
  show "set c \<subseteq> {a. um_get (active_nodes s) a \<noteq> None}"
    using c sub set_um_keys [OF assms(2)] nth_mem by fastforce
qed

text \<open>A committee larger than the set of active nodes is never found.\<close>

lemma select_committee_bound:
  assumes "select_committee env seed s = Inr c"
  shows "unat (committee_size (config s)) \<le> length (um_keys (active_nodes s))"
proof -
  from select_committee_indices [OF assms] obtain js where
    "distinct js" "set js \<subseteq> {..<length (um_keys (active_nodes s))}"
    "length js = unat (committee_size (config s))"
    by blast
  then show ?thesis
    by (metis card_lessThan card_mono distinct_card finite_lessThan)
qed

lemma reroll_unchecked:
  assumes "\<not> overflow_checks env" and "0 < n"
  shows "reroll env seed cs n i chosen gas r idx = Inl OutOfGas
    \<or> (\<exists>x. reroll env seed cs n i chosen gas r idx = Inr x)"
proof (induction gas arbitrary: r idx)
  case 0
  show ?case by (simp add: reroll.simps [of _ _ _ _ _ _ 0])
next
  case (Suc gas)
  from draw_total [OF assms(2)] obtain j where
    "draw env seed n (i + cs + (r + 1)) = Inr j" by blast
  with Suc.IH [of "r + 1" j] assms(1) show ?case
    by (auto simp: reroll.simps [of _ _ _ _ _ _ "Suc gas"])
qed

lemma select_loop_unchecked:
  assumes "\<not> overflow_checks env" and "0 < length vs"
  shows "select_loop env seed cs vs is gas r idxs com = Inl OutOfGas
    \<or> (\<exists>c. select_loop env seed cs vs is gas r idxs com = Inr c)"
proof (induction "is" arbitrary: gas r idxs com)
  case Nil
  show ?case by simp
next
  case (Cons i "is")
  from draw_total [OF assms(2)] obtain j0 where
    d: "draw env seed (length vs) (of_nat i) = Inr j0" by blast
  show ?case
  proof (cases "reroll env seed cs (length vs) (of_nat i) idxs gas r j0")
    case (Inl e)
    with reroll_unchecked [OF assms, of seed cs "of_nat i" idxs gas r j0] d show ?thesis by auto
  next
    case (Inr x)
    obtain gas' r' j where x: "x = (gas', r', j)" by (cases x)
    with Inr reroll_Inr draw_Inr [OF d] have "j < length vs" by blast
    with d Inr x Cons.IH show ?thesis by simp
  qed
qed


section \<open>Enough gas for a committee\<close>

text \<open>
  What the selection relies on of the hash: every window of \<open>window\<close> consecutive counters
  draws every index.
\<close>

definition draws_all :: "near_env \<Rightarrow> u256 \<Rightarrow> nat \<Rightarrow> nat \<Rightarrow> bool" where
  "draws_all env seed n window \<longleftrightarrow>
     (\<forall>base j. base + window < 2 ^ 64 \<longrightarrow> j < n \<longrightarrow>
        (\<exists>k \<in> {1..window}. draw env seed n (of_nat (base + k)) = Inr j))"

lemma arith_add_fits:
  fixes a b :: u64
  assumes "unat a + unat b < 2 ^ 64"
  shows "arith_add p a b = Inr (a + b)" "unat (a + b) = unat a + unat b"
  using assms by (simp_all add: arith_add_def unat_word_ariths)

lemma u64_of_nat_fits: "k < 2 ^ 64 \<Longrightarrow> unat (of_nat k :: u64) = k"
  by (simp add: unat_of_nat)

lemma reroll_within:
  assumes "draw env seed n (of_nat (unat i + unat cs + unat r + k)) = Inr j"
    and "j \<notin> set chosen" and "0 < k" and "k \<le> gas" and "0 < n"
    and "unat i + unat cs + unat r + k < 2 ^ 64"
  shows "\<exists>m \<le> k. \<exists>j'. reroll env seed cs n i chosen gas r idx = Inr (gas - m, r + of_nat m, j')"
  using assms
proof (induction k arbitrary: gas r idx)
  case 0
  then show ?case by simp
next
  case (Suc k)
  show ?case
  proof (cases "idx \<in> set chosen")
    case False
    then have "reroll env seed cs n i chosen gas r idx = Inr (gas - 0, r + of_nat 0, idx)"
      by (simp add: reroll.simps)
    then show ?thesis by blast
  next
    case True
    from Suc.prems(4) obtain g where g: "gas = Suc g" by (cases gas) auto
    have r: "arith_add (overflow_checks env) r 1 = Inr (r + 1)" "unat (r + 1) = unat r + 1"
      using Suc.prems(6) arith_add_fits [of r 1] by simp_all
    have ic: "arith_add (overflow_checks env) i cs = Inr (i + cs)" "unat (i + cs) = unat i + unat cs"
      using Suc.prems(6) arith_add_fits [of i cs] by simp_all
    have icr: "arith_add (overflow_checks env) (i + cs) (r + 1) = Inr (i + cs + (r + 1))"
      using Suc.prems(6) arith_add_fits [of "i + cs" "r + 1"] r ic by simp
    obtain j1 where j1: "draw env seed n (i + cs + (r + 1)) = Inr j1"
      using draw_total Suc.prems(5) by blast
    have step: "reroll env seed cs n i chosen gas r idx = reroll env seed cs n i chosen g (r + 1) j1"
      using True g r(1) ic(1) icr j1 by (simp add: reroll.simps [of _ _ _ _ _ _ "Suc g"])
    have "\<exists>m \<le> k. \<exists>j'. reroll env seed cs n i chosen g (r + 1) j1 = Inr (g - m, r + 1 + of_nat m, j')"
    proof (cases "k = 0")
      case True
      have "of_nat (unat i + unat cs + unat r + Suc k) = i + cs + (r + 1)"
        using True by (simp add: ac_simps)
      with Suc.prems(1) j1 have "Inr j1 = (Inr j :: nat res)" by (simp only:)
      with Suc.prems(2) have "j1 \<notin> set chosen" by simp
      then have "reroll env seed cs n i chosen g (r + 1) j1 = Inr (g - 0, r + 1 + of_nat 0, j1)"
        by (simp add: reroll.simps)
      then show ?thesis by blast
    next
      case False
      then show ?thesis
        using Suc.IH [of "r + 1" g j1] Suc.prems g r(2) by (simp add: ac_simps)
    qed
    then obtain m j' where m: "m \<le> k"
      and "reroll env seed cs n i chosen g (r + 1) j1 = Inr (g - m, r + 1 + of_nat m, j')"
      by blast
    then have "reroll env seed cs n i chosen gas r idx = Inr (gas - Suc m, r + of_nat (Suc m), j')"
      using step g by (simp add: ac_simps)
    then show ?thesis using m by (intro exI [of _ "Suc m"]) blast
  qed
qed

lemma free_index:
  assumes "set idxs \<subseteq> {..<n}" and "length idxs < n"
  shows "\<exists>j < n. j \<notin> set idxs"
proof (rule ccontr)
  assume "\<not> ?thesis"
  then have "{..<n} \<subseteq> set idxs" by auto
  then have "n \<le> card (set idxs)" by (metis List.finite_set card_lessThan card_mono)
  with assms(2) card_length [of idxs] show False by simp
qed

lemma select_loop_returns:
  assumes "draws_all env seed (length vs) window"
    and "set idxs \<subseteq> {..<length vs}" and "length idxs + length is \<le> length vs"
    and "\<forall>i \<in> set is. i < unat cs" and "window * length is \<le> gas"
    and "2 * unat cs + unat r + window * length is < 2 ^ 64"
  shows "\<exists>c. select_loop env seed cs vs is gas r idxs com = Inr c"
  using assms
proof (induction "is" arbitrary: gas r idxs com)
  case Nil
  show ?case by simp
next
  case (Cons i "is")
  have n: "0 < length vs" using Cons.prems(3) by (cases vs) auto
  from draw_total [OF n] obtain j0 where d: "draw env seed (length vs) (of_nat i) = Inr j0" by blast
  from free_index [of idxs "length vs"] Cons.prems(2,3) obtain j where
    j: "j < length vs" "j \<notin> set idxs" by auto
  have i: "i < unat cs" using Cons.prems(4) by simp
  then have ui: "unat (of_nat i :: u64) = i"
    using unat_u64_less [of cs] by (simp add: unat_of_nat)
  have fits: "i + unat cs + unat r + window < 2 ^ 64" using Cons.prems(6) i by simp
  with Cons.prems(1) j(1) obtain k where k: "k \<in> {1..window}"
    and dk: "draw env seed (length vs) (of_nat (i + unat cs + unat r + k)) = Inr j"
    unfolding draws_all_def by blast
  have "\<exists>m \<le> k. \<exists>j'. reroll env seed cs (length vs) (of_nat i) idxs gas r j0
      = Inr (gas - m, r + of_nat m, j')"
    by (rule reroll_within [where j = j]) (use dk j k n fits Cons.prems(5) ui in auto)
  then obtain m j' where m: "m \<le> k"
    and re: "reroll env seed cs (length vs) (of_nat i) idxs gas r j0 = Inr (gas - m, r + of_nat m, j')"
    by blast
  have j': "j' < length vs" using reroll_Inr [OF re draw_Inr [OF d]] by simp
  have ur: "unat (r + of_nat m) = unat r + m"
    using m k fits arith_add_fits(2) [of r "of_nat m"] by (simp add: u64_of_nat_fits)
  have "\<exists>c. select_loop env seed cs vs is (gas - m) (r + of_nat m) (idxs @ [j']) (com @ [vs ! j']) = Inr c"
    by (rule Cons.IH) (use Cons.prems j' ur m k in auto)
  then show ?case using d re j' by simp
qed

lemma select_committee_returns:
  assumes "draws_all env seed (length (um_keys (active_nodes s))) window"
    and "unat (committee_size (config s)) \<le> length (um_keys (active_nodes s))"
    and "window * unat (committee_size (config s)) \<le> gas_rerolls env"
    and "(window + 2) * unat (committee_size (config s)) < 2 ^ 64"
  shows "\<exists>c. select_committee env seed s = Inr c"
  unfolding select_committee_def
  by (rule select_loop_returns [where window = window]) (use assms in \<open>auto simp: algebra_simps\<close>)

end
