(* ===== verification/Batch.thy ===== *)
theory Batch
  imports Committee
begin

text \<open>
  Data requests (\<open>contracts/src/data_request.rs\<close>) and signed batches
  (\<open>contracts/src/batch.rs\<close>).

  The BN254 public keys and Borsh are libraries: decoding, adding and encoding a key and the
  encodings that are hashed are the fields of the record \<open>crates\<close>, an argument of the
  methods that use them. The type variable is the library's key type.
\<close>

record 'pk crates =
  pk_from_uncompressed :: "bytes \<Rightarrow> 'pk option"
  pk_add :: "'pk \<Rightarrow> 'pk \<Rightarrow> 'pk"
  pk_to_uncompressed :: "'pk \<Rightarrow> bytes option"
  borsh_string :: "string \<Rightarrow> bytes"
  borsh_hash_pair :: "crypto_hash \<times> crypto_hash \<Rightarrow> bytes"
  borsh_merklized_batch :: "merklized_batch \<Rightarrow> bytes"


section \<open>Data requests\<close>

definition internal_compute_merkle_root ::
  "near_env \<Rightarrow> 'pk crates \<Rightarrow> mainchain_contract \<Rightarrow> bytes res" where
  "internal_compute_merkle_root env cr s =
   and_then (merklize (sha256 env) (borsh_string cr) (borsh_hash_pair cr)
               (data_request_accumulator s)) (\<lambda>h. Inr (array_bytes (hash_bytes h)))"

definition post_data_request :: "near_env \<Rightarrow> string \<Rightarrow> mainchain_contract \<Rightarrow> mainchain_contract res" where
  "post_data_request env data_request s =
   manage_storage_deposit_require env s (\<lambda>s.
   Inr (s\<lparr>data_request_accumulator := data_request_accumulator s @ [data_request]\<rparr>))"

definition compute_merkle_root ::
  "near_env \<Rightarrow> 'pk crates \<Rightarrow> mainchain_contract \<Rightarrow> compute_merkle_root_result res" where
  "compute_merkle_root env cr s =
   and_then (internal_compute_merkle_root env cr s) (\<lambda>root.
   and_then (get_current_slot_leader env s) (\<lambda>leader.
   Inr \<lparr>cm_merkle_root = root, cm_current_slot = get_current_slot env,
        cm_current_slot_leader = leader\<rparr>))"


section \<open>Batches\<close>

definition get_latest_batch_id :: "mainchain_contract \<Rightarrow> batch_id" where
  "get_latest_batch_id s =
     (case batch_ids_by_height s (num_batches s) of None \<Rightarrow> crypto_hash_default | Some b \<Rightarrow> b)"

text \<open>The public key of a signer, and the fold that adds the keys of the signers after the first.\<close>

definition signer_key :: "'pk crates \<Rightarrow> mainchain_contract \<Rightarrow> account_id \<Rightarrow> 'pk res" where
  "signer_key cr s signer =
   and_then (unwrap (um_get (active_nodes s) signer)) (\<lambda>n.
   unwrap (pk_from_uncompressed cr (bn254_public_key n)))"

primrec aggregate_keys ::
  "'pk crates \<Rightarrow> mainchain_contract \<Rightarrow> account_id list \<Rightarrow> account_id list \<Rightarrow> 'pk \<Rightarrow> 'pk res" where
  "aggregate_keys cr s current_committee [] acc = Inr acc"
| "aggregate_keys cr s current_committee (signer # signers) acc =
   and_then (ensure (signer \<in> set current_committee) (Panic ''Node is not part of the committee'')) (\<lambda>_.
   and_then (signer_key cr s signer) (\<lambda>k.
   aggregate_keys cr s current_committee signers (pk_add cr acc k)))"

text \<open>
  The body of \<open>post_signed_batch\<close> in its three stages: the slot leader's signature and the
  next random number, the signers' aggregate signature, and the batch that is stored.
\<close>

definition check_slot_leader :: "near_env \<Rightarrow> bytes \<Rightarrow> mainchain_contract \<Rightarrow> mainchain_contract res" where
  "check_slot_leader env leader_signature s =
   and_then (and_then (get_current_slot_leader env s) unwrap) (\<lambda>leader.
   and_then (ensure (leader = signer_account_id env) (Panic ''assertion failed: left == right'')) (\<lambda>_.
   and_then (unwrap (um_get (active_nodes s) (signer_account_id env))) (\<lambda>n.
   and_then (bn254_verify env (to_le_bytes 32 (last_generated_random_number s)) leader_signature
               (bn254_public_key n)) (\<lambda>valid.
   and_then (ensure valid (Panic ''Invalid slot leader signature'')) (\<lambda>_.
   let hash = sha256 env (leader_signature @ to_le_bytes 8 (get_current_slot env)) in
   Inr (s\<lparr>last_generated_random_number := from_le_bytes (array_bytes hash)\<rparr>))))))"

definition check_signers ::
  "near_env \<Rightarrow> 'pk crates \<Rightarrow> bytes \<Rightarrow> bytes \<Rightarrow> account_id list \<Rightarrow> mainchain_contract \<Rightarrow> bytes res" where
  "check_signers env cr aggregate_signature aggregate_public_key signers s =
   and_then (unwrap (committees s (get_current_epoch env))) (\<lambda>current_committee.
   and_then (index signers 0) (\<lambda>first.
   and_then (ensure (first \<in> set current_committee) (Panic ''Node is not part of the committee'')) (\<lambda>_.
   and_then (signer_key cr s first) (\<lambda>k.
   and_then (aggregate_keys cr s current_committee (drop 1 signers) k) (\<lambda>reconstructed.
   and_then (unwrap (pk_to_uncompressed cr reconstructed)) (\<lambda>reconstructed_bytes.
   and_then (ensure (reconstructed_bytes = aggregate_public_key)
               (Panic ''Invalid aggregate public key'')) (\<lambda>_.
   and_then (internal_compute_merkle_root env cr s) (\<lambda>merkle_root.
   and_then (bn254_verify env merkle_root aggregate_signature aggregate_public_key) (\<lambda>valid.
   and_then (ensure valid (Panic ''Invalid aggregate signature'')) (\<lambda>_.
   Inr merkle_root))))))))))"

definition store_batch ::
  "near_env \<Rightarrow> 'pk crates \<Rightarrow> bytes \<Rightarrow> mainchain_contract \<Rightarrow> mainchain_contract res" where
  "store_batch env cr merkle_root s =
   and_then (arith_add (overflow_checks env) (num_batches s) 1) (\<lambda>h.
   let hdr = \<lparr>height = h, state_root = crypto_hash_default\<rparr>;
       b = \<lparr>header = hdr, transactions = data_request_accumulator s\<rparr>;
       bid = hash_borsh (sha256 env) (borsh_merklized_batch cr)
               \<lparr>mb_prev_root = get_latest_batch_id s, mb_header = hdr, mb_transactions = merkle_root\<rparr> in
   and_then (arith_add (overflow_checks env) (num_batches s) 1) (\<lambda>n.
   Inr (s\<lparr>num_batches := n,
          batch_by_id := (batch_by_id s)(bid \<mapsto> b),
          batch_ids_by_height := (batch_ids_by_height s)(n \<mapsto> bid),
          data_request_accumulator := []\<rparr>)))"

definition post_signed_batch ::
  "near_env \<Rightarrow> 'pk crates \<Rightarrow> bytes \<Rightarrow> bytes \<Rightarrow> account_id list \<Rightarrow> bytes \<Rightarrow>
   mainchain_contract \<Rightarrow> mainchain_contract res" where
  "post_signed_batch env cr aggregate_signature aggregate_public_key signers leader_signature s =
   manage_storage_deposit env s (\<lambda>s.
   and_then (process_epoch env s) (\<lambda>s.
   and_then (check_slot_leader env leader_signature s) (\<lambda>s.
   and_then (check_signers env cr aggregate_signature aggregate_public_key signers s) (\<lambda>merkle_root.
   and_then (store_batch env cr merkle_root s) (\<lambda>s.
   Inr (FallThrough, s))))))"

end
