(* ===== verification/Registry_Invariant.thy ===== *)
theory Registry_Invariant
  imports Node_Registry
begin

text \<open>
  Two invariants of the registry and what each method of \<open>node_registry.rs\<close> does to them.

  \<open>key_inv\<close> ties the nodes to the two key indexes; every method keeps it. \<open>stake_inv\<close> says
  that no account is active and inactive at once, that pending nodes are inactive, and that
  \<open>last_total_balance\<close> is what the nodes hold together. Registering an account twice, or
  unregistering a node that is pending, breaks it, and nothing else does: the guard
  \<open>fresh_account\<close> rules out the one, \<open>not_pending\<close> the other.
\<close>

section \<open>The invariants\<close>

definition registered :: "mainchain_contract \<Rightarrow> account_id \<Rightarrow> node \<Rightarrow> bool" where
  "registered s a n \<longleftrightarrow> um_get (active_nodes s) a = Some n \<or> um_get (inactive_nodes s) a = Some n"

definition key_inv :: "mainchain_contract \<Rightarrow> bool" where
  "key_inv s \<longleftrightarrow>
     um_invar (active_nodes s) \<and> um_invar (inactive_nodes s) \<and> um_invar (pending_nodes s) \<and>
     (\<forall>a n. registered s a n \<longrightarrow>
        nodes_by_ed25519_public_key s (ed25519_public_key n) = Some a \<and>
        nodes_by_bn254_public_key s (bn254_public_key n) = Some a)"

definition staked :: "mainchain_contract \<Rightarrow> nat" where
  "staked s = map_sum (unat \<circ> balance) (um_get (active_nodes s))
            + map_sum (unat \<circ> balance) (um_get (inactive_nodes s))"

definition partition_inv :: "mainchain_contract \<Rightarrow> bool" where
  "partition_inv s \<longleftrightarrow>
     (\<forall>a n. um_get (active_nodes s) a = Some n \<longrightarrow> um_get (inactive_nodes s) a = None) \<and>
     (\<forall>a e. um_get (pending_nodes s) a = Some e \<longrightarrow> (\<exists>n. um_get (inactive_nodes s) a = Some n))"

definition stake_inv :: "mainchain_contract \<Rightarrow> bool" where
  "stake_inv s \<longleftrightarrow> partition_inv s \<and> unat (last_total_balance s) = staked s"

definition fresh_account :: "near_env \<Rightarrow> mainchain_contract \<Rightarrow> bool" where
  "fresh_account env s \<longleftrightarrow> internal_get_node (signer_account_id env) s = None"

definition not_pending :: "bytes \<Rightarrow> mainchain_contract \<Rightarrow> bool" where
  "not_pending pk s \<longleftrightarrow>
     (case nodes_by_ed25519_public_key s pk of
        None \<Rightarrow> True | Some a \<Rightarrow> um_get (pending_nodes s) a = None)"

lemmas registry_inv_defs = key_inv_def stake_inv_def partition_inv_def staked_def registered_def

text \<open>The invariants read the node maps, the key indexes and the total only.\<close>

lemma key_inv_cong:
  assumes "active_nodes s' = active_nodes s" "inactive_nodes s' = inactive_nodes s"
    "pending_nodes s' = pending_nodes s"
    "nodes_by_ed25519_public_key s' = nodes_by_ed25519_public_key s"
    "nodes_by_bn254_public_key s' = nodes_by_bn254_public_key s"
  shows "key_inv s' = key_inv s"
  using assms by (simp add: key_inv_def registered_def)

lemma stake_inv_cong:
  assumes "active_nodes s' = active_nodes s" "inactive_nodes s' = inactive_nodes s"
    "pending_nodes s' = pending_nodes s" "last_total_balance s' = last_total_balance s"
  shows "stake_inv s' = stake_inv s"
  using assms by (simp add: stake_inv_def partition_inv_def staked_def)

lemma internal_get_node_registered: "internal_get_node a s = Some n \<Longrightarrow> registered s a n"
  by (auto simp: internal_get_node_eq_Some registered_def)


section \<open>Balance updates\<close>

lemma handle_node_balance_update_registered:
  assumes "handle_node_balance_update env a n s = Inr s'" and "registered s' b m"
  shows "b = a \<and> m = n \<or> registered s b m"
  using assms
  by (auto simp: handle_node_balance_update_def registered_def res_simps umap_simps split: if_splits)

lemma handle_node_balance_update_key_inv:
  assumes "handle_node_balance_update env a n s = Inr s'" and "key_inv s"
    and "valid_remove_order (remove_order env)" and "registered s a old"
    and "ed25519_public_key n = ed25519_public_key old"
    and "bn254_public_key n = bn254_public_key old"
  shows "key_inv s'"
proof -
  from assms(1) have idx: "nodes_by_ed25519_public_key s' = nodes_by_ed25519_public_key s"
    "nodes_by_bn254_public_key s' = nodes_by_bn254_public_key s"
    using handle_node_balance_update_frame by fastforce+
  from assms(1-3) have "um_invar (active_nodes s')" "um_invar (inactive_nodes s')"
    "um_invar (pending_nodes s')"
    by (auto simp: handle_node_balance_update_def key_inv_def res_simps split: if_splits)
  moreover have "nodes_by_ed25519_public_key s' (ed25519_public_key m) = Some b
      \<and> nodes_by_bn254_public_key s' (bn254_public_key m) = Some b" if "registered s' b m" for b m
    using handle_node_balance_update_registered [OF assms(1) that] assms(2,4-6) idx
    by (auto simp: key_inv_def)
  ultimately show ?thesis by (simp add: key_inv_def)
qed

lemma handle_node_balance_update_partition:
  assumes "handle_node_balance_update env a n s = Inr s'" and "partition_inv s"
    and "internal_get_node a s \<noteq> None"
  shows "partition_inv s'"
  using assms
  by (auto simp: handle_node_balance_update_def partition_inv_def res_simps umap_simps
      split: if_splits)

lemma handle_node_balance_update_staked:
  assumes "handle_node_balance_update env a n s = Inr s'" and "partition_inv s" and "key_inv s"
    and "internal_get_node a s = Some old"
  shows "staked s' + unat (balance old) = staked s + unat (balance n)"
proof -
  let ?w = "unat \<circ> balance"
  have fin: "finite (dom (um_get (active_nodes s)))" "finite (dom (um_get (inactive_nodes s)))"
    using assms(3) by (auto simp: key_inv_def)
  note change = map_sum_change [OF fin(1), of ?w a] map_sum_change [OF fin(2), of ?w a]
  show ?thesis
  proof (cases "um_get (active_nodes s) a")
    case None
    with assms have "um_get (inactive_nodes s) a = Some old"
      by (simp add: internal_get_node_eq_Some)
    with None assms(1) change(2) [of "Some n"] show ?thesis
      by (auto simp: handle_node_balance_update_def staked_def res_simps umap_simps split: if_splits)
  next
    case (Some m)
    with assms have "m = old" by (simp add: internal_get_node_eq_Some)
    have "um_get (inactive_nodes s) a = None"
      using Some assms(2) by (auto simp: partition_inv_def dom_def)
    with \<open>m = old\<close> Some assms(1) change(1) [of "Some n"] change(1) [of None] change(2) [of "Some n"]
    show ?thesis
      by (auto simp: handle_node_balance_update_def staked_def res_simps umap_simps split: if_splits)
  qed
qed

lemma handle_node_balance_update_stake:
  assumes "handle_node_balance_update env a n s = Inr s1" and "stake_inv s" and "key_inv s"
    and "internal_get_node a s = Some old"
    and "unat tot + unat (balance old) = unat (last_total_balance s) + unat (balance n)"
  shows "stake_inv (s1\<lparr>last_total_balance := tot\<rparr>)"
proof -
  have "partition_inv s1"
    using handle_node_balance_update_partition [OF assms(1)] assms(2,4) by (simp add: stake_inv_def)
  moreover have "staked s1 = unat tot"
    using handle_node_balance_update_staked [OF assms(1) _ assms(3,4)] assms(2,5)
    by (simp add: stake_inv_def)
  ultimately show ?thesis by (simp add: stake_inv_def partition_inv_def staked_def)
qed


section \<open>The methods and the key indexes\<close>

lemma deposit_key_inv:
  assumes "deposit env amount pk s = Inr s'" and "key_inv s" and "valid_remove_order (remove_order env)"
  shows "key_inv s'"
  using assms(1)
proof (cases rule: deposit_elim)
  case (1 b tb a n nb s1 tot)
  let ?s0 = "s\<lparr>token := (token s)\<lparr>accounts := (accounts (token s))(signer_account_id env \<mapsto> tb)\<rparr>\<rparr>"
  have "key_inv ?s0" using assms(2) by (subst key_inv_cong [of _ s]) simp_all
  moreover have "registered ?s0 a n"
    using internal_get_node_registered [OF 1(4)] by (simp add: registered_def)
  ultimately have "key_inv s1"
    using handle_node_balance_update_key_inv [OF 1(7) _ assms(3)] by simp
  then show ?thesis unfolding 1(9) by (subst key_inv_cong [of _ s1]) simp_all
qed

lemma withdraw_key_inv:
  assumes "withdraw env amount pk s = Inr s'" and "key_inv s" and "valid_remove_order (remove_order env)"
  shows "key_inv s'"
  using assms(1)
proof (cases rule: withdraw_elim)
  case (1 b tb a n nb dep deposited rest req s1 tot ts)
  let ?s0 = "s\<lparr>token := (token s)\<lparr>accounts := (accounts (token s))(signer_account_id env \<mapsto> tb)\<rparr>\<rparr>"
  have "key_inv ?s0" using assms(2) by (subst key_inv_cong [of _ s]) simp_all
  moreover have "registered ?s0 a n"
    using internal_get_node_registered [OF 1(3)] by (simp add: registered_def)
  ultimately have "key_inv s1"
    using handle_node_balance_update_key_inv [OF 1(14) _ assms(3)] by simp
  then show ?thesis unfolding 1(17) by (subst key_inv_cong [of _ s1]) simp_all
qed

lemma register_node_Inr:
  assumes "register_node env addr bn_pk sig s = Inr s'"
  shows "nodes_by_bn254_public_key s bn_pk = None"
    and "nodes_by_ed25519_public_key s (signer_account_pk env) = None"
    and "bn254_verify env (map (of_nat \<circ> of_char) (signer_account_id env)) sig bn_pk = Inr True"
    and "s' = s\<lparr>inactive_nodes := um_insert (signer_account_id env)
                 \<lparr>multi_addr = addr, balance = 0, bn254_public_key = bn_pk,
                  ed25519_public_key = signer_account_pk env\<rparr> (inactive_nodes s),
               nodes_by_bn254_public_key :=
                 (nodes_by_bn254_public_key s)(bn_pk \<mapsto> signer_account_id env),
               nodes_by_ed25519_public_key :=
                 (nodes_by_ed25519_public_key s)(signer_account_pk env \<mapsto> signer_account_id env)\<rparr>"
  using assms
  by (auto simp: register_node_def Let_def res_simps dest!: manage_storage_deposit_require_Inr)

lemma register_node_key_inv:
  assumes "register_node env addr bn_pk sig s = Inr s'" and "key_inv s"
  shows "key_inv s'"
proof -
  note new = register_node_Inr [OF assms(1)]
  have "nodes_by_ed25519_public_key s' (ed25519_public_key n) = Some a
      \<and> nodes_by_bn254_public_key s' (bn254_public_key n) = Some a" if "registered s' a n" for a n
  proof (cases "registered s a n")
    case True
    with assms(2) have "nodes_by_ed25519_public_key s (ed25519_public_key n) = Some a"
      "nodes_by_bn254_public_key s (bn254_public_key n) = Some a"
      by (simp_all add: key_inv_def)
    with new(1,2) show ?thesis by (auto simp: new(4))
  next
    case False
    with that show ?thesis by (auto simp: new(4) registered_def umap_simps split: if_splits)
  qed
  moreover have "um_invar (active_nodes s')" "um_invar (inactive_nodes s')" "um_invar (pending_nodes s')"
    using assms(2) by (auto simp: key_inv_def new(4))
  ultimately show ?thesis by (simp add: key_inv_def)
qed

lemma unregister_node_Inr:
  assumes "unregister_node env pk s = Inr s'"
  shows "\<exists>a n ts. signer_account_pk env = pk \<and> nodes_by_ed25519_public_key s pk = Some a
    \<and> internal_get_node a s = Some n \<and> balance n = 0
    \<and> s' = s\<lparr>inactive_nodes := um_remove (remove_order env) a (inactive_nodes s), transfers := ts\<rparr>"
proof -
  have "\<exists>a n. signer_account_pk env = pk \<and> nodes_by_ed25519_public_key s pk = Some a
    \<and> internal_get_node a s = Some n \<and> balance n = 0
    \<and> s' = s\<lparr>inactive_nodes := um_remove (remove_order env) a (inactive_nodes s),
             transfers := transfers s'\<rparr>"
    using assms unfolding unregister_node_def
    by (auto simp: and_then_eq_Inr ensure_eq_Inr unwrap_eq_Inr
        get_expect_node_by_ed25519_public_key_Inr dest!: manage_storage_deposit_refund_result)
  then show ?thesis by blast
qed

lemma unregister_node_key_inv:
  assumes "unregister_node env pk s = Inr s'" and "key_inv s"
    and "valid_remove_order (remove_order env)"
  shows "key_inv s'"
  using unregister_node_Inr [OF assms(1)] assms(2,3)
  by (auto simp: key_inv_def registered_def umap_simps split: if_splits)

lemma update_node_Inr:
  assumes "update_node env (SetSocketAddress addr) s = Inr s'"
  shows "\<exists>n ts. internal_get_node (signer_account_id env) s = Some n
    \<and> s' = (if um_get (active_nodes s) (signer_account_id env) \<noteq> None
            then s\<lparr>active_nodes := um_insert (signer_account_id env) (n\<lparr>multi_addr := addr\<rparr>) (active_nodes s)\<rparr>
            else s\<lparr>inactive_nodes := um_insert (signer_account_id env) (n\<lparr>multi_addr := addr\<rparr>) (inactive_nodes s)\<rparr>)
           \<lparr>transfers := ts\<rparr>"
proof -
  have "\<exists>n. internal_get_node (signer_account_id env) s = Some n
    \<and> s' = (if um_get (active_nodes s) (signer_account_id env) \<noteq> None
            then s\<lparr>active_nodes := um_insert (signer_account_id env) (n\<lparr>multi_addr := addr\<rparr>) (active_nodes s)\<rparr>
            else s\<lparr>inactive_nodes := um_insert (signer_account_id env) (n\<lparr>multi_addr := addr\<rparr>) (inactive_nodes s)\<rparr>)
           \<lparr>transfers := transfers s'\<rparr>"
    using assms
    by (auto simp: update_node_def get_expect_node_def Let_def and_then_eq_Inr expect_eq_Inr
        dest!: manage_storage_deposit_result)
  then show ?thesis by blast
qed

lemma update_node_key_inv:
  assumes "update_node env cmd s = Inr s'" and "key_inv s"
  shows "key_inv s'"
proof -
  obtain addr where "cmd = SetSocketAddress addr" by (cases cmd)
  with update_node_Inr assms(1) obtain n ts where
    n: "internal_get_node (signer_account_id env) s = Some n"
    and s': "s' = (if um_get (active_nodes s) (signer_account_id env) \<noteq> None
            then s\<lparr>active_nodes := um_insert (signer_account_id env) (n\<lparr>multi_addr := addr\<rparr>) (active_nodes s)\<rparr>
            else s\<lparr>inactive_nodes := um_insert (signer_account_id env) (n\<lparr>multi_addr := addr\<rparr>) (inactive_nodes s)\<rparr>)
           \<lparr>transfers := ts\<rparr>"
    by blast
  from internal_get_node_registered [OF n] assms(2) show ?thesis
    unfolding s' by (auto simp: key_inv_def registered_def umap_simps split: if_splits)
qed

text \<open>Requesting and cancelling a withdrawal leave everything but the requests alone.\<close>

lemma request_withdraw_Inr:
  assumes "request_withdraw env amount pk s = Inr (r, s')"
  shows "\<exists>a n dep deposited epoch. 0 < amount \<and> nodes_by_ed25519_public_key s pk = Some a
    \<and> internal_get_node a s = Some n \<and> amount \<le> balance n
    \<and> depositors s (signer_account_id env) = Some dep \<and> um_get dep pk = Some deposited
    \<and> amount \<le> deposited \<and> requests_of s pk (signer_account_id env) = None
    \<and> arith_add (overflow_checks env) (get_current_epoch env) (withdraw_delay (config s)) = Inr epoch
    \<and> s' = s\<lparr>withdraw_requests := (withdraw_requests s)(pk \<mapsto> (requests_of s pk)
              (signer_account_id env \<mapsto> \<lparr>wr_amount = amount, wr_epoch = epoch\<rparr>))\<rparr>"
  using assms unfolding request_withdraw_def Let_def
  by (auto simp: and_then_eq_Inr ensure_eq_Inr unwrap_eq_Inr expect_eq_Inr
      get_expect_node_by_ed25519_public_key_Inr dest!: manage_storage_deposit_require_Inr)

lemma cancel_withdraw_request_Inr:
  assumes "cancel_withdraw_request env pk s = Inr s'"
  shows "\<exists>ts. s' = s\<lparr>withdraw_requests := (withdraw_requests s)
           (pk \<mapsto> (requests_of s pk)(signer_account_id env := None)), transfers := ts\<rparr>"
proof -
  have "s' = s\<lparr>withdraw_requests := (withdraw_requests s)
      (pk \<mapsto> (requests_of s pk)(signer_account_id env := None)), transfers := transfers s'\<rparr>"
    using assms unfolding cancel_withdraw_request_def Let_def
    by (auto simp: and_then_eq_Inr dest!: manage_storage_deposit_result)
  then show ?thesis by blast
qed


section \<open>The methods and the stakes\<close>

lemma deposit_stake_inv:
  assumes "deposit env amount pk s = Inr s'" and "stake_inv s" and "key_inv s" and "overflow_checks env"
  shows "stake_inv s'"
  using assms(1)
proof (cases rule: deposit_elim)
  case (1 b tb a n nb s1 tot)
  let ?s0 = "s\<lparr>token := (token s)\<lparr>accounts := (accounts (token s))(signer_account_id env \<mapsto> tb)\<rparr>\<rparr>"
  have inv: "stake_inv ?s0" "key_inv ?s0" "internal_get_node a ?s0 = Some n"
    using assms(2,3) 1(4) by (simp_all add: stake_inv_cong [of ?s0 s] key_inv_cong [of ?s0 s])
  have add: "arith_add True (balance n) amount = Inr nb"
    "arith_add True (last_total_balance s) amount = Inr tot"
    using 1(5,8) assms(4) by simp_all
  have "stake_inv (s1\<lparr>last_total_balance := tot\<rparr>)"
    by (rule handle_node_balance_update_stake [OF 1(7) inv])
      (use arith_add_exact [OF add(1)] arith_add_exact [OF add(2)] in simp)
  then show ?thesis
    unfolding 1(9) by (subst stake_inv_cong [of _ "s1\<lparr>last_total_balance := tot\<rparr>"]) simp_all
qed

lemma withdraw_stake_inv:
  assumes "withdraw env amount pk s = Inr s'" and "stake_inv s" and "key_inv s" and "overflow_checks env"
  shows "stake_inv s'"
  using assms(1)
proof (cases rule: withdraw_elim)
  case (1 b tb a n nb dep deposited rest req s1 tot ts)
  let ?s0 = "s\<lparr>token := (token s)\<lparr>accounts := (accounts (token s))(signer_account_id env \<mapsto> tb)\<rparr>\<rparr>"
  have inv: "stake_inv ?s0" "key_inv ?s0" "internal_get_node a ?s0 = Some n"
    using assms(2,3) 1(3) by (simp_all add: stake_inv_cong [of ?s0 s] key_inv_cong [of ?s0 s])
  have sub: "arith_sub True (balance n) amount = Inr nb"
    "arith_sub True (last_total_balance s) amount = Inr tot"
    using 1(13,16) assms(4) by simp_all
  have "stake_inv (s1\<lparr>last_total_balance := tot\<rparr>)"
    by (rule handle_node_balance_update_stake [OF 1(14) inv])
      (use arith_sub_exact [OF sub(1)] arith_sub_exact [OF sub(2)] in simp)
  then show ?thesis
    unfolding 1(17) by (subst stake_inv_cong [of _ "s1\<lparr>last_total_balance := tot\<rparr>"]) simp_all
qed

lemma register_node_stake_inv:
  assumes "register_node env addr bn_pk sig s = Inr s'" and "stake_inv s" and "key_inv s"
    and "fresh_account env s"
  shows "stake_inv s'"
proof -
  let ?a = "signer_account_id env"
  have fresh: "um_get (active_nodes s) ?a = None" "um_get (inactive_nodes s) ?a = None"
    using assms(4) by (auto simp: fresh_account_def internal_get_node_def split: option.splits)
  have fin: "finite (dom (um_get (inactive_nodes s)))" using assms(3) by (auto simp: key_inv_def)
  show ?thesis
    using assms(2) fresh map_sum_change [OF fin, of "unat \<circ> balance" ?a]
    unfolding register_node_Inr(4) [OF assms(1)]
    by (auto simp: stake_inv_def partition_inv_def staked_def umap_simps)
qed

lemma unregister_node_stake_inv:
  assumes "unregister_node env pk s = Inr s'" and "stake_inv s" and "key_inv s" and "not_pending pk s"
  shows "stake_inv s'"
proof -
  from unregister_node_Inr [OF assms(1)] obtain a n ts where
    a: "nodes_by_ed25519_public_key s pk = Some a" and n: "internal_get_node a s = Some n"
    and z: "balance n = 0"
    and s': "s' = s\<lparr>inactive_nodes := um_remove (remove_order env) a (inactive_nodes s), transfers := ts\<rparr>"
    by blast
  have p: "um_get (pending_nodes s) a = None" using assms(4) a by (simp add: not_pending_def)
  have "weight_at (unat \<circ> balance) (um_get (inactive_nodes s) a) = 0"
    using n z assms(2) by (auto simp: internal_get_node_eq_Some stake_inv_def partition_inv_def)
  moreover have fin: "finite (dom (um_get (inactive_nodes s)))" using assms(3) by (auto simp: key_inv_def)
  ultimately show ?thesis
    using assms(2) p map_sum_change [OF fin, of "unat \<circ> balance" a None] unfolding s'
    by (auto simp: stake_inv_def partition_inv_def staked_def umap_simps)
qed

lemma update_node_stake_inv:
  assumes "update_node env cmd s = Inr s'" and "stake_inv s" and "key_inv s"
  shows "stake_inv s'"
proof -
  let ?a = "signer_account_id env" and ?w = "unat \<circ> balance"
  obtain addr where "cmd = SetSocketAddress addr" by (cases cmd)
  with update_node_Inr assms(1) obtain n ts where
    n: "internal_get_node ?a s = Some n"
    and s': "s' = (if um_get (active_nodes s) ?a \<noteq> None
            then s\<lparr>active_nodes := um_insert ?a (n\<lparr>multi_addr := addr\<rparr>) (active_nodes s)\<rparr>
            else s\<lparr>inactive_nodes := um_insert ?a (n\<lparr>multi_addr := addr\<rparr>) (inactive_nodes s)\<rparr>)
           \<lparr>transfers := ts\<rparr>"
    by blast
  have fin: "finite (dom (um_get (active_nodes s)))" "finite (dom (um_get (inactive_nodes s)))"
    using assms(3) by (auto simp: key_inv_def)
  show ?thesis
    using n assms(2) map_sum_change [OF fin(1), of ?w ?a "Some (n\<lparr>multi_addr := addr\<rparr>)"]
      map_sum_change [OF fin(2), of ?w ?a "Some (n\<lparr>multi_addr := addr\<rparr>)"]
    unfolding s' internal_get_node_eq_Some
    by (auto simp: stake_inv_def partition_inv_def staked_def umap_simps)
qed

end
