(* ===== verification/Epoch_Invariant.thy ===== *)
theory Epoch_Invariant
  imports Batch Registry_Invariant
begin

text \<open>
  What processing an epoch does (\<open>contracts/src/epoch.rs\<close>): the activation of the pending
  nodes, the three ways \<open>process_epoch\<close> can end, and the invariants it keeps.
\<close>

section \<open>Activation\<close>

lemma activate_node_Inr:
  assumes "activate_node env a s = Inr s'"
  shows "\<exists>n. um_get (inactive_nodes s) a = Some n \<and>
    s' = s\<lparr>active_nodes := um_insert a n (active_nodes s),
           inactive_nodes := um_remove (remove_order env) a (inactive_nodes s),
           pending_nodes := um_remove (remove_order env) a (pending_nodes s)\<rparr>"
  using assms by (auto simp: activate_node_def and_then_eq_Inr unwrap_eq_Inr)

lemma activate_nodes_frame:
  assumes "activate_nodes env as s = Inr s'"
  shows "\<exists>ac ia pe. s' = s\<lparr>active_nodes := ac, inactive_nodes := ia, pending_nodes := pe\<rparr>"
proof -
  have "s' = s\<lparr>active_nodes := active_nodes s', inactive_nodes := inactive_nodes s',
              pending_nodes := pending_nodes s'\<rparr>"
    using assms
  proof (induction "as" arbitrary: s)
    case Nil
    then show ?case by simp
  next
    case (Cons a "as")
    then obtain s1 where s1: "activate_node env a s = Inr s1" and "activate_nodes env as s1 = Inr s'"
      by (auto simp: and_then_eq_Inr)
    with Cons.IH have "s' = s1\<lparr>active_nodes := active_nodes s', inactive_nodes := inactive_nodes s',
              pending_nodes := pending_nodes s'\<rparr>" by blast
    also have "\<dots> = s\<lparr>active_nodes := active_nodes s', inactive_nodes := inactive_nodes s',
              pending_nodes := pending_nodes s'\<rparr>"
      using activate_node_Inr [OF s1] by auto
    finally show ?case .
  qed
  then show ?thesis by blast
qed

lemma activate_node_key_inv:
  assumes "activate_node env a s = Inr s'" and "key_inv s" and "valid_remove_order (remove_order env)"
  shows "key_inv s'"
  using activate_node_Inr [OF assms(1)] assms(2,3)
  by (auto simp: key_inv_def registered_def umap_simps split: if_splits)

lemma activate_node_stake_inv:
  assumes "activate_node env a s = Inr s'" and "stake_inv s" and "key_inv s"
  shows "stake_inv s'"
proof -
  from activate_node_Inr [OF assms(1)] obtain n where
    n: "um_get (inactive_nodes s) a = Some n"
    and s': "s' = s\<lparr>active_nodes := um_insert a n (active_nodes s),
           inactive_nodes := um_remove (remove_order env) a (inactive_nodes s),
           pending_nodes := um_remove (remove_order env) a (pending_nodes s)\<rparr>"
    by blast
  have fin: "finite (dom (um_get (active_nodes s)))" "finite (dom (um_get (inactive_nodes s)))"
    using assms(3) by (auto simp: key_inv_def)
  have "um_get (active_nodes s) a = None"
    using n assms(2) by (cases "um_get (active_nodes s) a") (auto simp: stake_inv_def partition_inv_def)
  with n assms(2) map_sum_change [OF fin(1), of "unat \<circ> balance" a "Some n"]
    map_sum_change [OF fin(2), of "unat \<circ> balance" a None]
  show ?thesis
    unfolding s' by (auto simp: stake_inv_def partition_inv_def staked_def umap_simps)
qed

lemma activate_nodes_key_inv:
  assumes "activate_nodes env as s = Inr s'" and "key_inv s" and "valid_remove_order (remove_order env)"
  shows "key_inv s'"
  using assms by (induction "as" arbitrary: s) (auto simp: and_then_eq_Inr dest: activate_node_key_inv)

lemma activate_nodes_stake_inv:
  assumes "activate_nodes env as s = Inr s'" and "key_inv s" and "stake_inv s"
    and "valid_remove_order (remove_order env)"
  shows "stake_inv s'"
  using assms
  by (induction "as" arbitrary: s)
    (auto simp: and_then_eq_Inr dest: activate_node_stake_inv activate_node_key_inv)

text \<open>Where pending nodes are inactive, activation does not panic and activates exactly the given nodes.\<close>

lemma activate_nodes_succeeds:
  assumes "distinct as" and "\<forall>a \<in> set as. um_get (inactive_nodes s) a \<noteq> None"
  shows "\<exists>s'. activate_nodes env as s = Inr s' \<and>
    um_get (active_nodes s') = (\<lambda>a. if a \<in> set as then um_get (inactive_nodes s) a
                                    else um_get (active_nodes s) a) \<and>
    um_get (inactive_nodes s') = (um_get (inactive_nodes s)) |` (- set as) \<and>
    um_get (pending_nodes s') = (um_get (pending_nodes s)) |` (- set as)"
  using assms
proof (induction "as" arbitrary: s)
  case Nil
  then show ?case by (simp add: fun_eq_iff)
next
  case (Cons a "as")
  then obtain n where n: "um_get (inactive_nodes s) a = Some n" by auto
  define s1 where "s1 = s\<lparr>active_nodes := um_insert a n (active_nodes s),
           inactive_nodes := um_remove (remove_order env) a (inactive_nodes s),
           pending_nodes := um_remove (remove_order env) a (pending_nodes s)\<rparr>"
  have step: "activate_node env a s = Inr s1" using n by (simp add: activate_node_def s1_def)
  have "\<forall>b \<in> set as. um_get (inactive_nodes s1) b \<noteq> None"
    using Cons.prems by (auto simp: s1_def umap_simps)
  with Cons.IH [of s1] Cons.prems(1) obtain s' where s': "activate_nodes env as s1 = Inr s'"
    "um_get (active_nodes s') = (\<lambda>b. if b \<in> set as then um_get (inactive_nodes s1) b
                                    else um_get (active_nodes s1) b)"
    "um_get (inactive_nodes s') = (um_get (inactive_nodes s1)) |` (- set as)"
    "um_get (pending_nodes s') = (um_get (pending_nodes s1)) |` (- set as)"
    by auto
  have "a \<notin> set as" using Cons.prems(1) by simp
  with step s' n show ?case
    by (auto simp: s1_def umap_simps fun_eq_iff restrict_map_def)
qed

lemma activate_nodes_blocked:
  assumes "a \<in> set as" and "um_get (inactive_nodes s) a = None"
  shows "activate_nodes env as s = Inl UnwrapNone"
  using assms
proof (induction "as" arbitrary: s)
  case (Cons b "as")
  show ?case
  proof (cases "um_get (inactive_nodes s) b")
    case None
    then show ?thesis by (simp add: activate_node_def)
  next
    case (Some n)
    with Cons.prems have "a \<in> set as" by auto
    with Some Cons show ?thesis by (simp add: activate_node_def umap_simps)
  qed
qed simp

lemma map_fst_um_iter: "um_invar m \<Longrightarrow> map fst (um_iter m) = um_keys m"
proof -
  assume inv: "um_invar m"
  have "map fst (concat (map (\<lambda>k. case um_map m k of None \<Rightarrow> [] | Some v \<Rightarrow> [(k, v)]) ks)) = ks"
    if "set ks \<subseteq> dom (um_map m)" for ks
    using that by (induction ks) (auto split: option.splits)
  with inv show ?thesis by (simp add: um_iter_def um_invar_def)
qed

lemma eligible_nodes_distinct:
  assumes "um_invar (pending_nodes s)"
  shows "distinct (eligible_nodes epoch s)"
  using assms map_fst_um_iter [OF assms] distinct_map_filter [of fst "um_iter (pending_nodes s)"]
  by (simp add: eligible_nodes_def um_invar_def)

lemma set_eligible_nodes:
  assumes "um_invar (pending_nodes s)"
  shows "set (eligible_nodes epoch s) = {a. \<exists>e. um_get (pending_nodes s) a = Some e \<and> e \<le> epoch}"
  by (auto simp: eligible_nodes_def set_um_iter [OF assms] image_iff)


section \<open>How processing an epoch ends\<close>

lemma select_committee_cong:
  assumes "active_nodes s' = active_nodes s" and "config s' = config s"
  shows "select_committee env r s' = select_committee env r s"
  using assms by (simp add: select_committee_def)

lemma select_committee_frame [simp]:
  "select_committee env r (s\<lparr>committees := c\<rparr>) = select_committee env r s"
  "select_committee env r (s\<lparr>bootstrapping_phase := b\<rparr>) = select_committee env r s"
  "select_committee env r (s\<lparr>bootstrapping_phase := b, committees := c\<rparr>) = select_committee env r s"
  by (rule select_committee_cong; simp)+

lemma lookahead_list: "[0..<unat EPOCH_COMMITTEES_LOOKAHEAD] = [0, 1]"
  by (simp add: EPOCH_COMMITTEES_LOOKAHEAD_def upt_rec)

lemma arith_add_value: "arith_add p a b = Inr c \<Longrightarrow> c = a + b"
  by (simp add: arith_eq_Inr)

lemma select_lookahead_Inr:
  assumes "select_lookahead env epoch [0, 1] (s\<lparr>bootstrapping_phase := False\<rparr>) = Inr s'"
  shows "\<exists>c. select_committee env (last_generated_random_number s) s = Inr c \<and>
    s' = s\<lparr>bootstrapping_phase := False,
           committees := (committees s)(epoch \<mapsto> c, epoch + 1 \<mapsto> c)\<rparr>"
  using assms by (auto simp: and_then_eq_Inr dest!: arith_add_value)

lemma manage_storage_deposit_Returned:
  assumes "manage_storage_deposit env s block = Inr s'" and "block s = Inr (Returned, s1)"
  shows "s' = s1"
  using assms by (simp add: manage_storage_deposit_def Let_def)

lemma process_epoch_elim:
  assumes "process_epoch env s = Inr s'"
  obtains (processed) "get_current_epoch env \<le> last_processed_epoch s" and "s' = s"
  | (waiting) "last_processed_epoch s < get_current_epoch env"
      and "activate_nodes env (eligible_nodes (get_current_epoch env) s) s = Inr s'"
      and "bootstrapping_phase s'" and "um_len (active_nodes s') < committee_size (config s')"
  | (selected) s1 c cs ts where "last_processed_epoch s < get_current_epoch env"
      and "activate_nodes env (eligible_nodes (get_current_epoch env) s) s = Inr s1"
      and "\<not> (bootstrapping_phase s1 \<and> um_len (active_nodes s1) < committee_size (config s1))"
      and "select_committee env (last_generated_random_number s1) s1 = Inr c"
      and "cs = (if bootstrapping_phase s1
                 then (committees s1)(get_current_epoch env \<mapsto> c, get_current_epoch env + 1 \<mapsto> c)
                 else committees s1)"
      and "s' = s1\<lparr>bootstrapping_phase := False,
                 committees := cs(get_current_epoch env + EPOCH_COMMITTEES_LOOKAHEAD \<mapsto> c),
                 last_processed_epoch := get_current_epoch env, transfers := ts\<rparr>"
proof (cases "get_current_epoch env \<le> last_processed_epoch s")
  case True
  with manage_storage_deposit_Returned [OF assms [unfolded process_epoch_def Let_def], of s] show thesis
    by (intro processed) simp_all
next
  case False
  let ?e = "get_current_epoch env"
  from manage_storage_deposit_Inr [OF assms [unfolded process_epoch_def Let_def]] False
  obtain s1 where s1: "activate_nodes env (eligible_nodes ?e s) s = Inr s1"
    by (auto simp: and_then_eq_Inr)
  show thesis
  proof (cases "bootstrapping_phase s1 \<and> um_len (active_nodes s1) < committee_size (config s1)")
    case True
    with manage_storage_deposit_Returned [OF assms [unfolded process_epoch_def Let_def], of s1] False s1
    show thesis by (intro waiting) simp_all
  next
    case wait: False
    from manage_storage_deposit_Inr [OF assms [unfolded process_epoch_def Let_def lookahead_list]] False s1 wait
    obtain s2 c e ts where
      s2: "(if bootstrapping_phase s1
           then select_lookahead env ?e [0, 1] (s1\<lparr>bootstrapping_phase := False\<rparr>) else Inr s1) = Inr s2"
      and c: "select_committee env (last_generated_random_number s2) s2 = Inr c"
      and e: "arith_add (overflow_checks env) ?e EPOCH_COMMITTEES_LOOKAHEAD = Inr e"
      and s': "s' = s2\<lparr>committees := (committees s2)(e \<mapsto> c), last_processed_epoch := ?e, transfers := ts\<rparr>"
      by (clarsimp simp: and_then_eq_Inr simp del: select_lookahead.simps)
    show thesis
    proof (cases "bootstrapping_phase s1")
      case True
      with s2 have look: "select_lookahead env ?e [0, 1] (s1\<lparr>bootstrapping_phase := False\<rparr>) = Inr s2"
        by (simp only: if_True)
      from select_lookahead_Inr [OF look] obtain c' where
        c': "select_committee env (last_generated_random_number s1) s1 = Inr c'"
        and s2': "s2 = s1\<lparr>bootstrapping_phase := False,
            committees := (committees s1)(?e \<mapsto> c', ?e + 1 \<mapsto> c')\<rparr>" by blast
      from c c' have "c' = c" unfolding s2' by simp
      show thesis
        by (rule selected [OF _ s1 wait c' refl, of ts])
          (use False True s' s2' arith_add_value [OF e] \<open>c' = c\<close> in auto)
    next
      case noboot: False
      with s2 have "s2 = s1" by simp
      show thesis
        by (rule selected [OF _ s1 wait _ refl, of c ts])
          (use False noboot s' c arith_add_value [OF e] \<open>s2 = s1\<close> in auto)
    qed
  qed
qed

end
