(* ===== verification/Mainchain.thy ===== *)
theory Mainchain
  imports Epoch_Invariant
begin

text \<open>
  The contract as a transition system: one step per public method that changes state, under
  every environment a call may see, and its invariants. The clock is the block height of the
  last call; blocks do not go back.

  The methods of the token standard (\<open>ft_transfer\<close>, \<open>storage_deposit\<close> and so on) are generated
  by the library's macros. A step \<open>token_move\<close> stands for them: they may change the balances
  in any way that creates no tokens (they burn some when an account is closed).
\<close>

section \<open>Calls\<close>

datatype call =
    RegisterNode string bytes bytes
  | UnregisterNode bytes
  | UpdateNode update_node_command
  | Deposit u128 bytes
  | RequestWithdraw u128 bytes
  | CancelWithdrawRequest bytes
  | Withdraw u128 bytes
  | UpdateConfig update_config_key u128
  | ProcessEpoch
  | PostDataRequest string
  | PostSignedBatch bytes bytes "account_id list" bytes

definition exec :: "'pk crates \<Rightarrow> near_env \<Rightarrow> call \<Rightarrow> mainchain_contract \<Rightarrow> mainchain_contract res" where
  "exec cr env c s =
   (case c of
      RegisterNode addr bn_pk sig \<Rightarrow> register_node env addr bn_pk sig s
    | UnregisterNode pk \<Rightarrow> unregister_node env pk s
    | UpdateNode cmd \<Rightarrow> update_node env cmd s
    | Deposit amount pk \<Rightarrow> deposit env amount pk s
    | RequestWithdraw amount pk \<Rightarrow>
        and_then (request_withdraw env amount pk s) (\<lambda>(_, s'). Inr s')
    | CancelWithdrawRequest pk \<Rightarrow> cancel_withdraw_request env pk s
    | Withdraw amount pk \<Rightarrow> withdraw env amount pk s
    | UpdateConfig key v \<Rightarrow> update_config env key v s
    | ProcessEpoch \<Rightarrow> process_epoch env s
    | PostDataRequest r \<Rightarrow> post_data_request env r s
    | PostSignedBatch sig pk signers leader_sig \<Rightarrow> post_signed_batch env cr sig pk signers leader_sig s)"

type_synonym chain = "u64 \<times> mainchain_contract"

definition token_move :: "fungible_token \<Rightarrow> fungible_token \<Rightarrow> bool" where
  "token_move t t' \<longleftrightarrow>
     (finite (dom (accounts t)) \<longrightarrow>
        finite (dom (accounts t')) \<and> map_sum unat (accounts t') \<le> map_sum unat (accounts t))"

inductive mainchain_step ::
  "'pk crates \<Rightarrow> (near_env \<Rightarrow> call \<Rightarrow> mainchain_contract \<Rightarrow> bool) \<Rightarrow> chain \<Rightarrow> chain \<Rightarrow> bool"
  for cr :: "'pk crates" and allowed :: "near_env \<Rightarrow> call \<Rightarrow> mainchain_contract \<Rightarrow> bool" where
  call: "clk \<le> block_height env \<Longrightarrow> valid_remove_order (remove_order env) \<Longrightarrow> allowed env c s \<Longrightarrow>
     exec cr env c s = Inr s' \<Longrightarrow> mainchain_step cr allowed (clk, s) (block_height env, s')"
| library: "token_move (token s) t \<Longrightarrow> mainchain_step cr allowed (clk, s) (clk, s\<lparr>token := t\<rparr>)"

inductive_cases mainchain_stepE: "mainchain_step cr allowed (clk, s) (clk', s')"

lemma mainchain_step_mono:
  assumes "mainchain_step cr allowed p q" and "\<And>env c s. allowed env c s \<Longrightarrow> allowed' env c s"
  shows "mainchain_step cr allowed' p q"
  using assms by (cases rule: mainchain_step.cases) (auto intro: mainchain_step.intros)

definition initial :: "u128 \<Rightarrow> chain \<Rightarrow> bool" where
  "initial supply = (\<lambda>(clk, s).
     (\<exists>valid check reg dep ex dao_id meta c_size seed.
        new valid check reg dep ex dao_id supply meta c_size seed = Inr s)
     \<and> finite (dom (accounts (token s))) \<and> circulating s = unat supply)"

text \<open>Three restrictions on the calls: none, builds with overflow checks, and disciplined callers.\<close>

definition any_call :: "near_env \<Rightarrow> call \<Rightarrow> mainchain_contract \<Rightarrow> bool" where
  "any_call env c s = True"

definition checked_call :: "near_env \<Rightarrow> call \<Rightarrow> mainchain_contract \<Rightarrow> bool" where
  "checked_call env c s = overflow_checks env"

definition disciplined_call :: "near_env \<Rightarrow> call \<Rightarrow> mainchain_contract \<Rightarrow> bool" where
  "disciplined_call env c s \<longleftrightarrow> overflow_checks env \<and>
     (case c of
        RegisterNode _ _ _ \<Rightarrow> fresh_account env s
      | UnregisterNode pk \<Rightarrow> not_pending pk s
      | _ \<Rightarrow> True)"

lemma reachable_mono:
  assumes "reachable init (mainchain_step cr allowed) p"
    and "\<And>env c s. allowed env c s \<Longrightarrow> allowed' env c s"
  shows "reachable init (mainchain_step cr allowed') p"
  using assms(1)
  by (induction rule: reachable.induct) (auto intro: reachable.intros mainchain_step_mono assms(2))

lemma disciplined_checked: "disciplined_call env c s \<Longrightarrow> checked_call env c s"
  by (simp add: disciplined_call_def checked_call_def)

lemma initial_state:
  assumes "initial sp (h, s)"
  shows "active_nodes s = um_new" "inactive_nodes s = um_new" "pending_nodes s = um_new"
    "last_total_balance s = 0" "committees s = Map.empty" "bootstrapping_phase s"
    "num_batches s = 0" "batch_ids_by_height s = Map.empty" "batch_by_id s = Map.empty"
    "finite (dom (accounts (token s)))" "circulating s = unat sp" "last_processed_epoch s = 0"
  using assms by (auto simp: initial_def new_def and_then_eq_Inr)


section \<open>Frames of the batch methods\<close>

lemma check_slot_leader_Inr:
  assumes "check_slot_leader env sig s = Inr s'"
  shows "\<exists>r. s' = s\<lparr>last_generated_random_number := r\<rparr>"
    and "get_current_slot_leader env s = Inr (Some (signer_account_id env))"
    and "\<exists>n. um_get (active_nodes s) (signer_account_id env) = Some n \<and>
      bn254_verify env (to_le_bytes 32 (last_generated_random_number s)) sig (bn254_public_key n) = Inr True"
  using assms
  by (auto simp: check_slot_leader_def Let_def and_then_eq_Inr unwrap_eq_Inr ensure_eq_Inr)

lemma aggregate_keys_Inr:
  assumes "aggregate_keys cr s com signers acc = Inr k"
  shows "set signers \<subseteq> set com \<and> (\<forall>a \<in> set signers. is_node_active a s) \<and>
    (\<exists>ks. list_all2 (\<lambda>a k. signer_key cr s a = Inr k) signers ks \<and> k = foldl (pk_add cr) acc ks)"
  using assms
proof (induction signers arbitrary: acc)
  case (Cons a signers)
  then obtain k1 where k1: "signer_key cr s a = Inr k1" "a \<in> set com"
    and rest: "aggregate_keys cr s com signers (pk_add cr acc k1) = Inr k"
    by (auto simp: and_then_eq_Inr ensure_eq_Inr)
  from Cons.IH [OF rest] obtain ks where
    "list_all2 (\<lambda>a k. signer_key cr s a = Inr k) signers ks" "k = foldl (pk_add cr) (pk_add cr acc k1) ks"
    by blast
  then have "list_all2 (\<lambda>a k. signer_key cr s a = Inr k) (a # signers) (k1 # ks)"
    "k = foldl (pk_add cr) acc (k1 # ks)" using k1 by simp_all
  moreover have "is_node_active a s"
    using k1(1) by (auto simp: signer_key_def is_node_active_def and_then_eq_Inr unwrap_eq_Inr)
  ultimately show ?case using Cons.IH [OF rest] k1(2) by (auto simp del: foldl_Cons list_all2_Cons)
qed simp

lemma check_signers_Inr:
  assumes "check_signers env cr sig pk signers s = Inr root"
  shows "\<exists>c ks k. committees s (get_current_epoch env) = Some c \<and> signers \<noteq> [] \<and> set signers \<subseteq> set c \<and>
    (\<forall>a \<in> set signers. is_node_active a s) \<and>
    list_all2 (\<lambda>a k. signer_key cr s a = Inr k) signers (k # ks) \<and>
    pk_to_uncompressed cr (foldl (pk_add cr) k ks) = Some pk \<and>
    internal_compute_merkle_root env cr s = Inr root \<and> bn254_verify env root sig pk = Inr True"
proof -
  from assms obtain c k agg where c: "committees s (get_current_epoch env) = Some c"
    and first: "signers \<noteq> []" "hd signers \<in> set c" "signer_key cr s (hd signers) = Inr k"
    and agg: "aggregate_keys cr s c (tl signers) k = Inr agg"
    and pk: "pk_to_uncompressed cr agg = Some pk"
    and root: "internal_compute_merkle_root env cr s = Inr root" "bn254_verify env root sig pk = Inr True"
    by (auto simp: check_signers_def and_then_eq_Inr ensure_eq_Inr unwrap_eq_Inr index_eq_Inr hd_conv_nth
        drop_Suc)
  from aggregate_keys_Inr [OF agg] obtain ks where
    ks: "set (tl signers) \<subseteq> set c" "\<forall>a \<in> set (tl signers). is_node_active a s"
      "list_all2 (\<lambda>a k. signer_key cr s a = Inr k) (tl signers) ks" "agg = foldl (pk_add cr) k ks"
    by blast
  have "is_node_active (hd signers) s"
    using first(3) by (auto simp: signer_key_def is_node_active_def and_then_eq_Inr unwrap_eq_Inr)
  then have "c = c \<and> set signers \<subseteq> set c \<and> (\<forall>a \<in> set signers. is_node_active a s) \<and>
      list_all2 (\<lambda>a k. signer_key cr s a = Inr k) signers (k # ks)"
    using first ks by (cases signers) auto
  with c first(1) pk ks(4) root show ?thesis by blast
qed

lemma store_batch_Inr:
  assumes "store_batch env cr root s = Inr s'"
  shows "\<exists>bid. s' = s\<lparr>num_batches := num_batches s + 1,
     batch_by_id := (batch_by_id s)(bid \<mapsto> \<lparr>header = \<lparr>height = num_batches s + 1,
        state_root = crypto_hash_default\<rparr>, transactions = data_request_accumulator s\<rparr>),
     batch_ids_by_height := (batch_ids_by_height s)(num_batches s + 1 \<mapsto> bid),
     data_request_accumulator := []\<rparr> \<and>
     bid = hash_borsh (sha256 env) (borsh_merklized_batch cr)
       \<lparr>mb_prev_root = get_latest_batch_id s,
        mb_header = \<lparr>height = num_batches s + 1, state_root = crypto_hash_default\<rparr>,
        mb_transactions = root\<rparr> \<and>
     arith_add (overflow_checks env) (num_batches s) 1 = Inr (num_batches s + 1)"
  using assms by (auto simp: store_batch_def Let_def and_then_eq_Inr arith_eq_Inr)

lemma post_signed_batch_elim:
  assumes "post_signed_batch env cr sig pk signers leader_sig s = Inr s'"
  obtains s1 s2 root s3 ts where "process_epoch env s = Inr s1"
    and "check_slot_leader env leader_sig s1 = Inr s2"
    and "check_signers env cr sig pk signers s2 = Inr root"
    and "store_batch env cr root s2 = Inr s3" and "s' = s3\<lparr>transfers := ts\<rparr>"
  using manage_storage_deposit_Inr [OF assms [unfolded post_signed_batch_def]]
  by (auto simp: and_then_eq_Inr)

lemma post_data_request_Inr:
  assumes "post_data_request env r s = Inr s'"
  shows "s' = s\<lparr>data_request_accumulator := data_request_accumulator s @ [r]\<rparr>"
  using manage_storage_deposit_require_Inr [OF assms [unfolded post_data_request_def]] by simp


section \<open>The key indexes\<close>

lemma process_epoch_key_inv:
  assumes "process_epoch env s = Inr s'" and "key_inv s" and "valid_remove_order (remove_order env)"
  shows "key_inv s'"
  using assms(1)
proof (cases rule: process_epoch_elim)
  case processed
  with assms(2) show ?thesis by simp
next
  case waiting
  then show ?thesis using activate_nodes_key_inv assms(2,3) by blast
next
  case (selected s1 c cs ts)
  then have "key_inv s1" using activate_nodes_key_inv assms(2,3) by blast
  then show ?thesis unfolding selected(6) by (subst key_inv_cong [of _ s1]) simp_all
qed

lemma post_signed_batch_key_inv:
  assumes "post_signed_batch env cr sig pk signers leader_sig s = Inr s'" and "key_inv s"
    and "valid_remove_order (remove_order env)"
  shows "key_inv s'"
  using assms(1)
proof (cases rule: post_signed_batch_elim)
  case (1 s1 s2 root s3 ts)
  from check_slot_leader_Inr(1) [OF 1(2)] obtain r where
    s2: "s2 = s1\<lparr>last_generated_random_number := r\<rparr>" by blast
  from process_epoch_key_inv [OF 1(1) assms(2,3)] have "key_inv s1" .
  moreover have "key_inv s' = key_inv s1"
    by (rule key_inv_cong) (use store_batch_Inr [OF 1(4)] 1(5) s2 in auto)
  ultimately show ?thesis by simp
qed

lemma exec_key_inv:
  assumes "exec cr env c s = Inr s'" and "key_inv s" and "valid_remove_order (remove_order env)"
  shows "key_inv s'"
proof (cases c)
  case (RequestWithdraw amount pk)
  with assms(1) obtain r where "request_withdraw env amount pk s = Inr (r, s')"
    by (auto simp: exec_def and_then_eq_Inr)
  from request_withdraw_Inr [OF this] assms(2) show ?thesis
    by (auto simp: key_inv_def registered_def)
next
  case (CancelWithdrawRequest pk)
  with assms(1) cancel_withdraw_request_Inr [of env pk s s'] assms(2) show ?thesis
    by (auto simp: exec_def key_inv_def registered_def)
next
  case (UpdateConfig key v)
  with assms(1) update_config_Inr(2) [of env key v s s'] assms(2) show ?thesis
    by (auto simp: exec_def key_inv_def registered_def)
next
  case (PostDataRequest r)
  with assms(1) post_data_request_Inr [of env r s s'] assms(2) show ?thesis
    by (auto simp: exec_def key_inv_def registered_def)
qed (use assms in \<open>auto simp: exec_def intro: register_node_key_inv unregister_node_key_inv
      update_node_key_inv deposit_key_inv withdraw_key_inv process_epoch_key_inv
      post_signed_batch_key_inv\<close>)

lemma initial_key_inv: "initial sp (clk, s) \<Longrightarrow> key_inv s"
  using initial_state [of sp clk s] by (simp add: key_inv_def registered_def)

lemma mainchain_step_key_inv:
  assumes "mainchain_step cr allowed p q" and "key_inv (snd p)"
  shows "key_inv (snd q)"
  using assms(1)
proof cases
  case (call clk env c s s')
  with assms(2) exec_key_inv show ?thesis by auto
next
  case (library s t clk)
  with assms(2) show ?thesis by (simp add: key_inv_def registered_def)
qed

interpretation keys: inductive_invariant "initial sp" "mainchain_step cr allowed" "\<lambda>p. key_inv (snd p)"
  for sp and cr and allowed
  by unfold_locales (auto intro: initial_key_inv mainchain_step_key_inv)


section \<open>The supply\<close>

lemma process_epoch_frame:
  assumes "process_epoch env s = Inr s'"
  shows "token s' = token s" "last_total_balance s' = last_total_balance s" "config s' = config s"
    "num_batches s' = num_batches s" "batch_ids_by_height s' = batch_ids_by_height s"
    "batch_by_id s' = batch_by_id s" "data_request_accumulator s' = data_request_accumulator s"
    "last_generated_random_number s' = last_generated_random_number s"
proof -
  have frame: "token s1 = token s" "last_total_balance s1 = last_total_balance s" "config s1 = config s"
    "num_batches s1 = num_batches s" "batch_ids_by_height s1 = batch_ids_by_height s"
    "batch_by_id s1 = batch_by_id s" "data_request_accumulator s1 = data_request_accumulator s"
    "last_generated_random_number s1 = last_generated_random_number s"
    if "activate_nodes env as s = Inr s1" for s1 "as"
    using activate_nodes_frame [OF that] by auto
  from assms show "token s' = token s" "last_total_balance s' = last_total_balance s" "config s' = config s"
    "num_batches s' = num_batches s" "batch_ids_by_height s' = batch_ids_by_height s"
    "batch_by_id s' = batch_by_id s" "data_request_accumulator s' = data_request_accumulator s"
    "last_generated_random_number s' = last_generated_random_number s"
    by (cases rule: process_epoch_elim; simp add: frame)+
qed

lemma post_signed_batch_frame:
  assumes "post_signed_batch env cr sig pk signers leader_sig s = Inr s'"
  shows "token s' = token s \<and> last_total_balance s' = last_total_balance s \<and> config s' = config s"
  using assms
proof (cases rule: post_signed_batch_elim)
  case (1 s1 s2 root s3 ts)
  note f = process_epoch_frame [OF 1(1)] and s2 = check_slot_leader_Inr(1) [OF 1(2)]
    and s3 = store_batch_Inr [OF 1(4)]
  from f s2 s3 1(5) show ?thesis by auto
qed

definition supply_inv :: "nat \<Rightarrow> mainchain_contract \<Rightarrow> bool" where
  "supply_inv N s \<longleftrightarrow> finite (dom (accounts (token s))) \<and>
     circulating s + unat (last_total_balance s) \<le> N"

lemma deposit_supply:
  assumes "deposit env amount pk s = Inr s'" and "overflow_checks env"
    and "finite (dom (accounts (token s)))"
  shows "finite (dom (accounts (token s'))) \<and>
    circulating s' + unat (last_total_balance s') = circulating s + unat (last_total_balance s)"
  using assms(1)
proof (cases rule: deposit_elim)
  case (1 b tb a n nb s1 tot)
  let ?s0 = "s\<lparr>token := (token s)\<lparr>accounts := (accounts (token s))(signer_account_id env \<mapsto> tb)\<rparr>\<rparr>"
  have tok: "token s' = token ?s0"
    unfolding 1(9) using handle_node_balance_update_frame [OF 1(7)] by auto
  have "circulating s = circulating ?s0 + unat amount"
    using burn_circulating [OF 1(6) assms(2,3)] by simp
  moreover have "unat (last_total_balance s') = unat (last_total_balance s) + unat amount"
    using arith_add_exact [of "last_total_balance s" amount tot] 1(8) assms(2) by (simp add: 1(9))
  ultimately show ?thesis using assms(3) tok by (simp add: circulating_def)
qed

lemma withdraw_supply:
  assumes "withdraw env amount pk s = Inr s'" and "overflow_checks env"
    and "finite (dom (accounts (token s)))"
  shows "finite (dom (accounts (token s'))) \<and>
    circulating s' + unat (last_total_balance s') = circulating s + unat (last_total_balance s)"
  using assms(1)
proof (cases rule: withdraw_elim)
  case (1 b tb a n nb dep deposited rest req s1 tot ts)
  let ?s0 = "s\<lparr>token := (token s)\<lparr>accounts := (accounts (token s))(signer_account_id env \<mapsto> tb)\<rparr>\<rparr>"
  have tok: "token s' = token ?s0"
    unfolding 1(17) using handle_node_balance_update_frame [OF 1(14)] by auto
  have "circulating ?s0 = circulating s + unat amount"
    using mint_circulating [OF 1(12) assms(2,3)] by simp
  moreover have sub: "arith_sub True (last_total_balance s) amount = Inr tot"
    using 1(16) assms(2) by simp
  moreover have "last_total_balance s' = tot" by (simp add: 1(17))
  ultimately show ?thesis using assms(3) tok arith_sub_exact [OF sub] by (simp add: circulating_def)
qed

text \<open>The fields of the token and the total that no other method touches.\<close>

lemma exec_supply:
  assumes "exec cr env c s = Inr s'" and "overflow_checks env"
    and "finite (dom (accounts (token s)))"
  shows "finite (dom (accounts (token s'))) \<and>
    circulating s' + unat (last_total_balance s') = circulating s + unat (last_total_balance s)"
proof (cases "(\<exists>amount pk. c = Deposit amount pk) \<or> (\<exists>amount pk. c = Withdraw amount pk)")
  case True
  with assms deposit_supply withdraw_supply show ?thesis by (fastforce simp: exec_def)
next
  case False
  have "token s' = token s \<and> last_total_balance s' = last_total_balance s"
  proof (cases c)
    case (RegisterNode addr bn sig)
    with assms(1) register_node_Inr(4) [of env addr bn sig s s'] show ?thesis by (auto simp: exec_def)
  next
    case (UnregisterNode pk)
    with assms(1) unregister_node_Inr [of env pk s s'] show ?thesis by (auto simp: exec_def)
  next
    case (UpdateNode cmd)
    obtain addr where "cmd = SetSocketAddress addr" by (cases cmd)
    with UpdateNode assms(1) update_node_Inr [of env addr s s'] show ?thesis
      by (auto simp: exec_def split: if_splits)
  next
    case (RequestWithdraw amount pk)
    with assms(1) request_withdraw_Inr [of env amount pk s _ s'] show ?thesis
      by (auto simp: exec_def and_then_eq_Inr dest: request_withdraw_Inr)
  next
    case (CancelWithdrawRequest pk)
    with assms(1) cancel_withdraw_request_Inr [of env pk s s'] show ?thesis by (auto simp: exec_def)
  next
    case (UpdateConfig key v)
    with assms(1) update_config_Inr(2) [of env key v s s'] show ?thesis by (auto simp: exec_def)
  next
    case ProcessEpoch
    with assms(1) process_epoch_frame(1,2) show ?thesis by (auto simp: exec_def)
  next
    case (PostDataRequest r)
    with assms(1) post_data_request_Inr [of env r s s'] show ?thesis by (auto simp: exec_def)
  next
    case (PostSignedBatch sig pk signers leader_sig)
    with assms(1) post_signed_batch_frame [of env cr sig pk signers leader_sig s s'] show ?thesis
      by (auto simp: exec_def)
  qed (use False in auto)
  with assms(3) show ?thesis by (simp add: circulating_def)
qed

lemma mainchain_step_supply_inv:
  assumes "mainchain_step cr checked_call p q" and "supply_inv N (snd p)"
  shows "supply_inv N (snd q)"
  using assms(1)
proof cases
  case (call clk env c s s')
  with assms(2) exec_supply [of cr env c s s'] show ?thesis
    by (auto simp: supply_inv_def checked_call_def)
next
  case (library s t clk)
  with assms(2) show ?thesis by (auto simp: supply_inv_def token_move_def circulating_def)
qed

lemma initial_supply_inv: "initial sp p \<Longrightarrow> supply_inv (unat sp) (snd p)"
  using initial_state [of sp "fst p" "snd p"] by (simp add: supply_inv_def)

interpretation tokens: inductive_invariant "initial sp" "mainchain_step cr checked_call"
  "\<lambda>p. supply_inv (unat sp) (snd p)"
  for sp and cr
  by unfold_locales (auto intro: initial_supply_inv mainchain_step_supply_inv)


section \<open>The stakes\<close>

lemma process_epoch_stake_inv:
  assumes "process_epoch env s = Inr s'" and "key_inv s" and "stake_inv s"
    and "valid_remove_order (remove_order env)"
  shows "stake_inv s'"
  using assms(1)
proof (cases rule: process_epoch_elim)
  case processed
  with assms(3) show ?thesis by simp
next
  case waiting
  then show ?thesis using activate_nodes_stake_inv assms(2-4) by blast
next
  case (selected s1 c cs ts)
  then have "stake_inv s1" using activate_nodes_stake_inv assms(2-4) by blast
  then show ?thesis unfolding selected(6) by (subst stake_inv_cong [of _ s1]) simp_all
qed

lemma post_signed_batch_stake_inv:
  assumes "post_signed_batch env cr sig pk signers leader_sig s = Inr s'" and "key_inv s"
    and "stake_inv s" and "valid_remove_order (remove_order env)"
  shows "stake_inv s'"
  using assms(1)
proof (cases rule: post_signed_batch_elim)
  case (1 s1 s2 root s3 ts)
  from check_slot_leader_Inr(1) [OF 1(2)] obtain r where
    s2: "s2 = s1\<lparr>last_generated_random_number := r\<rparr>" by blast
  from process_epoch_stake_inv [OF 1(1) assms(2-4)] have "stake_inv s1" .
  moreover have "stake_inv s' = stake_inv s1"
    by (rule stake_inv_cong) (use store_batch_Inr [OF 1(4)] 1(5) s2 in auto)
  ultimately show ?thesis by simp
qed

lemma exec_stake_inv:
  assumes "exec cr env c s = Inr s'" and "key_inv s" and "stake_inv s"
    and "valid_remove_order (remove_order env)" and "disciplined_call env c s"
  shows "stake_inv s'"
proof (cases c)
  case (RegisterNode addr bn sig)
  with assms show ?thesis
    by (auto simp: exec_def disciplined_call_def intro: register_node_stake_inv)
next
  case (UnregisterNode pk)
  with assms show ?thesis
    by (auto simp: exec_def disciplined_call_def intro: unregister_node_stake_inv)
next
  case (RequestWithdraw amount pk)
  with assms(1) obtain r where "request_withdraw env amount pk s = Inr (r, s')"
    by (auto simp: exec_def and_then_eq_Inr)
  from request_withdraw_Inr [OF this] assms(3) show ?thesis by (auto simp: registry_inv_defs)
next
  case (CancelWithdrawRequest pk)
  with assms(1,3) cancel_withdraw_request_Inr [of env pk s s'] show ?thesis
    by (auto simp: exec_def registry_inv_defs)
next
  case (UpdateConfig key v)
  with assms(1,3) update_config_Inr(2) [of env key v s s'] show ?thesis
    by (auto simp: exec_def registry_inv_defs)
next
  case (PostDataRequest r)
  with assms(1,3) post_data_request_Inr [of env r s s'] show ?thesis
    by (auto simp: exec_def registry_inv_defs)
qed (use assms in \<open>auto simp: exec_def disciplined_call_def intro: update_node_stake_inv
      deposit_stake_inv withdraw_stake_inv process_epoch_stake_inv post_signed_batch_stake_inv\<close>)

lemma mainchain_step_stake_inv:
  assumes "mainchain_step cr disciplined_call p q" and "key_inv (snd p) \<and> stake_inv (snd p)"
  shows "key_inv (snd q) \<and> stake_inv (snd q)"
  using assms(1)
proof cases
  case (call clk env c s s')
  with assms(2) exec_stake_inv exec_key_inv show ?thesis by auto
next
  case (library s t clk)
  with assms(2) show ?thesis by (simp add: registry_inv_defs)
qed

lemma initial_stake_inv: "initial sp (clk, s) \<Longrightarrow> stake_inv s"
  using initial_state [of sp clk s]
  by (simp add: stake_inv_def partition_inv_def staked_def map_sum_def dom_def)

interpretation stakes: inductive_invariant "initial sp" "mainchain_step cr disciplined_call"
  "\<lambda>p. key_inv (snd p) \<and> stake_inv (snd p)"
  for sp and cr
  by unfold_locales (auto intro: initial_key_inv initial_stake_inv dest: mainchain_step_stake_inv)


section \<open>The committees\<close>

text \<open>The methods that neither process an epoch nor post a batch.\<close>

lemma handle_node_balance_update_other:
  assumes "handle_node_balance_update env a n s = Inr s'"
  shows "committees s' = committees s" "config s' = config s"
    "last_processed_epoch s' = last_processed_epoch s" "bootstrapping_phase s' = bootstrapping_phase s"
    "num_batches s' = num_batches s" "batch_ids_by_height s' = batch_ids_by_height s"
    "batch_by_id s' = batch_by_id s"
  using handle_node_balance_update_frame [OF assms] by auto

definition same_epoch_data :: "mainchain_contract \<Rightarrow> mainchain_contract \<Rightarrow> bool" where
  "same_epoch_data s s' \<longleftrightarrow>
     committees s' = committees s \<and> committee_size (config s') = committee_size (config s) \<and>
     last_processed_epoch s' = last_processed_epoch s \<and> bootstrapping_phase s' = bootstrapping_phase s \<and>
     num_batches s' = num_batches s \<and> batch_ids_by_height s' = batch_ids_by_height s \<and>
     batch_by_id s' = batch_by_id s"

lemma exec_other_frame:
  assumes "exec cr env c s = Inr s'" and "c \<noteq> ProcessEpoch"
    and "\<nexists>sig pk signers lsig. c = PostSignedBatch sig pk signers lsig"
  shows "same_epoch_data s s'"
proof (cases c)
  case (RegisterNode addr bn sig)
  with assms(1) register_node_Inr(4) [of env addr bn sig s s'] show ?thesis
    by (auto simp: exec_def same_epoch_data_def)
next
  case (UnregisterNode pk)
  with assms(1) unregister_node_Inr [of env pk s s'] show ?thesis
    by (auto simp: exec_def same_epoch_data_def)
next
  case (UpdateNode cmd)
  obtain addr where "cmd = SetSocketAddress addr" by (cases cmd)
  with UpdateNode assms(1) update_node_Inr [of env addr s s'] show ?thesis
    by (auto simp: exec_def same_epoch_data_def split: if_splits)
next
  case (Deposit amount pk)
  with assms(1) have "deposit env amount pk s = Inr s'" by (simp add: exec_def)
  then show ?thesis
    by (cases rule: deposit_elim)
      (simp add: same_epoch_data_def handle_node_balance_update_other)
next
  case (Withdraw amount pk)
  with assms(1) have "withdraw env amount pk s = Inr s'" by (simp add: exec_def)
  then show ?thesis
    by (cases rule: withdraw_elim)
      (simp add: same_epoch_data_def handle_node_balance_update_other)
next
  case (RequestWithdraw amount pk)
  with assms(1) obtain r where "request_withdraw env amount pk s = Inr (r, s')"
    by (auto simp: exec_def and_then_eq_Inr)
  from request_withdraw_Inr [OF this] show ?thesis by (auto simp: same_epoch_data_def)
next
  case (CancelWithdrawRequest pk)
  with assms(1) cancel_withdraw_request_Inr [of env pk s s'] show ?thesis
    by (auto simp: exec_def same_epoch_data_def)
next
  case (UpdateConfig key v)
  with assms(1) update_config_Inr(2,3) [of env key v s s'] show ?thesis
    by (auto simp: exec_def same_epoch_data_def)
next
  case (PostDataRequest r)
  with assms(1) post_data_request_Inr [of env r s s'] show ?thesis
    by (auto simp: exec_def same_epoch_data_def)
qed (use assms in auto)

definition committee_inv :: "mainchain_contract \<Rightarrow> bool" where
  "committee_inv s \<longleftrightarrow>
     (\<forall>e c. committees s e = Some c \<longrightarrow>
        distinct c \<and> length c = unat (committee_size (config s)) \<and>
        unat e \<le> unat (last_processed_epoch s) + 2) \<and>
     (bootstrapping_phase s \<longrightarrow> committees s = Map.empty)"

lemma committee_inv_cong:
  assumes "committees s' = committees s" "committee_size (config s') = committee_size (config s)"
    "last_processed_epoch s' = last_processed_epoch s" "bootstrapping_phase s' = bootstrapping_phase s"
  shows "committee_inv s' = committee_inv s"
  using assms by (simp add: committee_inv_def)

lemma epoch_plus:
  assumes "k \<le> 2"
  shows "unat (get_current_epoch env + of_nat k) = unat (get_current_epoch env) + k"
proof -
  have "unat (get_current_epoch env) \<le> 2 ^ 64 div 320"
    using unat_u64_less [of "block_height env"] by (simp add: unat_get_current_epoch div_le_mono)
  then show ?thesis
    using assms by (simp add: unat_word_ariths unat_of_nat)
qed

lemma epoch_lookahead:
  "unat (get_current_epoch env + EPOCH_COMMITTEES_LOOKAHEAD) = unat (get_current_epoch env) + 2"
  "unat (get_current_epoch env + 1) = unat (get_current_epoch env) + 1"
  using epoch_plus [of 2 env] epoch_plus [of 1 env] by (simp_all add: EPOCH_COMMITTEES_LOOKAHEAD_def)

lemma process_epoch_committees:
  assumes "process_epoch env s = Inr s'" and "key_inv s" and "committee_inv s"
    and "valid_remove_order (remove_order env)"
  shows "committee_inv s' \<and> (\<forall>e c. committees s e = Some c \<longrightarrow> committees s' e = Some c)"
  using assms(1)
proof (cases rule: process_epoch_elim)
  case processed
  with assms(3) show ?thesis by simp
next
  case waiting
  with activate_nodes_frame [OF waiting(2)] assms(3) show ?thesis
    by (auto simp: committee_inv_def)
next
  case (selected s1 c cs ts)
  from activate_nodes_frame [OF selected(2)] have
    f: "committees s1 = committees s" "bootstrapping_phase s1 = bootstrapping_phase s"
      "config s1 = config s" by auto
  have "um_invar (active_nodes s1)"
    using activate_nodes_key_inv [OF selected(2) assms(2,4)] by (simp add: key_inv_def)
  note c = select_committee_members(1,2) [OF selected(4) this]
  have last: "unat (last_processed_epoch s) < unat (get_current_epoch env)"
    using selected(1) by (simp add: word_less_nat_alt)
  have new: "committees s (get_current_epoch env + EPOCH_COMMITTEES_LOOKAHEAD) = None"
    using assms(3) last epoch_lookahead(1) [of env]
    by (cases "committees s (get_current_epoch env + EPOCH_COMMITTEES_LOOKAHEAD)")
      (fastforce simp: committee_inv_def)+
  have "committees s' e = Some d" if "committees s e = Some d" for e d
    using that assms(3) new f by (auto simp: selected(5,6) committee_inv_def)
  moreover have "distinct d \<and> length d = unat (committee_size (config s')) \<and>
      unat e \<le> unat (last_processed_epoch s') + 2" if "committees s' e = Some d" for e d
    using that assms(3) c f last epoch_lookahead [of env] unfolding selected(5,6)
    by (fastforce simp: committee_inv_def split: if_splits)
  moreover have "\<not> bootstrapping_phase s'" by (simp add: selected(6))
  ultimately show ?thesis by (simp add: committee_inv_def)
qed

lemma exec_committees:
  assumes "exec cr env c s = Inr s'" and "key_inv s" and "committee_inv s"
    and "valid_remove_order (remove_order env)"
  shows "committee_inv s' \<and> (\<forall>e d. committees s e = Some d \<longrightarrow> committees s' e = Some d)"
proof (cases "c = ProcessEpoch \<or> (\<exists>sig pk signers lsig. c = PostSignedBatch sig pk signers lsig)")
  case True
  show ?thesis
  proof (cases "c = ProcessEpoch")
    case True
    with assms process_epoch_committees show ?thesis by (simp add: exec_def)
  next
    case False
    with True obtain sig pk signers lsig where
      "post_signed_batch env cr sig pk signers lsig s = Inr s'"
      using assms(1) by (auto simp: exec_def)
    then show ?thesis
    proof (cases rule: post_signed_batch_elim)
      case (1 s1 s2 root s3 ts)
      from check_slot_leader_Inr(1) [OF 1(2)] store_batch_Inr [OF 1(4)] 1(5)
      have "committees s' = committees s1" "config s' = config s1"
        "last_processed_epoch s' = last_processed_epoch s1"
        "bootstrapping_phase s' = bootstrapping_phase s1" by auto
      with process_epoch_committees [OF 1(1) assms(2-4)] committee_inv_cong [of s' s1]
      show ?thesis by simp
    qed
  qed
next
  case False
  have "committees s' = committees s \<and> committee_size (config s') = committee_size (config s) \<and>
    last_processed_epoch s' = last_processed_epoch s \<and> bootstrapping_phase s' = bootstrapping_phase s"
    using exec_other_frame [OF assms(1)] False by (auto simp: same_epoch_data_def)
  with assms(3) committee_inv_cong [of s' s] show ?thesis by simp
qed

lemma mainchain_step_committees:
  assumes "mainchain_step cr allowed p q" and "key_inv (snd p) \<and> committee_inv (snd p)"
  shows "key_inv (snd q) \<and> committee_inv (snd q) \<and>
    (\<forall>e d. committees (snd p) e = Some d \<longrightarrow> committees (snd q) e = Some d)"
  using assms(1)
proof cases
  case (call clk env c s s')
  with assms(2) exec_committees [of cr env c s s'] exec_key_inv [of cr env c s s'] show ?thesis by auto
next
  case (library s t clk)
  with assms(2) show ?thesis by (simp add: registry_inv_defs committee_inv_def)
qed

interpretation panels: inductive_invariant "initial sp" "mainchain_step cr allowed"
  "\<lambda>p. key_inv (snd p) \<and> committee_inv (snd p)"
  for sp and cr and allowed
  by unfold_locales
    (auto simp: committee_inv_def initial_state intro: initial_key_inv
      dest: mainchain_step_committees [unfolded committee_inv_def])


section \<open>The batches\<close>

definition batch_inv :: "mainchain_contract \<Rightarrow> bool" where
  "batch_inv s \<longleftrightarrow>
     (\<forall>h. batch_ids_by_height s h \<noteq> None \<longleftrightarrow> 1 \<le> h \<and> h \<le> num_batches s) \<and>
     (\<forall>h i. batch_ids_by_height s h = Some i \<longrightarrow> batch_by_id s i \<noteq> None)"

lemma store_batch_inv:
  assumes "store_batch env cr root s = Inr s'" and "batch_inv s" and "overflow_checks env"
  shows "batch_inv s'"
proof -
  from store_batch_Inr [OF assms(1)] obtain bid b where
    s': "num_batches s' = num_batches s + 1" "batch_by_id s' = (batch_by_id s)(bid \<mapsto> b)"
      "batch_ids_by_height s' = (batch_ids_by_height s)(num_batches s + 1 \<mapsto> bid)"
    and add: "arith_add (overflow_checks env) (num_batches s) 1 = Inr (num_batches s + 1)"
    by auto
  have n: "unat (num_batches s + 1) = unat (num_batches s) + 1"
    using arith_add_exact [of "num_batches s" 1] add assms(3) by simp
  have "batch_ids_by_height s' h \<noteq> None \<longleftrightarrow> 1 \<le> h \<and> h \<le> num_batches s'" for h
  proof (cases "h = num_batches s + 1")
    case True
    with n show ?thesis by (simp add: s' word_le_nat_alt)
  next
    case False
    then have "unat h \<noteq> unat (num_batches s) + 1" using n by (metis word_unat_eq_iff)
    with False assms(2) n show ?thesis
      by (auto simp: s' batch_inv_def word_le_nat_alt)
  qed
  then show ?thesis using assms(2) by (auto simp: batch_inv_def s')
qed

lemma exec_batch_inv:
  assumes "exec cr env c s = Inr s'" and "batch_inv s" and "overflow_checks env"
  shows "batch_inv s'"
proof (cases "c = ProcessEpoch \<or> (\<exists>sig pk signers lsig. c = PostSignedBatch sig pk signers lsig)")
  case True
  show ?thesis
  proof (cases "c = ProcessEpoch")
    case True
    with assms have "process_epoch env s = Inr s'" by (simp add: exec_def)
    from process_epoch_frame [OF this] assms(2) show ?thesis by (simp add: batch_inv_def)
  next
    case False
    with True obtain sig pk signers lsig where
      "post_signed_batch env cr sig pk signers lsig s = Inr s'"
      using assms(1) by (auto simp: exec_def)
    then show ?thesis
    proof (cases rule: post_signed_batch_elim)
      case (1 s1 s2 root s3 ts)
      have "batch_inv s2"
        using check_slot_leader_Inr(1) [OF 1(2)] process_epoch_frame [OF 1(1)] assms(2)
        by (auto simp: batch_inv_def)
      then have "batch_inv s3" using store_batch_inv [OF 1(4)] assms(3) by simp
      then show ?thesis by (simp add: batch_inv_def 1(5))
    qed
  qed
next
  case False
  with exec_other_frame [OF assms(1)] assms(2) show ?thesis
    by (auto simp: same_epoch_data_def batch_inv_def)
qed

lemma mainchain_step_batch_inv:
  assumes "mainchain_step cr checked_call p q" and "batch_inv (snd p)"
  shows "batch_inv (snd q)"
  using assms(1)
proof cases
  case (call clk env c s s')
  with assms(2) exec_batch_inv [of cr env c s s'] show ?thesis by (auto simp: checked_call_def)
next
  case (library s t clk)
  with assms(2) show ?thesis by (simp add: batch_inv_def)
qed

lemma initial_batch_inv: "initial sp p \<Longrightarrow> batch_inv (snd p)"
  using initial_state [of sp "fst p" "snd p"]
  by (auto simp: batch_inv_def word_le_nat_alt)

interpretation batches: inductive_invariant "initial sp" "mainchain_step cr checked_call"
  "\<lambda>p. batch_inv (snd p)"
  for sp and cr
  by unfold_locales (auto intro: initial_batch_inv mainchain_step_batch_inv)

end
