(* ===== verification/Mainchain_Scenario.thy ===== *)
theory Mainchain_Scenario
  imports Mainchain
begin

text \<open>
  A scenario in the spirit of \<open>contracts/src/integration_test.rs\<close>: two accounts register a
  node each, stake the minimum, are activated in epoch 2 and form the committee, a data request
  is posted and its batch is signed. Each state is the result of the call before it, so the
  scenario is an execution of the model, and the theorems about reachable states are exercised
  on it.
\<close>

definition demo_env :: "u64 \<Rightarrow> account_id \<Rightarrow> bytes \<Rightarrow> near_env" where
  "demo_env h who pk =
     \<lparr>block_height = h, signer_account_id = who, signer_account_pk = pk,
      attached_deposit = 1000, storage_byte_cost = 1, storage_usage = (\<lambda>_. 500),
      overflow_checks = True, remove_order = swap_remove, gas_rerolls = 8,
      sha256 = (\<lambda>b. array32 (drop 32 b)),
      format_pairing_check_uncompressed_values = (\<lambda>m s p. Some s),
      alt_bn128_pairing_check = (\<lambda>_. 1)\<rparr>"

definition demo_crates :: "bytes crates" where
  "demo_crates =
     \<lparr>pk_from_uncompressed = Some, pk_add = (@), pk_to_uncompressed = Some,
      borsh_string = map (of_nat \<circ> of_char),
      borsh_hash_pair = (\<lambda>(a, b). array_bytes (hash_bytes a) @ array_bytes (hash_bytes b)),
      borsh_merklized_batch = mb_transactions\<rparr>"

definition demo_metadata :: fungible_token_metadata where
  "demo_metadata = \<lparr>md_spec = ''ft-1.0.0'', md_name = ''Example NEAR fungible token'',
     md_symbol = ''EXAMPLE'', md_icon = None, md_reference = None, md_decimals = 24\<rparr>"

definition demo_supply :: u128 where
  "demo_supply = 300000000000000000000000000"

definition demo_start :: mainchain_contract where
  "demo_start =
     \<lparr>token = \<lparr>accounts = [''dao'' \<mapsto> demo_supply], total_supply = demo_supply\<rparr>,
      metadata = Some demo_metadata, dao = ''dao'', config = config_default,
      active_nodes = um_new, inactive_nodes = um_new, pending_nodes = um_new,
      nodes_by_ed25519_public_key = Map.empty, depositors = Map.empty, committees = Map.empty,
      data_request_accumulator = [], num_batches = 0, batch_ids_by_height = Map.empty,
      batch_by_id = Map.empty, last_total_balance = 0, nodes_by_bn254_public_key = Map.empty,
      random_seed = crypto_hash_default, bootstrapping_phase = True, last_processed_epoch = 0,
      last_generated_random_number = 7, withdraw_requests = Map.empty, transfers = []\<rparr>"

text \<open>The DAO pays each node operator the minimum stake.\<close>

definition demo_funded :: mainchain_contract where
  "demo_funded = demo_start\<lparr>token := \<lparr>accounts =
     [''dao'' \<mapsto> 100000000000000000000000000, ''alice'' \<mapsto> INIT_MINIMUM_STAKE, ''bob'' \<mapsto> INIT_MINIMUM_STAKE],
     total_supply = demo_supply\<rparr>\<rparr>"

definition demo_node :: "u128 \<Rightarrow> u8 \<Rightarrow> node" where
  "demo_node bal k = \<lparr>multi_addr = ''0.0.0.0:8080'', balance = bal, bn254_public_key = [k + 10], ed25519_public_key = [k]\<rparr>"

definition demo_registered_one :: mainchain_contract where
  "demo_registered_one = demo_funded\<lparr>
     inactive_nodes := \<lparr>um_keys = [''alice''], um_map = [''alice'' \<mapsto> demo_node 0 1]\<rparr>,
     nodes_by_bn254_public_key := [[11] \<mapsto> ''alice''],
     nodes_by_ed25519_public_key := [[1] \<mapsto> ''alice'']\<rparr>"

definition demo_registered :: mainchain_contract where
  "demo_registered = demo_funded\<lparr>
     inactive_nodes := \<lparr>um_keys = [''alice'', ''bob''],
        um_map = [''alice'' \<mapsto> demo_node 0 1, ''bob'' \<mapsto> demo_node 0 2]\<rparr>,
     nodes_by_bn254_public_key := [[11] \<mapsto> ''alice'', [12] \<mapsto> ''bob''],
     nodes_by_ed25519_public_key := [[1] \<mapsto> ''alice'', [2] \<mapsto> ''bob'']\<rparr>"

definition demo_staked_one :: mainchain_contract where
  "demo_staked_one = demo_registered\<lparr>
     token := \<lparr>accounts = [''dao'' \<mapsto> 100000000000000000000000000, ''alice'' \<mapsto> 0, ''bob'' \<mapsto> INIT_MINIMUM_STAKE],
        total_supply = demo_supply\<rparr>,
     inactive_nodes := \<lparr>um_keys = [''alice'', ''bob''],
        um_map = [''alice'' \<mapsto> demo_node INIT_MINIMUM_STAKE 1, ''bob'' \<mapsto> demo_node 0 2]\<rparr>,
     pending_nodes := \<lparr>um_keys = [''alice''], um_map = [''alice'' \<mapsto> 2]\<rparr>,
     depositors := [''alice'' \<mapsto> \<lparr>um_keys = [[1]], um_map = [[1] \<mapsto> INIT_MINIMUM_STAKE]\<rparr>],
     last_total_balance := INIT_MINIMUM_STAKE\<rparr>"

definition demo_staked :: mainchain_contract where
  "demo_staked = demo_registered\<lparr>
     token := \<lparr>accounts = [''dao'' \<mapsto> 100000000000000000000000000, ''alice'' \<mapsto> 0, ''bob'' \<mapsto> 0],
        total_supply = demo_supply\<rparr>,
     inactive_nodes := \<lparr>um_keys = [''alice'', ''bob''],
        um_map = [''alice'' \<mapsto> demo_node INIT_MINIMUM_STAKE 1, ''bob'' \<mapsto> demo_node INIT_MINIMUM_STAKE 2]\<rparr>,
     pending_nodes := \<lparr>um_keys = [''alice'', ''bob''], um_map = [''alice'' \<mapsto> 2, ''bob'' \<mapsto> 2]\<rparr>,
     depositors := [''alice'' \<mapsto> \<lparr>um_keys = [[1]], um_map = [[1] \<mapsto> INIT_MINIMUM_STAKE]\<rparr>,
                    ''bob'' \<mapsto> \<lparr>um_keys = [[2]], um_map = [[2] \<mapsto> INIT_MINIMUM_STAKE]\<rparr>],
     last_total_balance := 200000000000000000000000000\<rparr>"

definition demo_active :: mainchain_contract where
  "demo_active = demo_staked\<lparr>
     active_nodes := \<lparr>um_keys = [''alice'', ''bob''],
        um_map = [''alice'' \<mapsto> demo_node INIT_MINIMUM_STAKE 1, ''bob'' \<mapsto> demo_node INIT_MINIMUM_STAKE 2]\<rparr>,
     inactive_nodes := um_new, pending_nodes := um_new,
     bootstrapping_phase := False, last_processed_epoch := 2,
     committees := [2 \<mapsto> [''alice'', ''bob''], 3 \<mapsto> [''alice'', ''bob''], 4 \<mapsto> [''alice'', ''bob'']],
     transfers := [(''alice'', 0)]\<rparr>"

lemmas demo_defs = demo_env_def demo_crates_def demo_supply_def demo_start_def demo_funded_def
  demo_node_def demo_registered_one_def demo_registered_def demo_staked_one_def demo_staked_def demo_active_def config_default_def mainchain_consts

lemma demo_initial: "initial demo_supply (0, demo_start)"
proof -
  have "new (\<lambda>_. True) (\<lambda>_. Inr ()) (\<lambda>a t. Inr (t\<lparr>accounts := (accounts t)(a \<mapsto> 0)\<rparr>))
      (\<lambda>a x t. Inr \<lparr>accounts = (accounts t)(a \<mapsto> x), total_supply = x\<rparr>)
      False ''dao'' demo_supply demo_metadata 2 7 = Inr demo_start"
    by (simp add: new_def demo_defs)
  then show ?thesis
    unfolding initial_def by (auto simp: demo_defs circulating_def map_sum_def) blast
qed

lemmas contract_defs = exec_def register_node_def deposit_def internal_deposit_def burn_def
  get_expect_node_by_ed25519_public_key_def internal_get_node_def handle_node_balance_update_def
  manage_storage_deposit_require_def require_storage_deposit_def manage_storage_deposit_def
  refund_storage_deposit_def bn254_verify_def get_current_epoch_def um_get_def um_insert_def um_new_def
  arith_add_def arith_sub_def arith_mul_def

lemma demo_register_one:
  "exec demo_crates (demo_env 5 ''alice'' [1]) (RegisterNode ''0.0.0.0:8080'' [11] [42]) demo_funded
    = Inr demo_registered_one"
  by (simp add: contract_defs demo_defs Let_def)

lemma demo_register_two:
  "exec demo_crates (demo_env 6 ''bob'' [2]) (RegisterNode ''0.0.0.0:8080'' [12] [42]) demo_registered_one
    = Inr demo_registered"
  by (simp add: contract_defs demo_defs Let_def)

lemma demo_deposit_one:
  "exec demo_crates (demo_env 7 ''alice'' [1]) (Deposit INIT_MINIMUM_STAKE [1]) demo_registered
    = Inr demo_staked_one"
  by (simp add: contract_defs demo_defs Let_def fun_upd_twist fun_eq_iff)

lemma demo_deposit_two:
  "exec demo_crates (demo_env 8 ''bob'' [2]) (Deposit INIT_MINIMUM_STAKE [2]) demo_staked_one
    = Inr demo_staked"
  by (simp add: contract_defs demo_defs Let_def fun_upd_twist fun_eq_iff)

text \<open>The digest of the scenario draws the counter itself.\<close>

lemma draw_drop:
  assumes "sha256 env = (\<lambda>b. array32 (drop 32 b))" and "0 < n"
  shows "draw env seed n c = Inr (unat c mod n)"
proof -
  have "unat (of_nat (unat c) :: u256) = unat c"
    using unat_u64_less [of c] unat_of_nat [of "unat c", where ?'a = 256] by simp
  with assms show ?thesis
    by (simp add: draw_def from_le_bytes_def array_bytes_array32 from_le_bytes_nat_zeros from_to_le_bytes_u64)
qed

lemma demo_draw: "0 < n \<Longrightarrow> draw (demo_env h who pk) seed n c = Inr (unat c mod n)"
  by (rule draw_drop) (simp_all add: demo_env_def)

lemma demo_env_simps [simp]:
  "storage_usage (demo_env h who pk) = (\<lambda>_. 500)" "overflow_checks (demo_env h who pk)"
  "storage_byte_cost (demo_env h who pk) = 1" "signer_account_id (demo_env h who pk) = who"
  "signer_account_pk (demo_env h who pk) = pk" "block_height (demo_env h who pk) = h"
  "valid_remove_order (remove_order (demo_env h who pk))" "sha256 (demo_env h who pk) = (\<lambda>b. array32 (drop 32 b))"
  "format_pairing_check_uncompressed_values (demo_env h who pk) = (\<lambda>m s p. Some s)"
  "alt_bn128_pairing_check (demo_env h who pk) = (\<lambda>_. 1)"
  by (simp_all add: demo_env_def)

lemma demo_crates_simps [simp]:
  "pk_from_uncompressed demo_crates = Some" "pk_add demo_crates = (@)"
  "pk_to_uncompressed demo_crates = Some" "borsh_merklized_batch demo_crates = mb_transactions"
  "borsh_string demo_crates = map (of_nat \<circ> of_char)"
  by (simp_all add: demo_crates_def)

lemma demo_epoch:
  "exec demo_crates (demo_env 640 ''alice'' [1]) ProcessEpoch demo_staked = Inr demo_active"
proof -
  have elig: "eligible_nodes 2 demo_staked = [''alice'', ''bob'']"
    by (simp add: eligible_nodes_def um_iter_def demo_defs)
  have epoch: "get_current_epoch (demo_env 640 ''alice'' [1]) = 2"
    by (simp add: get_current_epoch_def demo_defs)
  have act: "activate_nodes (demo_env 640 ''alice'' [1]) [''alice'', ''bob''] demo_staked =
    Inr (demo_staked\<lparr>active_nodes := active_nodes demo_active, inactive_nodes := um_new, pending_nodes := um_new\<rparr>)"
    by (simp add: activate_node_def um_get_def um_insert_def um_remove_def um_new_def swap_remove_def
        demo_defs fun_eq_iff)
  have sel: "select_committee (demo_env 640 ''alice'' [1]) r s = Inr [''alice'', ''bob'']"
    if "active_nodes s = active_nodes demo_active" "committee_size (config s) = 2" for r s
    using that
    by (simp add: select_committee_def upt_rec demo_draw reroll.simps)
      (simp add: demo_active_def demo_draw reroll.simps)
  have fields: "committee_size (config demo_staked) = 2" "bootstrapping_phase demo_staked"
    "last_processed_epoch demo_staked = 0" "um_keys (active_nodes demo_active) = [''alice'', ''bob'']"
    by (simp_all add: demo_defs)
  show ?thesis
    by (simp add: exec_def process_epoch_def Let_def fields epoch elig act sel lookahead_list
        manage_storage_deposit_def refund_storage_deposit_def arith_add_def arith_sub_def arith_mul_def um_len_def
        del: activate_nodes.simps)
      (simp add: demo_defs del: activate_nodes.simps)
qed

definition demo_requested :: mainchain_contract where
  "demo_requested = demo_active\<lparr>data_request_accumulator := [''r1'']\<rparr>"

definition demo_batch_id :: batch_id where
  "demo_batch_id = CryptoHash (array32 [])"

definition demo_posted :: mainchain_contract where
  "demo_posted = demo_requested\<lparr>
     num_batches := 1,
     batch_by_id := [demo_batch_id \<mapsto> \<lparr>header = \<lparr>height = 1, state_root = crypto_hash_default\<rparr>,
                                        transactions = [''r1'']\<rparr>],
     batch_ids_by_height := [1 \<mapsto> demo_batch_id],
     data_request_accumulator := [],
     last_generated_random_number := 0,
     transfers := [(''alice'', 0), (''bob'', 0)]\<rparr>"

lemma demo_request:
  "exec demo_crates (demo_env 645 ''bob'' [2]) (PostDataRequest ''r1'') demo_active = Inr demo_requested"
  by (simp add: exec_def post_data_request_def demo_requested_def manage_storage_deposit_require_def
      require_storage_deposit_def Let_def arith_sub_def arith_mul_def)
    (simp add: demo_defs)

lemma demo_batch:
  "exec demo_crates (demo_env 650 ''bob'' [2]) (PostSignedBatch [42] [11, 12] [''alice'', ''bob''] [9])
     demo_requested = Inr demo_posted"
proof -
  let ?env = "demo_env 650 ''bob'' [2]"
  have clocks: "get_current_epoch ?env = 2" "get_current_slot ?env = 65"
    by (simp_all add: get_current_epoch_def get_current_slot_def demo_defs)
  have fields: "committee_size (config demo_requested) = 2" "last_processed_epoch demo_requested = 2"
    "committees demo_requested 2 = Some [''alice'', ''bob'']" "num_batches demo_requested = 0"
    "um_get (active_nodes demo_requested) ''bob'' = Some (demo_node INIT_MINIMUM_STAKE 2)"
    "um_get (active_nodes demo_requested) ''alice'' = Some (demo_node INIT_MINIMUM_STAKE 1)"
    "data_request_accumulator demo_requested = [''r1'']"
    "batch_by_id demo_requested = Map.empty" "batch_ids_by_height demo_requested = Map.empty"
    "transfers demo_requested = [(''alice'', 0)]"
    by (simp_all add: demo_requested_def demo_defs um_get_def)
  have epoch: "process_epoch ?env demo_requested = Inr demo_requested"
    by (simp add: process_epoch_def manage_storage_deposit_def clocks fields)
  have rnd: "from_le_bytes (array_bytes (array32 (drop 32 ([9] @ to_le_bytes 8 (65 :: u64))))) = (0 :: u256)"
    using from_le_bytes_nat_zeros [of "[]"] by (simp add: from_le_bytes_def array_bytes_array32 del: replicate.simps)
  have leader: "check_slot_leader ?env [9] demo_requested
      = Inr (demo_requested\<lparr>last_generated_random_number := 0\<rparr>)"
    using rnd
    by (simp add: check_slot_leader_def get_current_slot_leader_def clocks fields demo_draw
        bn254_verify_def)
  have root: "internal_compute_merkle_root ?env demo_crates
      (demo_requested\<lparr>last_generated_random_number := 0\<rparr>) = Inr (array_bytes (array32 []))"
    by (simp add: internal_compute_merkle_root_def merklize_def fields hash_borsh_def
        next_power_of_two.simps)
  have signers: "check_signers ?env demo_crates [42] [11, 12] [''alice'', ''bob'']
      (demo_requested\<lparr>last_generated_random_number := 0\<rparr>) = Inr (array_bytes (array32 []))"
    by (simp add: check_signers_def clocks fields signer_key_def root bn254_verify_def demo_node_def)
  show ?thesis
    by (simp add: exec_def post_signed_batch_def manage_storage_deposit_def Let_def epoch leader signers
        store_batch_def arith_add_def arith_sub_def arith_mul_def fields hash_borsh_def demo_posted_def
        demo_batch_id_def refund_storage_deposit_def)
qed


text \<open>Alice takes her stake out again: a request in epoch 2, the withdrawal in epoch 4.\<close>

definition demo_leaving :: mainchain_contract where
  "demo_leaving = demo_active\<lparr>withdraw_requests :=
     [[1] \<mapsto> [''alice'' \<mapsto> \<lparr>wr_amount = INIT_MINIMUM_STAKE, wr_epoch = 4\<rparr>]]\<rparr>"

definition demo_left :: mainchain_contract where
  "demo_left = demo_active\<lparr>
     token := \<lparr>accounts = [''dao'' \<mapsto> 100000000000000000000000000, ''alice'' \<mapsto> INIT_MINIMUM_STAKE, ''bob'' \<mapsto> 0],
        total_supply = demo_supply\<rparr>,
     active_nodes := \<lparr>um_keys = [''bob''], um_map = [''bob'' \<mapsto> demo_node INIT_MINIMUM_STAKE 2]\<rparr>,
     inactive_nodes := \<lparr>um_keys = [''alice''], um_map = [''alice'' \<mapsto> demo_node 0 1]\<rparr>,
     depositors := [''alice'' \<mapsto> \<lparr>um_keys = [[1]], um_map = [[1] \<mapsto> 0]\<rparr>,
                    ''bob'' \<mapsto> \<lparr>um_keys = [[2]], um_map = [[2] \<mapsto> INIT_MINIMUM_STAKE]\<rparr>],
     last_total_balance := INIT_MINIMUM_STAKE,
     withdraw_requests := [[1] \<mapsto> Map.empty],
     transfers := [(''alice'', 0), (''alice'', 0)]\<rparr>"

lemma demo_request_withdraw:
  "request_withdraw (demo_env 660 ''alice'' [1]) INIT_MINIMUM_STAKE [1] demo_active
     = Inr (\<lparr>rw_current_epoch = 2, rw_withdraw_epoch = 4\<rparr>, demo_leaving)"
  by (simp add: request_withdraw_def demo_leaving_def contract_defs demo_defs Let_def)

lemma demo_withdraw:
  "withdraw (demo_env 1280 ''alice'' [1]) INIT_MINIMUM_STAKE [1] demo_leaving = Inr demo_left"
  by (simp add: withdraw_def internal_withdraw_def mint_def um_remove_def swap_remove_def demo_leaving_def
      demo_left_def contract_defs demo_defs Let_def fun_upd_twist fun_eq_iff)


text \<open>
  Another branch: right after her deposit Alice requests her stake back, withdraws it in epoch 2
  and unregisters. Nobody has processed an epoch in between, so she is still listed as pending.
\<close>

definition demo_quick :: mainchain_contract where
  "demo_quick = demo_staked_one\<lparr>withdraw_requests :=
     [[1] \<mapsto> [''alice'' \<mapsto> \<lparr>wr_amount = INIT_MINIMUM_STAKE, wr_epoch = 2\<rparr>]]\<rparr>"

definition demo_back :: mainchain_contract where
  "demo_back = demo_staked_one\<lparr>
     token := token demo_funded,
     inactive_nodes := inactive_nodes demo_registered,
     depositors := [''alice'' \<mapsto> \<lparr>um_keys = [[1]], um_map = [[1] \<mapsto> 0]\<rparr>],
     last_total_balance := 0, withdraw_requests := [[1] \<mapsto> Map.empty],
     transfers := [(''alice'', 0)]\<rparr>"

definition demo_gone :: mainchain_contract where
  "demo_gone = demo_back\<lparr>
     inactive_nodes := \<lparr>um_keys = [''bob''], um_map = [''bob'' \<mapsto> demo_node 0 2]\<rparr>,
     transfers := [(''alice'', 0), (''alice'', 0)]\<rparr>"

lemma demo_quick_request:
  "request_withdraw (demo_env 9 ''alice'' [1]) INIT_MINIMUM_STAKE [1] demo_staked_one
     = Inr (\<lparr>rw_current_epoch = 0, rw_withdraw_epoch = 2\<rparr>, demo_quick)"
  by (simp add: request_withdraw_def demo_quick_def contract_defs demo_defs Let_def)

lemma demo_quick_withdraw:
  "withdraw (demo_env 640 ''alice'' [1]) INIT_MINIMUM_STAKE [1] demo_quick = Inr demo_back"
  by (simp add: withdraw_def internal_withdraw_def mint_def demo_quick_def
      demo_back_def contract_defs demo_defs Let_def fun_upd_twist fun_eq_iff)

lemma demo_unregister:
  "unregister_node ((demo_env 641 ''alice'' [1])\<lparr>attached_deposit := 0\<rparr>) [1] demo_back = Inr demo_gone"
  by (simp add: unregister_node_def assert_not_payable_def manage_storage_deposit_refund_def um_remove_def swap_remove_def
      demo_gone_def demo_back_def contract_defs demo_defs Let_def fun_upd_twist fun_eq_iff)


section \<open>The scenario is an execution of disciplined callers\<close>

abbreviation demo_reachable :: "chain \<Rightarrow> bool" where
  "demo_reachable \<equiv> reachable (initial demo_supply) (mainchain_step demo_crates disciplined_call)"

lemma demo_call_step:
  assumes "exec demo_crates (demo_env h who pk) c s = Inr s'" and "clk \<le> h"
    and "disciplined_call (demo_env h who pk) c s"
  shows "mainchain_step demo_crates disciplined_call (clk, s) (h, s')"
  using mainchain_step.call [of clk "demo_env h who pk" disciplined_call c s demo_crates s'] assms by simp

lemma demo_step:
  assumes "demo_reachable (clk, s)" and "exec demo_crates (demo_env h who pk) c s = Inr s'"
    and "clk \<le> h" and "disciplined_call (demo_env h who pk) c s"
  shows "demo_reachable (h, s')"
  using reachable.step [of "initial demo_supply" _ "(clk, s)" "(h, s')"] demo_call_step [OF assms(2-4)] assms(1)
  by blast

lemma demo_funding: "mainchain_step demo_crates allowed (0, demo_start) (0, demo_funded)"
  unfolding demo_funded_def
  by (rule mainchain_step.library)
    (auto simp: token_move_def map_sum_def demo_start_def demo_supply_def INIT_MINIMUM_STAKE_def)

lemma demo_reachable_staked_one: "demo_reachable (7, demo_staked_one)"
proof -
  have "demo_reachable (0, demo_funded)"
    by (rule reachable.step, rule reachable.start, rule demo_initial, rule demo_funding)
  from demo_step [OF this demo_register_one] have "demo_reachable (5, demo_registered_one)"
    by (simp add: disciplined_call_def fresh_account_def internal_get_node_def demo_defs um_get_def um_new_def)
  from demo_step [OF this demo_register_two] have "demo_reachable (6, demo_registered)"
    by (simp add: disciplined_call_def fresh_account_def internal_get_node_def demo_defs um_get_def um_new_def)
  from demo_step [OF this demo_deposit_one] show ?thesis by (simp add: disciplined_call_def)
qed

lemma demo_reachable_staked: "demo_reachable (8, demo_staked)"
  using demo_step [OF demo_reachable_staked_one demo_deposit_two] by (simp add: disciplined_call_def)

lemma demo_reachable_active: "demo_reachable (640, demo_active)"
  using demo_step [OF demo_reachable_staked demo_epoch] by (simp add: disciplined_call_def)

lemma demo_reachable_posted: "demo_reachable (650, demo_posted)"
proof -
  from demo_step [OF demo_reachable_active demo_request] have "demo_reachable (645, demo_requested)"
    by (simp add: disciplined_call_def)
  from demo_step [OF this demo_batch] show ?thesis by (simp add: disciplined_call_def)
qed

lemma demo_reachable_checked:
  "demo_reachable p \<Longrightarrow> reachable (initial demo_supply) (mainchain_step demo_crates checked_call) p"
  by (erule reachable_mono) (rule disciplined_checked)

text \<open>The other branch, up to the call that is not disciplined.\<close>

lemma demo_reachable_back: "demo_reachable (640, demo_back)"
proof -
  have "demo_reachable (9, demo_quick)"
    using demo_step [OF demo_reachable_staked_one, of 9 "''alice''" "[1]" "RequestWithdraw INIT_MINIMUM_STAKE [1]"]
      demo_quick_request by (simp add: exec_def disciplined_call_def)
  then show ?thesis
    using demo_step [of 9 demo_quick 640 "''alice''" "[1]" "Withdraw INIT_MINIMUM_STAKE [1]"] demo_quick_withdraw
    by (simp add: exec_def disciplined_call_def)
qed

end
