(* ===== verification/Blocked_Epochs.thy ===== *)
theory Blocked_Epochs
  imports Mainchain
begin

text \<open>
  What a node does to the epochs when it is unregistered while it is pending: \<open>unregister_node\<close>
  (\<open>contracts/src/node_registry.rs\<close>) leaves it among the pending nodes, and \<open>process_epoch\<close>
  (\<open>contracts/src/epoch.rs\<close>) panics on it once it is due. Such a state is \<open>blocked\<close>, and it stays so as
  long as the account does not register again.
\<close>

section \<open>Blocked states\<close>

text \<open>
  The account is pending for an epoch but no node. The last processed epoch is the one at the time of
  the unregistration or one before the account is due.
\<close>

definition blocked :: "account_id \<Rightarrow> u64 \<Rightarrow> u64 \<Rightarrow> mainchain_contract \<Rightarrow> bool" where
  "blocked a due last_epoch s \<longleftrightarrow>
     um_get (pending_nodes s) a = Some due \<and> um_get (inactive_nodes s) a = None \<and>
     um_get (active_nodes s) a = None \<and>
     (last_processed_epoch s = last_epoch \<or> last_processed_epoch s < due)"

definition no_registration_of :: "account_id \<Rightarrow> near_env \<Rightarrow> call \<Rightarrow> mainchain_contract \<Rightarrow> bool" where
  "no_registration_of a env c s \<longleftrightarrow>
     (case c of RegisterNode _ _ _ \<Rightarrow> signer_account_id env \<noteq> a | _ \<Rightarrow> True)"

lemma blocked_cong:
  assumes "um_get (active_nodes s') a = um_get (active_nodes s) a"
    "um_get (inactive_nodes s') a = um_get (inactive_nodes s) a"
    "um_get (pending_nodes s') a = um_get (pending_nodes s) a"
    "last_processed_epoch s' = last_processed_epoch s"
  shows "blocked a due l s' = blocked a due l s"
  using assms by (simp add: blocked_def)

lemma blocked_no_node: "blocked a due l s \<Longrightarrow> internal_get_node b s = Some n \<Longrightarrow> b \<noteq> a"
  by (auto simp: blocked_def internal_get_node_eq_Some)

lemma unregister_node_blocked:
  assumes "unregister_node env pk s = Inr s'" and "nodes_by_ed25519_public_key s pk = Some a"
    and "um_get (pending_nodes s) a = Some due" and "partition_inv s"
  shows "blocked a due (last_processed_epoch s) s'"
  using unregister_node_Inr [OF assms(1)] assms(2-4)
  by (auto simp: blocked_def partition_inv_def umap_simps) (metis not_None_eq option.distinct(1))


section \<open>The epochs of a blocked state\<close>

lemma process_epoch_blocked:
  assumes "key_inv s" and "blocked a due l s" and "due \<le> get_current_epoch env" and "l < get_current_epoch env"
  shows "process_epoch env s = Inl UnwrapNone"
proof -
  have "a \<in> set (eligible_nodes (get_current_epoch env) s)"
    using assms(1-3) by (auto simp: key_inv_def set_eligible_nodes blocked_def)
  with assms(2) have "activate_nodes env (eligible_nodes (get_current_epoch env) s) s = Inl UnwrapNone"
    by (intro activate_nodes_blocked) (auto simp: blocked_def)
  moreover have "\<not> get_current_epoch env \<le> last_processed_epoch s"
    using assms(2-4) by (auto simp: blocked_def)
  ultimately show ?thesis by (simp add: process_epoch_def manage_storage_deposit_def Let_def)
qed

lemma activate_nodes_apart:
  assumes "activate_nodes env as s = Inr s'" and "a \<notin> set as"
  shows "um_get (active_nodes s') a = um_get (active_nodes s) a \<and>
    um_get (inactive_nodes s') a = um_get (inactive_nodes s) a \<and>
    um_get (pending_nodes s') a = um_get (pending_nodes s) a"
  using assms
proof (induction "as" arbitrary: s)
  case (Cons b "as")
  then obtain s1 where s1: "activate_node env b s = Inr s1" "activate_nodes env as s1 = Inr s'"
    by (auto simp: and_then_eq_Inr)
  from Cons.IH [OF s1(2)] activate_node_Inr [OF s1(1)] Cons.prems(2) show ?case
    by (auto simp: umap_simps)
qed simp

text \<open>Processing an epoch before the account is due keeps it where it is.\<close>

lemma activate_nodes_keeps_blocked:
  assumes "activate_nodes env (eligible_nodes epoch s) s = Inr s1" and "key_inv s" and "blocked a due l s"
  shows "blocked a due l s1" "epoch < due"
proof -
  have a: "a \<notin> set (eligible_nodes epoch s)"
    using activate_nodes_blocked [of a "eligible_nodes epoch s" s env] assms(1,3) by (auto simp: blocked_def)
  then show "epoch < due"
    using assms(2,3) by (auto simp: set_eligible_nodes key_inv_def blocked_def not_le)
  have "last_processed_epoch s1 = last_processed_epoch s" using activate_nodes_frame [OF assms(1)] by auto
  then show "blocked a due l s1"
    using activate_nodes_apart [OF assms(1) a] assms(3) by (subst blocked_cong [of _ a s]) auto
qed

lemma process_epoch_keeps_blocked:
  assumes "process_epoch env s = Inr s'" and "key_inv s" and "blocked a due l s"
  shows "blocked a due l s'"
  using assms(1)
proof (cases rule: process_epoch_elim)
  case waiting
  with activate_nodes_keeps_blocked(1) assms(2,3) show ?thesis by blast
next
  case (selected s1 c cs ts)
  note keeps = activate_nodes_keeps_blocked [OF selected(2) assms(2,3)]
  then show ?thesis unfolding selected(6) by (simp add: blocked_def)
qed (use assms(3) in simp)

lemma post_signed_batch_keeps_blocked:
  assumes "post_signed_batch env cr sig pk signers leader_sig s = Inr s'" and "key_inv s" and "blocked a due l s"
  shows "blocked a due l s'"
  using assms(1)
proof (cases rule: post_signed_batch_elim)
  case (1 s1 s2 root s3 ts)
  from check_slot_leader_Inr(1) [OF 1(2)] obtain r where "s2 = s1\<lparr>last_generated_random_number := r\<rparr>" by blast
  then have "blocked a due l s' = blocked a due l s1"
    by (intro blocked_cong) (use store_batch_Inr [OF 1(4)] 1(5) in auto)
  with process_epoch_keeps_blocked [OF 1(1) assms(2,3)] show ?thesis by simp
qed


section \<open>Every other call\<close>

lemma handle_node_balance_update_keeps_blocked:
  assumes "handle_node_balance_update env b n s = Inr s'" and "b \<noteq> a" and "blocked a due l s"
  shows "blocked a due l s'"
  using assms
  by (auto simp: handle_node_balance_update_def blocked_def res_simps umap_simps split: if_splits)

lemma deposit_keeps_blocked:
  assumes "deposit env amount pk s = Inr s'" and "blocked a due l s"
  shows "blocked a due l s'"
  using assms(1)
proof (cases rule: deposit_elim)
  case (1 b tb c n nb s1 tot)
  from handle_node_balance_update_keeps_blocked [OF 1(7) blocked_no_node [OF assms(2) 1(4)], of due l] assms(2)
  show ?thesis by (simp add: 1(9) blocked_def)
qed

lemma withdraw_keeps_blocked:
  assumes "withdraw env amount pk s = Inr s'" and "blocked a due l s"
  shows "blocked a due l s'"
  using assms(1)
proof (cases rule: withdraw_elim)
  case (1 b tb c n nb dep deposited rest req s1 tot ts)
  from handle_node_balance_update_keeps_blocked [OF 1(14) blocked_no_node [OF assms(2) 1(3)], of due l] assms(2)
  show ?thesis by (simp add: 1(17) blocked_def)
qed

lemma update_node_keeps_blocked:
  assumes "update_node env cmd s = Inr s'" and "blocked a due l s"
  shows "blocked a due l s'"
proof -
  obtain addr where "cmd = SetSocketAddress addr" by (cases cmd)
  with update_node_Inr [of env addr s s'] assms(1) obtain n ts where
    n: "internal_get_node (signer_account_id env) s = Some n"
    and s': "s' = (if um_get (active_nodes s) (signer_account_id env) \<noteq> None
            then s\<lparr>active_nodes := um_insert (signer_account_id env) (n\<lparr>multi_addr := addr\<rparr>) (active_nodes s)\<rparr>
            else s\<lparr>inactive_nodes := um_insert (signer_account_id env) (n\<lparr>multi_addr := addr\<rparr>) (inactive_nodes s)\<rparr>)
           \<lparr>transfers := ts\<rparr>"
    by blast
  from blocked_no_node [OF assms(2) n] assms(2) show ?thesis
    unfolding s' by (auto simp: blocked_def umap_simps)
qed

lemma exec_keeps_blocked:
  assumes "exec cr env c s = Inr s'" and "key_inv s" and "blocked a due l s" and "no_registration_of a env c s"
  shows "blocked a due l s'"
proof (cases c)
  case (RegisterNode addr bn sig)
  with assms register_node_Inr(4) [of env addr bn sig s s'] show ?thesis
    by (auto simp: exec_def blocked_def no_registration_of_def umap_simps)
next
  case (UnregisterNode pk)
  with assms unregister_node_Inr [of env pk s s'] show ?thesis
    by (auto simp: exec_def blocked_def umap_simps)
next
  case (RequestWithdraw amount pk)
  with assms(1) obtain r where "request_withdraw env amount pk s = Inr (r, s')"
    by (auto simp: exec_def and_then_eq_Inr)
  from request_withdraw_Inr [OF this] assms(3) show ?thesis by (auto simp: blocked_def)
next
  case (CancelWithdrawRequest pk)
  with assms(1,3) cancel_withdraw_request_Inr [of env pk s s'] show ?thesis by (auto simp: exec_def blocked_def)
next
  case (UpdateConfig key v)
  with assms(1,3) update_config_Inr(2) [of env key v s s'] show ?thesis by (auto simp: exec_def blocked_def)
next
  case (PostDataRequest r)
  with assms(1,3) post_data_request_Inr [of env r s s'] show ?thesis by (auto simp: exec_def blocked_def)
qed (use assms in \<open>auto simp: exec_def intro: update_node_keeps_blocked deposit_keeps_blocked
      withdraw_keeps_blocked process_epoch_keeps_blocked post_signed_batch_keeps_blocked\<close>)

lemma mainchain_step_keeps_blocked:
  assumes "mainchain_step cr (no_registration_of a) p q" and "key_inv (snd p) \<and> blocked a due l (snd p)"
  shows "key_inv (snd q) \<and> blocked a due l (snd q)"
  using assms(1)
proof cases
  case (call clk env c s s')
  with assms(2) exec_keeps_blocked exec_key_inv show ?thesis by auto
next
  case (library s t clk)
  with assms(2) show ?thesis by (simp add: blocked_def key_inv_def registered_def)
qed

text \<open>Blocked states as an invariant of the calls that do not register the account.\<close>

interpretation blocked_epochs: inductive_invariant "\<lambda>p. key_inv (snd p) \<and> blocked a due l (snd p)"
  "mainchain_step cr (no_registration_of a)" "\<lambda>p. key_inv (snd p) \<and> blocked a due l (snd p)"
  for a and due and l and cr
  by unfold_locales (auto dest: mainchain_step_keeps_blocked)

end
