(* ===== verification/Mainchain_Properties.thy ===== *)
theory Mainchain_Properties
  imports Mainchain_Scenario Blocked_Epochs
begin

text \<open>
  The theorems about the main-chain contract: the supply and the stakes, the key indexes, the
  committees, epochs and batches, and the places where the contract does not do what it means
  to. Each theorem with hypotheses is followed by the same statement at the scenario.
\<close>

section \<open>What deposits and withdrawals do\<close>

text \<open>In both builds, on words that wrap around; with overflow checks the sums are exact.\<close>

lemma deposit_result:
  assumes "deposit env amount pk s = Inr s'"
  shows "\<exists>a n b. nodes_by_ed25519_public_key s pk = Some a \<and> internal_get_node a s = Some n \<and>
    accounts (token s) (signer_account_id env) = Some b \<and>
    accounts (token s') = (accounts (token s))(signer_account_id env \<mapsto> b - amount) \<and>
    internal_get_node a s' = Some (n\<lparr>balance := balance n + amount\<rparr>) \<and>
    (\<forall>x. x \<noteq> a \<longrightarrow> internal_get_node x s' = internal_get_node x s) \<and>
    last_total_balance s' = last_total_balance s + amount \<and>
    (overflow_checks env \<longrightarrow> amount \<le> b \<and> unat (balance n + amount) = unat (balance n) + unat amount \<and>
       unat (last_total_balance s') = unat (last_total_balance s) + unat amount)"
  using assms
proof (cases rule: deposit_elim)
  case (1 b tb a n nb s1 tot)
  let ?s0 = "s\<lparr>token := (token s)\<lparr>accounts := (accounts (token s))(signer_account_id env \<mapsto> tb)\<rparr>\<rparr>"
  have tok: "token s' = token ?s0"
    unfolding 1(9) using handle_node_balance_update_frame [OF 1(7)] by auto
  have v: "tb = b - amount" "nb = balance n + amount" "tot = last_total_balance s + amount"
    using 1(2,5,8) by (auto simp: arith_eq_Inr)
  have exact: "amount \<le> b \<and> unat nb = unat (balance n) + unat amount \<and> unat tot = unat (last_total_balance s) + unat amount"
    if "overflow_checks env"
    using 1(2,5,8) that arith_add_exact [of "balance n" amount nb] arith_add_exact [of "last_total_balance s" amount tot]
    by (auto simp: arith_eq_Inr)
  have get: "internal_get_node x s' = internal_get_node x s1" for x
    unfolding 1(9) by (rule internal_get_node_cong) simp_all
  have "internal_get_node x s' = internal_get_node x s" if "x \<noteq> a" for x
    using handle_node_balance_update_get(2) [OF 1(7) that] get by simp
  moreover have "internal_get_node a s' = Some (n\<lparr>balance := nb\<rparr>)"
    using handle_node_balance_update_get(1) [OF 1(7)] get by simp
  moreover have "last_total_balance s' = tot" by (simp add: 1(9))
  ultimately show ?thesis using 1(1,3,4) v exact tok by auto
qed

lemma withdraw_result:
  assumes "withdraw env amount pk s = Inr s'"
  shows "\<exists>a n dep d req b. 0 < amount \<and>
    nodes_by_ed25519_public_key s pk = Some a \<and> internal_get_node a s = Some n \<and> amount \<le> balance n \<and>
    depositors s (signer_account_id env) = Some dep \<and> um_get dep pk = Some d \<and> amount \<le> d \<and>
    requests_of s pk (signer_account_id env) = Some req \<and> wr_epoch req \<le> get_current_epoch env \<and>
    requests_of s' pk (signer_account_id env) = None \<and>
    internal_get_node a s' = Some (n\<lparr>balance := balance n - amount\<rparr>) \<and>
    (\<forall>x. x \<noteq> a \<longrightarrow> internal_get_node x s' = internal_get_node x s) \<and>
    accounts (token s) (signer_account_id env) = Some b \<and>
    accounts (token s') = (accounts (token s))(signer_account_id env \<mapsto> b + amount) \<and>
    last_total_balance s' = last_total_balance s - amount \<and>
    (overflow_checks env \<longrightarrow> unat (b + amount) = unat b + unat amount \<and>
       unat (last_total_balance s) = unat (last_total_balance s') + unat amount)"
  using assms
proof (cases rule: withdraw_elim)
  case (1 b tb a n nb dep deposited rest req s1 tot ts)
  let ?s0 = "s\<lparr>token := (token s)\<lparr>accounts := (accounts (token s))(signer_account_id env \<mapsto> tb)\<rparr>\<rparr>"
  have tok: "token s' = token ?s0"
    unfolding 1(17) using handle_node_balance_update_frame [OF 1(14)] by auto
  have v: "tb = b + amount" "nb = balance n - amount" "tot = last_total_balance s - amount"
    using 1(11,13,16) by (auto simp: arith_eq_Inr)
  have exact: "unat tb = unat b + unat amount \<and> unat (last_total_balance s) = unat tot + unat amount" if "overflow_checks env"
    using 1(11,16) that arith_add_exact [of b amount tb] arith_sub_exact [of "last_total_balance s" amount tot] by simp
  have get: "internal_get_node x s' = internal_get_node x s1" for x
    unfolding 1(17) by (rule internal_get_node_cong) simp_all
  have "internal_get_node x s' = internal_get_node x s" if "x \<noteq> a" for x
    using handle_node_balance_update_get(2) [OF 1(14) that] get by simp
  moreover have "internal_get_node a s' = Some (n\<lparr>balance := nb\<rparr>)"
    using handle_node_balance_update_get(1) [OF 1(14)] get by simp
  moreover have "requests_of s' pk (signer_account_id env) = None" "last_total_balance s' = tot"
    by (simp_all add: 1(17))
  ultimately show ?thesis using 1(1-10) v exact tok by auto
qed

lemma request_withdraw_epoch:
  assumes "request_withdraw env amount pk s = Inr (r, s')"
  shows "arith_add (overflow_checks env) (get_current_epoch env) (withdraw_delay (config s))
    = Inr (rw_withdraw_epoch r)"
proof -
  from request_withdraw_Inr [OF assms] obtain e where
    e: "arith_add (overflow_checks env) (get_current_epoch env) (withdraw_delay (config s)) = Inr e"
    by blast
  from request_withdraw_Inr [OF assms] have "config s' = config s" by auto
  with assms have "rw_withdraw_epoch r = withdraw_delay (config s) + get_current_epoch env"
    unfolding request_withdraw_def by (auto simp: and_then_eq_Inr arith_eq_Inr)
  moreover have "e = get_current_epoch env + withdraw_delay (config s)"
    using arith_add_value [OF e] .
  ultimately have "rw_withdraw_epoch r = e" by (simp add: add.commute)
  with e show ?thesis by simp
qed


section \<open>Tokens and stakes\<close>

text \<open>C3: In a build with overflow checks, no sequence of calls creates tokens: what the accounts
  hold plus what the contract holds for the nodes never exceeds the initial supply.\<close>

theorem no_inflation:
  assumes "reachable (initial sp) (mainchain_step cr checked_call) (clk, s)"
  shows "circulating s + unat (last_total_balance s) \<le> unat sp"
  using tokens.reachable_inv [OF assms] by (simp add: supply_inv_def)

theorem no_inflation_witness:
  "circulating demo_posted + unat (last_total_balance demo_posted) \<le> unat demo_supply"
  by (rule no_inflation [OF demo_reachable_checked [OF demo_reachable_posted]])

text \<open>C4: If no registered account registers again and no pending node is unregistered, then in a
  build with overflow checks the recorded total is exactly what the nodes hold together, no
  account is active and inactive at once, and every pending node is inactive.\<close>

theorem stakes_backed:
  assumes "reachable (initial sp) (mainchain_step cr disciplined_call) (clk, s)"
  shows "unat (last_total_balance s) = staked s \<and> partition_inv s"
  using stakes.reachable_inv [OF assms] by (simp add: stake_inv_def)

theorem stakes_backed_witness:
  "unat (last_total_balance demo_posted) = staked demo_posted \<and> partition_inv demo_posted"
  by (rule stakes_backed [OF demo_reachable_posted])

text \<open>A deposit that succeeds with overflow checks moves exactly the amount: from the signer's
  token account to the balance of the node the key names, and into the total; no other account
  and no other node changes.\<close>

theorem deposit_effect:
  assumes "deposit env amount pk s = Inr s'" and "overflow_checks env"
  shows "\<exists>a n b. nodes_by_ed25519_public_key s pk = Some a \<and> internal_get_node a s = Some n \<and>
    accounts (token s) (signer_account_id env) = Some b \<and> amount \<le> b \<and>
    accounts (token s') = (accounts (token s))(signer_account_id env \<mapsto> b - amount) \<and>
    internal_get_node a s' = Some (n\<lparr>balance := balance n + amount\<rparr>) \<and>
    unat (balance n + amount) = unat (balance n) + unat amount \<and>
    (\<forall>x. x \<noteq> a \<longrightarrow> internal_get_node x s' = internal_get_node x s) \<and>
    unat (last_total_balance s') = unat (last_total_balance s) + unat amount"
  using deposit_result [OF assms(1)] assms(2) by blast

theorem deposit_effect_witness:
  "\<exists>a n b. nodes_by_ed25519_public_key demo_registered [1] = Some a \<and>
    internal_get_node a demo_registered = Some n \<and>
    accounts (token demo_registered) ''alice'' = Some b \<and> INIT_MINIMUM_STAKE \<le> b \<and>
    accounts (token demo_staked_one) = (accounts (token demo_registered))(''alice'' \<mapsto> b - INIT_MINIMUM_STAKE) \<and>
    internal_get_node a demo_staked_one = Some (n\<lparr>balance := balance n + INIT_MINIMUM_STAKE\<rparr>) \<and>
    unat (balance n + INIT_MINIMUM_STAKE) = unat (balance n) + unat INIT_MINIMUM_STAKE \<and>
    unat (last_total_balance demo_staked_one) = unat (last_total_balance demo_registered) + unat INIT_MINIMUM_STAKE"
  using deposit_effect [of "demo_env 7 ''alice'' [1]" INIT_MINIMUM_STAKE "[1]" demo_registered demo_staked_one]
    demo_deposit_one
  by (auto simp: exec_def)

text \<open>C5: A withdrawal succeeds only against a pending request of the signer for that node whose
  epoch has come, and for at most what the node holds and what is recorded as the signer's
  deposit, in either build. It uses the request up, takes exactly the amount from the node, leaves
  the other nodes alone, and adds the amount to the signer's account and takes it from the total,
  on 128 bits. With overflow checks account and total move by exactly the amount too; without
  them they wrap around.\<close>

theorem withdraw_guarded:
  assumes "withdraw env amount pk s = Inr s'"
  shows "\<exists>a n dep d req b. 0 < amount \<and>
    nodes_by_ed25519_public_key s pk = Some a \<and> internal_get_node a s = Some n \<and> amount \<le> balance n \<and>
    depositors s (signer_account_id env) = Some dep \<and> um_get dep pk = Some d \<and> amount \<le> d \<and>
    requests_of s pk (signer_account_id env) = Some req \<and> wr_epoch req \<le> get_current_epoch env \<and>
    requests_of s' pk (signer_account_id env) = None \<and>
    internal_get_node a s' = Some (n\<lparr>balance := balance n - amount\<rparr>) \<and>
    unat (balance n) = unat (balance n - amount) + unat amount \<and>
    (\<forall>x. x \<noteq> a \<longrightarrow> internal_get_node x s' = internal_get_node x s) \<and>
    accounts (token s) (signer_account_id env) = Some b \<and>
    accounts (token s') = (accounts (token s))(signer_account_id env \<mapsto> b + amount) \<and>
    last_total_balance s' = last_total_balance s - amount \<and>
    (overflow_checks env \<longrightarrow> unat (b + amount) = unat b + unat amount \<and>
       unat (last_total_balance s) = unat (last_total_balance s') + unat amount)"
proof -
  have "unat x = unat (x - amount) + unat amount" if "amount \<le> x" for x
    using that by (simp add: unat_sub word_le_nat_alt)
  with withdraw_result [OF assms] show ?thesis by blast
qed

theorem withdraw_guarded_witness:
  "\<exists>a n dep d req b. 0 < INIT_MINIMUM_STAKE \<and>
    nodes_by_ed25519_public_key demo_leaving [1] = Some a \<and> internal_get_node a demo_leaving = Some n \<and>
    INIT_MINIMUM_STAKE \<le> balance n \<and>
    depositors demo_leaving ''alice'' = Some dep \<and> um_get dep [1] = Some d \<and> INIT_MINIMUM_STAKE \<le> d \<and>
    requests_of demo_leaving [1] ''alice'' = Some req \<and>
    wr_epoch req \<le> get_current_epoch (demo_env 1280 ''alice'' [1]) \<and>
    requests_of demo_left [1] ''alice'' = None \<and>
    accounts (token demo_leaving) ''alice'' = Some b \<and>
    accounts (token demo_left) = (accounts (token demo_leaving))(''alice'' \<mapsto> b + INIT_MINIMUM_STAKE) \<and>
    internal_get_node a demo_left = Some (n\<lparr>balance := balance n - INIT_MINIMUM_STAKE\<rparr>) \<and>
    unat (last_total_balance demo_leaving) = unat (last_total_balance demo_left) + unat INIT_MINIMUM_STAKE"
  using withdraw_guarded [OF demo_withdraw] by auto

text \<open>C6: A stake can be taken out again: if a deposit, the request for the same amount and the
  withdrawal of the same signer all succeed, one after the other, the token accounts, the node
  and the total are what they were before the deposit, and the withdrawal happened at the
  epoch the request announced or later. This holds in either build.\<close>

theorem stake_round_trip:
  assumes "deposit env1 amount pk s = Inr s1"
    and "request_withdraw env2 amount pk s1 = Inr (r, s2)"
    and "withdraw env3 amount pk s2 = Inr s3"
    and "signer_account_id env2 = signer_account_id env1"
    and "signer_account_id env3 = signer_account_id env1"
  shows "accounts (token s3) = accounts (token s) \<and>
    (\<exists>a. nodes_by_ed25519_public_key s pk = Some a \<and> internal_get_node a s3 = internal_get_node a s) \<and>
    unat (last_total_balance s3) = unat (last_total_balance s) \<and>
    rw_withdraw_epoch r \<le> get_current_epoch env3"
proof -
  let ?d = "signer_account_id env1"
  from deposit_result [OF assms(1)] obtain a n b where
    d: "nodes_by_ed25519_public_key s pk = Some a" "internal_get_node a s = Some n"
      "accounts (token s) ?d = Some b" "accounts (token s1) = (accounts (token s))(?d \<mapsto> b - amount)"
      "internal_get_node a s1 = Some (n\<lparr>balance := balance n + amount\<rparr>)"
      "last_total_balance s1 = last_total_balance s + amount" by blast
  have d2: "nodes_by_ed25519_public_key s1 pk = Some a"
    using assms(1) d(1) by (cases rule: deposit_elim) (auto dest!: handle_node_balance_update_frame)
  from request_withdraw_Inr [OF assms(2)] assms(4) obtain e where
    e: "arith_add (overflow_checks env2) (get_current_epoch env2) (withdraw_delay (config s1)) = Inr e"
    and s2: "s2 = s1\<lparr>withdraw_requests := (withdraw_requests s1)(pk \<mapsto> (requests_of s1 pk)
              (?d \<mapsto> \<lparr>wr_amount = amount, wr_epoch = e\<rparr>))\<rparr>" by auto
  have r: "rw_withdraw_epoch r = e"
    using request_withdraw_epoch [OF assms(2)] e by simp
  from withdraw_result [OF assms(3)] assms(5) obtain a' n' req b' where
    w: "nodes_by_ed25519_public_key s2 pk = Some a'" "internal_get_node a' s2 = Some n'"
      "requests_of s2 pk ?d = Some req" "wr_epoch req \<le> get_current_epoch env3"
      "accounts (token s2) ?d = Some b'"
      "accounts (token s3) = (accounts (token s2))(?d \<mapsto> b' + amount)"
      "internal_get_node a' s3 = Some (n'\<lparr>balance := balance n' - amount\<rparr>)"
      "last_total_balance s3 = last_total_balance s2 - amount" by auto
  have "a' = a" using w(1) d2 by (simp add: s2)
  moreover have "n' = n\<lparr>balance := balance n + amount\<rparr>" using w(2) d(5) \<open>a' = a\<close> by (simp add: s2)
  moreover have "b' = b - amount" using w(5) d(4) by (simp add: s2)
  moreover have "wr_epoch req = e" using w(3) by (auto simp: s2)
  ultimately show ?thesis
    using w d r by (auto simp: s2 fun_upd_idem)
qed

theorem stake_round_trip_witness:
  "accounts (token demo_back) = accounts (token demo_registered) \<and>
    (\<exists>a. nodes_by_ed25519_public_key demo_registered [1] = Some a \<and>
       internal_get_node a demo_back = internal_get_node a demo_registered) \<and>
    unat (last_total_balance demo_back) = unat (last_total_balance demo_registered) \<and>
    (2 :: u64) \<le> get_current_epoch (demo_env 640 ''alice'' [1])"
proof -
  have "deposit (demo_env 7 ''alice'' [1]) INIT_MINIMUM_STAKE [1] demo_registered = Inr demo_staked_one"
    using demo_deposit_one by (simp add: exec_def)
  from stake_round_trip [OF this demo_quick_request demo_quick_withdraw] show ?thesis by simp
qed


section \<open>Keys\<close>

text \<open>C7: In every reachable state each node is found by both of its public keys, and the three
  views of it agree; so no two accounts share a key.\<close>

theorem nodes_found_by_keys:
  assumes "reachable (initial sp) (mainchain_step cr allowed) (clk, s)"
    and "internal_get_node a s = Some n"
  shows "get_node a s = Some (node_info_of a n) \<and>
    get_node_by_ed25519_public_key (ed25519_public_key n) s = Inr (node_info_of a n) \<and>
    get_node_by_bn254_public_key (bn254_public_key n) s = Inr (node_info_of a n)"
proof -
  have "key_inv s" using keys.reachable_inv [OF assms(1)] by simp
  then have "nodes_by_ed25519_public_key s (ed25519_public_key n) = Some a"
    "nodes_by_bn254_public_key s (bn254_public_key n) = Some a"
    using internal_get_node_registered [OF assms(2)] by (auto simp: key_inv_def)
  with assms(2) show ?thesis
    by (simp add: get_node_def get_node_by_ed25519_public_key_def get_node_by_bn254_public_key_def)
qed

theorem nodes_found_by_keys_witness:
  "get_node ''bob'' demo_posted = Some (node_info_of ''bob'' (demo_node INIT_MINIMUM_STAKE 2)) \<and>
    get_node_by_ed25519_public_key [2] demo_posted = Inr (node_info_of ''bob'' (demo_node INIT_MINIMUM_STAKE 2)) \<and>
    get_node_by_bn254_public_key [12] demo_posted = Inr (node_info_of ''bob'' (demo_node INIT_MINIMUM_STAKE 2))"
proof -
  have "internal_get_node ''bob'' demo_posted = Some (demo_node INIT_MINIMUM_STAKE 2)"
    by (simp add: internal_get_node_def um_get_def demo_posted_def demo_requested_def demo_active_def)
  from nodes_found_by_keys [OF demo_reachable_posted this] show ?thesis by (simp add: demo_node_def)
qed


section \<open>Committees\<close>

text \<open>C8: A committee that is selected has exactly the configured size, all its members are
  different, and all are active nodes.\<close>

theorem select_committee_sound:
  assumes "select_committee env seed s = Inr c" and "um_invar (active_nodes s)"
  shows "length c = unat (committee_size (config s)) \<and> distinct c \<and>
    (\<forall>a \<in> set c. is_node_active a s)"
  using select_committee_members [OF assms] by (auto simp: is_node_active_def)

lemma demo_active_keys:
  "um_keys (active_nodes demo_active) = [''alice'', ''bob'']" "committee_size (config demo_active) = 2"
  "um_invar (active_nodes demo_active)"
  by (auto simp: um_invar_def demo_defs)

lemma demo_select: "select_committee (demo_env h who pk) r demo_active = Inr [''alice'', ''bob'']"
  by (simp add: select_committee_def upt_rec demo_draw reroll.simps demo_active_keys)

theorem select_committee_sound_witness:
  "length [''alice'', ''bob''] = unat (committee_size (config demo_active)) \<and> distinct [''alice'', ''bob''] \<and>
    is_node_active ''alice'' demo_active \<and> is_node_active ''bob'' demo_active"
  using select_committee_sound [OF demo_select [of 640 "''alice''" "[1]" 7] demo_active_keys(3)] by simp

text \<open>C9: The selection ends: if every window of \<open>window\<close> counters draws every index, the
  committee is not larger than the set of active nodes, and the gas pays for
  \<open>window\<close> rerolls per member, a committee is returned.\<close>

theorem select_committee_ends:
  assumes "draws_all env seed (length (um_keys (active_nodes s))) window"
    and "unat (committee_size (config s)) \<le> length (um_keys (active_nodes s))"
    and "window * unat (committee_size (config s)) \<le> gas_rerolls env"
    and "(window + 2) * unat (committee_size (config s)) < 2 ^ 64"
  shows "\<exists>c. select_committee env seed s = Inr c"
  by (rule select_committee_returns [OF assms])

lemma mod_window:
  fixes base n j :: nat
  assumes "j < n"
  shows "\<exists>k \<in> {1..n}. (base + k) mod n = j"
proof -
  define m where "m = base mod n"
  define k where "k = (if j \<le> m then n + j - m else j - m)"
  have lt: "m < n" using assms by (simp add: m_def)
  have "k \<in> {1..n}" using assms lt unfolding k_def by (auto simp: Suc_le_eq less_diff_conv)
  moreover have "(m + k) mod n = j" using assms lt unfolding k_def by (auto simp: not_le)
  moreover have "(base + k) mod n = (m + k) mod n" by (simp add: m_def mod_add_left_eq)
  ultimately show ?thesis by metis
qed

lemma demo_draws_all: "0 < n \<Longrightarrow> draws_all (demo_env h who pk) seed n n"
  unfolding draws_all_def
proof (intro allI impI)
  fix base j :: nat
  assume n: "0 < n" and b: "base + n < 2 ^ 64" and j: "j < n"
  from mod_window [OF j, of base] obtain k where k: "k \<in> {1..n}" "(base + k) mod n = j" by blast
  have "unat (of_nat (base + k) :: u64) = base + k"
    using k(1) b by (intro u64_of_nat_fits) simp
  then have "draw (demo_env h who pk) seed n (of_nat (base + k)) = Inr j"
    using n k(2) by (simp add: demo_draw del: of_nat_add)
  with k(1) show "\<exists>k \<in> {1..n}. draw (demo_env h who pk) seed n (of_nat (base + k)) = Inr j"
    by blast
qed

theorem select_committee_ends_witness:
  "\<exists>c. select_committee (demo_env 640 ''alice'' [1]) 7 demo_active = Inr c"
proof (rule select_committee_ends [where window = 2])
  have len: "length (um_keys (active_nodes demo_active)) = 2" by (simp add: demo_active_keys)
  show "draws_all (demo_env 640 ''alice'' [1]) 7 (length (um_keys (active_nodes demo_active))) 2"
    unfolding len by (rule demo_draws_all) simp
qed (simp_all add: demo_active_keys demo_env_def)

text \<open>With fewer active nodes than the committee needs, but at least one, the release build
  rerolls until the gas is used up, whatever the amount of gas and whatever the hash.\<close>

theorem select_committee_too_few:
  assumes "0 < length (um_keys (active_nodes s))"
    and "length (um_keys (active_nodes s)) < unat (committee_size (config s))"
    and "\<not> overflow_checks env"
  shows "select_committee env seed s = Inl OutOfGas"
  using select_loop_unchecked [OF assms(3,1), of seed "committee_size (config s)"
      "[0..<unat (committee_size (config s))]" "gas_rerolls env" 0 "[]" "[]"]
    select_committee_bound [of env seed s] assms(2)
  by (auto simp: select_committee_def)

theorem select_committee_too_few_witness:
  "select_committee ((demo_env 1300 ''bob'' [2])\<lparr>overflow_checks := False, gas_rerolls := 100000\<rparr>) 7 demo_left
    = Inl OutOfGas"
  by (rule select_committee_too_few) (simp_all add: demo_left_def demo_active_def demo_defs)

text \<open>C10: In every reachable state each stored committee has the configured number of different
  members, and no later call changes or removes it.\<close>

theorem committees_final:
  assumes "reachable (initial sp) (mainchain_step cr allowed) (clk, s)"
    and "(mainchain_step cr allowed)\<^sup>*\<^sup>* (clk, s) (clk', s')" and "get_committee e s = Some c"
  shows "get_committee e s' = Some c \<and> distinct c \<and> length c = unat (committee_size (config s'))"
proof -
  have inv: "key_inv s \<and> committee_inv s" using panels.reachable_inv [OF assms(1)] by simp
  have "key_inv (snd q) \<and> committee_inv (snd q) \<and> committees (snd q) e = Some c"
    if "(mainchain_step cr allowed)\<^sup>*\<^sup>* (clk, s) q" for q
    using that
  proof (induction rule: rtranclp_induct)
    case base
    with inv assms(3) show ?case by (simp add: get_committee_def)
  next
    case (step y z)
    with mainchain_step_committees [OF step(2)] show ?case by blast
  qed
  from this [OF assms(2)] show ?thesis by (auto simp: get_committee_def committee_inv_def)
qed

theorem committees_final_witness:
  "get_committee 4 demo_posted = Some [''alice'', ''bob''] \<and> distinct [''alice'', ''bob''] \<and>
    length [''alice'', ''bob''] = unat (committee_size (config demo_posted))"
proof (rule committees_final [OF demo_reachable_active])
  have 1: "mainchain_step demo_crates disciplined_call (640, demo_active) (645, demo_requested)"
    by (rule demo_call_step [OF demo_request]) (simp_all add: disciplined_call_def)
  have 2: "mainchain_step demo_crates disciplined_call (645, demo_requested) (650, demo_posted)"
    by (rule demo_call_step [OF demo_batch]) (simp_all add: disciplined_call_def)
  from 1 2 show "(mainchain_step demo_crates disciplined_call)\<^sup>*\<^sup>* (640, demo_active) (650, demo_posted)"
    by simp
  show "get_committee 4 demo_active = Some [''alice'', ''bob'']"
    by (simp add: get_committee_def demo_active_def)
qed

text \<open>C11: In every reachable state whose current epoch has a committee, there is a slot leader in
  every slot of the epoch, and it is a member of that committee, unless the configured committee
  size is 0, which the constructor accepts: then the committees are empty and asking for the slot
  leader panics with a division by zero.\<close>

theorem slot_leader_in_committee:
  assumes "reachable (initial sp) (mainchain_step cr allowed) (clk, s)"
    and "get_committee (get_current_epoch env) s = Some c"
  shows "if committee_size (config s) = 0
    then c = [] \<and> get_current_slot_leader env s = Inl DivisionByZero
    else (\<exists>a \<in> set c. get_current_slot_leader env s = Inr (Some a))"
proof -
  have len: "length c = unat (committee_size (config s))"
    using panels.reachable_inv [OF assms(1)] assms(2) by (auto simp: committee_inv_def get_committee_def)
  show ?thesis
  proof (cases "committee_size (config s) = 0")
    case True
    with len assms(2) show ?thesis
      by (auto simp: get_current_slot_leader_def get_committee_def draw_def)
  next
    case False
    then have "0 < unat (committee_size (config s))" by (simp add: unat_gt_0)
    then obtain j where j: "draw env (last_generated_random_number s) (unat (committee_size (config s)))
      (get_current_slot env) = Inr j" using draw_total by blast
    have "j < length c" using draw_Inr [OF j] len by simp
    then show ?thesis
      using False assms(2) j by (auto simp: get_current_slot_leader_def get_committee_def)
  qed
qed

theorem slot_leader_in_committee_witness:
  "\<exists>a \<in> set [''alice'', ''bob'']. get_current_slot_leader (demo_env 650 ''bob'' [2]) demo_posted = Inr (Some a)"
proof -
  have committee: "get_committee (get_current_epoch (demo_env 650 ''bob'' [2])) demo_posted = Some [''alice'', ''bob'']"
    by (simp add: get_committee_def get_current_epoch_def demo_posted_def demo_requested_def demo_active_def
        mainchain_consts)
  have "committee_size (config demo_posted) \<noteq> 0"
    by (simp add: demo_posted_def demo_requested_def demo_defs)
  with slot_leader_in_committee [OF demo_reachable_posted committee] show ?thesis by simp
qed


section \<open>Epochs\<close>

text \<open>The activation is the first thing a new epoch does; nothing after it fails on a missing node.\<close>

lemma activation_succeeds:
  assumes "key_inv s" and "partition_inv s"
  shows "\<exists>s1. activate_nodes env (eligible_nodes epoch s) s = Inr s1 \<and>
    um_get (active_nodes s1) = (\<lambda>a. if \<exists>e. um_get (pending_nodes s) a = Some e \<and> e \<le> epoch
        then um_get (inactive_nodes s) a else um_get (active_nodes s) a) \<and>
    um_get (inactive_nodes s1) = (um_get (inactive_nodes s)) |` (- {a. \<exists>e. um_get (pending_nodes s) a = Some e \<and> e \<le> epoch}) \<and>
    um_get (pending_nodes s1) = (um_get (pending_nodes s)) |` (- {a. \<exists>e. um_get (pending_nodes s) a = Some e \<and> e \<le> epoch})"
proof -
  have pend: "um_invar (pending_nodes s)" using assms(1) by (simp add: key_inv_def)
  have inact: "\<forall>a \<in> set (eligible_nodes epoch s). um_get (inactive_nodes s) a \<noteq> None"
    using assms(2) by (auto simp: set_eligible_nodes [OF pend] partition_inv_def)
  show ?thesis
    using activate_nodes_succeeds [OF eligible_nodes_distinct [OF pend] inact, of env]
    unfolding set_eligible_nodes [OF pend] by simp
qed

lemma draw_not_unwrap: "draw env seed n c \<noteq> Inl UnwrapNone"
  by (auto simp: draw_def Let_def ensure_def)

lemma reroll_not_unwrap: "reroll env seed cs n i chosen gas r idx \<noteq> Inl UnwrapNone"
proof (induction gas arbitrary: r idx)
  case (Suc gas)
  then show ?case
    by (auto simp: reroll.simps [of _ _ _ _ _ _ "Suc gas"] and_then_eq_Inl draw_not_unwrap arith_add_def split: if_splits)
qed (simp add: reroll.simps)

lemma select_committee_not_unwrap: "select_committee env seed s \<noteq> Inl UnwrapNone"
proof -
  have "select_loop env seed cs vs is gas r idxs com \<noteq> Inl UnwrapNone" for cs vs "is" gas r idxs com
    by (induction "is" arbitrary: gas r idxs com)
      (auto simp: and_then_eq_Inl draw_not_unwrap reroll_not_unwrap expect_eq_Inl split: prod.splits)
  then show ?thesis by (simp add: select_committee_def)
qed

lemma select_lookahead_not_unwrap: "select_lookahead env epoch is s \<noteq> Inl UnwrapNone"
  by (induction "is" arbitrary: s)
    (auto simp: and_then_eq_Inl select_committee_not_unwrap arith_add_def split: if_splits)

lemma manage_storage_deposit_not_unwrap:
  "manage_storage_deposit env s block = Inl UnwrapNone \<Longrightarrow> block s = Inl UnwrapNone"
  by (auto simp: manage_storage_deposit_def require_storage_deposit_def refund_storage_deposit_def Let_def
      and_then_eq_Inl ensure_eq_Inl arith_sub_def arith_mul_def split: prod.splits if_splits)

text \<open>C12: Under disciplined callers, processing an epoch that has not been processed yet activates
  exactly the pending nodes whose epoch has come: they become active with the stake they had and
  leave the inactive and the pending nodes, and all other nodes stay where they are. The lookup of
  a node to activate does not fail: if the call panics, it does so for another reason, in the
  choice of the committee or over the storage deposit.\<close>

theorem epoch_activates_pending:
  assumes "reachable (initial sp) (mainchain_step cr disciplined_call) (clk, s)"
    and "last_processed_epoch s < get_current_epoch env"
  shows "process_epoch env s \<noteq> Inl UnwrapNone \<and>
    (\<forall>s' a. process_epoch env s = Inr s' \<longrightarrow>
      (if \<exists>e. um_get (pending_nodes s) a = Some e \<and> e \<le> get_current_epoch env
       then is_node_active a s' \<and> um_get (active_nodes s') a = um_get (inactive_nodes s) a \<and>
         um_get (inactive_nodes s') a = None \<and> um_get (pending_nodes s') a = None
       else um_get (active_nodes s') a = um_get (active_nodes s) a \<and>
         um_get (inactive_nodes s') a = um_get (inactive_nodes s) a \<and>
         um_get (pending_nodes s') a = um_get (pending_nodes s) a))"
proof -
  let ?e = "get_current_epoch env"
  have inv: "key_inv s" "partition_inv s"
    using stakes.reachable_inv [OF assms(1)] by (simp_all add: stake_inv_def)
  from activation_succeeds [OF inv] obtain s1 where s1: "activate_nodes env (eligible_nodes ?e s) s = Inr s1"
    and maps: "um_get (active_nodes s1) = (\<lambda>a. if \<exists>e. um_get (pending_nodes s) a = Some e \<and> e \<le> ?e
        then um_get (inactive_nodes s) a else um_get (active_nodes s) a)"
      "um_get (inactive_nodes s1) = (um_get (inactive_nodes s)) |` (- {a. \<exists>e. um_get (pending_nodes s) a = Some e \<and> e \<le> ?e})"
      "um_get (pending_nodes s1) = (um_get (pending_nodes s)) |` (- {a. \<exists>e. um_get (pending_nodes s) a = Some e \<and> e \<le> ?e})"
    by blast
  have unprocessed: "\<not> ?e \<le> last_processed_epoch s" using assms(2) by simp
  have "process_epoch env s \<noteq> Inl UnwrapNone"
    using s1 unprocessed
    by (auto simp: process_epoch_def Let_def and_then_eq_Inl select_committee_not_unwrap select_lookahead_not_unwrap
        arith_add_def dest!: manage_storage_deposit_not_unwrap split: if_splits)
  moreover have "active_nodes s' = active_nodes s1 \<and> inactive_nodes s' = inactive_nodes s1 \<and> pending_nodes s' = pending_nodes s1"
    if "process_epoch env s = Inr s'" for s'
    using that s1 unprocessed by (cases rule: process_epoch_elim) auto
  moreover have "um_get (inactive_nodes s) a \<noteq> None" if "um_get (pending_nodes s) a = Some e" for a e
    using inv(2) that by (auto simp: partition_inv_def)
  ultimately show ?thesis by (auto simp: maps is_node_active_def restrict_map_def)
qed

theorem epoch_activates_pending_witness:
  "process_epoch (demo_env 640 ''alice'' [1]) demo_staked \<noteq> Inl UnwrapNone \<and>
    is_node_active ''alice'' demo_active \<and> um_get (inactive_nodes demo_active) ''alice'' = None \<and>
    is_node_active ''bob'' demo_active \<and> um_get (pending_nodes demo_active) ''bob'' = None"
proof -
  have epoch: "get_current_epoch (demo_env 640 ''alice'' [1]) = 2" by (simp add: get_current_epoch_def demo_defs)
  have fields: "last_processed_epoch demo_staked = 0" "um_get (pending_nodes demo_staked) ''alice'' = Some 2"
    "um_get (pending_nodes demo_staked) ''bob'' = Some 2" by (simp_all add: um_get_def demo_defs)
  have "process_epoch (demo_env 640 ''alice'' [1]) demo_staked = Inr demo_active"
    using demo_epoch by (simp add: exec_def)
  with epoch_activates_pending [OF demo_reachable_staked, of "demo_env 640 ''alice'' [1]"] show ?thesis
    by (simp add: epoch fields)
qed




section \<open>Batches\<close>

text \<open>C14: In a build with overflow checks the recorded batches are numbered from 1 without gaps up
  to the number of batches, and the batch of every recorded id is stored.\<close>

theorem batches_contiguous:
  assumes "reachable (initial sp) (mainchain_step cr checked_call) (clk, s)"
  shows "(\<forall>h. batch_ids_by_height s h \<noteq> None \<longleftrightarrow> 1 \<le> h \<and> h \<le> num_batches s) \<and>
    (\<forall>h i. batch_ids_by_height s h = Some i \<longrightarrow> batch_by_id s i \<noteq> None)"
  using batches.reachable_inv [OF assms] by (simp add: batch_inv_def)

theorem batches_contiguous_witness:
  "batch_ids_by_height demo_posted 1 \<noteq> None \<and> batch_ids_by_height demo_posted 2 = None \<and>
    batch_by_id demo_posted demo_batch_id \<noteq> None"
  using batches_contiguous [OF demo_reachable_checked [OF demo_reachable_posted]]
  by (auto simp: demo_posted_def)

text \<open>C15: A batch is accepted only from the slot leader, who has signed the last random number, and
  with at least one signer, all of them active members of the current committee, whose public
  keys add up to the given one; and the aggregate signature is valid for the root of the
  accumulated requests.\<close>

theorem post_signed_batch_authorised:
  assumes "post_signed_batch env cr sig pk signers leader_sig s = Inr s'"
  shows "\<exists>s1 s2 c k ks root n. process_epoch env s = Inr s1 \<and>
    get_current_slot_leader env s1 = Inr (Some (signer_account_id env)) \<and>
    um_get (active_nodes s1) (signer_account_id env) = Some n \<and>
    bn254_verify env (to_le_bytes 32 (last_generated_random_number s)) leader_sig (bn254_public_key n) = Inr True \<and>
    check_slot_leader env leader_sig s1 = Inr s2 \<and>
    get_committee (get_current_epoch env) s2 = Some c \<and> signers \<noteq> [] \<and> set signers \<subseteq> set c \<and>
    (\<forall>a \<in> set signers. is_node_active a s2) \<and>
    list_all2 (\<lambda>a k. signer_key cr s2 a = Inr k) signers (k # ks) \<and>
    pk_to_uncompressed cr (foldl (pk_add cr) k ks) = Some pk \<and>
    internal_compute_merkle_root env cr s = Inr root \<and> bn254_verify env root sig pk = Inr True"
  using assms
proof (cases rule: post_signed_batch_elim)
  case (1 s1 s2 root s3 ts)
  have rnd: "last_generated_random_number s1 = last_generated_random_number s"
    and acc: "data_request_accumulator s1 = data_request_accumulator s"
    using process_epoch_frame [OF 1(1)] by simp_all
  have "data_request_accumulator s2 = data_request_accumulator s"
    using check_slot_leader_Inr(1) [OF 1(2)] acc by auto
  then have root: "internal_compute_merkle_root env cr s2 = internal_compute_merkle_root env cr s"
    by (simp add: internal_compute_merkle_root_def)
  from check_slot_leader_Inr(3) [OF 1(2)] obtain n where
    "um_get (active_nodes s1) (signer_account_id env) = Some n"
    "bn254_verify env (to_le_bytes 32 (last_generated_random_number s)) leader_sig (bn254_public_key n) = Inr True"
    unfolding rnd by blast
  moreover from check_signers_Inr [OF 1(3)] obtain c ks k where
    "get_committee (get_current_epoch env) s2 = Some c" "signers \<noteq> []" "set signers \<subseteq> set c"
    "\<forall>a \<in> set signers. is_node_active a s2"
    "list_all2 (\<lambda>a k. signer_key cr s2 a = Inr k) signers (k # ks)"
    "pk_to_uncompressed cr (foldl (pk_add cr) k ks) = Some pk"
    "internal_compute_merkle_root env cr s = Inr root" "bn254_verify env root sig pk = Inr True"
    unfolding root get_committee_def by blast
  ultimately show ?thesis using 1(1,2) check_slot_leader_Inr(2) [OF 1(2)] by blast
qed

theorem post_signed_batch_authorised_witness:
  "\<exists>s1 s2 c k ks root n. process_epoch (demo_env 650 ''bob'' [2]) demo_requested = Inr s1 \<and>
    get_current_slot_leader (demo_env 650 ''bob'' [2]) s1 = Inr (Some ''bob'') \<and>
    um_get (active_nodes s1) ''bob'' = Some n \<and>
    bn254_verify (demo_env 650 ''bob'' [2]) (to_le_bytes 32 (last_generated_random_number demo_requested)) [9]
      (bn254_public_key n) = Inr True \<and>
    check_slot_leader (demo_env 650 ''bob'' [2]) [9] s1 = Inr s2 \<and>
    get_committee (get_current_epoch (demo_env 650 ''bob'' [2])) s2 = Some c \<and>
    set [''alice'', ''bob''] \<subseteq> set c \<and> is_node_active ''alice'' s2 \<and> is_node_active ''bob'' s2 \<and>
    list_all2 (\<lambda>a k. signer_key demo_crates s2 a = Inr k) [''alice'', ''bob''] (k # ks) \<and>
    pk_to_uncompressed demo_crates (foldl (pk_add demo_crates) k ks) = Some [11, 12] \<and>
    internal_compute_merkle_root (demo_env 650 ''bob'' [2]) demo_crates demo_requested = Inr root \<and>
    bn254_verify (demo_env 650 ''bob'' [2]) root [42] [11, 12] = Inr True"
  using post_signed_batch_authorised [OF demo_batch [unfolded exec_def call.case]]
  by (simp only: demo_env_simps) (elim exE conjE, intro exI conjI; simp)

text \<open>C16: An accepted batch takes the next height, holds all accumulated requests in their order, is
  the latest batch and is found by its id; the accumulator is empty afterwards and the ids of
  the earlier heights are kept.\<close>

theorem post_signed_batch_effect:
  assumes "post_signed_batch env cr sig pk signers leader_sig s = Inr s'"
  shows "num_batches s' = num_batches s + 1 \<and> data_request_accumulator s' = [] \<and>
    batch_by_id s' (get_latest_batch_id s') = Some \<lparr>header = \<lparr>height = num_batches s + 1,
      state_root = crypto_hash_default\<rparr>, transactions = data_request_accumulator s\<rparr> \<and>
    (\<forall>h. h \<noteq> num_batches s + 1 \<longrightarrow> batch_ids_by_height s' h = batch_ids_by_height s h)"
  using assms
proof (cases rule: post_signed_batch_elim)
  case (1 s1 s2 root s3 ts)
  have "num_batches s2 = num_batches s" "data_request_accumulator s2 = data_request_accumulator s"
    "batch_ids_by_height s2 = batch_ids_by_height s"
    using check_slot_leader_Inr(1) [OF 1(2)] process_epoch_frame [OF 1(1)] by auto
  with store_batch_Inr [OF 1(4)] show ?thesis
    by (auto simp: 1(5) get_latest_batch_id_def)
qed

theorem post_signed_batch_effect_witness:
  "num_batches demo_posted = num_batches demo_requested + 1 \<and> data_request_accumulator demo_posted = [] \<and>
    batch_by_id demo_posted (get_latest_batch_id demo_posted) = Some \<lparr>header = \<lparr>height = num_batches demo_requested + 1,
      state_root = crypto_hash_default\<rparr>, transactions = data_request_accumulator demo_requested\<rparr>"
  using post_signed_batch_effect [OF demo_batch [unfolded exec_def call.case]] by blast


section \<open>Views\<close>

text \<open>The pages of the inactive nodes go backwards in the order of the list: with a limit and a
  number of nodes below \<open>2 ^ 32\<close>, the page at an offset skips that many of the newest entries
  and shows the next ones, newest first, at most as many as the limit.\<close>

theorem inactive_nodes_page:
  assumes "reachable (initial sp) (mainchain_step cr allowed) (clk, s)"
    and "length (um_keys (inactive_nodes s)) < 2 ^ 32" and "unat limit < 2 ^ 32"
    and "unat offset \<le> length (um_keys (inactive_nodes s))"
  shows "get_inactive_nodes env limit offset s =
    Inr (map (view_of (inactive_nodes s))
      (take (unat limit) (drop (unat offset) (rev (um_keys (inactive_nodes s))))))"
proof -
  have "um_invar (inactive_nodes s)"
    using keys.reachable_inv [OF assms(1)] by (simp add: key_inv_def)
  from internal_get_nodes_page [OF this assms(2-4), of env] assms(4) show ?thesis
    by (simp add: get_inactive_nodes_def rev_take)
qed

theorem inactive_nodes_page_witness:
  "get_inactive_nodes (demo_env 9 ''dao'' []) 1 1 demo_staked =
    Inr [node_info_of ''alice'' (demo_node INIT_MINIMUM_STAKE 1)]"
  using inactive_nodes_page [OF demo_reachable_staked, of 1 1 "demo_env 9 ''dao'' []"]
  by (simp add: um_get_def demo_staked_def)


section \<open>Where the contract falls short\<close>

text \<open>A second deposit for the same node replaces the record of the first: afterwards no
  withdrawal of more than the second amount can be requested, although the node holds both.\<close>

theorem second_deposit_hides_first:
  assumes "deposit env1 a1 pk s = Inr s1" and "deposit env2 a2 pk s1 = Inr s2"
    and "signer_account_id env2 = signer_account_id env1"
    and "signer_account_id env3 = signer_account_id env1" and "a2 < amount"
  shows "\<nexists>r s3. request_withdraw env3 amount pk s2 = Inr (r, s3)"
proof (intro notI, elim exE)
  fix r s3
  assume req: "request_withdraw env3 amount pk s2 = Inr (r, s3)"
  have "\<exists>d. depositors s2 (signer_account_id env2) = Some d \<and> um_get d pk = Some a2"
    using assms(2) by (cases rule: deposit_elim) (simp add: umap_simps)
  with request_withdraw_Inr [OF req] assms(3-5) show False by auto
qed

definition demo_more :: mainchain_contract where
  "demo_more = demo_staked_one\<lparr>
     token := \<lparr>accounts = [''dao'' \<mapsto> 100000000000000000000000000, ''alice'' \<mapsto> 0, ''bob'' \<mapsto> INIT_MINIMUM_STAKE],
        total_supply = demo_supply\<rparr>,
     depositors := [''alice'' \<mapsto> \<lparr>um_keys = [[1]], um_map = [[1] \<mapsto> 0]\<rparr>]\<rparr>"

lemma demo_deposit_more: "deposit (demo_env 9 ''alice'' [1]) 0 [1] demo_staked_one = Inr demo_more"
  by (simp add: demo_more_def contract_defs demo_defs Let_def fun_upd_twist fun_eq_iff)

theorem second_deposit_hides_first_witness:
  "\<nexists>r s3. request_withdraw (demo_env 10 ''alice'' [1]) INIT_MINIMUM_STAKE [1] demo_more = Inr (r, s3)"
proof -
  have "deposit (demo_env 7 ''alice'' [1]) INIT_MINIMUM_STAKE [1] demo_registered = Inr demo_staked_one"
    using demo_deposit_one by (simp add: exec_def)
  from second_deposit_hides_first [OF this demo_deposit_more, of "demo_env 10 ''alice'' [1]"]
  show ?thesis by (simp add: INIT_MINIMUM_STAKE_def)
qed

text \<open>An account that is registered and not active can register again with other keys; its node
  is replaced and its stake is gone.\<close>

theorem register_again_loses_stake:
  assumes "register_node env addr bn_pk sig s = Inr s'"
    and "um_get (active_nodes s) (signer_account_id env) = None"
    and "get_node_balance (signer_account_id env) s = Inr b"
  shows "get_node_balance (signer_account_id env) s' = Inr 0 \<and>
    last_total_balance s' = last_total_balance s"
  using assms(2) unfolding register_node_Inr(4) [OF assms(1)]
  by (simp add: get_node_balance_def internal_get_node_def umap_simps)

theorem register_again_loses_stake_witness:
  "get_node_balance ''alice'' (demo_staked\<lparr>
       inactive_nodes := um_insert ''alice'' \<lparr>multi_addr = [], balance = 0, bn254_public_key = [21],
         ed25519_public_key = [3]\<rparr> (inactive_nodes demo_staked),
       nodes_by_bn254_public_key := (nodes_by_bn254_public_key demo_staked)([21] \<mapsto> ''alice''),
       nodes_by_ed25519_public_key := (nodes_by_ed25519_public_key demo_staked)([3] \<mapsto> ''alice'')\<rparr>) = Inr 0"
proof -
  have reg: "register_node (demo_env 9 ''alice'' [3]) [] [21] [42] demo_staked = Inr (demo_staked\<lparr>
       inactive_nodes := um_insert ''alice'' \<lparr>multi_addr = [], balance = 0, bn254_public_key = [21],
         ed25519_public_key = [3]\<rparr> (inactive_nodes demo_staked),
       nodes_by_bn254_public_key := (nodes_by_bn254_public_key demo_staked)([21] \<mapsto> ''alice''),
       nodes_by_ed25519_public_key := (nodes_by_ed25519_public_key demo_staked)([3] \<mapsto> ''alice'')\<rparr>)"
    by (simp add: contract_defs demo_defs Let_def)
  have "get_node_balance ''alice'' demo_staked = Inr INIT_MINIMUM_STAKE"
    by (simp add: get_node_balance_def contract_defs demo_defs)
  with register_again_loses_stake [OF reg, of INIT_MINIMUM_STAKE] show ?thesis
    by (simp add: demo_staked_def demo_registered_def demo_funded_def demo_start_def)
qed

text \<open>In the release build a burn of more than the account holds does not fail: the balance
  wraps around and the account is richer by \<open>2 ^ 128\<close> less the amount.\<close>

theorem release_burn_wraps:
  assumes "\<not> overflow_checks env" and "accounts (token s) a = Some b" and "b < amount"
  shows "\<exists>s' b'. burn env a amount s = Inr s' \<and> accounts (token s') a = Some b' \<and>
    unat b' = 2 ^ 128 + unat b - unat amount"
proof -
  have "unat (b - amount) = 2 ^ 128 + unat b - unat amount"
    using assms(3) by (simp add: unat_sub_if' word_less_nat_alt word_le_nat_alt)
  then show ?thesis using assms(1,2) by (simp add: burn_def)
qed

theorem release_burn_wraps_witness:
  "\<exists>s' b'. burn ((demo_env 9 ''alice'' [1])\<lparr>overflow_checks := False\<rparr>) ''alice'' 1 demo_staked = Inr s' \<and>
    accounts (token s') ''alice'' = Some b' \<and> unat b' = 2 ^ 128 + unat (0 :: u128) - unat (1 :: u128)"
  by (rule release_burn_wraps) (simp_all add: demo_staked_def)

end
