(* ===== verification/Rust_Std.thy ===== *)
theory Rust_Std
  imports Prelude
begin

text \<open>
  The parts of Rust's standard library that the off-chain crates lean on: strings with their
  UTF-8 encoding, splitting and parsing, little-endian byte arrays, wrapping and checked powers,
  and the two-layered outcome of code that may return an error or panic.
\<close>

section \<open>Strings\<close>

text \<open>
  A Rust string is modelled by the characters of its UTF-8 encoding, one per byte; \<open>as_bytes\<close>
  is that encoding and \<open>chars_of\<close> its inverse. \<open>valid_utf8\<close> is the check of
  \<open>std::str::from_utf8\<close>, the table of well-formed byte sequences of the Unicode standard.
\<close>

definition as_bytes :: "string \<Rightarrow> bytes" where
  "as_bytes s = map (\<lambda>c. of_nat (of_char c)) s"

definition chars_of :: "bytes \<Rightarrow> string" where
  "chars_of bs = map (\<lambda>b. char_of (unat b)) bs"

definition byte_in :: "u8 \<Rightarrow> u8 \<Rightarrow> u8 \<Rightarrow> bool" where
  "byte_in lo hi b \<longleftrightarrow> lo \<le> b \<and> b \<le> hi"

abbreviation continuation :: "u8 \<Rightarrow> bool" where
  "continuation \<equiv> byte_in 0x80 0xBF"

definition utf8_pair :: "u8 \<Rightarrow> u8 \<Rightarrow> bool" where
  "utf8_pair a b \<longleftrightarrow> byte_in 0xC2 0xDF a \<and> continuation b"

definition utf8_triple :: "u8 \<Rightarrow> u8 \<Rightarrow> u8 \<Rightarrow> bool" where
  "utf8_triple a b c \<longleftrightarrow> continuation c \<and>
     (a = 0xE0 \<and> byte_in 0xA0 0xBF b \<or> byte_in 0xE1 0xEC a \<and> continuation b \<or>
      a = 0xED \<and> byte_in 0x80 0x9F b \<or> byte_in 0xEE 0xEF a \<and> continuation b)"

definition utf8_quad :: "u8 \<Rightarrow> u8 \<Rightarrow> u8 \<Rightarrow> u8 \<Rightarrow> bool" where
  "utf8_quad a b c d \<longleftrightarrow> continuation c \<and> continuation d \<and>
     (a = 0xF0 \<and> byte_in 0x90 0xBF b \<or> byte_in 0xF1 0xF3 a \<and> continuation b \<or>
      a = 0xF4 \<and> byte_in 0x80 0x8F b)"

fun valid_utf8 :: "bytes \<Rightarrow> bool" where
  "valid_utf8 [] = True"
| "valid_utf8 (a # bs) =
     (if a < 0x80 then valid_utf8 bs
      else case bs of
        [] \<Rightarrow> False
      | b # cs \<Rightarrow>
          if utf8_pair a b then valid_utf8 cs
          else case cs of
            [] \<Rightarrow> False
          | c # ds \<Rightarrow>
              if utf8_triple a b c then valid_utf8 ds
              else case ds of
                [] \<Rightarrow> False
              | d # es \<Rightarrow> utf8_quad a b c d \<and> valid_utf8 es)"

text \<open>What it means for a character list to be a Rust string.\<close>

definition rust_string :: "string \<Rightarrow> bool" where
  "rust_string s \<longleftrightarrow> valid_utf8 (as_bytes s)"

lemma unat_u8_less: "unat b < 256" for b :: u8
proof -
  have "unat b < 2 ^ LENGTH(8)" by (rule unsigned_less)
  then show ?thesis by simp
qed

lemma of_char_less: "of_char c < (256 :: nat)"
  by (metis of_char_mod_256 mod_less_divisor zero_less_numeral)

lemma chars_of_as_bytes [simp]: "chars_of (as_bytes s) = s"
proof -
  have "char_of (unat (of_nat (of_char c) :: u8)) = c" for c
    using of_char_less [of c] by (simp add: unat_of_nat)
  then show ?thesis by (simp add: chars_of_def as_bytes_def comp_def)
qed

lemma as_bytes_chars_of [simp]: "as_bytes (chars_of bs) = bs"
proof -
  have "(of_nat (of_char (char_of (unat b) :: char)) :: u8) = b" for b :: u8
  proof -
    have "unat b < 2 ^ LENGTH(8)" by (rule unsigned_less)
    then have "(of_char (char_of (unat b) :: char) :: nat) = unat b" by (simp add: of_char_of)
    then show ?thesis by simp
  qed
  then show ?thesis by (simp add: chars_of_def as_bytes_def comp_def)
qed

lemma length_as_bytes [simp]: "length (as_bytes s) = length s"
  by (simp add: as_bytes_def)

lemma length_chars_of [simp]: "length (chars_of bs) = length bs"
  by (simp add: chars_of_def)

lemma as_bytes_inject [simp]: "as_bytes s = as_bytes t \<longleftrightarrow> s = t"
  by (metis chars_of_as_bytes)

lemma valid_utf8_ascii: "\<forall>b \<in> set bs. b < 0x80 \<Longrightarrow> valid_utf8 bs"
  by (induction bs) auto


section \<open>Splitting and parsing\<close>

fun split_char :: "char \<Rightarrow> string \<Rightarrow> string list" where
  "split_char c [] = [[]]"
| "split_char c (x # xs) =
     (if x = c then [] # split_char c xs
      else case split_char c xs of
        [] \<Rightarrow> [[x]]
      | w # ws \<Rightarrow> (x # w) # ws)"

definition is_digit :: "char \<Rightarrow> bool" where
  "is_digit c \<longleftrightarrow> c \<in> set ''0123456789''"

definition digit_value :: "char \<Rightarrow> nat" where
  "digit_value c = of_char c - of_char (CHR ''0'')"

definition decimal_value :: "string \<Rightarrow> nat" where
  "decimal_value s = foldl (\<lambda>acc c. 10 * acc + digit_value c) 0 s"

text \<open>
  \<open>str::parse\<close> at an unsigned type: an optional plus sign and at least one digit; \<open>None\<close> is the
  error. \<open>decimal\<close> is how \<open>Display\<close> prints an unsigned number.
\<close>

definition parse_uint :: "string \<Rightarrow> 'a::len word option" where
  "parse_uint s =
     (let ds = (case s of c # r \<Rightarrow> if c = CHR ''+'' \<and> r \<noteq> [] then r else s | [] \<Rightarrow> []) in
      if ds \<noteq> [] \<and> list_all is_digit ds \<and> decimal_value ds < 2 ^ LENGTH('a)
      then Some (of_nat (decimal_value ds)) else None)"

definition digit_char :: "nat \<Rightarrow> char" where
  "digit_char d = char_of (of_char (CHR ''0'') + d)"

fun decimal :: "nat \<Rightarrow> string" where
  "decimal n = (if n < 10 then [digit_char n] else decimal (n div 10) @ [digit_char (n mod 10)])"

declare decimal.simps [simp del]

lemma digit_char_table:
  "list_all (\<lambda>d. is_digit (digit_char d) \<and> digit_value (digit_char d) = d) [0, 1, 2, 3, 4, 5, 6, 7, 8, 9]"
  by code_simp

lemma digit_char_value:
  assumes "d < 10" shows "is_digit (digit_char d)" "digit_value (digit_char d) = d"
proof -
  have "d \<in> set [0, 1, 2, 3, 4, 5, 6, 7, 8, 9]" using assms by (simp, arith)
  then show "is_digit (digit_char d)" "digit_value (digit_char d) = d"
    using digit_char_table unfolding list_all_iff by blast+
qed

lemma decimal_digits: "list_all is_digit (decimal n)"
  by (induction n rule: decimal.induct) (subst decimal.simps, simp add: digit_char_value)

lemma decimal_nonempty: "decimal n \<noteq> []"
  by (subst decimal.simps) simp

lemma decimal_value_decimal [simp]: "decimal_value (decimal n) = n"
proof (induction n rule: decimal.induct)
  case (1 n)
  then show ?case
    by (subst decimal.simps) (simp add: decimal_value_def digit_char_value mult_div_mod_eq)
qed

lemma is_digit_simps [simp]: "\<not> is_digit (CHR ''+'')" "\<not> is_digit (CHR ''.'')"
  by (simp_all add: is_digit_def)

lemma parse_uint_digits:
  assumes "ds \<noteq> []" "list_all is_digit ds" "decimal_value ds < 2 ^ LENGTH('a)"
  shows "(parse_uint ds :: 'a::len word option) = Some (of_nat (decimal_value ds))"
  using assms by (cases ds) (auto simp: parse_uint_def Let_def)

lemma parse_uint_decimal [simp]: "parse_uint (decimal (unat w)) = Some w" for w :: "'a::len word"
  by (simp add: parse_uint_digits decimal_digits decimal_nonempty unsigned_less)

lemma split_char_nonempty: "split_char c s \<noteq> []"
  by (induction s) (auto split: list.splits)

lemma split_char_none: "c \<notin> set s \<Longrightarrow> split_char c s = [s]"
  by (induction s) auto

lemma split_char_one: "c \<notin> set s \<Longrightarrow> split_char c (s @ c # t) = s # split_char c t"
  by (induction s) auto

definition arith_pow :: "bool \<Rightarrow> 'a::len word \<Rightarrow> u32 \<Rightarrow> 'a word res" where
  "arith_pow checks b e =
     (if checks \<and> 2 ^ LENGTH('a) \<le> unat b ^ unat e then Inl ArithmeticOverflow else Inr (b ^ unat e))"


section \<open>Little-endian arrays\<close>

lemma from_le_bytes_nat_less: "from_le_bytes_nat bs < 256 ^ length bs"
proof (induction bs)
  case (Cons b bs)
  have "unat b < 2 ^ LENGTH(8)" by (rule unsigned_less)
  with Cons show ?case by simp
qed simp

lemma digits_from_le_bytes_nat:
  "map (\<lambda>i. of_nat (from_le_bytes_nat bs div 256 ^ i)) [0..<length bs] = bs"
proof (induction bs)
  case (Cons b bs)
  have b: "unat b < 2 ^ LENGTH(8)" by (rule unsigned_less)
  let ?x = "from_le_bytes_nat bs"
  have "(256 :: u8) = 0" by (simp add: word_eq_iff_unsigned)
  moreover have "(of_nat (unat b) :: u8) = b" by simp
  ultimately have "(of_nat (unat b + 256 * ?x) :: u8) = b"
    by (simp only: of_nat_add of_nat_mult of_nat_numeral mult_zero_left add.right_neutral)
  moreover have "(unat b + 256 * ?x) div 256 ^ Suc i = ?x div 256 ^ i" for i
    using b by (simp add: div_mult2_eq)
  ultimately have "map (\<lambda>i. of_nat (from_le_bytes_nat (b # bs) div 256 ^ i)) [0..<length (b # bs)]
      = b # map (\<lambda>i. of_nat (?x div 256 ^ i)) [0..<length bs]"
    by (simp only: from_le_bytes_nat.simps list.size upt_conv_Cons [OF zero_less_Suc]
        map_Suc_upt [symmetric] list.map list.map_comp comp_def add.right_neutral add_Suc_right
        power_0 div_by_1)
  with Cons show ?case by simp
qed simp

text \<open>For a word of exactly \<open>n\<close> bytes the two conversions are inverse to each other.\<close>

lemma from_le_bytes_to_le_bytes:
  fixes w :: "'a::len word"
  assumes "LENGTH('a) = 8 * n"
  shows "from_le_bytes (to_le_bytes n w) = w"
proof -
  have "unat w < 2 ^ LENGTH('a)" by (rule unsigned_less)
  also have "(2 :: nat) ^ LENGTH('a) = 256 ^ n" using assms by (simp add: power_mult)
  finally show ?thesis by (simp add: from_le_bytes_def from_to_le_bytes)
qed

lemma to_le_bytes_from_le_bytes:
  assumes "LENGTH('a::len) = 8 * length bs"
  shows "to_le_bytes (length bs) (from_le_bytes bs :: 'a word) = bs"
proof -
  have "from_le_bytes_nat bs < 2 ^ LENGTH('a)"
    using from_le_bytes_nat_less [of bs] assms by (simp add: power_mult)
  then have "unat (from_le_bytes bs :: 'a word) = from_le_bytes_nat bs"
    by (simp add: from_le_bytes_def unat_of_nat)
  then show ?thesis by (simp add: to_le_bytes_def digits_from_le_bytes_nat)
qed


section \<open>Fallible code that may panic\<close>

text \<open>The operator \<open>?\<close> in a function that returns a \<open>Result\<close> and may panic.\<close>

definition bind_err :: "('e + 'a) res \<Rightarrow> ('a \<Rightarrow> ('e + 'b) res) \<Rightarrow> ('e + 'b) res" where
  "bind_err m f = and_then m (\<lambda>r. case r of Inl e \<Rightarrow> Inr (Inl e) | Inr a \<Rightarrow> f a)"

definition map_err :: "('e \<Rightarrow> 'f) \<Rightarrow> 'e + 'a \<Rightarrow> 'f + 'a" where
  "map_err f r = (case r of Inl e \<Rightarrow> Inl (f e) | Inr a \<Rightarrow> Inr a)"

definition ok_or :: "'e \<Rightarrow> 'a option \<Rightarrow> 'e + 'a" where
  "ok_or e x = (case x of None \<Rightarrow> Inl e | Some a \<Rightarrow> Inr a)"

lemma bind_err_simps [simp]:
  "bind_err (Inl p) f = Inl p" "bind_err (Inr (Inl e)) f = Inr (Inl e)" "bind_err (Inr (Inr a)) f = f a"
  by (simp_all add: bind_err_def)

lemma bind_err_eq_Ok [res_simps]:
  "bind_err m f = Inr (Inr b) \<longleftrightarrow> (\<exists>a. m = Inr (Inr a) \<and> f a = Inr (Inr b))"
proof (cases m)
  case (Inr r)
  then show ?thesis by (cases r) auto
qed simp

lemma map_err_simps [simp]: "map_err f (Inl e) = Inl (f e)" "map_err f (Inr a) = Inr a"
  by (simp_all add: map_err_def)

lemma map_err_eq_Inr [res_simps]: "map_err f r = Inr a \<longleftrightarrow> r = Inr a"
  by (auto simp: map_err_def split: sum.splits)

lemma ok_or_simps [simp]: "ok_or e None = Inl e" "ok_or e (Some a) = Inr a"
  by (simp_all add: ok_or_def)

lemma ok_or_eq_Inr [res_simps]: "ok_or e x = Inr a \<longleftrightarrow> x = Some a"
  by (auto simp: ok_or_def split: option.splits)

text \<open>
  The same for code that also changes a state: go on with the value, or stop with the error or
  the panic and the state reached.
\<close>

definition state_bind ::
  "'s \<times> ('e + 'v) res \<Rightarrow> ('s \<Rightarrow> 'v \<Rightarrow> 's \<times> ('e + 'b) res) \<Rightarrow> 's \<times> ('e + 'b) res" where
  "state_bind m k =
     (case m of
        (s, Inl p) \<Rightarrow> (s, Inl p)
      | (s, Inr (Inl e)) \<Rightarrow> (s, Inr (Inl e))
      | (s, Inr (Inr v)) \<Rightarrow> k s v)"

lemma state_bind_simps [simp]:
  "state_bind (s, Inl p) k = (s, Inl p)"
  "state_bind (s, Inr (Inl e)) k = (s, Inr (Inl e))"
  "state_bind (s, Inr (Inr v)) k = k s v"
  by (simp_all add: state_bind_def)

lemma state_bind_cases:
  assumes "state_bind m k = (t, r)"
  obtains (panic) p where "m = (t, Inl p)" "r = Inl p"
  | (error) e where "m = (t, Inr (Inl e))" "r = Inr (Inl e)"
  | (ok) s v where "m = (s, Inr (Inr v))" "k s v = (t, r)"
  using assms by (auto simp: state_bind_def split: prod.splits sum.splits)

lemma state_bind_preserves:
  assumes "P (fst m)" "\<And>s v. m = (s, Inr (Inr v)) \<Longrightarrow> P s \<Longrightarrow> P (fst (k s v))"
  shows "P (fst (state_bind m k))"
  using assms by (auto simp: state_bind_def split: prod.splits sum.splits)

lemma state_bind_cong [fundef_cong]:
  "m = m' \<Longrightarrow> (\<And>s v. m' = (s, Inr (Inr v)) \<Longrightarrow> k s v = k' s v) \<Longrightarrow> state_bind m k = state_bind m' k'"
  by (auto simp: state_bind_def split: prod.splits sum.splits)

end
