(* ===== verification/Sdk.thy ===== *)
theory Sdk
  imports Rust_Std
begin

text \<open>
  The runtime SDK (\<open>runtime/sdk/src\<close>): the conversions to and from bytes, the promise actions
  and statuses, events, peer-to-peer commands, the guest-side promise builder and the NEAR
  amount parser.

  A Rust function that returns a \<open>Result\<close> and may also panic has the outcome type
  \<open>('e + 'a) res\<close>: the outer sum is the panic, the inner one the \<open>Result\<close>.
\<close>

section \<open>Errors\<close>

datatype sdk_error =
    FromUtf8Error
  | StringBytesConversion
  | NumBytesConversion
  | UrlParse
  | InvalidUrlScheme string


section \<open>Conversions to and from bytes\<close>

definition to_bytes_bytes :: "bytes \<Rightarrow> bytes" where
  "to_bytes_bytes b = b"

definition to_bytes_vec :: "bytes \<Rightarrow> bytes" where
  "to_bytes_vec v = v"

definition to_bytes_string :: "string \<Rightarrow> bytes" where
  "to_bytes_string s = as_bytes s"

definition to_bytes_bool :: "bool \<Rightarrow> bytes" where
  "to_bytes_bool b = [if b then 1 else 0]"

definition to_bytes_unit :: "unit \<Rightarrow> bytes" where
  "to_bytes_unit u = []"

definition from_bytes_vec :: "bytes \<Rightarrow> (sdk_error + bytes) res" where
  "from_bytes_vec bs = Inr (Inr bs)"

definition from_bytes_string :: "bytes \<Rightarrow> (sdk_error + string) res" where
  "from_bytes_string bs =
     Inr (if valid_utf8 bs then Inr (chars_of bs) else Inl StringBytesConversion)"

definition from_bytes_bool :: "bytes \<Rightarrow> (sdk_error + bool) res" where
  "from_bytes_bool bs = and_then (index bs 0) (\<lambda>b. Inr (Inr (0 < b)))"

text \<open>
  The macro \<open>bytes_impls_le_bytes!\<close> for a number of \<open>n\<close> bytes. Signed numbers and floats are
  represented by their bits.
\<close>

definition to_bytes_num :: "nat \<Rightarrow> 'a::len word \<Rightarrow> bytes" where
  "to_bytes_num n w = to_le_bytes n w"

definition from_bytes_num :: "nat \<Rightarrow> bytes \<Rightarrow> (sdk_error + 'a::len word) res" where
  "from_bytes_num n bs =
     Inr (if length bs = n then Inr (from_le_bytes bs) else Inl NumBytesConversion)"

text \<open>
  What storage relies on: a value that is written as bytes and read back as the same type is
  the value. \<open>valid\<close> singles out the values of the Rust type.
\<close>

locale byte_codec =
  fixes enc :: "'a \<Rightarrow> bytes" and dec :: "bytes \<Rightarrow> (sdk_error + 'a) res" and valid :: "'a \<Rightarrow> bool"
  assumes dec_enc: "valid x \<Longrightarrow> dec (enc x) = Inr (Inr x)"
begin

lemma enc_inject: "valid x \<Longrightarrow> valid y \<Longrightarrow> enc x = enc y \<longleftrightarrow> x = y"
  by (metis dec_enc sum.inject(2))

end

interpretation vec_codec: byte_codec to_bytes_vec from_bytes_vec "\<lambda>_. True"
  by unfold_locales (simp add: to_bytes_vec_def from_bytes_vec_def)

interpretation string_codec: byte_codec to_bytes_string from_bytes_string rust_string
  by unfold_locales (simp add: to_bytes_string_def from_bytes_string_def rust_string_def)

interpretation bool_codec: byte_codec to_bytes_bool from_bytes_bool "\<lambda>_. True"
  by unfold_locales (simp add: to_bytes_bool_def from_bytes_bool_def)

interpretation u8_codec: byte_codec "to_bytes_num 1 :: u8 \<Rightarrow> bytes" "from_bytes_num 1" "\<lambda>_. True"
  by unfold_locales (simp add: to_bytes_num_def from_bytes_num_def from_le_bytes_to_le_bytes)

interpretation u32_codec: byte_codec "to_bytes_num 4 :: u32 \<Rightarrow> bytes" "from_bytes_num 4" "\<lambda>_. True"
  by unfold_locales (simp add: to_bytes_num_def from_bytes_num_def from_le_bytes_to_le_bytes)

interpretation u64_codec: byte_codec "to_bytes_num 8 :: u64 \<Rightarrow> bytes" "from_bytes_num 8" "\<lambda>_. True"
  by unfold_locales (simp add: to_bytes_num_def from_bytes_num_def from_le_bytes_to_le_bytes)

interpretation u128_codec: byte_codec "to_bytes_num 16 :: u128 \<Rightarrow> bytes" "from_bytes_num 16" "\<lambda>_. True"
  by unfold_locales (simp add: to_bytes_num_def from_bytes_num_def from_le_bytes_to_le_bytes)


section \<open>Events, commands and promises\<close>

datatype chain_kind = Another | Near

definition chain_display :: "chain_kind \<Rightarrow> string" where
  "chain_display c = (case c of Another \<Rightarrow> ''another'' | Near \<Rightarrow> ''near'')"

record p2p_message =
  pm_source :: "string option"
  pm_data :: bytes

record unicast_command =
  uc_peer_id :: string
  uc_data :: bytes

datatype p2p_command =
    Broadcast bytes
  | Unicast unicast_command
  | AddPeer (add_multi_addr: string)
  | RemovePeer (remove_peer_id: string)
  | DiscoverPeers

datatype event_data =
    BatchChainTick
  | ChainTick
  | P2PMessage p2p_message
  | CliCall "string list"

record event =
  event_id :: string
  event_data :: event_data

definition event_new :: "('t \<Rightarrow> string) \<Rightarrow> 't \<Rightarrow> event_data \<Rightarrow> event" where
  "event_new to_string i d = \<lparr>event_id = to_string i, event_data = d\<rparr>"

record call_self_action =
  cs_function_name :: string
  cs_args :: "string list"

record database_set_action =
  ds_key :: string
  ds_value :: bytes

record database_get_action =
  dg_key :: string

record http_action =
  h_url :: string

record chain_view_action =
  cv_chain :: chain_kind
  cv_contract_id :: string
  cv_method_name :: string
  cv_args :: bytes

record chain_call_action =
  cc_chain :: chain_kind
  cc_contract_id :: string
  cc_method_name :: string
  cc_args :: bytes
  cc_deposit :: u128

datatype promise_action =
    CallSelf call_self_action
  | DatabaseSet database_set_action
  | DatabaseGet database_get_action
  | Http http_action
  | ChainView chain_view_action
  | ChainCall chain_call_action
  | TriggerEvent event
  | P2PBroadcast bytes

definition is_limited_action :: "promise_action \<Rightarrow> bool" where
  "is_limited_action a = (\<not> (case a of CallSelf _ \<Rightarrow> True | Http _ \<Rightarrow> True | _ \<Rightarrow> False))"

definition action_display :: "promise_action \<Rightarrow> string" where
  "action_display a =
     (case a of
        CallSelf _ \<Rightarrow> ''call_self''
      | DatabaseSet _ \<Rightarrow> ''db_set''
      | DatabaseGet _ \<Rightarrow> ''db_get''
      | Http _ \<Rightarrow> ''http''
      | ChainView _ \<Rightarrow> ''chain_view''
      | ChainCall _ \<Rightarrow> ''chain_call''
      | TriggerEvent _ \<Rightarrow> ''trigger_event''
      | P2PBroadcast _ \<Rightarrow> ''p2p_broadcast'')"

datatype promise_status =
    Unfulfilled
  | Pending
  | Fulfilled "bytes option"
  | Rejected bytes

text \<open>The two \<open>From\<close> conversions of a result; an error arrives as its rendered message.\<close>

definition status_of_result :: "('t \<Rightarrow> bytes) \<Rightarrow> string + 't \<Rightarrow> promise_status" where
  "status_of_result to_bytes r =
     (case r of
        Inr fulfilled \<Rightarrow> Fulfilled (Some (to_bytes fulfilled))
      | Inl rejection \<Rightarrow> Rejected (to_bytes_string rejection))"

definition status_of_option_result :: "('t \<Rightarrow> bytes) \<Rightarrow> string + 't option \<Rightarrow> promise_status" where
  "status_of_option_result to_bytes r =
     (case r of
        Inr fulfilled \<Rightarrow> Fulfilled (map_option to_bytes fulfilled)
      | Inl rejection \<Rightarrow> Rejected (to_bytes_string rejection))"

record promise =
  p_action :: promise_action
  p_status :: promise_status

datatype level = Debug | Error | Info | Trace | Warn


section \<open>The guest's promise builder\<close>

datatype wasm_promise =
  WasmPromise (wp_action: promise_action) (wp_status: promise_status) (wp_after: "wasm_promise option")

definition wasm_promise_new :: "promise_action \<Rightarrow> wasm_promise" where
  "wasm_promise_new a = WasmPromise a Unfulfilled None"

text \<open>
  \<open>add_to_queue\<close> hands the JSON of a promise to the host import \<open>promise_then\<close>; the queue here is
  the list of the promises handed over. \<open>after\<close> is not serialised.
\<close>

definition add_to_queue :: "wasm_promise \<Rightarrow> promise list \<Rightarrow> promise list" where
  "add_to_queue p q = q @ [\<lparr>p_action = wp_action p, p_status = wp_status p\<rparr>]"

definition wasm_promise_start :: "wasm_promise \<Rightarrow> promise list \<Rightarrow> wasm_promise \<times> promise list" where
  "wasm_promise_start p q = (p, add_to_queue p q)"

definition wasm_promise_then ::
  "wasm_promise \<Rightarrow> wasm_promise \<Rightarrow> promise list \<Rightarrow> wasm_promise \<times> promise list" where
  "wasm_promise_then p after q =
     (WasmPromise (wp_action p) (wp_status p) (Some after), add_to_queue after q)"

definition call_self :: "string \<Rightarrow> string list \<Rightarrow> wasm_promise" where
  "call_self function_name args =
     wasm_promise_new (CallSelf \<lparr>cs_function_name = function_name, cs_args = args\<rparr>)"

definition db_set :: "string \<Rightarrow> string \<Rightarrow> wasm_promise" where
  "db_set key v = wasm_promise_new (DatabaseSet \<lparr>ds_key = key, ds_value = as_bytes v\<rparr>)"

definition db_get :: "string \<Rightarrow> wasm_promise" where
  "db_get key = wasm_promise_new (DatabaseGet \<lparr>dg_key = key\<rparr>)"

definition http_fetch :: "string \<Rightarrow> wasm_promise" where
  "http_fetch u = wasm_promise_new (Http \<lparr>h_url = u\<rparr>)"

definition chain_view :: "chain_kind \<Rightarrow> string \<Rightarrow> string \<Rightarrow> bytes \<Rightarrow> wasm_promise" where
  "chain_view c contract_id method_name args =
     wasm_promise_new (ChainView \<lparr>cv_chain = c, cv_contract_id = contract_id,
       cv_method_name = method_name, cv_args = args\<rparr>)"

definition chain_call :: "chain_kind \<Rightarrow> string \<Rightarrow> string \<Rightarrow> bytes \<Rightarrow> u128 \<Rightarrow> wasm_promise" where
  "chain_call c contract_id method_name args deposit_amount =
     wasm_promise_new (ChainCall \<lparr>cc_chain = c, cc_contract_id = contract_id,
       cc_method_name = method_name, cc_args = args, cc_deposit = deposit_amount\<rparr>)"

definition trigger_event :: "event \<Rightarrow> wasm_promise" where
  "trigger_event e = wasm_promise_new (TriggerEvent e)"

definition p2p_broadcast_message :: "bytes \<Rightarrow> wasm_promise" where
  "p2p_broadcast_message d = wasm_promise_new (P2PBroadcast d)"


text \<open>\<open>ToUrl\<close>; \<open>parse\<close> is \<open>url::Url::parse\<close>, \<open>None\<close> its error.\<close>

definition to_url :: "(string \<Rightarrow> 'url option) \<Rightarrow> string \<Rightarrow> sdk_error + 'url" where
  "to_url parse s = (case parse s of None \<Rightarrow> Inl UrlParse | Some u \<Rightarrow> Inr u)"


section \<open>NEAR amounts\<close>

definition to_yocto :: "bool \<Rightarrow> string \<Rightarrow> u128 res" where
  "to_yocto checks value =
   (let vals = split_char (CHR ''.'') value in
    and_then (index vals 0) (\<lambda>v0.
    and_then (unwrap (parse_uint v0)) (\<lambda>n0.
    and_then (arith_pow checks 10 24) (\<lambda>unit24.
    and_then (arith_mul checks n0 unit24) (\<lambda>part1.
    if 1 < length vals then
      and_then (index vals 1) (\<lambda>v1.
      let power = (of_nat (length v1) :: u32) in
      and_then (unwrap (parse_uint v1)) (\<lambda>n1.
      and_then (arith_sub checks 24 power) (\<lambda>e.
      and_then (arith_pow checks 10 e) (\<lambda>scale.
      and_then (arith_mul checks n1 scale) (\<lambda>part2.
      arith_add checks part1 part2)))))
    else Inr part1)))))"

text \<open>Decimal strings and the digits that make them.\<close>

lemma digits_no_dot: "list_all is_digit ds \<Longrightarrow> CHR ''.'' \<notin> set ds"
  by (induction ds) auto

lemma arith_pow_exact:
  "unat b ^ unat e < 2 ^ LENGTH('a) \<Longrightarrow> arith_pow checks b e = Inr (b ^ unat e)" for b :: "'a::len word"
  by (simp add: arith_pow_def)

lemma arith_mul_of_nat:
  assumes "a * b < 2 ^ LENGTH('a)" "a < 2 ^ LENGTH('a)" "b < 2 ^ LENGTH('a)"
  shows "arith_mul checks (of_nat a :: 'a::len word) (of_nat b) = Inr (of_nat (a * b))"
  using assms by (simp add: arith_mul_def unat_of_nat)

lemma arith_add_of_nat:
  assumes "a + b < 2 ^ LENGTH('a)"
  shows "arith_add checks (of_nat a :: 'a::len word) (of_nat b) = Inr (of_nat (a + b))"
  using assms by (simp add: arith_add_def unat_of_nat)

lemma pow_10_u128:
  assumes "n \<le> 24"
  shows "arith_pow checks (10 :: u128) (of_nat n) = Inr (of_nat (10 ^ n))"
proof -
  have "(10 :: nat) ^ n \<le> 10 ^ 24" using assms by (intro power_increasing) auto
  also have "\<dots> < 2 ^ 128" by simp
  finally show ?thesis using assms by (simp add: arith_pow_def unat_of_nat)
qed

lemma to_yocto_whole_value:
  assumes "w \<noteq> []" "list_all is_digit w" "decimal_value w * 10 ^ 24 < 2 ^ 128"
  shows "to_yocto checks w = Inr (of_nat (decimal_value w * 10 ^ 24))"
proof -
  have "decimal_value w < 2 ^ 128" using assms(3) by simp
  then have "(parse_uint w :: u128 option) = Some (of_nat (decimal_value w))"
    using assms by (intro parse_uint_digits) simp_all
  moreover have "split_char (CHR ''.'') w = [w]"
    using digits_no_dot [OF assms(2)] by (rule split_char_none)
  moreover have "arith_mul checks (of_nat (decimal_value w) :: u128) (of_nat (10 ^ 24))
      = Inr (of_nat (decimal_value w * 10 ^ 24))"
    using assms(3) by (intro arith_mul_of_nat) simp_all
  ultimately show ?thesis
    using pow_10_u128 [of 24 checks] by (simp add: to_yocto_def Let_def)
qed

text \<open>Without overflow checks a whole amount that is too large wraps around.\<close>

lemma to_yocto_whole_wraps:
  assumes "w \<noteq> []" "list_all is_digit w" "decimal_value w < 2 ^ 128" "to_yocto checks w = Inr y"
  shows "unat y = decimal_value w * 10 ^ 24 mod 2 ^ 128" "checks \<Longrightarrow> unat y = decimal_value w * 10 ^ 24"
proof -
  have "(parse_uint w :: u128 option) = Some (of_nat (decimal_value w))"
    using assms by (intro parse_uint_digits) simp_all
  moreover have "split_char (CHR ''.'') w = [w]"
    using digits_no_dot [OF assms(2)] by (rule split_char_none)
  ultimately have mul: "arith_mul checks (of_nat (decimal_value w) :: u128) (of_nat (10 ^ 24)) = Inr y"
    using assms(4) pow_10_u128 [of 24 checks] by (auto simp: to_yocto_def Let_def and_then_eq_Inr)
  have n: "unat (of_nat (decimal_value w) :: u128) = decimal_value w" "unat (of_nat (10 ^ 24) :: u128) = 10 ^ 24"
    using assms(3) by (simp_all add: unat_of_nat del: of_nat_power of_nat_numeral)
  show "unat y = decimal_value w * 10 ^ 24 mod 2 ^ 128"
    using mul n by (auto simp: arith_eq_Inr unat_word_ariths)
  show "unat y = decimal_value w * 10 ^ 24" if checks
    using mul n arith_mul_exact [of _ _ y] that by metis
qed

text \<open>C37: A NEAR amount with up to 24 decimals is converted to yoctoNEAR exactly, under checked and
  under wrapping arithmetic alike, as long as the result fits 128 bits.\<close>

theorem to_yocto_exact:
  assumes "w \<noteq> []" "list_all is_digit w" "f \<noteq> []" "list_all is_digit f" "length f \<le> 24"
    and "decimal_value w * 10 ^ 24 + decimal_value f * 10 ^ (24 - length f) < 2 ^ 128"
  shows "to_yocto checks (w @ CHR ''.'' # f)
       = Inr (of_nat (decimal_value w * 10 ^ 24 + decimal_value f * 10 ^ (24 - length f)))"
proof -
  let ?w = "decimal_value w" and ?f = "decimal_value f" and ?e = "24 - length f"
  have small: "?w * 10 ^ 24 < 2 ^ 128" "?f * 10 ^ ?e < 2 ^ 128"
    using assms(6) by (auto elim: le_less_trans [rotated])
  have "?w \<le> ?w * 10 ^ 24" "?f \<le> ?f * 10 ^ ?e" by simp_all
  then have "?w < 2 ^ 128" "?f < 2 ^ 128" using small by (blast intro: le_less_trans)+
  then have parse: "(parse_uint w :: u128 option) = Some (of_nat ?w)"
    "(parse_uint f :: u128 option) = Some (of_nat ?f)"
    using assms by (auto intro!: parse_uint_digits)
  have "(10 :: nat) ^ ?e \<le> 10 ^ 24" by (intro power_increasing) auto
  then have "(10 :: nat) ^ ?e < 2 ^ 128" by (rule le_less_trans) simp
  then have mul: "arith_mul checks (of_nat ?w :: u128) (of_nat (10 ^ 24)) = Inr (of_nat (?w * 10 ^ 24))"
    "arith_mul checks (of_nat ?f :: u128) (of_nat (10 ^ ?e)) = Inr (of_nat (?f * 10 ^ ?e))"
    using small \<open>?w < 2 ^ 128\<close> \<open>?f < 2 ^ 128\<close> by (intro arith_mul_of_nat; simp)+
  have "arith_sub checks (24 :: u32) (of_nat (length f)) = Inr (of_nat ?e)"
    using assms(5) by (simp add: arith_sub_def word_less_nat_alt unat_of_nat of_nat_diff)
  moreover have "split_char (CHR ''.'') (w @ CHR ''.'' # f) = [w, f]"
    using digits_no_dot [OF assms(2)] digits_no_dot [OF assms(4)]
    by (simp add: split_char_one split_char_none)
  moreover have "arith_add checks (of_nat (?w * 10 ^ 24) :: u128) (of_nat (?f * 10 ^ ?e))
      = Inr (of_nat (?w * 10 ^ 24 + ?f * 10 ^ ?e))"
    using assms(6) by (intro arith_add_of_nat) simp
  ultimately show ?thesis
    using parse mul pow_10_u128 [of 24 checks] pow_10_u128 [of ?e checks]
    by (simp add: to_yocto_def Let_def del: of_nat_add of_nat_mult of_nat_power)
qed

theorem to_yocto_exact_witness:
  "to_yocto True ''1.25'' = Inr 1250000000000000000000000"
proof -
  have "list_all is_digit ''25''" "list_all is_digit ''1''" by (simp_all add: is_digit_def)
  moreover have "decimal_value ''1'' = 1" "decimal_value ''25'' = 25" by code_simp+
  ultimately show ?thesis using to_yocto_exact [of "''1''" "''25''" True] by simp
qed

end
