(* ===== verification/Keys.thy ===== *)
theory Keys
  imports Rust_Std
begin

text \<open>
  The crypto crate (\<open>crypto/src\<close>): the master key, its hexadecimal file, and the two key pairs
  derived from it, over a small model of the process environment and the file system.

  Hashing, hexadecimal and the curves are third-party crates; they are the fields of the record
  \<open>crypto_lib\<close>, which every operation takes as an argument.
\<close>

section \<open>The process and its files\<close>

datatype file_entry = File bytes | Directory

record host =
  env_vars :: "string \<rightharpoonup> string"
  files :: "string \<rightharpoonup> file_entry"
  writable :: "string \<Rightarrow> bool"
  current_dir :: "string + string"

definition path_exists :: "host \<Rightarrow> string \<Rightarrow> bool" where
  "path_exists h p \<longleftrightarrow> files h p \<noteq> None"

text \<open>\<open>std::fs::read_to_string\<close> and \<open>std::fs::write\<close>; a failure carries its message.\<close>

definition read_to_string :: "host \<Rightarrow> string \<Rightarrow> string + string" where
  "read_to_string h p =
     (case files h p of
        None \<Rightarrow> Inl ''No such file or directory''
      | Some Directory \<Rightarrow> Inl ''Is a directory''
      | Some (File bs) \<Rightarrow>
          if valid_utf8 bs then Inr (chars_of bs) else Inl ''stream did not contain valid UTF-8'')"

definition fs_write :: "string \<Rightarrow> bytes \<Rightarrow> host \<Rightarrow> host \<times> (string + unit)" where
  "fs_write p bs h =
     (if files h p = Some Directory then (h, Inl ''Is a directory'')
      else if writable h p then (h\<lparr>files := (files h)(p \<mapsto> File bs)\<rparr>, Inr ())
      else (h, Inl ''Permission denied''))"


section \<open>The third-party crates\<close>

text \<open>
  \<open>kdf\<close> is \<open>concat_kdf::derive_key::<Sha256>\<close>; \<open>bn_private\<close> and \<open>ed_private\<close> read a private key from
  bytes; \<open>bn_public\<close> and \<open>ed_public\<close> compute the public key of a private key.
\<close>

record ('bsk, 'bpk, 'esk, 'epk) crypto_lib =
  kdf :: "bytes \<Rightarrow> bytes \<Rightarrow> nat \<Rightarrow> string + bytes"
  hex_encode :: "bytes \<Rightarrow> string"
  hex_decode :: "string \<Rightarrow> string + bytes"
  bn_private :: "bytes \<Rightarrow> 'bsk option"
  bn_public :: "'bsk \<Rightarrow> 'bpk"
  ed_private :: "bytes \<Rightarrow> 'esk option"
  ed_public :: "'esk \<Rightarrow> 'epk"

text \<open>
  The documented behaviour of the crate \<open>hex\<close>: what it encodes it decodes, and its output is
  ASCII.
\<close>

definition hex_ok :: "('bsk, 'bpk, 'esk, 'epk) crypto_lib \<Rightarrow> bool" where
  "hex_ok lib \<longleftrightarrow> (\<forall>bs. hex_decode lib (hex_encode lib bs) = Inr bs \<and> rust_string (hex_encode lib bs))"


section \<open>Errors and key pairs\<close>

datatype crypto_error =
    CryptoIo string
  | KeyDerivation string
  | CryptoBn254Error string
  | InvalidMasterKeyLength
  | FromHex string

record ('sk, 'pk) key_pair =
  private_key :: 'sk
  public_key :: 'pk

definition ed25519_key_pair_bytes ::
  "('esk \<Rightarrow> bytes) \<Rightarrow> ('epk \<Rightarrow> bytes) \<Rightarrow> ('esk, 'epk) key_pair \<Rightarrow> bytes" where
  "ed25519_key_pair_bytes private_bytes public_bytes k =
     private_bytes (private_key k) @ public_bytes (public_key k)"


section \<open>The master key\<close>

record master_key =
  seed :: bytes

definition valid_master_key :: "master_key \<Rightarrow> bool" where
  "valid_master_key mk \<longleftrightarrow> length (seed mk) = 32"

text \<open>The seed that the random number generator fills is an argument.\<close>

definition master_key_random :: "bytes \<Rightarrow> master_key" where
  "master_key_random rng = \<lparr>seed = rng\<rparr>"

text \<open>\<open>hex::decode(s)?.as_slice().try_into()?\<close> at the type \<open>[u8; 32]\<close>.\<close>

definition master_key_of_hex ::
  "('bsk, 'bpk, 'esk, 'epk) crypto_lib \<Rightarrow> string \<Rightarrow> crypto_error + master_key" where
  "master_key_of_hex lib s =
     (case hex_decode lib s of
        Inl e \<Rightarrow> Inl (FromHex e)
      | Inr bs \<Rightarrow> if length bs = 32 then Inr \<lparr>seed = bs\<rparr> else Inl InvalidMasterKeyLength)"

definition master_key_read_from_path ::
  "('bsk, 'bpk, 'esk, 'epk) crypto_lib \<Rightarrow> host \<Rightarrow> string \<Rightarrow> crypto_error + master_key" where
  "master_key_read_from_path lib h p =
     (case read_to_string h p of
        Inl e \<Rightarrow> Inl (CryptoIo e)
      | Inr s \<Rightarrow>
          (case hex_decode lib s of
             Inl e \<Rightarrow> Inl (FromHex e)
           | Inr bs \<Rightarrow> if length bs = 32 then Inr \<lparr>seed = bs\<rparr> else Inl InvalidMasterKeyLength))"

definition master_key_write_to_path ::
  "('bsk, 'bpk, 'esk, 'epk) crypto_lib \<Rightarrow> master_key \<Rightarrow> string \<Rightarrow> host \<Rightarrow> host \<times> (crypto_error + unit)" where
  "master_key_write_to_path lib mk p h =
     (case fs_write p (as_bytes (hex_encode lib (seed mk))) h of
        (h', Inl e) \<Rightarrow> (h', Inl (CryptoIo e))
      | (h', Inr u) \<Rightarrow> (h', Inr u))"

definition master_key_to_string :: "('bsk, 'bpk, 'esk, 'epk) crypto_lib \<Rightarrow> master_key \<Rightarrow> string" where
  "master_key_to_string lib mk = hex_encode lib (seed mk)"

definition master_key_of_seed :: "bytes \<Rightarrow> master_key" where
  "master_key_of_seed s = \<lparr>seed = s\<rparr>"

definition master_key_to_seed :: "master_key \<Rightarrow> bytes" where
  "master_key_to_seed mk = seed mk"

text \<open>
  Key derivation. \<open>index.to_ne_bytes()\<close> is taken on a 64-bit little-endian host; the \<open>unwrap\<close> of a
  private key that the curve refuses is a panic.
\<close>

definition derive_bn254 ::
  "('bsk, 'bpk, 'esk, 'epk) crypto_lib \<Rightarrow> master_key \<Rightarrow> u64 \<Rightarrow> (crypto_error + ('bsk, 'bpk) key_pair) res" where
  "derive_bn254 lib mk i =
     (case kdf lib (seed mk) (as_bytes ''bn254'') 32 of
        Inl e \<Rightarrow> Inr (Inl (KeyDerivation e))
      | Inr master_sk \<Rightarrow>
          (case kdf lib master_sk (to_le_bytes 8 i) 32 of
             Inl e \<Rightarrow> Inr (Inl (KeyDerivation e))
           | Inr sk \<Rightarrow>
               and_then (unwrap (bn_private lib sk)) (\<lambda>k.
               Inr (Inr \<lparr>private_key = k, public_key = bn_public lib k\<rparr>))))"

definition derive_ed25519 ::
  "('bsk, 'bpk, 'esk, 'epk) crypto_lib \<Rightarrow> master_key \<Rightarrow> u64 \<Rightarrow> (crypto_error + ('esk, 'epk) key_pair) res" where
  "derive_ed25519 lib mk i =
     (case kdf lib (seed mk) (as_bytes ''ed25519'') 32 of
        Inl e \<Rightarrow> Inr (Inl (KeyDerivation e))
      | Inr master_sk \<Rightarrow>
          (case kdf lib master_sk (to_le_bytes 8 i) 32 of
             Inl e \<Rightarrow> Inr (Inl (KeyDerivation e))
           | Inr sk \<Rightarrow>
               and_then (unwrap (ed_private lib sk)) (\<lambda>k.
               Inr (Inr \<lparr>private_key = k, public_key = ed_public lib k\<rparr>))))"


section \<open>Round trips\<close>

lemma read_after_write:
  assumes "fs_write p bs h = (h', Inr u)"
  shows "files h' p = Some (File bs)" "q \<noteq> p \<Longrightarrow> files h' q = files h q"
    "env_vars h' = env_vars h" "writable h' = writable h" "current_dir h' = current_dir h"
  using assms by (auto simp: fs_write_def split: if_splits)

lemma write_to_path_effect:
  assumes "master_key_write_to_path lib mk p h = (h', Inr u)"
  shows "files h' p = Some (File (as_bytes (hex_encode lib (seed mk))))"
    "q \<noteq> p \<Longrightarrow> files h' q = files h q"
    "env_vars h' = env_vars h" "writable h' = writable h" "current_dir h' = current_dir h"
  using assms read_after_write
  by (auto simp: master_key_write_to_path_def split: prod.splits sum.splits)

lemma master_key_of_to_string:
  assumes "hex_ok lib" "valid_master_key mk"
  shows "master_key_of_hex lib (master_key_to_string lib mk) = Inr mk"
  using assms by (simp add: hex_ok_def valid_master_key_def master_key_of_hex_def master_key_to_string_def)

lemma master_key_read_back:
  assumes "hex_ok lib" "valid_master_key mk" "master_key_write_to_path lib mk p h = (h', Inr u)"
  shows "master_key_read_from_path lib h' p = Inr mk"
proof -
  have "valid_utf8 (as_bytes (hex_encode lib (seed mk)))"
    using assms(1) by (simp add: hex_ok_def rust_string_def)
  then show ?thesis
    using assms write_to_path_effect(1) [OF assms(3)]
    by (simp add: master_key_read_from_path_def read_to_string_def hex_ok_def valid_master_key_def)
qed

lemma master_key_of_hex_valid: "master_key_of_hex lib s = Inr mk \<Longrightarrow> valid_master_key mk"
  by (auto simp: master_key_of_hex_def valid_master_key_def split: sum.splits if_splits)

lemma derive_public_matches:
  "derive_bn254 lib mk i = Inr (Inr k) \<Longrightarrow> public_key k = bn_public lib (private_key k)"
  "derive_ed25519 lib mk i = Inr (Inr e) \<Longrightarrow> public_key e = ed_public lib (private_key e)"
  by (auto simp: derive_bn254_def derive_ed25519_def res_simps split: sum.splits)


section \<open>An instance of the crates\<close>

text \<open>
  A concrete instance of the crates for the witnesses: the identity in place of hashing, and an
  encoding of bytes by their own characters, shifted so that it is ASCII for the seeds used.
\<close>

definition demo_hex :: "bytes \<Rightarrow> string" where
  "demo_hex bs = concat (map (\<lambda>b. [char_of (48 + unat b div 16), char_of (48 + unat b mod 16)]) bs)"

fun demo_unhex :: "string \<Rightarrow> string + bytes" where
  "demo_unhex [] = Inr []"
| "demo_unhex [c] = Inl ''Odd number of digits''"
| "demo_unhex (c # d # s) =
     and_then (demo_unhex s) (\<lambda>bs. Inr (of_nat (16 * (of_char c - 48) + (of_char d - 48)) # bs))"

definition demo_lib :: "(bytes, bytes, bytes, bytes) crypto_lib" where
  "demo_lib = \<lparr>kdf = (\<lambda>key info n. Inr (take n (info @ key))), hex_encode = demo_hex, hex_decode = demo_unhex,
     bn_private = Some, bn_public = (\<lambda>k. k), ed_private = Some, ed_public = (\<lambda>k. k)\<rparr>"

lemma demo_unhex_hex: "demo_unhex (demo_hex bs) = Inr bs"
proof (induction bs)
  case (Cons b bs)
  have b: "unat b < 256" by (rule unat_u8_less)
  have "48 + unat b div 16 < 256" "48 + unat b mod 16 < 256" using b by auto
  then have "of_char (char_of (48 + unat b div 16) :: char) = 48 + unat b div 16"
    "of_char (char_of (48 + unat b mod 16) :: char) = 48 + unat b mod 16"
    by (simp_all add: of_char_of)
  then show ?case using Cons by (simp add: demo_hex_def)
qed (simp add: demo_hex_def)

lemma demo_hex_ascii: "rust_string (demo_hex bs)"
proof -
  have "\<forall>c \<in> set (demo_hex bs). (of_char c :: nat) < 128"
  proof
    fix c assume "c \<in> set (demo_hex bs)"
    then obtain b where "b \<in> set bs"
      and c: "c = char_of (48 + unat b div 16) \<or> c = char_of (48 + unat b mod 16)"
      by (auto simp: demo_hex_def)
    have "unat b < 256" by (rule unat_u8_less)
    then have "48 + unat b div 16 < 128" "48 + unat b mod 16 < 128" by auto
    with c show "(of_char c :: nat) < 128" by (auto simp: of_char_of)
  qed
  then have "\<forall>b \<in> set (as_bytes (demo_hex bs)). b < 0x80"
    by (auto simp: as_bytes_def word_less_nat_alt unat_of_nat)
  then show ?thesis by (simp add: rust_string_def valid_utf8_ascii)
qed

lemma demo_hex_ok: "hex_ok demo_lib"
  by (simp add: hex_ok_def demo_lib_def demo_unhex_hex demo_hex_ascii)

end
