(* ===== verification/Config.thy ===== *)
theory Config
  imports Keys
begin

text \<open>
  The configuration crate (\<open>config/src\<close>): every section has a partial form read from the TOML
  file, the environment overwrites it, and \<open>to_config\<close> merges it with the command line. The crate
  is modelled with its feature \<open>cli\<close> on; TOML and JSON are third-party crates and enter as
  functions.
\<close>

section \<open>Errors and the merging macros\<close>

datatype toml_error = TomlDeserialize string | TomlSerialize string

datatype config_error =
    ConfigIoError string
  | InvalidTomlConfig toml_error
  | MustProvideField string
  | FailedToGetCurrentDir string
  | UnwantedConfig string
  | ConfigCryptoError crypto_error

text \<open>The three arms of \<open>merge_config_cli!\<close>: the command line wins over the file.\<close>

definition merge_config_cli_parse ::
  "'a option \<Rightarrow> 'a option \<Rightarrow> config_error + 'b \<Rightarrow> ('a \<Rightarrow> 'b res) \<Rightarrow> (config_error + 'b) res" where
  "merge_config_cli_parse self cli dflt parse =
     (case (self, cli) of
        (None, None) \<Rightarrow> Inr dflt
      | (None, Some field) \<Rightarrow> and_then (parse field) (\<lambda>b. Inr (Inr b))
      | (Some field, None) \<Rightarrow> and_then (parse field) (\<lambda>b. Inr (Inr b))
      | (Some _, Some field) \<Rightarrow> and_then (parse field) (\<lambda>b. Inr (Inr b)))"

definition merge_config_cli :: "'a option \<Rightarrow> 'a option \<Rightarrow> config_error + 'a \<Rightarrow> config_error + 'a" where
  "merge_config_cli self cli dflt =
     (case (self, cli) of
        (None, None) \<Rightarrow> dflt
      | (None, Some field) \<Rightarrow> Inr field
      | (Some field, None) \<Rightarrow> Inr field
      | (Some _, Some field) \<Rightarrow> Inr field)"

definition merge_config_cli_option :: "'a option \<Rightarrow> 'a option \<Rightarrow> 'a option" where
  "merge_config_cli_option self cli =
     (case (self, cli) of
        (None, None) \<Rightarrow> None
      | (None, Some field) \<Rightarrow> Some field
      | (Some field, None) \<Rightarrow> Some field
      | (Some _, Some field) \<Rightarrow> Some field)"

text \<open>The two arms of \<open>env_overwrite!\<close>.\<close>

definition env_overwrite :: "host \<Rightarrow> string \<Rightarrow> (string \<Rightarrow> 'f) \<Rightarrow> 'f \<Rightarrow> 'f" where
  "env_overwrite h name into_field field =
     (case env_vars h name of None \<Rightarrow> field | Some var \<Rightarrow> into_field var)"

definition env_overwrite_parse :: "host \<Rightarrow> string \<Rightarrow> (string \<Rightarrow> 'f res) \<Rightarrow> 'f \<Rightarrow> 'f res" where
  "env_overwrite_parse h name parse field =
     (case env_vars h name of None \<Rightarrow> Inr field | Some var \<Rightarrow> parse var)"

lemma merge_config_cli_simps [simp]:
  "merge_config_cli self (Some c) d = Inr c"
  "merge_config_cli (Some s) None d = Inr s"
  "merge_config_cli None None d = d"
  by (auto simp: merge_config_cli_def split: option.splits)

lemma merge_config_cli_option_simps [simp]:
  "merge_config_cli_option self (Some c) = Some c"
  "merge_config_cli_option self None = self"
  by (auto simp: merge_config_cli_option_def split: option.splits)

lemma merge_config_cli_parse_simps [simp]:
  "merge_config_cli_parse self (Some c) d f = and_then (f c) (\<lambda>b. Inr (Inr b))"
  "merge_config_cli_parse (Some s) None d f = and_then (f s) (\<lambda>b. Inr (Inr b))"
  "merge_config_cli_parse None None d f = Inr d"
  by (auto simp: merge_config_cli_parse_def split: option.splits)

lemma merge_with_default:
  "merge_config_cli self cli (Inr d) = Inr (case cli of Some c \<Rightarrow> c | None \<Rightarrow> (case self of Some s \<Rightarrow> s | None \<Rightarrow> d))"
  "merge_config_cli_parse self cli (Inr (f d)) (\<lambda>x. Inr (f x))
     = Inr (Inr (f (case cli of Some c \<Rightarrow> c | None \<Rightarrow> (case self of Some s \<Rightarrow> s | None \<Rightarrow> d))))"
  by (simp_all split: option.split)


section \<open>The node section\<close>

record partial_node_config =
  pn_deposit :: "string option"
  pn_gas :: "u64 option"
  pn_master_key :: "string option"
  pn_seda_sk_file_path :: "string option"
  pn_contract_account_id :: "string option"
  pn_job_manager_interval_ms :: "u64 option"
  pn_runtime_worker_threads :: "u8 option"
  pn_consensus_wasm_path :: "string option"

record ('bsk, 'bpk, 'esk, 'epk) node_config =
  nc_deposit :: u128
  nc_gas :: u64
  nc_keypair_bn254 :: "('bsk, 'bpk) key_pair"
  nc_keypair_ed25519 :: "('esk, 'epk) key_pair"
  nc_contract_account_id :: string
  nc_job_manager_interval_ms :: u64
  nc_runtime_worker_threads :: u64
  nc_consensus_wasm_path :: string

definition NODE_DEPOSIT :: u128 where "NODE_DEPOSIT = 87 * 10 ^ 19"
definition NODE_GAS :: u64 where "NODE_GAS = 300000000000000"
definition JOB_MANAGER_INTERVAL_MS :: u64 where "JOB_MANAGER_INTERVAL_MS = 10"
definition RUNTIME_WORKER_THREADS :: u64 where "RUNTIME_WORKER_THREADS = 2"
definition SEDA_SECRET_KEY_PATH :: string where "SEDA_SECRET_KEY_PATH = ''./seda_secret_key''"

definition partial_node_template :: partial_node_config where
  "partial_node_template =
     \<lparr>pn_deposit = None, pn_gas = None, pn_master_key = None, pn_seda_sk_file_path = None,
      pn_contract_account_id = None, pn_job_manager_interval_ms = None,
      pn_runtime_worker_threads = None, pn_consensus_wasm_path = None\<rparr>"

definition node_overwrite_from_env :: "host \<Rightarrow> partial_node_config \<Rightarrow> partial_node_config" where
  "node_overwrite_from_env h c =
     c\<lparr>pn_master_key := env_overwrite h ''SEDA_SECRET_KEY'' Some (pn_master_key c)\<rparr>"

text \<open>\<open>PathBuf::push\<close> on a Unix host, then the path of the consensus binary.\<close>

definition path_push :: "string \<Rightarrow> string \<Rightarrow> string" where
  "path_push base p =
     (if p \<noteq> [] \<and> hd p = CHR ''/'' then p
      else if base = [] \<or> last base = CHR ''/'' then base @ p
      else base @ ''/'' @ p)"

definition default_consensus_wasm_path :: "bool \<Rightarrow> string \<Rightarrow> string" where
  "default_consensus_wasm_path debug_assertions manifest_dir =
     (if debug_assertions then path_push manifest_dir ''../target/wasm32-wasi/debug/consensus.wasm''
      else path_push manifest_dir ''../target/wasm32-wasi/release/consensus.wasm'')"

text \<open>
  How both \<open>get_node_public_key\<close> and \<open>to_config\<close> come by the master key. A key that is neither
  configured nor on disk is drawn at random and written to the fixed path.
\<close>

definition resolve_master_key ::
  "('bsk, 'bpk, 'esk, 'epk) crypto_lib \<Rightarrow> bytes \<Rightarrow> string option \<Rightarrow> string \<Rightarrow> host
    \<Rightarrow> host \<times> (config_error + master_key)" where
  "resolve_master_key lib rng master_key_config_option seda_sk_file_path h =
     (case master_key_config_option of
        Some key \<Rightarrow> (h, map_err ConfigCryptoError (master_key_of_hex lib key))
      | None \<Rightarrow>
          if path_exists h seda_sk_file_path
          then (h, map_err ConfigCryptoError (master_key_read_from_path lib h seda_sk_file_path))
          else
            let mk = master_key_random rng in
            (case master_key_write_to_path lib mk SEDA_SECRET_KEY_PATH h of
               (h', Inl e) \<Rightarrow> (h', Inl (ConfigCryptoError e))
             | (h', Inr _) \<Rightarrow> (h', Inr mk)))"

definition get_node_public_key ::
  "('bsk, 'bpk, 'esk, 'epk) crypto_lib \<Rightarrow> ('epk \<Rightarrow> bytes) \<Rightarrow> bytes \<Rightarrow> partial_node_config \<Rightarrow> host
    \<Rightarrow> host \<times> (config_error + bytes) res" where
  "get_node_public_key lib public_bytes rng self h =
     (let default_cli_options = partial_node_template in
      case merge_config_cli (pn_seda_sk_file_path self) (pn_seda_sk_file_path default_cli_options)
             (Inr SEDA_SECRET_KEY_PATH) of
        Inl e \<Rightarrow> (h, Inr (Inl e))
      | Inr seda_sk_file_path \<Rightarrow>
          (case resolve_master_key lib rng
                  (merge_config_cli_option (pn_master_key self) (pn_master_key default_cli_options))
                  seda_sk_file_path h of
             (h', Inl e) \<Rightarrow> (h', Inr (Inl e))
           | (h', Inr mk) \<Rightarrow>
               (h', bind_err (and_then (derive_ed25519 lib mk 0) (Inr \<circ> map_err ConfigCryptoError))
                      (\<lambda>kp. Inr (Inr (public_bytes (public_key kp)))))))"

text \<open>The part of \<open>to_config\<close> that follows the master key.\<close>

definition node_config_of_key ::
  "('bsk, 'bpk, 'esk, 'epk) crypto_lib \<Rightarrow> bool \<Rightarrow> string \<Rightarrow> host \<Rightarrow> partial_node_config
    \<Rightarrow> partial_node_config \<Rightarrow> u128 \<Rightarrow> u64 \<Rightarrow> master_key
    \<Rightarrow> (config_error + ('bsk, 'bpk, 'esk, 'epk) node_config) res" where
  "node_config_of_key lib debug_assertions manifest_dir h self cli deposit_val gas_val mk =
     bind_err (and_then (derive_ed25519 lib mk 0) (Inr \<circ> map_err ConfigCryptoError)) (\<lambda>keypair_ed25519.
     bind_err (and_then (derive_bn254 lib mk 0) (Inr \<circ> map_err ConfigCryptoError)) (\<lambda>keypair_bn254.
     bind_err (Inr (merge_config_cli (pn_contract_account_id self) (pn_contract_account_id cli)
                      (Inl (MustProvideField ''node.contract_account_id'')))) (\<lambda>contract_account_id.
     bind_err (Inr (merge_config_cli (pn_job_manager_interval_ms self) (pn_job_manager_interval_ms cli)
                      (Inr JOB_MANAGER_INTERVAL_MS))) (\<lambda>job_manager_interval_ms.
     bind_err (merge_config_cli_parse (pn_runtime_worker_threads self) (pn_runtime_worker_threads cli)
                 (Inr RUNTIME_WORKER_THREADS) (\<lambda>f. Inr (ucast f))) (\<lambda>runtime_worker_threads.
     bind_err (Inr (merge_config_cli (pn_consensus_wasm_path self) (pn_consensus_wasm_path cli)
                      (Inr (default_consensus_wasm_path debug_assertions manifest_dir)))) (\<lambda>consensus_wasm_path.
     if env_vars h ''ACCOUNT_SECRET_KEY'' \<noteq> None
     then Inr (Inl (UnwantedConfig ''ACCOUNT_SECRET_KEY''))
     else Inr (Inr
       \<lparr>nc_deposit = deposit_val, nc_gas = gas_val, nc_keypair_bn254 = keypair_bn254,
        nc_keypair_ed25519 = keypair_ed25519, nc_contract_account_id = contract_account_id,
        nc_job_manager_interval_ms = job_manager_interval_ms,
        nc_runtime_worker_threads = runtime_worker_threads,
        nc_consensus_wasm_path = consensus_wasm_path\<rparr>)))))))"

definition node_to_config ::
  "('bsk, 'bpk, 'esk, 'epk) crypto_lib \<Rightarrow> bool \<Rightarrow> string \<Rightarrow> bytes \<Rightarrow> partial_node_config
    \<Rightarrow> partial_node_config \<Rightarrow> host \<Rightarrow> host \<times> (config_error + ('bsk, 'bpk, 'esk, 'epk) node_config) res" where
  "node_to_config lib debug_assertions manifest_dir rng self cli h =
     (case merge_config_cli_parse (pn_deposit self) (pn_deposit cli) (Inr NODE_DEPOSIT)
             (\<lambda>f. unwrap (parse_uint f)) of
        Inl p \<Rightarrow> (h, Inl p)
      | Inr (Inl e) \<Rightarrow> (h, Inr (Inl e))
      | Inr (Inr deposit_val) \<Rightarrow>
     (case merge_config_cli (pn_gas self) (pn_gas cli) (Inr NODE_GAS) of
        Inl e \<Rightarrow> (h, Inr (Inl e))
      | Inr gas_val \<Rightarrow>
     (case merge_config_cli (pn_seda_sk_file_path self) (pn_seda_sk_file_path cli)
             (Inr SEDA_SECRET_KEY_PATH) of
        Inl e \<Rightarrow> (h, Inr (Inl e))
      | Inr seda_sk_file_path \<Rightarrow>
     (case resolve_master_key lib rng (merge_config_cli_option (pn_master_key self) (pn_master_key cli))
             seda_sk_file_path h of
        (h', Inl e) \<Rightarrow> (h', Inr (Inl e))
      | (h', Inr mk) \<Rightarrow>
          (h', node_config_of_key lib debug_assertions manifest_dir h' self cli deposit_val gas_val mk)))))"

definition node_test_config ::
  "('bsk, 'bpk, 'esk, 'epk) crypto_lib \<Rightarrow> bool \<Rightarrow> string \<Rightarrow> bytes \<Rightarrow> master_key option
    \<Rightarrow> ('bsk, 'bpk, 'esk, 'epk) node_config res" where
  "node_test_config lib debug_assertions manifest_dir rng mk_opt =
     (let mk = (case mk_opt of Some mk \<Rightarrow> mk | None \<Rightarrow> master_key_random rng) in
      and_then (derive_bn254 lib mk 0) (\<lambda>bn.
      and_then (case bn of Inl _ \<Rightarrow> Inl (Panic ''unwrap on an Err value'') | Inr k \<Rightarrow> Inr k) (\<lambda>keypair_bn254.
      and_then (derive_ed25519 lib mk 0) (\<lambda>ed.
      and_then (case ed of Inl _ \<Rightarrow> Inl (Panic ''unwrap on an Err value'') | Inr k \<Rightarrow> Inr k) (\<lambda>keypair_ed25519.
      Inr \<lparr>nc_deposit = NODE_DEPOSIT, nc_gas = NODE_GAS, nc_keypair_bn254 = keypair_bn254,
           nc_keypair_ed25519 = keypair_ed25519, nc_contract_account_id = [],
           nc_job_manager_interval_ms = JOB_MANAGER_INTERVAL_MS,
           nc_runtime_worker_threads = RUNTIME_WORKER_THREADS,
           nc_consensus_wasm_path = default_consensus_wasm_path debug_assertions manifest_dir\<rparr>)))))"


section \<open>The peer-to-peer section\<close>

text \<open>A \<open>Duration\<close> is its number of milliseconds.\<close>

type_synonym i32 = "32 word"
type_synonym duration = nat

definition from_millis :: "u64 \<Rightarrow> duration" where "from_millis ms = unat ms"
definition from_secs :: "u64 \<Rightarrow> duration" where "from_secs s = 1000 * unat s"

record partial_p2p_config =
  pp_in_peers :: "i32 option"
  pp_out_peers :: "i32 option"
  pp_server_address :: "string option"
  pp_known_peers :: "string list option"
  pp_disable_mdns :: "bool option"
  pp_max_mdns_peers :: "i32 option"
  pp_max_manual_peers :: "i32 option"
  pp_disable_manual_peers :: "bool option"
  pp_max_kademlia_peers :: "i32 option"
  pp_disable_kademlia_peers :: "bool option"
  pp_cooldown_duration :: "u64 option"

record p2p_config =
  pc_server_address :: string
  pc_known_peers :: "string list"
  pc_disable_mdns :: bool
  pc_max_mdns_peers :: i32
  pc_in_peers :: i32
  pc_out_peers :: i32
  pc_disable_manual_peers :: bool
  pc_max_manual_peers :: i32
  pc_max_kademlia_peers :: i32
  pc_disable_kademlia_peers :: bool
  pc_cooldown_duration :: duration

definition COOLDOWN_DURATION :: u64 where "COOLDOWN_DURATION = 30000"
definition IN_PEERS :: i32 where "IN_PEERS = 25"
definition MAX_KADEMLIA_PEERS :: i32 where "MAX_KADEMLIA_PEERS = 1000"
definition MAX_MANUAL_PEERS :: i32 where "MAX_MANUAL_PEERS = 1000"
definition MAX_MDNS_PEERS :: i32 where "MAX_MDNS_PEERS = 1000"
definition OUT_PEERS :: i32 where "OUT_PEERS = 100"
definition P2P_SERVER_ADDRESS :: string where "P2P_SERVER_ADDRESS = ''/ip4/0.0.0.0/tcp/0''"

definition p2p_to_config ::
  "partial_p2p_config \<Rightarrow> partial_p2p_config \<Rightarrow> (config_error + p2p_config) res" where
  "p2p_to_config self cli =
     bind_err (Inr (merge_config_cli (pp_server_address self) (pp_server_address cli)
                      (Inr P2P_SERVER_ADDRESS))) (\<lambda>p2p_server_address.
     bind_err (Inr (merge_config_cli (pp_known_peers self) (pp_known_peers cli) (Inr []))) (\<lambda>p2p_known_peers.
     bind_err (Inr (merge_config_cli (pp_disable_mdns self) (pp_disable_mdns cli) (Inr False))) (\<lambda>disable_mdns.
     bind_err (Inr (merge_config_cli (pp_max_mdns_peers self) (pp_max_mdns_peers cli)
                      (Inr MAX_MDNS_PEERS))) (\<lambda>max_mdns_peers.
     bind_err (Inr (merge_config_cli (pp_in_peers self) (pp_in_peers cli) (Inr IN_PEERS))) (\<lambda>in_peers.
     bind_err (Inr (merge_config_cli (pp_out_peers self) (pp_out_peers cli) (Inr OUT_PEERS))) (\<lambda>out_peers.
     bind_err (Inr (merge_config_cli (pp_max_manual_peers self) (pp_max_manual_peers cli)
                      (Inr MAX_MANUAL_PEERS))) (\<lambda>max_manual_peers.
     bind_err (Inr (merge_config_cli (pp_disable_manual_peers self) (pp_disable_manual_peers cli)
                      (Inr False))) (\<lambda>disable_manual_peers.
     bind_err (Inr (merge_config_cli (pp_disable_kademlia_peers self) (pp_disable_kademlia_peers cli)
                      (Inr False))) (\<lambda>disable_kademlia_peers.
     bind_err (Inr (merge_config_cli (pp_max_kademlia_peers self) (pp_max_kademlia_peers cli)
                      (Inr MAX_KADEMLIA_PEERS))) (\<lambda>max_kademlia_peers.
     bind_err (merge_config_cli_parse (pp_cooldown_duration self) (pp_cooldown_duration cli)
                 (Inr (from_millis COOLDOWN_DURATION)) (\<lambda>f. Inr (from_millis f))) (\<lambda>cooldown_duration.
     Inr (Inr
       \<lparr>pc_server_address = p2p_server_address, pc_known_peers = p2p_known_peers,
        pc_disable_mdns = disable_mdns, pc_max_mdns_peers = max_mdns_peers, pc_in_peers = in_peers,
        pc_out_peers = out_peers, pc_disable_manual_peers = disable_manual_peers,
        pc_max_manual_peers = max_manual_peers, pc_max_kademlia_peers = max_kademlia_peers,
        pc_disable_kademlia_peers = disable_kademlia_peers,
        pc_cooldown_duration = cooldown_duration\<rparr>))))))))))))"

definition partial_p2p_template :: partial_p2p_config where
  "partial_p2p_template =
     \<lparr>pp_in_peers = Some IN_PEERS, pp_out_peers = Some OUT_PEERS,
      pp_server_address = Some P2P_SERVER_ADDRESS, pp_known_peers = None, pp_disable_mdns = None,
      pp_max_mdns_peers = Some MAX_MDNS_PEERS, pp_max_manual_peers = Some MAX_MANUAL_PEERS,
      pp_disable_manual_peers = None, pp_max_kademlia_peers = Some MAX_KADEMLIA_PEERS,
      pp_disable_kademlia_peers = None, pp_cooldown_duration = Some COOLDOWN_DURATION\<rparr>"

definition partial_p2p_default :: partial_p2p_config where
  "partial_p2p_default =
     \<lparr>pp_in_peers = None, pp_out_peers = None, pp_server_address = None, pp_known_peers = None,
      pp_disable_mdns = None, pp_max_mdns_peers = None, pp_max_manual_peers = None,
      pp_disable_manual_peers = None, pp_max_kademlia_peers = None,
      pp_disable_kademlia_peers = None, pp_cooldown_duration = None\<rparr>"

definition p2p_test_config :: p2p_config where
  "p2p_test_config =
     \<lparr>pc_server_address = P2P_SERVER_ADDRESS, pc_known_peers = [], pc_disable_mdns = False,
      pc_max_mdns_peers = MAX_MDNS_PEERS, pc_in_peers = IN_PEERS, pc_out_peers = OUT_PEERS,
      pc_disable_manual_peers = False, pc_max_manual_peers = MAX_MANUAL_PEERS,
      pc_max_kademlia_peers = MAX_KADEMLIA_PEERS, pc_disable_kademlia_peers = False,
      pc_cooldown_duration = from_secs COOLDOWN_DURATION\<rparr>"


section \<open>The chain, logger and delegate sections\<close>

record partial_chain_configs =
  pch_another_rpc_url :: "string option"
  pch_near_rpc_url :: "string option"

record chain_configs =
  ch_another_rpc_url :: string
  ch_near_rpc_url :: string

definition NEAR_RPC_URL :: string where "NEAR_RPC_URL = ''https://rpc.testnet.near.org''"

definition another_to_config :: "string option \<Rightarrow> string" where
  "another_to_config chain_rpc_url = (case chain_rpc_url of Some u \<Rightarrow> u | None \<Rightarrow> NEAR_RPC_URL)"

definition near_to_config :: "string option \<Rightarrow> string option \<Rightarrow> config_error + string" where
  "near_to_config self cli = merge_config_cli self cli (Inl (MustProvideField ''near.chain_rpc_url''))"

definition chains_to_config ::
  "partial_chain_configs \<Rightarrow> partial_chain_configs \<Rightarrow> config_error + chain_configs" where
  "chains_to_config self cli =
     (let another = another_to_config (pch_another_rpc_url self) in
      and_then (near_to_config (pch_near_rpc_url self) (pch_near_rpc_url cli)) (\<lambda>near.
      Inr \<lparr>ch_another_rpc_url = another, ch_near_rpc_url = near\<rparr>))"

definition partial_chains_template :: partial_chain_configs where
  "partial_chains_template =
     \<lparr>pch_another_rpc_url = Some NEAR_RPC_URL, pch_near_rpc_url = Some NEAR_RPC_URL\<rparr>"

definition chains_overwrite_from_env :: "host \<Rightarrow> partial_chain_configs \<Rightarrow> partial_chain_configs" where
  "chains_overwrite_from_env h c =
     c\<lparr>pch_near_rpc_url := env_overwrite h ''SEDA_NEAR_RPC_URL'' Some (pch_near_rpc_url c)\<rparr>"

definition chains_test_config :: chain_configs where
  "chains_test_config = \<lparr>ch_another_rpc_url = NEAR_RPC_URL, ch_near_rpc_url = NEAR_RPC_URL\<rparr>"

record partial_logger_config =
  pl_log_file_path :: "string option"

definition logger_to_config ::
  "host \<Rightarrow> partial_logger_config \<Rightarrow> partial_logger_config \<Rightarrow> config_error + string" where
  "logger_to_config h self cli =
     merge_config_cli (pl_log_file_path self) (pl_log_file_path cli)
       (map_err FailedToGetCurrentDir (current_dir h))"

definition partial_logger_template :: "host \<Rightarrow> partial_logger_config" where
  "partial_logger_template h =
     \<lparr>pl_log_file_path = (case current_dir h of Inl _ \<Rightarrow> None | Inr d \<Rightarrow> Some d)\<rparr>"

definition logger_overwrite_from_env :: "host \<Rightarrow> partial_logger_config \<Rightarrow> partial_logger_config" where
  "logger_overwrite_from_env h c =
     c\<lparr>pl_log_file_path := env_overwrite h ''SEDA_LOG_FILE_PATH'' Some (pl_log_file_path c)\<rparr>"

record partial_delegate_config =
  pd_validator_secret_key :: "string option"
  pd_account_secret_key :: "string option"
  pd_signer_account_id :: "string option"
  pd_delegate_contract_id :: "string option"
  pd_rpc_url :: "string option"
  pd_gas :: "u64 option"

record delegate_config =
  dc_account_secret_key :: string
  dc_validator_master_key :: string
  dc_signer_account_id :: string
  dc_delegate_contract_id :: string
  dc_rpc_url :: string
  dc_gas :: u64

definition DELEGATE_GAS :: u64 where "DELEGATE_GAS = 300000000000000"
definition DELEGATE_RPC_URL :: string where "DELEGATE_RPC_URL = ''https://rpc.testnet.near.org''"

definition delegate_to_config ::
  "partial_delegate_config \<Rightarrow> partial_delegate_config \<Rightarrow> config_error + delegate_config" where
  "delegate_to_config self cli =
     and_then (merge_config_cli (pd_validator_secret_key self) (pd_validator_secret_key cli)
                 (Inr [])) (\<lambda>validator_master_key.
     and_then (merge_config_cli (pd_account_secret_key self) (pd_account_secret_key cli)
                 (Inl (MustProvideField ''node.secret_key''))) (\<lambda>account_secret_key.
     and_then (merge_config_cli (pd_signer_account_id self) (pd_signer_account_id cli)
                 (Inl (MustProvideField ''node.signer_account_id''))) (\<lambda>signer_account_id.
     and_then (merge_config_cli (pd_delegate_contract_id self) (pd_delegate_contract_id cli)
                 (Inr [])) (\<lambda>delegate_contract_id.
     and_then (merge_config_cli (pd_rpc_url self) (pd_rpc_url cli) (Inr DELEGATE_RPC_URL)) (\<lambda>rpc_url.
     and_then (merge_config_cli (pd_gas self) (pd_gas cli) (Inr DELEGATE_GAS)) (\<lambda>gas_val.
     Inr \<lparr>dc_account_secret_key = account_secret_key, dc_validator_master_key = validator_master_key,
          dc_signer_account_id = signer_account_id, dc_delegate_contract_id = delegate_contract_id,
          dc_rpc_url = rpc_url, dc_gas = gas_val\<rparr>))))))"

definition partial_delegate_template :: partial_delegate_config where
  "partial_delegate_template =
     \<lparr>pd_validator_secret_key = None, pd_account_secret_key = None, pd_signer_account_id = None,
      pd_delegate_contract_id = None, pd_rpc_url = None, pd_gas = Some DELEGATE_GAS\<rparr>"

definition delegate_overwrite_from_env :: "host \<Rightarrow> partial_delegate_config \<Rightarrow> partial_delegate_config" where
  "delegate_overwrite_from_env h c =
     c\<lparr>pd_validator_secret_key := env_overwrite h ''VALIDATOR_SECRET_KEY'' Some (pd_validator_secret_key c),
       pd_account_secret_key := env_overwrite h ''ACCOUNT_SECRET_KEY'' Some (pd_account_secret_key c),
       pd_signer_account_id := env_overwrite h ''SIGNER_ACCOUNT_ID'' Some (pd_signer_account_id c)\<rparr>"

definition delegate_test_config :: delegate_config where
  "delegate_test_config =
     \<lparr>dc_account_secret_key = [], dc_validator_master_key = [], dc_signer_account_id = [],
      dc_delegate_contract_id = [], dc_rpc_url = [], dc_gas = DELEGATE_GAS\<rparr>"


section \<open>The application file\<close>

record partial_app_config =
  pa_seda_server_address :: string
  pa_seda_server_port :: u64
  pa_chains :: partial_chain_configs
  pa_node :: partial_node_config
  pa_logging :: partial_logger_config
  pa_p2p :: partial_p2p_config

definition partial_app_template :: "host \<Rightarrow> partial_app_config" where
  "partial_app_template h =
     \<lparr>pa_seda_server_address = ''127.0.0.1'', pa_seda_server_port = 12345,
      pa_chains = partial_chains_template, pa_node = partial_node_template,
      pa_logging = partial_logger_template h, pa_p2p = partial_p2p_template\<rparr>"

definition app_overwrite_from_env :: "host \<Rightarrow> partial_app_config \<Rightarrow> partial_app_config res" where
  "app_overwrite_from_env h c =
     (let a = env_overwrite h ''SEDA_SERVER_ADDRESS'' (\<lambda>v. v) (pa_seda_server_address c) in
      and_then (env_overwrite_parse h ''SEDA_SERVER_PORT''
                  (\<lambda>p. expect ''Invalid port number specified.'' (parse_uint p))
                  (pa_seda_server_port c)) (\<lambda>port.
      Inr (c\<lparr>pa_seda_server_address := a, pa_seda_server_port := port,
             pa_chains := chains_overwrite_from_env h (pa_chains c),
             pa_node := node_overwrite_from_env h (pa_node c),
             pa_logging := logger_overwrite_from_env h (pa_logging c)\<rparr>)))"

definition app_default :: "host \<Rightarrow> partial_app_config res" where
  "app_default h =
     app_overwrite_from_env h
       \<lparr>pa_seda_server_address = ''127.0.0.1'', pa_seda_server_port = 12345,
        pa_chains = \<lparr>pch_another_rpc_url = None, pch_near_rpc_url = None\<rparr>,
        pa_node = partial_node_template, pa_logging = \<lparr>pl_log_file_path = None\<rparr>,
        pa_p2p = partial_p2p_default\<rparr>"

definition app_read_from_path ::
  "(string \<Rightarrow> string + partial_app_config) \<Rightarrow> host \<Rightarrow> string \<Rightarrow> (config_error + partial_app_config) res" where
  "app_read_from_path toml_from_str h p =
     bind_err (Inr (map_err ConfigIoError (read_to_string h p))) (\<lambda>content.
     bind_err (Inr (map_err (InvalidTomlConfig \<circ> TomlDeserialize) (toml_from_str content))) (\<lambda>c.
     and_then (app_overwrite_from_env h c) (\<lambda>c'. Inr (Inr c'))))"

record app_config =
  ac_seda_server_url :: string
  ac_chains :: partial_chain_configs
  ac_node :: partial_node_config
  ac_p2p :: partial_p2p_config

definition app_config_of_partial :: "partial_app_config \<Rightarrow> app_config \<times> partial_logger_config" where
  "app_config_of_partial c =
     (\<lparr>ac_seda_server_url = pa_seda_server_address c @ '':'' @ decimal (unat (pa_seda_server_port c)),
       ac_chains = pa_chains c, ac_node = pa_node c, ac_p2p = pa_p2p c\<rparr>,
      pa_logging c)"

definition FULL_CONFIG_PATH :: string where "FULL_CONFIG_PATH = ''./config.toml''"

text \<open>\<open>str::trim\<close> matters here only for a string of white space; the predicate is its ASCII part.\<close>

definition is_whitespace :: "char \<Rightarrow> bool" where
  "is_whitespace c \<longleftrightarrow> of_char c \<in> {9, 10, 11, 12, 13, 32 :: nat}"

definition default_config_path :: "host \<Rightarrow> string" where
  "default_config_path h =
     (let config_path = (case env_vars h ''SEDA_CONFIG_PATH'' of Some p \<Rightarrow> p | None \<Rightarrow> []) in
      if \<not> list_all is_whitespace config_path then config_path else FULL_CONFIG_PATH)"


section \<open>The node's identity\<close>

lemma resolve_env_vars: "resolve_master_key lib rng k p h = (h', r) \<Longrightarrow> env_vars h' = env_vars h"
  by (auto simp: resolve_master_key_def master_key_write_to_path_def fs_write_def Let_def
      split: option.splits if_splits prod.splits sum.splits)

lemma resolve_fresh:
  assumes "resolve_master_key lib rng None p h = (h', Inr mk)" "\<not> path_exists h p"
  shows "mk = \<lparr>seed = rng\<rparr>"
    "master_key_write_to_path lib mk SEDA_SECRET_KEY_PATH h = (h', Inr ())"
  using assms
  by (auto simp: resolve_master_key_def master_key_random_def Let_def split: prod.splits sum.splits)

lemma resolve_known:
  assumes "resolve_master_key lib rng k p h = (h', r)" "k \<noteq> None \<or> path_exists h p"
  shows "h' = h" "resolve_master_key lib rng' k p h = (h', r)"
  using assms by (auto simp: resolve_master_key_def split: option.splits if_splits)

lemma resolve_again:
  assumes "hex_ok lib" "length rng = 32"
    and "resolve_master_key lib rng k SEDA_SECRET_KEY_PATH h = (h', Inr mk)"
  shows "resolve_master_key lib rng' k SEDA_SECRET_KEY_PATH h' = (h', Inr mk)"
proof (cases "k \<noteq> None \<or> path_exists h SEDA_SECRET_KEY_PATH")
  case True
  then show ?thesis using resolve_known assms(3) by metis
next
  case False
  then have "mk = \<lparr>seed = rng\<rparr>"
    and wrote: "master_key_write_to_path lib mk SEDA_SECRET_KEY_PATH h = (h', Inr ())"
    using resolve_fresh assms(3) by auto
  then have "master_key_read_from_path lib h' SEDA_SECRET_KEY_PATH = Inr mk"
    using assms(1,2) by (intro master_key_read_back) (auto simp: valid_master_key_def)
  moreover have "path_exists h' SEDA_SECRET_KEY_PATH"
    using write_to_path_effect(1) [OF wrote] by (simp add: path_exists_def)
  ultimately show ?thesis using False by (simp add: resolve_master_key_def)
qed

text \<open>A start that succeeds has resolved a master key, and only its resolution touches the files.\<close>

lemma node_to_config_elim:
  assumes "node_to_config lib dbg dir rng self cli h = (h', Inr (Inr cfg))"
  obtains deposit_val gas_val path mk where
    "merge_config_cli_parse (pn_deposit self) (pn_deposit cli) (Inr NODE_DEPOSIT) (\<lambda>f. unwrap (parse_uint f))
       = Inr (Inr deposit_val)"
    "merge_config_cli (pn_gas self) (pn_gas cli) (Inr NODE_GAS) = Inr gas_val"
    "merge_config_cli (pn_seda_sk_file_path self) (pn_seda_sk_file_path cli) (Inr SEDA_SECRET_KEY_PATH)
       = Inr path"
    "resolve_master_key lib rng (merge_config_cli_option (pn_master_key self) (pn_master_key cli)) path h
       = (h', Inr mk)"
    "node_config_of_key lib dbg dir h' self cli deposit_val gas_val mk = Inr (Inr cfg)"
  using assms by (auto simp: node_to_config_def split: sum.splits prod.splits)

lemma node_config_of_key_keys:
  assumes "node_config_of_key lib dbg dir h self cli d g mk = Inr (Inr cfg)"
  shows "derive_ed25519 lib mk 0 = Inr (Inr (nc_keypair_ed25519 cfg))"
    "derive_bn254 lib mk 0 = Inr (Inr (nc_keypair_bn254 cfg))"
    "env_vars h ''ACCOUNT_SECRET_KEY'' = None"
  using assms by (auto simp: node_config_of_key_def res_simps split: if_splits)
text \<open>A node that is started for the first time, and the configuration it arrives at.\<close>

definition demo_host :: host where
  "demo_host = \<lparr>env_vars = Map.empty, files = Map.empty, writable = (\<lambda>_. True), current_dir = Inr ''/''\<rparr>"

definition demo_node :: "string option \<Rightarrow> partial_node_config" where
  "demo_node path = partial_node_template\<lparr>pn_contract_account_id := Some ''mc.near'', pn_seda_sk_file_path := path\<rparr>"

definition demo_config :: "bytes \<Rightarrow> (bytes, bytes, bytes, bytes) node_config" where
  "demo_config rng =
     (let e = take 32 (replicate 8 0 @ take 32 (as_bytes ''ed25519'' @ rng));
          b = take 32 (replicate 8 0 @ take 32 (as_bytes ''bn254'' @ rng)) in
      \<lparr>nc_deposit = NODE_DEPOSIT, nc_gas = NODE_GAS, nc_keypair_bn254 = \<lparr>private_key = b, public_key = b\<rparr>,
       nc_keypair_ed25519 = \<lparr>private_key = e, public_key = e\<rparr>, nc_contract_account_id = ''mc.near'',
       nc_job_manager_interval_ms = JOB_MANAGER_INTERVAL_MS, nc_runtime_worker_threads = RUNTIME_WORKER_THREADS,
       nc_consensus_wasm_path = default_consensus_wasm_path True ''/seda''\<rparr>)"

definition demo_host_with_key :: "bytes \<Rightarrow> host" where
  "demo_host_with_key rng =
     demo_host\<lparr>files := [SEDA_SECRET_KEY_PATH \<mapsto> File (as_bytes (demo_hex rng))]\<rparr>"

lemma demo_node_fields [simp]:
  "pn_deposit (demo_node p) = None" "pn_gas (demo_node p) = None" "pn_master_key (demo_node p) = None"
  "pn_seda_sk_file_path (demo_node p) = p" "pn_contract_account_id (demo_node p) = Some ''mc.near''"
  "pn_job_manager_interval_ms (demo_node p) = None" "pn_runtime_worker_threads (demo_node p) = None"
  "pn_consensus_wasm_path (demo_node p) = None"
  by (simp_all add: demo_node_def partial_node_template_def)

lemma node_template_fields [simp]:
  "pn_deposit partial_node_template = None" "pn_gas partial_node_template = None"
  "pn_master_key partial_node_template = None" "pn_seda_sk_file_path partial_node_template = None"
  "pn_contract_account_id partial_node_template = None"
  "pn_job_manager_interval_ms partial_node_template = None"
  "pn_runtime_worker_threads partial_node_template = None"
  "pn_consensus_wasm_path partial_node_template = None"
  by (simp_all add: partial_node_template_def)

lemma demo_files [simp]:
  "files demo_host = Map.empty" "env_vars demo_host = Map.empty" "env_vars (demo_host_with_key rng) = Map.empty"
  "files (demo_host_with_key rng) = [SEDA_SECRET_KEY_PATH \<mapsto> File (as_bytes (demo_hex rng))]"
  by (simp_all add: demo_host_def demo_host_with_key_def)

lemma to_le_bytes_0: "to_le_bytes n (0 :: 'a::len word) = replicate n 0"
  by (simp add: to_le_bytes_def map_replicate_trivial map_replicate_const)

lemma demo_of_key:
  assumes "env_vars h = Map.empty"
  shows "node_config_of_key demo_lib True ''/seda'' h (demo_node path) partial_node_template
    NODE_DEPOSIT NODE_GAS \<lparr>seed = rng\<rparr> = Inr (Inr (demo_config rng))"
  using assms
  by (simp add: node_config_of_key_def derive_bn254_def
      derive_ed25519_def demo_lib_def to_le_bytes_0 demo_config_def Let_def)

lemma demo_resolve:
  assumes "h = demo_host \<or> h = demo_host_with_key r" "\<not> path_exists h p"
  shows "resolve_master_key demo_lib rng None p h = (demo_host_with_key rng, Inr \<lparr>seed = rng\<rparr>)"
  using assms
  by (auto simp: resolve_master_key_def master_key_write_to_path_def fs_write_def master_key_random_def
      demo_host_def demo_host_with_key_def demo_lib_def Let_def)

lemma demo_start:
  assumes "h = demo_host \<or> h = demo_host_with_key r"
    and "\<not> path_exists h (case path of None \<Rightarrow> SEDA_SECRET_KEY_PATH | Some p \<Rightarrow> p)"
  shows "node_to_config demo_lib True ''/seda'' rng (demo_node path) partial_node_template h
     = (demo_host_with_key rng, Inr (Inr (demo_config rng)))"
  using demo_resolve [OF assms]
  by (cases path) (simp_all add: node_to_config_def demo_of_key)

text \<open>A node keeps its identity across restarts: when the key file is the default one, a start
  that succeeds fixes the outcome of every later start with the same configuration, whatever the
  random number generator delivers then.\<close>

theorem node_identity_stable:
  assumes "hex_ok lib" "length rng = 32"
    and "merge_config_cli (pn_seda_sk_file_path self) (pn_seda_sk_file_path cli) (Inr SEDA_SECRET_KEY_PATH)
      = Inr SEDA_SECRET_KEY_PATH"
    and "node_to_config lib dbg dir rng self cli h = (h', Inr (Inr cfg))"
  shows "node_to_config lib dbg dir rng' self cli h' = (h', Inr (Inr cfg))"
  using assms(4)
proof (cases rule: node_to_config_elim)
  case (1 deposit_val gas_val path mk)
  then show ?thesis
    using assms(3) resolve_again [OF assms(1,2)] by (simp add: node_to_config_def)
qed

theorem node_identity_stable_witness:
  "node_to_config demo_lib True ''/seda'' (replicate 32 9) (demo_node None) partial_node_template
     (demo_host_with_key (replicate 32 7))
   = (demo_host_with_key (replicate 32 7), Inr (Inr (demo_config (replicate 32 7))))"
  using node_identity_stable [OF demo_hex_ok _ _
      demo_start [of demo_host "[]" None "replicate 32 7"], of "replicate 32 9"]
  by (simp add: path_exists_def)

text \<open>A configured key path is not honoured when the key has to be created. The fresh key goes
  to the fixed path, so the next start draws another one: both key pairs of the second start come
  from the second random seed.\<close>

theorem configured_key_path_forgotten:
  assumes "merge_config_cli_option (pn_master_key self) (pn_master_key cli) = None"
    and "merge_config_cli (pn_seda_sk_file_path self) (pn_seda_sk_file_path cli) (Inr SEDA_SECRET_KEY_PATH)
      = Inr path"
    and "path \<noteq> SEDA_SECRET_KEY_PATH" "\<not> path_exists h path"
    and "node_to_config lib dbg dir rng1 self cli h = (h1, Inr (Inr cfg1))"
    and "node_to_config lib dbg dir rng2 self cli h1 = (h2, Inr (Inr cfg2))"
  shows "derive_ed25519 lib \<lparr>seed = rng1\<rparr> 0 = Inr (Inr (nc_keypair_ed25519 cfg1)) \<and>
    derive_ed25519 lib \<lparr>seed = rng2\<rparr> 0 = Inr (Inr (nc_keypair_ed25519 cfg2)) \<and>
    derive_bn254 lib \<lparr>seed = rng2\<rparr> 0 = Inr (Inr (nc_keypair_bn254 cfg2)) \<and>
    \<not> path_exists h2 path"
proof -
  obtain d1 g1 mk1 where 1:
    "resolve_master_key lib rng1 None path h = (h1, Inr mk1)"
    "node_config_of_key lib dbg dir h1 self cli d1 g1 mk1 = Inr (Inr cfg1)"
    using assms(1,2,5) by (auto elim!: node_to_config_elim)
  obtain d2 g2 mk2 where 2:
    "resolve_master_key lib rng2 None path h1 = (h2, Inr mk2)"
    "node_config_of_key lib dbg dir h2 self cli d2 g2 mk2 = Inr (Inr cfg2)"
    using assms(1,2,6) by (auto elim!: node_to_config_elim)
  note w1 = resolve_fresh [OF 1(1) assms(4)]
  have away: "\<not> path_exists h1 path"
    using assms(3,4) write_to_path_effect(2) [OF w1(2)] by (simp add: path_exists_def)
  note w2 = resolve_fresh [OF 2(1) away]
  have "\<not> path_exists h2 path"
    using assms(3) away write_to_path_effect(2) [OF w2(2)] by (simp add: path_exists_def)
  then show ?thesis
    using w1(1) w2(1) node_config_of_key_keys [OF 1(2)] node_config_of_key_keys [OF 2(2)] by simp
qed

theorem configured_key_path_forgotten_witness:
  "derive_ed25519 demo_lib \<lparr>seed = [7]\<rparr> 0 = Inr (Inr (nc_keypair_ed25519 (demo_config [7]))) \<and>
   derive_ed25519 demo_lib \<lparr>seed = [9]\<rparr> 0 = Inr (Inr (nc_keypair_ed25519 (demo_config [9]))) \<and>
   nc_keypair_ed25519 (demo_config [7]) \<noteq> nc_keypair_ed25519 (demo_config [9])"
proof -
  have "nc_keypair_ed25519 (demo_config [7]) \<noteq> nc_keypair_ed25519 (demo_config [9])"
    by (simp add: demo_config_def as_bytes_def Let_def)
  then show ?thesis
    using configured_key_path_forgotten [of "demo_node (Some ''key'')" partial_node_template "''key''" demo_host,
        OF _ _ _ _ demo_start [of demo_host "[]" "Some ''key''" "[7]"]
          demo_start [of "demo_host_with_key [7]" "[7]" "Some ''key''" "[9]"]]
    by (simp add: path_exists_def SEDA_SECRET_KEY_PATH_def)
qed

text \<open>The node refuses to start while the account's secret key is in its environment.\<close>

lemma account_secret_key_refused:
  assumes "env_vars h ''ACCOUNT_SECRET_KEY'' \<noteq> None"
  shows "snd (node_to_config lib dbg dir rng self cli h) \<noteq> Inr (Inr cfg)"
proof
  assume "snd (node_to_config lib dbg dir rng self cli h) = Inr (Inr cfg)"
  then obtain h' where "node_to_config lib dbg dir rng self cli h = (h', Inr (Inr cfg))"
    by (metis prod.collapse)
  then show False
  proof (cases rule: node_to_config_elim)
    case (1 deposit_val gas_val path mk)
    then show False
      using assms resolve_env_vars [OF 1(4)] node_config_of_key_keys(3) [OF 1(5)] by simp
  qed
qed


section \<open>Defaults and templates\<close>

text \<open>The peer-to-peer section always yields a configuration, each field being the command
  line's value, else the file's, else the default; and the template that is written for a new
  installation means the same as an absent section.\<close>

lemma p2p_config_total:
  "\<exists>cfg. p2p_to_config self cli = Inr (Inr cfg) \<and>
     pc_out_peers cfg = (case pp_out_peers cli of Some v \<Rightarrow> v
       | None \<Rightarrow> (case pp_out_peers self of Some v \<Rightarrow> v | None \<Rightarrow> OUT_PEERS)) \<and>
     pc_cooldown_duration cfg = from_millis (case pp_cooldown_duration cli of Some v \<Rightarrow> v
       | None \<Rightarrow> (case pp_cooldown_duration self of Some v \<Rightarrow> v | None \<Rightarrow> COOLDOWN_DURATION)) \<and>
     p2p_to_config partial_p2p_template cli = p2p_to_config partial_p2p_default cli"
proof -
  have "p2p_to_config partial_p2p_template cli = p2p_to_config partial_p2p_default cli"
    by (simp add: p2p_to_config_def partial_p2p_template_def partial_p2p_default_def merge_with_default
        cong: option.case_cong)
  then show ?thesis
    by (simp add: p2p_to_config_def merge_with_default)
qed

end
