(* ===== verification/Vm_Host.thy ===== *)
theory Vm_Host
  imports Sdk Config
begin

text \<open>
  The host side of the virtual machine (\<open>runtime/core/src\<close>): storage, the context of a run, and the
  functions that the host exports to a WASM guest (\<open>imports.rs\<close>).

  A guest's linear memory is a list of bytes. \<open>wasmer\<close>, \<open>serde_json\<close> and \<open>bn254\<close> are third-party
  crates: the record \<open>vm_lib\<close> holds what the host calls of them. An exported function maps a
  context to a context and an outcome: a panic, a \<open>RuntimeError\<close> (which traps the guest) or a value.
\<close>

section \<open>Errors\<close>

datatype runtime_error =
    WasmCompileError string
  | WasmInstantiationError string
  | WasiError string
  | WasiStateCreationError string
  | FunctionNotFound string
  | RuntimeExecutionError string
  | VmHostError string
  | WasiFsError string
  | RuntimeIoError string
  | RuntimeParseIntError
  | NodeError string
  | P2PCommandChannelError string
  | RuntimeBn254Error string
  | RuntimeSDKError sdk_error

text \<open>The conversions \<open>From<serde_json::Error>\<close>, \<open>From<String>\<close> and \<open>From<&str>\<close>.\<close>

definition runtime_error_of_message :: "string \<Rightarrow> runtime_error" where
  "runtime_error_of_message s = VmHostError s"


section \<open>Storage\<close>

record in_memory =
  im_memory :: "string \<rightharpoonup> bytes"

definition in_memory_default :: in_memory where
  "in_memory_default = \<lparr>im_memory = Map.empty\<rparr>"

definition im_get ::
  "(bytes \<Rightarrow> (sdk_error + 'a) res) \<Rightarrow> string \<Rightarrow> in_memory \<Rightarrow> (runtime_error + 'a option) res" where
  "im_get from_bytes key m =
     (case im_memory m key of
        None \<Rightarrow> Inr (Inr None)
      | Some b \<Rightarrow>
          and_then (from_bytes b) (\<lambda>r. case r of Inl e \<Rightarrow> Inr (Inl (RuntimeSDKError e)) | Inr v \<Rightarrow> Inr (Inr (Some v))))"

definition im_put :: "('a \<Rightarrow> bytes) \<Rightarrow> string \<Rightarrow> 'a \<Rightarrow> in_memory \<Rightarrow> in_memory \<times> bytes option" where
  "im_put to_bytes key v m =
     (m\<lparr>im_memory := (im_memory m)(key \<mapsto> to_bytes v)\<rparr>, im_memory m key)"

definition im_contains_key :: "string \<Rightarrow> in_memory \<Rightarrow> bool" where
  "im_contains_key key m \<longleftrightarrow> im_memory m key \<noteq> None"

text \<open>Storage of every type with a faithful encoding: a value that was put is found again.\<close>

context byte_codec
begin

lemma get_put_same:
  "valid v \<Longrightarrow> im_get dec k (fst (im_put enc k v m)) = Inr (Inr (Some v))"
  by (simp add: im_get_def im_put_def dec_enc)

lemma put_returns_old:
  "valid v \<Longrightarrow> valid w \<Longrightarrow>
   snd (im_put enc k w (fst (im_put enc k v m))) = Some (enc v) \<and>
   im_get dec k (fst (im_put enc k w (fst (im_put enc k v m)))) = Inr (Inr (Some w))"
  by (simp add: im_get_def im_put_def dec_enc)

end

lemma im_get_put_other: "k' \<noteq> k \<Longrightarrow> im_get dec k' (fst (im_put enc k v m)) = im_get dec k' m"
  by (simp add: im_get_def im_put_def)

lemma im_contains_put: "im_contains_key k' (fst (im_put enc k v m)) \<longleftrightarrow> k' = k \<or> im_contains_key k' m"
  by (simp add: im_contains_key_def im_put_def)

lemma im_get_vec [simp]: "im_get from_bytes_vec k m = Inr (Inr (im_memory m k))"
  by (simp add: im_get_def from_bytes_vec_def split: option.splits)


section \<open>Queues and the context of a run\<close>

record promise_queue =
  pq_queue :: "promise list"

definition promise_queue_new :: promise_queue where
  "promise_queue_new = \<lparr>pq_queue = []\<rparr>"

definition add_promise :: "promise \<Rightarrow> promise_queue \<Rightarrow> promise_queue" where
  "add_promise p q = q\<lparr>pq_queue := pq_queue q @ [p]\<rparr>"

record ('bsk, 'bpk, 'esk, 'epk) vm_context =
  vc_result :: bytes
  vc_memory :: "bytes option"
  vc_memory_adapter :: in_memory
  vc_shared_memory :: in_memory
  vc_promise_queue :: promise_queue
  vc_current_promise_queue :: promise_queue
  vc_node_config :: "('bsk, 'bpk, 'esk, 'epk) node_config"

definition create_vm_context ::
  "in_memory \<Rightarrow> in_memory \<Rightarrow> promise_queue \<Rightarrow> promise_queue \<Rightarrow> ('bsk, 'bpk, 'esk, 'epk) node_config
    \<Rightarrow> ('bsk, 'bpk, 'esk, 'epk) vm_context" where
  "create_vm_context memory_adapter shared_memory current_promise_queue promise_queue_ref config =
     \<lparr>vc_result = [], vc_memory = None, vc_memory_adapter = memory_adapter,
      vc_shared_memory = shared_memory, vc_promise_queue = promise_queue_ref,
      vc_current_promise_queue = current_promise_queue, vc_node_config = config\<rparr>"

definition init_with_instance ::
  "bytes option \<Rightarrow> ('bsk, 'bpk, 'esk, 'epk) vm_context \<Rightarrow> ('bsk, 'bpk, 'esk, 'epk) vm_context \<times> (string + unit)" where
  "init_with_instance exported_memory env =
     (case exported_memory of
        None \<Rightarrow> (env, Inl ''Missing export memory'')
      | Some mem \<Rightarrow> (env\<lparr>vc_memory := Some mem\<rparr>, Inr ()))"


section \<open>The third-party crates\<close>

text \<open>
  \<open>wasm_deref mem ptr n\<close> is \<open>WasmPtr::deref(memory, 0, n)\<close>, the bytes of the slice or \<open>None\<close>;
  \<open>wasm_utf8\<close> is \<open>WasmPtr::get_utf8_string\<close>. The JSON functions are \<open>serde_json::to_string\<close> and
  \<open>from_str\<close> at the types used; an error is its message.
\<close>

record ('sig, 'bsk, 'bpk) vm_lib =
  wasm_deref :: "bytes \<Rightarrow> u32 \<Rightarrow> u32 \<Rightarrow> bytes option"
  wasm_utf8 :: "bytes \<Rightarrow> u32 \<Rightarrow> u32 \<Rightarrow> string option"
  json_promise :: "string \<Rightarrow> string + promise"
  json_of_promise :: "promise \<Rightarrow> string + string"
  json_of_status :: "promise_status \<Rightarrow> string + string"
  json_status :: "string \<Rightarrow> string + promise_status"
  json_level :: "string \<Rightarrow> string + level"
  json_of_level :: "level \<Rightarrow> string + string"
  sig_from_uncompressed :: "bytes \<Rightarrow> string + 'sig"
  sig_to_uncompressed :: "'sig \<Rightarrow> string + bytes"
  pk_from_uncompressed :: "bytes \<Rightarrow> string + 'bpk"
  pk_to_uncompressed :: "'bpk \<Rightarrow> string + bytes"
  ecdsa_verify :: "bytes \<Rightarrow> 'sig \<Rightarrow> 'bpk \<Rightarrow> string + unit"
  ecdsa_sign :: "bytes \<Rightarrow> 'bsk \<Rightarrow> string + 'sig"

text \<open>
  The documented behaviour of \<open>wasmer\<close>: a slice inside the memory is handed out, a slice outside
  is refused, and a string is such a slice that is UTF-8.
\<close>

definition in_bounds :: "bytes \<Rightarrow> u32 \<Rightarrow> nat \<Rightarrow> bool" where
  "in_bounds mem ptr n \<longleftrightarrow> unat ptr + n \<le> length mem"

definition slice :: "bytes \<Rightarrow> u32 \<Rightarrow> nat \<Rightarrow> bytes" where
  "slice mem ptr n = take n (drop (unat ptr) mem)"

definition wasm_ok :: "('sig, 'bsk, 'bpk) vm_lib \<Rightarrow> bool" where
  "wasm_ok lib \<longleftrightarrow>
     (\<forall>mem ptr n. wasm_deref lib mem ptr n =
        (if in_bounds mem ptr (unat n) then Some (slice mem ptr (unat n)) else None)) \<and>
     (\<forall>mem ptr n. wasm_utf8 lib mem ptr n =
        (if in_bounds mem ptr (unat n) \<and> valid_utf8 (slice mem ptr (unat n))
         then Some (chars_of (slice mem ptr (unat n))) else None))"


section \<open>The exported functions\<close>

type_synonym i64 = "64 word"

definition decimal_int :: "int \<Rightarrow> string" where
  "decimal_int i = (if i < 0 then ''-'' @ decimal (nat (- i)) else decimal (nat i))"

text \<open>Continue with the value of a computation, or leave the context as it is.\<close>

definition with_ok :: "('e + 'v) res \<Rightarrow> 's \<Rightarrow> ('v \<Rightarrow> 's \<times> ('e + 'b) res) \<Rightarrow> 's \<times> ('e + 'b) res" where
  "with_ok m env k =
     (case m of Inl p \<Rightarrow> (env, Inl p) | Inr (Inl e) \<Rightarrow> (env, Inr (Inl e)) | Inr (Inr v) \<Rightarrow> k v)"

definition get_memory :: "('bsk, 'bpk, 'esk, 'epk) vm_context \<Rightarrow> runtime_error + bytes" where
  "get_memory env = ok_or (VmHostError ''Memory reference could not be retrieved'') (vc_memory env)"

definition get_string ::
  "('sig, 'bsk, 'bpk) vm_lib \<Rightarrow> bytes \<Rightarrow> u32 \<Rightarrow> u32 \<Rightarrow> runtime_error + string" where
  "get_string lib mem ptr n = ok_or (VmHostError ''Error getting promise data'') (wasm_utf8 lib mem ptr n)"

definition get_slice ::
  "('sig, 'bsk, 'bpk) vm_lib \<Rightarrow> bytes \<Rightarrow> u32 \<Rightarrow> u32 \<Rightarrow> runtime_error + bytes" where
  "get_slice lib mem ptr n = ok_or (VmHostError ''Invalid pointer'') (wasm_deref lib mem ptr n)"

text \<open>
  The loop that copies \<open>src\<close> into the \<open>cells\<close> cells that a pointer was dereferenced to: a cell out of
  range is an error, a source index out of range a panic.
\<close>

primrec write_cells ::
  "bytes \<Rightarrow> u32 \<Rightarrow> nat \<Rightarrow> nat list \<Rightarrow> bytes \<Rightarrow> bytes \<times> (runtime_error + unit) res" where
  "write_cells src ptr cells [] mem = (mem, Inr (Inr ()))"
| "write_cells src ptr cells (i # is) mem =
     (if \<not> i < cells then (mem, Inr (Inl (VmHostError ''Writing out of bounds to memory'')))
      else case index src i of
        Inl p \<Rightarrow> (mem, Inl p)
      | Inr b \<Rightarrow> write_cells src ptr cells is (mem[unat ptr + i := b]))"

definition store_cells ::
  "bytes \<Rightarrow> u32 \<Rightarrow> nat \<Rightarrow> nat list \<Rightarrow> bytes \<Rightarrow> ('bsk, 'bpk, 'esk, 'epk) vm_context
    \<Rightarrow> ('bsk, 'bpk, 'esk, 'epk) vm_context \<times> (runtime_error + unit) res" where
  "store_cells src ptr cells is mem env =
     (case write_cells src ptr cells is mem of (mem', r) \<Rightarrow> (env\<lparr>vc_memory := Some mem'\<rparr>, r))"

definition promise_then_import ::
  "('sig, 'bsk, 'bpk) vm_lib \<Rightarrow> ('bsk, 'bpk, 'esk, 'epk) vm_context \<Rightarrow> u32 \<Rightarrow> i32
    \<Rightarrow> ('bsk, 'bpk, 'esk, 'epk) vm_context \<times> (runtime_error + unit) res" where
  "promise_then_import lib env ptr len =
     with_ok (Inr (and_then (get_memory env) (\<lambda>mem.
              and_then (get_string lib mem ptr len) (\<lambda>raw.
              map_err runtime_error_of_message (json_promise lib raw))))) env
       (\<lambda>p. (env\<lparr>vc_promise_queue := add_promise p (vc_promise_queue env)\<rparr>, Inr (Inr ())))"

text \<open>\<open>promise_index as usize\<close> sign-extends on a 64-bit host.\<close>

definition current_status ::
  "('bsk, 'bpk, 'esk, 'epk) vm_context \<Rightarrow> i32 \<Rightarrow> runtime_error + promise_status" where
  "current_status env promise_index =
     (let q = pq_queue (vc_current_promise_queue env); i = unat (scast promise_index :: u64) in
      if i < length q then Inr (p_status (q ! i))
      else Inl (VmHostError (''Could not find promise at index: '' @ decimal_int (sint promise_index))))"

definition promise_status_length_import ::
  "('sig, 'bsk, 'bpk) vm_lib \<Rightarrow> ('bsk, 'bpk, 'esk, 'epk) vm_context \<Rightarrow> i32
    \<Rightarrow> ('bsk, 'bpk, 'esk, 'epk) vm_context \<times> (runtime_error + i64) res" where
  "promise_status_length_import lib env promise_index =
     (env, Inr (and_then (current_status env promise_index) (\<lambda>status.
           and_then (map_err runtime_error_of_message (json_of_status lib status)) (\<lambda>s.
           Inr (of_nat (length s))))))"

definition promise_status_write_import ::
  "('sig, 'bsk, 'bpk) vm_lib \<Rightarrow> ('bsk, 'bpk, 'esk, 'epk) vm_context \<Rightarrow> i32 \<Rightarrow> u32 \<Rightarrow> i64
    \<Rightarrow> ('bsk, 'bpk, 'esk, 'epk) vm_context \<times> (runtime_error + unit) res" where
  "promise_status_write_import lib env promise_index ptr len =
     with_ok (Inr (and_then (get_memory env) (\<lambda>mem.
              and_then (current_status env promise_index) (\<lambda>status.
              and_then (map_err runtime_error_of_message (json_of_status lib status)) (\<lambda>s.
              and_then (get_slice lib mem ptr (ucast len)) (\<lambda>cells.
              Inr (mem, as_bytes s, length cells))))))) env
       (\<lambda>(mem, src, cells). store_cells src ptr cells [0..<nat (sint len)] mem env)"

text \<open>The three steps that reading a storage shares: the key, the value, and the copy.\<close>

definition length_mismatch :: "i64 \<Rightarrow> bytes \<Rightarrow> runtime_error" where
  "length_mismatch len v =
     VmHostError (''The result data length `'' @ decimal_int (sint len)
       @ ''` is not the same length for the value `'' @ decimal (length v) @ ''`'')"

definition read_import ::
  "(('bsk, 'bpk, 'esk, 'epk) vm_context \<Rightarrow> in_memory) \<Rightarrow> ('sig, 'bsk, 'bpk) vm_lib
    \<Rightarrow> ('bsk, 'bpk, 'esk, 'epk) vm_context \<Rightarrow> u32 \<Rightarrow> i64 \<Rightarrow> u32 \<Rightarrow> i64
    \<Rightarrow> ('bsk, 'bpk, 'esk, 'epk) vm_context \<times> (runtime_error + unit) res" where
  "read_import storage lib env key_ptr key_length ptr len =
     with_ok (bind_err (Inr (get_memory env)) (\<lambda>mem.
              bind_err (Inr (get_string lib mem key_ptr (ucast key_length))) (\<lambda>key.
              bind_err (im_get from_bytes_vec key (storage env)) (\<lambda>found.
              let read_value = (case found of None \<Rightarrow> [] | Some v \<Rightarrow> v) in
              if unat len \<noteq> length read_value then Inr (Inl (length_mismatch len read_value))
              else
                bind_err (Inr (get_slice lib mem ptr (ucast len))) (\<lambda>cells.
                Inr (Inr (mem, read_value, length cells))))))) env
       (\<lambda>(mem, v, cells). store_cells v ptr cells [0..<min (length v) (unat len)] mem env)"

definition read_length_import ::
  "(('bsk, 'bpk, 'esk, 'epk) vm_context \<Rightarrow> in_memory) \<Rightarrow> ('sig, 'bsk, 'bpk) vm_lib
    \<Rightarrow> ('bsk, 'bpk, 'esk, 'epk) vm_context \<Rightarrow> u32 \<Rightarrow> i64
    \<Rightarrow> ('bsk, 'bpk, 'esk, 'epk) vm_context \<times> (runtime_error + i64) res" where
  "read_length_import storage lib env key_ptr key_length =
     (env, bind_err (Inr (get_memory env)) (\<lambda>mem.
           bind_err (Inr (get_string lib mem key_ptr (ucast key_length))) (\<lambda>key.
           bind_err (im_get from_bytes_vec key (storage env)) (\<lambda>found.
           let read_value = (case found of None \<Rightarrow> [] | Some v \<Rightarrow> v) in
           Inr (Inr (of_nat (length read_value)))))))"

definition write_import ::
  "((in_memory \<Rightarrow> in_memory) \<Rightarrow> ('bsk, 'bpk, 'esk, 'epk) vm_context \<Rightarrow> ('bsk, 'bpk, 'esk, 'epk) vm_context)
    \<Rightarrow> ('sig, 'bsk, 'bpk) vm_lib \<Rightarrow> ('bsk, 'bpk, 'esk, 'epk) vm_context \<Rightarrow> u32 \<Rightarrow> i64 \<Rightarrow> u32 \<Rightarrow> i64
    \<Rightarrow> ('bsk, 'bpk, 'esk, 'epk) vm_context \<times> (runtime_error + unit) res" where
  "write_import update_storage lib env key_ptr key_length value_ptr value_len =
     with_ok (Inr (and_then (get_memory env) (\<lambda>mem.
              and_then (get_string lib mem key_ptr (ucast key_length)) (\<lambda>key.
              and_then (get_slice lib mem value_ptr (ucast value_len)) (\<lambda>value_bytes.
              Inr (key, value_bytes)))))) env
       (\<lambda>(key, value_bytes). (update_storage (\<lambda>m. fst (im_put to_bytes_vec key value_bytes m)) env, Inr (Inr ())))"

definition memory_read_import where "memory_read_import = read_import vc_memory_adapter"
definition memory_read_length_import where "memory_read_length_import = read_length_import vc_memory_adapter"
definition memory_write_import where "memory_write_import = write_import vc_memory_adapter_update"
definition shared_memory_read_import where "shared_memory_read_import = read_import vc_shared_memory"
definition shared_memory_read_length_import where "shared_memory_read_length_import = read_length_import vc_shared_memory"
definition shared_memory_write_import where "shared_memory_write_import = write_import vc_shared_memory_update"

definition shared_memory_contains_key_import ::
  "('sig, 'bsk, 'bpk) vm_lib \<Rightarrow> ('bsk, 'bpk, 'esk, 'epk) vm_context \<Rightarrow> u32 \<Rightarrow> i64
    \<Rightarrow> ('bsk, 'bpk, 'esk, 'epk) vm_context \<times> (runtime_error + u8) res" where
  "shared_memory_contains_key_import lib env key_ptr key_length =
     (env, Inr (and_then (get_memory env) (\<lambda>mem.
           and_then (get_string lib mem key_ptr (ucast key_length)) (\<lambda>key.
           Inr (if im_contains_key key (vc_shared_memory env) then 1 else 0)))))"

definition execution_result_import ::
  "('sig, 'bsk, 'bpk) vm_lib \<Rightarrow> ('bsk, 'bpk, 'esk, 'epk) vm_context \<Rightarrow> u32 \<Rightarrow> i32
    \<Rightarrow> ('bsk, 'bpk, 'esk, 'epk) vm_context \<times> (runtime_error + unit) res" where
  "execution_result_import lib env ptr len =
     with_ok (Inr (and_then (get_memory env) (\<lambda>mem. get_slice lib mem ptr len))) env
       (\<lambda>result_bytes. (env\<lparr>vc_result := result_bytes\<rparr>, Inr (Inr ())))"

text \<open>The outcome of \<open>_log\<close> is the line that is handed to the logger.\<close>

definition log_import ::
  "('sig, 'bsk, 'bpk) vm_lib \<Rightarrow> ('bsk, 'bpk, 'esk, 'epk) vm_context \<Rightarrow> u32 \<Rightarrow> i32 \<Rightarrow> u32 \<Rightarrow> i64 \<Rightarrow> u32 \<Rightarrow> i64
    \<Rightarrow> ('bsk, 'bpk, 'esk, 'epk) vm_context \<times> (runtime_error + level \<times> string \<times> string) res" where
  "log_import lib env level_ptr level_len msg_ptr msg_len info_ptr info_len =
     (env, Inr (and_then (get_memory env) (\<lambda>mem.
           and_then (get_string lib mem level_ptr level_len) (\<lambda>raw.
           and_then (map_err runtime_error_of_message (json_level lib raw)) (\<lambda>lvl.
           and_then (get_string lib mem msg_ptr (ucast msg_len)) (\<lambda>msg.
           and_then (get_string lib mem info_ptr (ucast info_len)) (\<lambda>line_info.
           Inr (lvl, msg, line_info))))))))"

definition bn254_verify_import ::
  "('sig, 'bsk, 'bpk) vm_lib \<Rightarrow> ('bsk, 'bpk, 'esk, 'epk) vm_context \<Rightarrow> u32 \<Rightarrow> i64 \<Rightarrow> u32 \<Rightarrow> i64 \<Rightarrow> u32 \<Rightarrow> i64
    \<Rightarrow> ('bsk, 'bpk, 'esk, 'epk) vm_context \<times> (runtime_error + u8) res" where
  "bn254_verify_import lib env msg_ptr msg_len sig_ptr sig_len pk_ptr pk_len =
     (env, Inr (and_then (get_memory env) (\<lambda>mem.
           and_then (get_slice lib mem msg_ptr (ucast msg_len)) (\<lambda>message.
           and_then (get_slice lib mem sig_ptr (ucast sig_len)) (\<lambda>signature.
           and_then (get_slice lib mem pk_ptr (ucast pk_len)) (\<lambda>pk.
           and_then (map_err RuntimeBn254Error (sig_from_uncompressed lib signature)) (\<lambda>signature_obj.
           and_then (map_err RuntimeBn254Error (pk_from_uncompressed lib pk)) (\<lambda>public_key_obj.
           Inr (case ecdsa_verify lib message signature_obj public_key_obj of Inl _ \<Rightarrow> 0 | Inr _ \<Rightarrow> 1)))))))))"

definition bn254_sign_import ::
  "('sig, 'bsk, 'bpk) vm_lib \<Rightarrow> ('bsk, 'bpk, 'esk, 'epk) vm_context \<Rightarrow> u32 \<Rightarrow> i64 \<Rightarrow> u32 \<Rightarrow> i64
    \<Rightarrow> ('bsk, 'bpk, 'esk, 'epk) vm_context \<times> (runtime_error + unit) res" where
  "bn254_sign_import lib env msg_ptr msg_len ptr len =
     with_ok (Inr (and_then (get_memory env) (\<lambda>mem.
              and_then (get_slice lib mem msg_ptr (ucast msg_len)) (\<lambda>message.
              and_then (map_err RuntimeBn254Error
                          (ecdsa_sign lib message (private_key (nc_keypair_bn254 (vc_node_config env))))) (\<lambda>signature.
              and_then (map_err RuntimeBn254Error (sig_to_uncompressed lib signature)) (\<lambda>result_bytes.
              if unat len \<noteq> length result_bytes then Inl (length_mismatch len result_bytes)
              else
                and_then (get_slice lib mem ptr (ucast len)) (\<lambda>cells.
                Inr (mem, result_bytes, length cells)))))))) env
       (\<lambda>(mem, v, cells). store_cells v ptr cells [0..<min (length v) (unat len)] mem env)"

end
