(* ===== verification/Vm_Guest.thy ===== *)
theory Vm_Guest
  imports Vm_Host
begin

text \<open>
  The guest side of the virtual machine's interface (\<open>runtime/sdk/src/wasm\<close>) composed with the host
  side of \<open>Vm_Host\<close>. The buffers that the guest's allocator hands out are arguments: the pointers
  at which keys, values and results live in the linear memory.
\<close>

section \<open>The guest's own memory\<close>

definition poke :: "u32 \<Rightarrow> bytes \<Rightarrow> bytes \<Rightarrow> bytes" where
  "poke ptr bs mem = take (unat ptr) mem @ bs @ drop (unat ptr + length bs) mem"

definition place ::
  "u32 \<Rightarrow> bytes \<Rightarrow> ('bsk, 'bpk, 'esk, 'epk) vm_context \<Rightarrow> ('bsk, 'bpk, 'esk, 'epk) vm_context" where
  "place ptr bs env = env\<lparr>vc_memory := map_option (poke ptr bs) (vc_memory env)\<rparr>"

definition peek :: "u32 \<Rightarrow> nat \<Rightarrow> ('bsk, 'bpk, 'esk, 'epk) vm_context \<Rightarrow> bytes" where
  "peek ptr n env = (case vc_memory env of None \<Rightarrow> [] | Some mem \<Rightarrow> slice mem ptr n)"

definition apart :: "u32 \<Rightarrow> nat \<Rightarrow> u32 \<Rightarrow> nat \<Rightarrow> bool" where
  "apart p m q n \<longleftrightarrow> unat p + m \<le> unat q \<or> unat q + n \<le> unat p"


section \<open>Storage\<close>

text \<open>\<open>value_len as usize\<close> truncates to the 32 bits of the guest.\<close>

definition guest_memory_read ::
  "('sig, 'bsk, 'bpk) vm_lib \<Rightarrow> u32 \<Rightarrow> u32 \<Rightarrow> string \<Rightarrow> ('bsk, 'bpk, 'esk, 'epk) vm_context
    \<Rightarrow> ('bsk, 'bpk, 'esk, 'epk) vm_context \<times> (runtime_error + bytes) res" where
  "guest_memory_read lib key_ptr result_ptr key env =
     (let key_len = of_nat (length key); env1 = place key_ptr (as_bytes key) env in
      state_bind (memory_read_length_import lib env1 key_ptr key_len) (\<lambda>env2 value_len.
      let n = unat (ucast value_len :: u32); env3 = place result_ptr (replicate n 0) env2 in
      state_bind (memory_read_import lib env3 key_ptr key_len result_ptr value_len) (\<lambda>env4 _.
      (env4, Inr (Inr (peek result_ptr n env4))))))"

definition guest_memory_write ::
  "('sig, 'bsk, 'bpk) vm_lib \<Rightarrow> u32 \<Rightarrow> u32 \<Rightarrow> string \<Rightarrow> bytes \<Rightarrow> ('bsk, 'bpk, 'esk, 'epk) vm_context
    \<Rightarrow> ('bsk, 'bpk, 'esk, 'epk) vm_context \<times> (runtime_error + unit) res" where
  "guest_memory_write lib key_ptr value_ptr key v env =
     (let key_len = of_nat (length key); env1 = place key_ptr (as_bytes key) (place value_ptr v env) in
      memory_write_import lib env1 key_ptr key_len value_ptr (of_nat (length v)))"

definition guest_shared_memory_get ::
  "('sig, 'bsk, 'bpk) vm_lib \<Rightarrow> u32 \<Rightarrow> u32 \<Rightarrow> string \<Rightarrow> ('bsk, 'bpk, 'esk, 'epk) vm_context
    \<Rightarrow> ('bsk, 'bpk, 'esk, 'epk) vm_context \<times> (runtime_error + bytes) res" where
  "guest_shared_memory_get lib key_ptr result_ptr key env =
     (let key_len = of_nat (length key); env1 = place key_ptr (as_bytes key) env in
      state_bind (shared_memory_read_length_import lib env1 key_ptr key_len) (\<lambda>env2 value_len.
      let n = unat (ucast value_len :: u32); env3 = place result_ptr (replicate n 0) env2 in
      state_bind (shared_memory_read_import lib env3 key_ptr key_len result_ptr value_len) (\<lambda>env4 _.
      (env4, Inr (Inr (peek result_ptr n env4))))))"

definition guest_shared_memory_set ::
  "('sig, 'bsk, 'bpk) vm_lib \<Rightarrow> u32 \<Rightarrow> u32 \<Rightarrow> string \<Rightarrow> bytes \<Rightarrow> ('bsk, 'bpk, 'esk, 'epk) vm_context
    \<Rightarrow> ('bsk, 'bpk, 'esk, 'epk) vm_context \<times> (runtime_error + unit) res" where
  "guest_shared_memory_set lib key_ptr value_ptr key v env =
     (let key_len = of_nat (length key); env1 = place key_ptr (as_bytes key) (place value_ptr v env) in
      shared_memory_write_import lib env1 key_ptr key_len value_ptr (of_nat (length v)))"

definition guest_shared_memory_contains_key ::
  "('sig, 'bsk, 'bpk) vm_lib \<Rightarrow> u32 \<Rightarrow> string \<Rightarrow> ('bsk, 'bpk, 'esk, 'epk) vm_context
    \<Rightarrow> ('bsk, 'bpk, 'esk, 'epk) vm_context \<times> (runtime_error + bool) res" where
  "guest_shared_memory_contains_key lib key_ptr key env =
     state_bind (shared_memory_contains_key_import lib (place key_ptr (as_bytes key) env) key_ptr
                   (of_nat (length key))) (\<lambda>env2 r.
     (env2, if r = 0 then Inr (Inr False)
            else if r = 1 then Inr (Inr True)
            else Inl (Panic ''Bn254 verify returned invalid bool in u8'')))"


section \<open>Results, promises and signatures\<close>

definition guest_execution_result ::
  "('sig, 'bsk, 'bpk) vm_lib \<Rightarrow> u32 \<Rightarrow> bytes \<Rightarrow> ('bsk, 'bpk, 'esk, 'epk) vm_context
    \<Rightarrow> ('bsk, 'bpk, 'esk, 'epk) vm_context \<times> (runtime_error + unit) res" where
  "guest_execution_result lib ptr r env =
     execution_result_import lib (place ptr r env) ptr (of_nat (length r))"

definition guest_add_to_queue ::
  "('sig, 'bsk, 'bpk) vm_lib \<Rightarrow> u32 \<Rightarrow> wasm_promise \<Rightarrow> ('bsk, 'bpk, 'esk, 'epk) vm_context
    \<Rightarrow> ('bsk, 'bpk, 'esk, 'epk) vm_context \<times> (runtime_error + unit) res" where
  "guest_add_to_queue lib ptr p env =
     (case json_of_promise lib \<lparr>p_action = wp_action p, p_status = wp_status p\<rparr> of
        Inl _ \<Rightarrow> (env, Inl (Panic ''Shouldn't ever fail.''))
      | Inr promise_data \<Rightarrow>
          promise_then_import lib (place ptr (as_bytes promise_data) env) ptr (of_nat (length promise_data)))"

text \<open>\<open>p.start().then(q).then(r)\<close> as a guest writes it, and as the builder alone describes it.\<close>

primrec guest_chain ::
  "('sig, 'bsk, 'bpk) vm_lib \<Rightarrow> (u32 \<times> wasm_promise) list \<Rightarrow> ('bsk, 'bpk, 'esk, 'epk) vm_context
    \<Rightarrow> ('bsk, 'bpk, 'esk, 'epk) vm_context \<times> (runtime_error + unit) res" where
  "guest_chain lib [] env = (env, Inr (Inr ()))"
| "guest_chain lib (x # xs) env =
     state_bind (guest_add_to_queue lib (fst x) (snd x) env) (\<lambda>env' _. guest_chain lib xs env')"

definition promise_chain :: "wasm_promise \<Rightarrow> wasm_promise list \<Rightarrow> promise list \<Rightarrow> wasm_promise \<times> promise list" where
  "promise_chain p rest q =
     foldl (\<lambda>(built, queue) after. wasm_promise_then built after queue) (wasm_promise_start p q) rest"

definition guest_promise_result ::
  "('sig, 'bsk, 'bpk) vm_lib \<Rightarrow> u32 \<Rightarrow> i32 \<Rightarrow> ('bsk, 'bpk, 'esk, 'epk) vm_context
    \<Rightarrow> ('bsk, 'bpk, 'esk, 'epk) vm_context \<times> (runtime_error + promise_status) res" where
  "guest_promise_result lib ptr i env =
     state_bind (promise_status_length_import lib env i) (\<lambda>env1 promise_result_length.
     let n = unat (ucast promise_result_length :: u32) in
     state_bind (promise_status_write_import lib (place ptr (replicate n 0) env1) i ptr promise_result_length)
       (\<lambda>env2 _.
     let result_data = peek ptr n env2 in
     (env2,
      if \<not> valid_utf8 result_data then Inl (Panic ''unwrap on an Err value'')
      else case json_status lib (chars_of result_data) of
        Inl _ \<Rightarrow> Inl (Panic ''unwrap on an Err value'')
      | Inr status \<Rightarrow> Inr (Inr status))))"

definition guest_log ::
  "('sig, 'bsk, 'bpk) vm_lib \<Rightarrow> u32 \<Rightarrow> u32 \<Rightarrow> u32 \<Rightarrow> level \<Rightarrow> string \<Rightarrow> string
    \<Rightarrow> ('bsk, 'bpk, 'esk, 'epk) vm_context
    \<Rightarrow> ('bsk, 'bpk, 'esk, 'epk) vm_context \<times> (runtime_error + level \<times> string \<times> string) res" where
  "guest_log lib level_ptr msg_ptr info_ptr lvl msg line_info env =
     (case json_of_level lib lvl of
        Inl _ \<Rightarrow> (env, Inl (Panic ''unwrap on an Err value''))
      | Inr level_str \<Rightarrow>
          log_import lib
            (place level_ptr (as_bytes level_str) (place msg_ptr (as_bytes msg) (place info_ptr (as_bytes line_info) env)))
            level_ptr (of_nat (length level_str)) msg_ptr (of_nat (length msg)) info_ptr (of_nat (length line_info)))"

definition guest_bn254_verify ::
  "('sig, 'bsk, 'bpk) vm_lib \<Rightarrow> u32 \<Rightarrow> u32 \<Rightarrow> u32 \<Rightarrow> bytes \<Rightarrow> 'sig \<Rightarrow> 'bpk
    \<Rightarrow> ('bsk, 'bpk, 'esk, 'epk) vm_context
    \<Rightarrow> ('bsk, 'bpk, 'esk, 'epk) vm_context \<times> (runtime_error + bool) res" where
  "guest_bn254_verify lib msg_ptr sig_ptr pk_ptr message signature pk env =
     (case sig_to_uncompressed lib signature of
        Inl _ \<Rightarrow> (env, Inl (Panic ''Signature should be valid''))
      | Inr signature_bytes \<Rightarrow>
     (case pk_to_uncompressed lib pk of
        Inl _ \<Rightarrow> (env, Inl (Panic ''Public Key should be valid''))
      | Inr public_key_bytes \<Rightarrow>
          state_bind (bn254_verify_import lib
              (place pk_ptr public_key_bytes (place sig_ptr signature_bytes (place msg_ptr message env)))
              msg_ptr (of_nat (length message)) sig_ptr (of_nat (length signature_bytes))
              pk_ptr (of_nat (length public_key_bytes))) (\<lambda>env2 r.
          (env2, if r = 0 then Inr (Inr False)
                 else if r = 1 then Inr (Inr True)
                 else Inl (Panic ''Bn254 verify returned invalid bool in u8'')))))"

definition guest_bn254_sign ::
  "('sig, 'bsk, 'bpk) vm_lib \<Rightarrow> u32 \<Rightarrow> u32 \<Rightarrow> bytes \<Rightarrow> ('bsk, 'bpk, 'esk, 'epk) vm_context
    \<Rightarrow> ('bsk, 'bpk, 'esk, 'epk) vm_context \<times> (runtime_error + 'sig) res" where
  "guest_bn254_sign lib msg_ptr result_ptr message env =
     state_bind (bn254_sign_import lib (place result_ptr (replicate 64 0) (place msg_ptr message env))
         msg_ptr (of_nat (length message)) result_ptr 64) (\<lambda>env2 _.
     (env2, case sig_from_uncompressed lib (peek result_ptr 64 env2) of
        Inl _ \<Rightarrow> Inl (Panic ''Signature should be valid'')
      | Inr signature \<Rightarrow> Inr (Inr signature)))"


section \<open>Copying into linear memory\<close>

lemma length_poke [simp]: "unat p + length bs \<le> length mem \<Longrightarrow> length (poke p bs mem) = length mem"
  by (simp add: poke_def)

lemma slice_poke_same: "in_bounds mem p (length bs) \<Longrightarrow> slice (poke p bs mem) p (length bs) = bs"
  by (simp add: slice_def poke_def in_bounds_def)

lemma slice_poke_apart:
  assumes "in_bounds mem p (length bs)" "apart p (length bs) q n"
  shows "slice (poke p bs mem) q n = slice mem q n"
proof (rule nth_equalityI)
  show "length (slice (poke p bs mem) q n) = length (slice mem q n)"
    using assms by (simp add: slice_def in_bounds_def)
next
  fix i assume "i < length (slice (poke p bs mem) q n)"
  then have i: "i < n" "unat q + i < length mem" using assms by (auto simp: slice_def in_bounds_def)
  have "poke p bs mem ! (unat q + i) = mem ! (unat q + i)"
    using assms i by (auto simp: poke_def apart_def in_bounds_def nth_append)
  then show "slice (poke p bs mem) q n ! i = slice mem q n ! i"
    using i assms by (simp add: slice_def in_bounds_def)
qed

lemma in_bounds_poke [simp]:
  "in_bounds mem p (length bs) \<Longrightarrow> in_bounds (poke p bs mem) q n \<longleftrightarrow> in_bounds mem q n"
  by (simp add: in_bounds_def)

lemma poke_extend:
  assumes "k < length v" "unat p + length v \<le> length mem"
  shows "(poke p (take k v) mem)[unat p + k := v ! k] = poke p (take (Suc k) v) mem"
proof -
  have "unat p + k < length mem" using assms by simp
  then have "drop (unat p + k) mem = mem ! (unat p + k) # drop (Suc (unat p + k)) mem"
    by (simp add: Cons_nth_drop_Suc)
  then show ?thesis
    using assms by (simp add: poke_def list_update_append take_Suc_conv_app_nth min_def)
qed

lemma write_cells_suffix:
  assumes "k \<le> length v" "length v \<le> cells" "unat p + length v \<le> length mem"
  shows "write_cells v p cells [k..<length v] (poke p (take k v) mem) = (poke p v mem, Inr (Inr ()))"
  using assms(1)
proof (induction k rule: inc_induct)
  case base
  then show ?case by simp
next
  case (step k)
  then have "[k..<length v] = k # [Suc k..<length v]" by (simp add: upt_conv_Cons)
  then show ?case using step assms by (simp add: poke_extend)
qed

lemma write_cells_poke:
  assumes "length v \<le> cells" "in_bounds mem p (length v)"
  shows "write_cells v p cells [0..<length v] mem = (poke p v mem, Inr (Inr ()))"
  using write_cells_suffix [of 0 v cells p mem] assms by (simp add: poke_def in_bounds_def)

text \<open>Whatever the outcome, the loop writes only into the cells it was given.\<close>

lemma write_cells_frame:
  assumes "write_cells src p cells is mem = (mem', r)" "in_bounds mem p cells"
  shows "length mem' = length mem \<and> (\<forall>a < length mem. a < unat p \<or> unat p + cells \<le> a \<longrightarrow> mem' ! a = mem ! a)"
  using assms
proof (induction "is" arbitrary: mem)
  case (Cons i "is")
  then show ?case
    by (fastforce simp: in_bounds_def split: if_splits sum.splits)
qed simp


section \<open>Buffers\<close>

text \<open>A buffer of the linear memory that holds the given bytes; its length fits the guest's word.\<close>

definition holds :: "bytes \<Rightarrow> u32 \<Rightarrow> bytes \<Rightarrow> bool" where
  "holds mem p bs \<longleftrightarrow> in_bounds mem p (length bs) \<and> length bs < 2 ^ 32 \<and> slice mem p (length bs) = bs"

lemma holds_poke:
  "in_bounds mem p (length bs) \<Longrightarrow> length bs < 2 ^ 32 \<Longrightarrow> holds (poke p bs mem) p bs"
  by (simp add: holds_def slice_poke_same)

lemma holds_poke_apart:
  "holds mem q cs \<Longrightarrow> in_bounds mem p (length bs) \<Longrightarrow> apart p (length bs) q (length cs) \<Longrightarrow>
   holds (poke p bs mem) q cs"
  by (simp add: holds_def slice_poke_apart)

lemma unat_of_nat_u32: "n < 2 ^ 32 \<Longrightarrow> unat (of_nat n :: u32) = n"
  by (simp add: unat_of_nat)

lemma unat_of_nat_u64: "n < 2 ^ 32 \<Longrightarrow> unat (of_nat n :: u64) = n"
  by (simp add: unat_of_nat)

lemma ucast_of_nat_u32: "(ucast (of_nat n :: u64) :: u32) = of_nat n"
  by (simp add: unsigned_ucast_eq unsigned_of_nat word_of_nat_eq_iff take_bit_take_bit)

lemma sint_of_nat_u64: "n < 2 ^ 32 \<Longrightarrow> nat (sint (of_nat n :: u64)) = n"
proof -
  assume n: "n < 2 ^ 32"
  then have "take_bit 64 n = n" by (simp add: take_bit_nat_eq_self_iff)
  moreover have "signed_take_bit 63 (int n) = int n" using n by (intro signed_take_bit_int_eq_self) auto
  ultimately show ?thesis by (simp add: sint_uint unsigned_of_nat)
qed

lemma get_slice_holds:
  "wasm_ok lib \<Longrightarrow> holds mem p bs \<Longrightarrow> get_slice lib mem p (of_nat (length bs)) = Inr bs"
  by (simp add: wasm_ok_def get_slice_def holds_def unat_of_nat_u32)

lemma get_string_holds:
  "wasm_ok lib \<Longrightarrow> holds mem p (as_bytes s) \<Longrightarrow> rust_string s \<Longrightarrow>
   get_string lib mem p (of_nat (length s)) = Inr s"
  by (simp add: wasm_ok_def get_string_def holds_def unat_of_nat_u32 rust_string_def)

lemma get_slice_length:
  "wasm_ok lib \<Longrightarrow> in_bounds mem p n \<Longrightarrow> n < 2 ^ 32 \<Longrightarrow>
   \<exists>cells. get_slice lib mem p (of_nat n) = Inr cells \<and> length cells = n"
  by (auto simp: wasm_ok_def get_slice_def unat_of_nat_u32 slice_def in_bounds_def)


section \<open>What the storage imports do on well-formed buffers\<close>

definition stored :: "in_memory \<Rightarrow> string \<Rightarrow> bytes" where
  "stored m key = (case im_memory m key of None \<Rightarrow> [] | Some v \<Rightarrow> v)"

lemma write_import_effect:
  assumes "wasm_ok lib" "vc_memory env = Some mem" "rust_string key"
    "holds mem kp (as_bytes key)" "holds mem vp v"
  shows "write_import upd lib env kp (of_nat (length key)) vp (of_nat (length v))
    = (upd (\<lambda>m. fst (im_put to_bytes_vec key v m)) env, Inr (Inr ()))"
  using assms
  by (simp add: write_import_def get_memory_def with_ok_def ucast_of_nat_u32 get_string_holds get_slice_holds)

lemma read_length_import_effect:
  assumes "wasm_ok lib" "vc_memory env = Some mem" "rust_string key" "holds mem kp (as_bytes key)"
  shows "read_length_import storage lib env kp (of_nat (length key))
    = (env, Inr (Inr (of_nat (length (stored (storage env) key)))))"
  using assms
  by (simp add: read_length_import_def get_memory_def ucast_of_nat_u32 get_string_holds stored_def Let_def)

lemma read_import_effect:
  assumes "wasm_ok lib" "vc_memory env = Some mem" "rust_string key" "holds mem kp (as_bytes key)"
    and v: "v = stored (storage env) key" "length v < 2 ^ 32" "in_bounds mem rp (length v)"
  shows "read_import storage lib env kp (of_nat (length key)) rp (of_nat (length v))
    = (env\<lparr>vc_memory := Some (poke rp v mem)\<rparr>, Inr (Inr ()))"
proof -
  obtain cells where "get_slice lib mem rp (of_nat (length v)) = Inr cells" "length cells = length v"
    using get_slice_length assms(1) v by blast
  then show ?thesis
    using assms write_cells_poke [of v "length v" mem rp]
    by (simp add: read_import_def get_memory_def with_ok_def ucast_of_nat_u32 get_string_holds
        stored_def [symmetric] store_cells_def unat_of_nat_u64 Let_def del: unat_of_nat)
qed

lemma place_simps [simp]:
  "vc_memory env = Some mem \<Longrightarrow> vc_memory (place p bs env) = Some (poke p bs mem)"
  "vc_memory_adapter (place p bs env) = vc_memory_adapter env"
  "vc_shared_memory (place p bs env) = vc_shared_memory env"
  "vc_promise_queue (place p bs env) = vc_promise_queue env"
  "vc_current_promise_queue (place p bs env) = vc_current_promise_queue env"
  "vc_node_config (place p bs env) = vc_node_config env"
  by (simp_all add: place_def)

text \<open>
  Reading a key through the interface: the value stored under it arrives in the guest, and only
  the linear memory changes. The same for the two storages.
\<close>

lemma guest_read_value:
  assumes "wasm_ok lib" "vc_memory env = Some mem" "rust_string key"
    and key: "length key < 2 ^ 32" "in_bounds mem kp (length key)"
    and v: "v = stored (storage env) key" "length v < 2 ^ 32" "in_bounds mem rp (length v)"
    and "apart rp (length v) kp (length key)"
    and storage: "\<And>p bs. storage (place p bs env) = storage env"
      "\<And>p bs q cs. storage (place q cs (place p bs env)) = storage env"
  shows "\<exists>mem'. state_bind (read_length_import storage lib (place kp (as_bytes key) env) kp (of_nat (length key)))
      (\<lambda>env2 value_len. let n = unat (ucast value_len :: u32); env3 = place rp (replicate n 0) env2 in
        state_bind (read_import storage lib env3 kp (of_nat (length key)) rp value_len) (\<lambda>env4 _.
          (env4, Inr (Inr (peek rp n env4)))))
    = (env\<lparr>vc_memory := Some mem'\<rparr>, Inr (Inr v)) \<and> length mem' = length mem"
proof -
  let ?mem1 = "poke kp (as_bytes key) mem"
  let ?mem3 = "poke rp (replicate (length v) 0) ?mem1"
  let ?env3 = "place rp (replicate (length v) 0) (place kp (as_bytes key) env)"
  have h1: "holds ?mem1 kp (as_bytes key)" using key by (simp add: holds_poke)
  have b1: "in_bounds ?mem1 rp (length v)" using v key by simp
  have h3: "holds ?mem3 kp (as_bytes key)"
    using h1 b1 assms(9) by (simp add: holds_poke_apart [OF h1])
  have b3: "in_bounds ?mem3 rp (length v)" using b1 by simp
  have "read_length_import storage lib (place kp (as_bytes key) env) kp (of_nat (length key))
      = (place kp (as_bytes key) env, Inr (Inr (of_nat (length v))))"
    using assms(1-3) h1 v storage by (subst read_length_import_effect) auto
  moreover have "read_import storage lib ?env3 kp (of_nat (length key)) rp (of_nat (length v))
      = (?env3\<lparr>vc_memory := Some (poke rp v ?mem3)\<rparr>, Inr (Inr ()))"
    using assms(1-3) h3 b3 v storage by (intro read_import_effect) auto
  moreover have "slice (poke rp v ?mem3) rp (length v) = v" using b3 by (rule slice_poke_same)
  moreover have "?env3\<lparr>vc_memory := Some (poke rp v ?mem3)\<rparr> = env\<lparr>vc_memory := Some (poke rp v ?mem3)\<rparr>"
    using assms(2) by (simp add: place_def)
  moreover have "length (poke rp v ?mem3) = length mem"
    using b3 key v by (simp add: in_bounds_def)
  ultimately show ?thesis
    using v(2) by (intro exI [of _ "poke rp v ?mem3"])
      (simp add: state_bind_def ucast_of_nat_u32 unat_of_nat_u32 peek_def Let_def del: unat_of_nat)
qed

lemma guest_memory_read_value:
  assumes "wasm_ok lib" "vc_memory env = Some mem" "rust_string key"
    "length key < 2 ^ 32" "in_bounds mem kp (length key)"
    "v = stored (vc_memory_adapter env) key" "length v < 2 ^ 32" "in_bounds mem rp (length v)"
    "apart rp (length v) kp (length key)"
  shows "\<exists>mem'. guest_memory_read lib kp rp key env = (env\<lparr>vc_memory := Some mem'\<rparr>, Inr (Inr v)) \<and>
    length mem' = length mem"
  using guest_read_value [OF assms(1-5), of v vc_memory_adapter rp] assms(6-)
  by (simp add: guest_memory_read_def memory_read_length_import_def memory_read_import_def Let_def)

lemma guest_shared_memory_get_value:
  assumes "wasm_ok lib" "vc_memory env = Some mem" "rust_string key"
    "length key < 2 ^ 32" "in_bounds mem kp (length key)"
    "v = stored (vc_shared_memory env) key" "length v < 2 ^ 32" "in_bounds mem rp (length v)"
    "apart rp (length v) kp (length key)"
  shows "\<exists>mem'. guest_shared_memory_get lib kp rp key env = (env\<lparr>vc_memory := Some mem'\<rparr>, Inr (Inr v)) \<and>
    length mem' = length mem"
  using guest_read_value [OF assms(1-5), of v vc_shared_memory rp] assms(6-)
  by (simp add: guest_shared_memory_get_def shared_memory_read_length_import_def
      shared_memory_read_import_def Let_def)

text \<open>The buffers of a key and a value that a guest passes to the host.\<close>

definition buffers :: "bytes \<Rightarrow> u32 \<Rightarrow> string \<Rightarrow> u32 \<Rightarrow> bytes \<Rightarrow> bool" where
  "buffers mem kp key vp v \<longleftrightarrow>
     rust_string key \<and> length key < 2 ^ 32 \<and> length v < 2 ^ 32 \<and> in_bounds mem kp (length key) \<and>
     in_bounds mem vp (length v) \<and> apart kp (length key) vp (length v)"

lemma buffers_held:
  assumes "buffers mem kp key vp v"
  shows "holds (poke kp (as_bytes key) (poke vp v mem)) kp (as_bytes key)"
    "holds (poke kp (as_bytes key) (poke vp v mem)) vp v"
    "length (poke kp (as_bytes key) (poke vp v mem)) = length mem"
proof -
  have "holds (poke vp v mem) vp v" using assms by (simp add: buffers_def holds_poke)
  then show "holds (poke kp (as_bytes key) (poke vp v mem)) vp v"
    using assms by (simp add: buffers_def holds_poke_apart)
  show "holds (poke kp (as_bytes key) (poke vp v mem)) kp (as_bytes key)"
    "length (poke kp (as_bytes key) (poke vp v mem)) = length mem"
    using assms by (simp_all add: buffers_def holds_poke) (simp add: in_bounds_def)
qed

lemma guest_memory_write_effect:
  assumes "wasm_ok lib" "vc_memory env = Some mem" "buffers mem kp key vp v"
  shows "\<exists>mem'. guest_memory_write lib kp vp key v env
     = (env\<lparr>vc_memory := Some mem', vc_memory_adapter := fst (im_put to_bytes_vec key v (vc_memory_adapter env))\<rparr>,
        Inr (Inr ())) \<and> length mem' = length mem"
  using assms buffers_held [OF assms(3)]
  by (intro exI [of _ "poke kp (as_bytes key) (poke vp v mem)"], cases env)
    (simp add: guest_memory_write_def memory_write_import_def write_import_effect buffers_def place_def Let_def)

lemma guest_shared_memory_set_effect:
  assumes "wasm_ok lib" "vc_memory env = Some mem" "buffers mem kp key vp v"
  shows "\<exists>mem'. guest_shared_memory_set lib kp vp key v env
     = (env\<lparr>vc_memory := Some mem', vc_shared_memory := fst (im_put to_bytes_vec key v (vc_shared_memory env))\<rparr>,
        Inr (Inr ())) \<and> length mem' = length mem"
  using assms buffers_held [OF assms(3)]
  by (intro exI [of _ "poke kp (as_bytes key) (poke vp v mem)"], cases env)
    (simp add: guest_shared_memory_set_def shared_memory_write_import_def write_import_effect buffers_def
      place_def Let_def)

lemma stored_put [simp]:
  "stored (fst (im_put to_bytes_vec k v m)) k' = (if k' = k then v else stored m k')"
  by (simp add: stored_def im_put_def to_bytes_vec_def)


section \<open>An instance of the crates\<close>

text \<open>
  The instance the witnesses run on: the memory interface as documented, bytes for their own JSON,
  and a signature that repeats the message and the key.
\<close>

definition demo_vm :: "(bytes, bytes, bytes) vm_lib" where
  "demo_vm =
     \<lparr>wasm_deref = (\<lambda>mem ptr n. if in_bounds mem ptr (unat n) then Some (slice mem ptr (unat n)) else None),
      wasm_utf8 = (\<lambda>mem ptr n. if in_bounds mem ptr (unat n) \<and> valid_utf8 (slice mem ptr (unat n))
        then Some (chars_of (slice mem ptr (unat n))) else None),
      json_promise = (\<lambda>s. Inr \<lparr>p_action = P2PBroadcast (as_bytes s), p_status = Unfulfilled\<rparr>),
      json_of_promise = (\<lambda>p. case p_action p of P2PBroadcast b \<Rightarrow> Inr (chars_of b) | _ \<Rightarrow> Inl ''unsupported''),
      json_of_status = (\<lambda>st. case st of Fulfilled (Some b) \<Rightarrow> Inr (chars_of b) | _ \<Rightarrow> Inl ''unsupported''),
      json_status = (\<lambda>s. Inr (Fulfilled (Some (as_bytes s)))),
      json_level = (\<lambda>_. Inr Info), json_of_level = (\<lambda>_. Inr ''Info''),
      sig_from_uncompressed = Inr,
      sig_to_uncompressed = (\<lambda>s. if length s = 64 then Inr s else Inl ''invalid length''),
      pk_from_uncompressed = Inr, pk_to_uncompressed = Inr,
      ecdsa_verify = (\<lambda>m s k. if s = take 64 (m @ k @ replicate 64 0) then Inr () else Inl ''verification failed''),
      ecdsa_sign = (\<lambda>m k. Inr (take 64 (m @ k @ replicate 64 0)))\<rparr>"

definition demo_env :: "(bytes, bytes, bytes, bytes) vm_context" where
  "demo_env =
     create_vm_context in_memory_default in_memory_default
       \<lparr>pq_queue = [\<lparr>p_action = P2PBroadcast [1], p_status = Fulfilled (Some [72, 105])\<rparr>]\<rparr>
       promise_queue_new (demo_config [7])\<lparr>vc_memory := Some (replicate 256 0)\<rparr>"

lemma demo_vm_ok: "wasm_ok demo_vm"
  by (simp add: wasm_ok_def demo_vm_def)

lemma demo_env_fields [simp]:
  "vc_memory demo_env = Some (replicate 256 0)"
  "vc_current_promise_queue demo_env
     = \<lparr>pq_queue = [\<lparr>p_action = P2PBroadcast [1], p_status = Fulfilled (Some [72, 105])\<rparr>]\<rparr>"
  "vc_promise_queue demo_env = promise_queue_new"
  "vc_node_config demo_env = demo_config [7]"
  by (simp_all add: demo_env_def create_vm_context_def)


section \<open>Round trips through the interface\<close>

lemma guest_memory_write_read:
  assumes lib: "wasm_ok lib" and mem: "vc_memory env = Some mem"
    and w: "buffers mem kp key vp v" and r: "buffers mem kp' key rp v"
  shows "snd (guest_memory_read lib kp' rp key (fst (guest_memory_write lib kp vp key v env))) = Inr (Inr v)"
proof -
  obtain mem1 where m1: "length mem1 = length mem" and write1: "guest_memory_write lib kp vp key v env
      = (env\<lparr>vc_memory := Some mem1, vc_memory_adapter := fst (im_put to_bytes_vec key v (vc_memory_adapter env))\<rparr>,
         Inr (Inr ()))"
    using guest_memory_write_effect [OF lib mem w] by blast
  let ?env = "env\<lparr>vc_memory := Some mem1, vc_memory_adapter := fst (im_put to_bytes_vec key v (vc_memory_adapter env))\<rparr>"
  have "\<exists>mem2. guest_memory_read lib kp' rp key ?env = (?env\<lparr>vc_memory := Some mem2\<rparr>, Inr (Inr v)) \<and>
      length mem2 = length mem1"
    using lib r m1 by (intro guest_memory_read_value) (auto simp: buffers_def in_bounds_def apart_def)
  then show ?thesis using write1 by fastforce
qed

lemma guest_shared_memory_set_get:
  assumes lib: "wasm_ok lib" and mem: "vc_memory env = Some mem"
    and w: "buffers mem kp key vp v" and r: "buffers mem kp' key rp v"
  shows "snd (guest_shared_memory_get lib kp' rp key (fst (guest_shared_memory_set lib kp vp key v env))) = Inr (Inr v)"
proof -
  obtain mem1 where m1: "length mem1 = length mem" and write1: "guest_shared_memory_set lib kp vp key v env
      = (env\<lparr>vc_memory := Some mem1, vc_shared_memory := fst (im_put to_bytes_vec key v (vc_shared_memory env))\<rparr>,
         Inr (Inr ()))"
    using guest_shared_memory_set_effect [OF lib mem w] by blast
  let ?env = "env\<lparr>vc_memory := Some mem1, vc_shared_memory := fst (im_put to_bytes_vec key v (vc_shared_memory env))\<rparr>"
  have "\<exists>mem2. guest_shared_memory_get lib kp' rp key ?env = (?env\<lparr>vc_memory := Some mem2\<rparr>, Inr (Inr v)) \<and>
      length mem2 = length mem1"
    using lib r m1 by (intro guest_shared_memory_get_value) (auto simp: buffers_def in_bounds_def apart_def)
  then show ?thesis using write1 by fastforce
qed

text \<open>C22: A value that a guest writes to its storage, or shares, is what it reads back under the same
  key through the length-and-copy protocol of the host functions. Either write succeeds and changes
  the linear memory, whose size stays, and the entry of the key in the one storage; the other
  storage, the queues, the result and the configuration are as they were.\<close>

theorem guest_storage_roundtrip:
  assumes "wasm_ok lib" "vc_memory env = Some mem" "buffers mem kp key vp v" "buffers mem kp' key rp v"
  shows "snd (guest_memory_read lib kp' rp key (fst (guest_memory_write lib kp vp key v env))) = Inr (Inr v) \<and>
    snd (guest_shared_memory_get lib kp' rp key (fst (guest_shared_memory_set lib kp vp key v env))) = Inr (Inr v) \<and>
    (\<exists>mem' m. guest_memory_write lib kp vp key v env = (env\<lparr>vc_memory := Some mem', vc_memory_adapter := m\<rparr>, Inr (Inr ())) \<and>
       length mem' = length mem \<and> stored m = (stored (vc_memory_adapter env))(key := v)) \<and>
    (\<exists>mem' m. guest_shared_memory_set lib kp vp key v env = (env\<lparr>vc_memory := Some mem', vc_shared_memory := m\<rparr>, Inr (Inr ())) \<and>
       length mem' = length mem \<and> stored m = (stored (vc_shared_memory env))(key := v))"
proof -
  have put: "stored (fst (im_put to_bytes_vec key v m)) = (stored m)(key := v)" for m
    by (simp add: fun_eq_iff)
  show ?thesis
    using guest_memory_write_read [OF assms] guest_shared_memory_set_get [OF assms]
      guest_memory_write_effect [OF assms(1-3)] guest_shared_memory_set_effect [OF assms(1-3)] put by blast
qed

lemma demo_buffers: "buffers (replicate 256 0) 16 ''key'' 32 [1, 2, 3]" "buffers (replicate 256 0) 64 ''key'' 80 [1, 2, 3]"
  by (simp_all add: buffers_def in_bounds_def apart_def rust_string_def as_bytes_def)

theorem guest_storage_roundtrip_witness:
  "snd (guest_memory_read demo_vm 64 80 ''key''
     (fst (guest_memory_write demo_vm 16 32 ''key'' [1, 2, 3] demo_env))) = Inr (Inr [1, 2, 3])"
  using guest_storage_roundtrip [OF demo_vm_ok demo_env_fields(1) demo_buffers] by simp


section \<open>Promises\<close>

definition bare_promise :: "wasm_promise \<Rightarrow> promise" where
  "bare_promise p = \<lparr>p_action = wp_action p, p_status = wp_status p\<rparr>"

text \<open>
  What \<open>serde_json\<close> promises of a value: its text is read back as the value. The text also has to
  find room at the pointer.
\<close>

definition sendable :: "('sig, 'bsk, 'bpk) vm_lib \<Rightarrow> nat \<Rightarrow> u32 \<times> wasm_promise \<Rightarrow> bool" where
  "sendable lib size_of_memory x \<longleftrightarrow>
     (\<exists>j. json_of_promise lib (bare_promise (snd x)) = Inr j \<and> json_promise lib j = Inr (bare_promise (snd x)) \<and>
        rust_string j \<and> length j < 2 ^ 32 \<and> unat (fst x) + length j \<le> size_of_memory)"

lemma guest_add_to_queue_effect:
  assumes "wasm_ok lib" "vc_memory env = Some mem" "sendable lib (length mem) (ptr, p)"
  shows "\<exists>mem'. guest_add_to_queue lib ptr p env
     = (env\<lparr>vc_memory := Some mem', vc_promise_queue := add_promise (bare_promise p) (vc_promise_queue env)\<rparr>,
        Inr (Inr ())) \<and> length mem' = length mem"
proof -
  obtain j where j: "json_of_promise lib (bare_promise p) = Inr j" "json_promise lib j = Inr (bare_promise p)"
    "rust_string j" "length j < 2 ^ 32" "in_bounds mem ptr (length j)"
    using assms(3) by (auto simp: sendable_def in_bounds_def)
  then have "holds (poke ptr (as_bytes j) mem) ptr (as_bytes j)" by (simp add: holds_poke)
  then show ?thesis
    using assms j
    by (intro exI [of _ "poke ptr (as_bytes j) mem"])
      (simp add: guest_add_to_queue_def bare_promise_def promise_then_import_def get_memory_def
        get_string_holds with_ok_def place_def in_bounds_def)
qed

lemma guest_chain_effect:
  assumes "wasm_ok lib" "vc_memory env = Some mem" "list_all (sendable lib (length mem)) ps"
  shows "snd (guest_chain lib ps env) = Inr (Inr ()) \<and>
    pq_queue (vc_promise_queue (fst (guest_chain lib ps env)))
      = pq_queue (vc_promise_queue env) @ map (bare_promise \<circ> snd) ps"
  using assms(2,3)
proof (induction ps arbitrary: env mem)
  case (Cons x ps)
  obtain ptr p where x: "x = (ptr, p)" by (cases x)
  obtain mem' where step: "guest_add_to_queue lib ptr p env
      = (env\<lparr>vc_memory := Some mem', vc_promise_queue := add_promise (bare_promise p) (vc_promise_queue env)\<rparr>,
         Inr (Inr ()))" "length mem' = length mem"
    using guest_add_to_queue_effect [OF assms(1) Cons.prems(1)] Cons.prems(2) x by auto
  then show ?case
    using Cons.IH [of "env\<lparr>vc_memory := Some mem', vc_promise_queue := add_promise (bare_promise p) (vc_promise_queue env)\<rparr>"
        mem'] Cons.prems(2) x
    by (simp add: state_bind_def add_promise_def)
qed simp

lemma promise_chain_queue: "snd (promise_chain p rest q) = q @ map bare_promise (p # rest)"
proof -
  have "snd (foldl (\<lambda>(built, queue) after. wasm_promise_then built after queue) (b, q') rest)
      = q' @ map bare_promise rest" for b q'
    by (induction rest arbitrary: b q') (auto simp: wasm_promise_then_def add_to_queue_def bare_promise_def)
  then show ?thesis
    by (simp add: promise_chain_def wasm_promise_start_def add_to_queue_def bare_promise_def)
qed

text \<open>C23: The guest's promise builder is implemented by the host: a chain
  \<open>start().then(...).then(...)\<close> whose promises survive JSON leaves exactly the builder's queue in
  the host, in order, behind what was queued before.\<close>

theorem promise_chain_refined:
  assumes "wasm_ok lib" "vc_memory env = Some mem"
    and "list_all (sendable lib (length mem)) ((ptr, p) # rest)"
  shows "snd (guest_chain lib ((ptr, p) # rest) env) = Inr (Inr ()) \<and>
    pq_queue (vc_promise_queue (fst (guest_chain lib ((ptr, p) # rest) env)))
      = snd (promise_chain p (map snd rest) (pq_queue (vc_promise_queue env)))"
  using guest_chain_effect [OF assms(1,2), of "(ptr, p) # rest"] assms(3)
  by (simp add: promise_chain_queue comp_def)

theorem promise_chain_refined_witness:
  "pq_queue (vc_promise_queue (fst (guest_chain demo_vm
     [(16, p2p_broadcast_message [65]), (32, p2p_broadcast_message [66])] demo_env)))
   = snd (promise_chain (p2p_broadcast_message [65]) [p2p_broadcast_message [66]] [])"
  using promise_chain_refined [OF demo_vm_ok demo_env_fields(1), of 16 "p2p_broadcast_message [65]"
      "[(32, p2p_broadcast_message [66])]"]
  by (simp add: sendable_def demo_vm_def bare_promise_def p2p_broadcast_message_def wasm_promise_new_def
      rust_string_def promise_queue_new_def)

lemma scast_index: "i < 2 ^ 31 \<Longrightarrow> unat (scast (of_nat i :: i32) :: u64) = i"
proof -
  assume i: "i < 2 ^ 31"
  then have "take_bit 32 i = i" "take_bit 64 i = i" by (simp_all add: take_bit_nat_eq_self_iff)
  moreover have "signed_take_bit 31 (int i) = int i" using i by (intro signed_take_bit_int_eq_self) auto
  ultimately have "sint (of_nat i :: i32) = int i" by (simp add: sint_uint unsigned_of_nat)
  then have "(scast (of_nat i :: i32) :: u64) = of_nat i" by (simp add: scast_eq)
  with \<open>take_bit 64 i = i\<close> show ?thesis by (simp add: unsigned_of_nat)
qed

text \<open>\<open>Promise::result\<close> delivers the status of the promise at its index of the current queue.\<close>

theorem guest_promise_result_correct:
  assumes "wasm_ok lib" "vc_memory env = Some mem"
    and "i < length (pq_queue (vc_current_promise_queue env))" "i < 2 ^ 31"
    and "json_of_status lib (p_status (pq_queue (vc_current_promise_queue env) ! i)) = Inr j"
    and "json_status lib j = Inr (p_status (pq_queue (vc_current_promise_queue env) ! i))"
    and "rust_string j" "length j < 2 ^ 32" "in_bounds mem ptr (length j)"
  shows "snd (guest_promise_result lib ptr (of_nat i) env)
    = Inr (Inr (p_status (pq_queue (vc_current_promise_queue env) ! i)))"
proof -
  let ?s = "p_status (pq_queue (vc_current_promise_queue env) ! i)"
  let ?mem1 = "poke ptr (replicate (length j) 0) mem"
  have status: "current_status (place ptr (replicate (length j) 0) env) (of_nat i) = Inr ?s"
    "current_status env (of_nat i) = Inr ?s"
    using assms(3,4) by (simp_all add: current_status_def scast_index Let_def)
  have b: "in_bounds ?mem1 ptr (length (as_bytes j))" using assms(9) by simp
  obtain cells where cells: "get_slice lib ?mem1 ptr (of_nat (length j)) = Inr cells" "length cells = length j"
    using get_slice_length assms(1,8) b by (metis length_as_bytes)
  have "promise_status_write_import lib (place ptr (replicate (length j) 0) env) (of_nat i) ptr (of_nat (length j))
      = (place ptr (replicate (length j) 0) env\<lparr>vc_memory := Some (poke ptr (as_bytes j) ?mem1)\<rparr>, Inr (Inr ()))"
    using assms(2,5,8) status cells b write_cells_poke [of "as_bytes j" "length j" ?mem1 ptr]
    by (simp add: promise_status_write_import_def get_memory_def with_ok_def ucast_of_nat_u32
        sint_of_nat_u64 store_cells_def)
  moreover have "promise_status_length_import lib env (of_nat i) = (env, Inr (Inr (of_nat (length j))))"
    using assms(5) status by (simp add: promise_status_length_import_def)
  moreover have "slice (poke ptr (as_bytes j) ?mem1) ptr (length j) = as_bytes j"
    using slice_poke_same [OF b] by simp
  ultimately show ?thesis
    using assms(6-8)
    by (simp add: guest_promise_result_def state_bind_def ucast_of_nat_u32 unat_of_nat_u32 peek_def
        rust_string_def Let_def del: unat_of_nat)
qed

theorem guest_promise_result_correct_witness:
  "snd (guest_promise_result demo_vm 16 0 demo_env) = Inr (Inr (Fulfilled (Some [72, 105])))"
  using guest_promise_result_correct [OF demo_vm_ok demo_env_fields(1), of 0 "chars_of [72, 105]" 16]
  by (simp add: demo_vm_def rust_string_def in_bounds_def)


section \<open>The host stays inside the guest's buffers\<close>

definition confined :: "bytes \<Rightarrow> u32 \<Rightarrow> nat \<Rightarrow> ('bsk, 'bpk, 'esk, 'epk) vm_context \<Rightarrow> bool" where
  "confined mem ptr n env \<longleftrightarrow>
     (case vc_memory env of
        None \<Rightarrow> False
      | Some mem' \<Rightarrow> length mem' = length mem \<and>
          (\<forall>a \<in> set [0..<length mem]. a < unat ptr \<or> unat ptr + n \<le> a \<longrightarrow> mem' ! a = mem ! a))"

lemma confined_refl: "vc_memory env = Some mem \<Longrightarrow> confined mem ptr n env"
  by (simp add: confined_def)

lemma store_cells_confined:
  assumes "wasm_ok lib" "get_slice lib mem ptr n = Inr cells"
  shows "confined mem ptr (unat n) (fst (store_cells src ptr (length cells) is mem env))"
proof -
  have "in_bounds mem ptr (unat n)" "length cells = unat n"
    using assms by (auto simp: wasm_ok_def get_slice_def in_bounds_def slice_def split: if_splits)
  then show ?thesis
    using write_cells_frame [of src ptr "length cells" "is" mem]
    by (auto simp: store_cells_def confined_def split: prod.splits)
qed

lemma with_ok_confined:
  assumes "vc_memory env = Some mem" "\<And>v. m = Inr (Inr v) \<Longrightarrow> confined mem ptr n (fst (k v))"
  shows "confined mem ptr n (fst (with_ok m env k))"
  using assms by (auto simp: with_ok_def confined_refl split: sum.splits)

lemma read_import_confined:
  assumes "wasm_ok lib" "vc_memory env = Some mem"
  shows "confined mem ptr (unat (ucast len :: u32)) (fst (read_import storage lib env kp kl ptr len))"
  unfolding read_import_def
  by (rule with_ok_confined [OF assms(2)])
    (auto simp: assms get_memory_def res_simps Let_def intro!: store_cells_confined split: if_splits)

text \<open>C24: A host function that copies into the guest's memory changes no byte outside the buffer the
  guest passed, whether it succeeds, returns an error or panics.\<close>

theorem host_writes_confined:
  assumes "wasm_ok lib" "vc_memory env = Some mem"
  shows "confined mem ptr (unat (ucast len :: u32)) (fst (memory_read_import lib env kp kl ptr len)) \<and>
    confined mem ptr (unat (ucast len :: u32)) (fst (shared_memory_read_import lib env kp kl ptr len)) \<and>
    confined mem ptr (unat (ucast len :: u32)) (fst (promise_status_write_import lib env i ptr len)) \<and>
    confined mem ptr (unat (ucast len :: u32)) (fst (bn254_sign_import lib env mp ml ptr len))"
proof (intro conjI)
  show "confined mem ptr (unat (ucast len :: u32)) (fst (memory_read_import lib env kp kl ptr len))"
    "confined mem ptr (unat (ucast len :: u32)) (fst (shared_memory_read_import lib env kp kl ptr len))"
    using assms by (simp_all add: memory_read_import_def shared_memory_read_import_def read_import_confined)
  show "confined mem ptr (unat (ucast len :: u32)) (fst (promise_status_write_import lib env i ptr len))"
    unfolding promise_status_write_import_def
    by (rule with_ok_confined [OF assms(2)])
      (auto simp: assms get_memory_def res_simps intro!: store_cells_confined)
  show "confined mem ptr (unat (ucast len :: u32)) (fst (bn254_sign_import lib env mp ml ptr len))"
    unfolding bn254_sign_import_def
    by (rule with_ok_confined [OF assms(2)])
      (auto simp: assms get_memory_def res_simps intro!: store_cells_confined split: if_splits)
qed

theorem host_writes_confined_witness:
  "confined (replicate 256 0) 16 3 (fst (memory_read_import demo_vm demo_env 64 0 16 3)) \<and>
   snd (memory_read_import demo_vm demo_env 64 0 16 3) \<noteq> Inr (Inr ())"
  using host_writes_confined [OF demo_vm_ok demo_env_fields(1), of 16 3 64 0]
  by (simp add: memory_read_import_def read_import_def get_memory_def get_string_def demo_vm_def in_bounds_def
      slice_def chars_of_def demo_env_def create_vm_context_def in_memory_default_def with_ok_def)


section \<open>Signatures\<close>

text \<open>
  The documented behaviour of \<open>bn254\<close>: encodings are read back, a signature takes 64 bytes, and a
  signature made with a private key verifies under its public key.
\<close>

definition bn254_ok :: "('sig, 'bsk, 'bpk) vm_lib \<Rightarrow> ('bsk \<Rightarrow> 'bpk) \<Rightarrow> bool" where
  "bn254_ok lib public_of \<longleftrightarrow>
     (\<forall>s b. sig_to_uncompressed lib s = Inr b \<longrightarrow> length b = 64 \<and> sig_from_uncompressed lib b = Inr s) \<and>
     (\<forall>k b. pk_to_uncompressed lib k = Inr b \<longrightarrow> pk_from_uncompressed lib b = Inr k) \<and>
     (\<forall>m k s. ecdsa_sign lib m k = Inr s \<longrightarrow> ecdsa_verify lib m s (public_of k) = Inr ())"

lemma guest_sign_value:
  assumes "wasm_ok lib" "bn254_ok lib public_of" "vc_memory env = Some mem"
    and "length message < 2 ^ 32" "in_bounds mem mp (length message)" "in_bounds mem rp 64"
    and "apart rp 64 mp (length message)"
    and "ecdsa_sign lib message (private_key (nc_keypair_bn254 (vc_node_config env))) = Inr s"
    and "sig_to_uncompressed lib s = Inr sb"
  shows "\<exists>mem'. guest_bn254_sign lib mp rp message env = (env\<lparr>vc_memory := Some mem'\<rparr>, Inr (Inr s)) \<and>
    length mem' = length mem"
proof -
  let ?mem1 = "poke rp (replicate 64 0) (poke mp message mem)"
  have len: "length sb = 64" and restored: "sig_from_uncompressed lib sb = Inr s"
    using assms(2,9) by (auto simp: bn254_ok_def)
  have h: "holds (poke mp message mem) mp message" using assms(4,5) by (rule holds_poke [rotated])
  then have h1: "holds ?mem1 mp message" using assms(5-7) by (simp add: holds_poke_apart)
  have b1: "in_bounds ?mem1 rp (length sb)" using assms(5,6) len by (simp add: in_bounds_def)
  obtain cells where cells: "get_slice lib ?mem1 rp 64 = Inr cells" "length cells = 64"
    using get_slice_length [OF assms(1) b1] len by auto
  have slice_sb: "slice (poke rp sb ?mem1) rp 64 = sb" using slice_poke_same [OF b1] len by simp
  have "bn254_sign_import lib (place rp (replicate 64 0) (place mp message env)) mp (of_nat (length message)) rp 64
      = (env\<lparr>vc_memory := Some (poke rp sb ?mem1)\<rparr>, Inr (Inr ()))"
    using assms(1,3,8,9) h1 cells len write_cells_poke [of sb 64 ?mem1 rp] b1
    by (simp add: bn254_sign_import_def get_memory_def ucast_of_nat_u32 get_slice_holds with_ok_def
        store_cells_def place_def)
  moreover have "length (poke rp sb ?mem1) = length mem"
    using b1 assms(5,6) by (simp add: in_bounds_def)
  ultimately show ?thesis
    using slice_sb restored by (intro exI [of _ "poke rp sb ?mem1"]) (simp add: guest_bn254_sign_def state_bind_def peek_def)
qed

lemma guest_verify_value:
  assumes "wasm_ok lib" "bn254_ok lib public_of" "vc_memory env = Some mem"
    and "sig_to_uncompressed lib s = Inr sb" "pk_to_uncompressed lib pk = Inr pb"
    and "length message < 2 ^ 32" "length pb < 2 ^ 32"
    and "in_bounds mem mp (length message)" "in_bounds mem sp 64" "in_bounds mem pp (length pb)"
    and "apart sp 64 mp (length message)" "apart pp (length pb) mp (length message)" "apart pp (length pb) sp 64"
  shows "snd (guest_bn254_verify lib mp sp pp message s pk env)
    = Inr (Inr (ecdsa_verify lib message s pk = Inr ()))"
proof -
  let ?mem1 = "poke sp sb (poke mp message mem)" and ?mem2 = "poke pp pb (poke sp sb (poke mp message mem))"
  have sb: "length sb = 64" "sig_from_uncompressed lib sb = Inr s" and pb: "pk_from_uncompressed lib pb = Inr pk"
    using assms(2,4,5) by (auto simp: bn254_ok_def)
  have "holds (poke mp message mem) mp message" using assms(6,8) by (rule holds_poke [rotated])
  then have "holds ?mem1 mp message" using assms(8,9,11) sb by (simp add: holds_poke_apart)
  moreover have "holds ?mem1 sp sb" using assms(8,9) sb by (simp add: holds_poke)
  ultimately have "holds ?mem2 mp message" "holds ?mem2 sp sb"
    using assms(8-10,12,13) sb by (simp_all add: holds_poke_apart)
  moreover have "holds ?mem2 pp pb" using assms(7-10) sb by (simp add: holds_poke)
  ultimately have "get_slice lib ?mem2 mp (of_nat (length message)) = Inr message"
    "get_slice lib ?mem2 sp (of_nat (length sb)) = Inr sb" "get_slice lib ?mem2 pp (of_nat (length pb)) = Inr pb"
    using get_slice_holds [OF assms(1)] by simp_all
  then show ?thesis
    using assms(3-5) sb pb
    by (auto simp: guest_bn254_verify_def state_bind_def bn254_verify_import_def get_memory_def ucast_of_nat_u32
        simp del: of_nat_numeral split: sum.splits)
qed

text \<open>C25: What a guest has the node sign verifies in a guest under the node's public key, when the
  key pair is the one derived from a master key.\<close>

theorem guest_signature_verifies:
  assumes "wasm_ok lib" "bn254_ok lib (bn_public clib)" "vc_memory env = Some mem"
    and "derive_bn254 clib mk i = Inr (Inr (nc_keypair_bn254 (vc_node_config env)))"
    and "ecdsa_sign lib message (private_key (nc_keypair_bn254 (vc_node_config env))) = Inr s"
    and "sig_to_uncompressed lib s = Inr sb"
    and "pk_to_uncompressed lib (public_key (nc_keypair_bn254 (vc_node_config env))) = Inr pb"
    and "length message < 2 ^ 32" "length pb < 2 ^ 32"
    and "in_bounds mem mp (length message)" "in_bounds mem sp 64" "in_bounds mem pp (length pb)"
    and "apart sp 64 mp (length message)" "apart pp (length pb) mp (length message)" "apart pp (length pb) sp 64"
  shows "snd (guest_bn254_sign lib mp sp message env) = Inr (Inr s) \<and>
    snd (guest_bn254_verify lib mp sp pp message s (public_key (nc_keypair_bn254 (vc_node_config env)))
      (fst (guest_bn254_sign lib mp sp message env))) = Inr (Inr True)"
proof -
  obtain mem' where sign: "guest_bn254_sign lib mp sp message env = (env\<lparr>vc_memory := Some mem'\<rparr>, Inr (Inr s))"
    "length mem' = length mem"
    using guest_sign_value [OF assms(1-3,8,10,11,13,5,6)] by blast
  have "in_bounds mem' q n \<longleftrightarrow> in_bounds mem q n" for q n using sign(2) by (simp add: in_bounds_def)
  then have "snd (guest_bn254_verify lib mp sp pp message s (public_key (nc_keypair_bn254 (vc_node_config env)))
      (env\<lparr>vc_memory := Some mem'\<rparr>))
    = Inr (Inr (ecdsa_verify lib message s (public_key (nc_keypair_bn254 (vc_node_config env))) = Inr ()))"
    using assms by (intro guest_verify_value [where mem = mem']) auto
  moreover have "ecdsa_verify lib message s (public_key (nc_keypair_bn254 (vc_node_config env))) = Inr ()"
    using assms(2,5) derive_public_matches(1) [OF assms(4)] by (simp add: bn254_ok_def)
  ultimately show ?thesis using sign(1) by simp
qed

lemma demo_bn254_ok: "bn254_ok demo_vm (bn_public demo_lib)"
  by (auto simp: bn254_ok_def demo_vm_def demo_lib_def split: if_splits)

lemma demo_sign_simps:
  "ecdsa_sign demo_vm m k = Inr (take 64 (m @ k @ replicate 64 0))"
  "sig_to_uncompressed demo_vm (take 64 (m @ k @ replicate 64 0)) = Inr (take 64 (m @ k @ replicate 64 0))"
  "pk_to_uncompressed demo_vm b = Inr b"
  by (simp_all add: demo_vm_def)

theorem guest_signature_verifies_witness:
  "snd (guest_bn254_verify demo_vm 16 32 128 [1, 2]
     (take 64 ([1, 2] @ private_key (nc_keypair_bn254 (demo_config [7])) @ replicate 64 0))
     (public_key (nc_keypair_bn254 (demo_config [7]))) (fst (guest_bn254_sign demo_vm 16 32 [1, 2] demo_env)))
   = Inr (Inr True)"
proof -
  let ?k = "nc_keypair_bn254 (vc_node_config demo_env)"
  have "derive_bn254 demo_lib \<lparr>seed = [7]\<rparr> 0 = Inr (Inr ?k)"
    using demo_of_key [of demo_host None "[7]"] by (auto dest: node_config_of_key_keys(2))
  moreover have "length (public_key ?k) = 14"
    by (simp add: demo_config_def as_bytes_def Let_def)
  then have "length (public_key ?k) < 2 ^ 32" "in_bounds (replicate 256 0) 128 (length (public_key ?k))"
    "apart 128 (length (public_key ?k)) 16 (length [1, 2 :: u8])" "apart 128 (length (public_key ?k)) 32 64"
    by (simp_all add: in_bounds_def apart_def)
  moreover have "length [1, 2 :: u8] < 2 ^ 32" "in_bounds (replicate 256 0) 16 (length [1, 2 :: u8])"
    "in_bounds (replicate 256 0) 32 64" "apart 32 64 16 (length [1, 2 :: u8])"
    by (simp_all add: in_bounds_def apart_def)
  ultimately show ?thesis
    using guest_signature_verifies [OF demo_vm_ok demo_bn254_ok demo_env_fields(1), of "\<lparr>seed = [7]\<rparr>" 0 "[1, 2]"
        "take 64 ([1, 2] @ private_key ?k @ replicate 64 0)" "take 64 ([1, 2] @ private_key ?k @ replicate 64 0)"
        "public_key ?k" 16 32 128, OF _ demo_sign_simps]
    by (simp only: demo_env_fields)
qed

end
