(* ===== verification/Vm_Runtime.thy ===== *)
theory Vm_Runtime
  imports Vm_Guest
begin

text \<open>
  The runtime (\<open>runtime/core/src/runtime.rs\<close> and \<open>vm_result.rs\<close>): the execution of a promise queue,
  the queues that guest calls produce, and the result of a run.

  The WASM engine is third-party code; \<open>wasm_engine\<close> holds its steps. The host adapter is the
  trait of \<open>host_adapter.rs\<close>, a record of operations over a world that answer with a value or an
  error, or panic. The node's own adapter is in \<open>Node_Host\<close>.
\<close>

section \<open>Results\<close>

record exit_info =
  exit_message :: string
  exit_code :: u8

definition exit_info_of :: "string \<times> u8 \<Rightarrow> exit_info" where
  "exit_info_of mc = \<lparr>exit_message = fst mc, exit_code = snd mc\<rparr>"

record vm_result =
  vr_stdout :: "string list"
  vr_stderr :: "string list"
  vr_result :: "bytes option"
  vr_exit_info :: exit_info

datatype vm_result_status =
    EmptyQueue
  | VmOk string
  | FailedToSetConfig
  | WasiEnvInitializeFailure
  | FailedToCreateVMImports
  | FailedToCreateWasmerInstance
  | FailedToGetWASMFn
  | FailedToGetWASMStdout
  | FailedToGetWASMStderr
  | FailedToConvertVMPipeToString
  | ExecutionError string

text \<open>An \<open>ExecutionResult\<close>: the error on the left, the success on the right.\<close>

type_synonym execution_result = "vm_result_status + vm_result_status"

definition exit_info_of_status :: "vm_result_status \<Rightarrow> exit_info" where
  "exit_info_of_status s =
     exit_info_of
       (case s of
          EmptyQueue \<Rightarrow> (''Success: Empty Promise Queue'', 0)
        | VmOk msg \<Rightarrow> (''Success: '' @ msg, 0)
        | FailedToSetConfig \<Rightarrow> (''Error: Failed to set VM Config'', 1)
        | WasiEnvInitializeFailure \<Rightarrow> (''Error: Failed to initialize Wasi Env'', 2)
        | FailedToCreateVMImports \<Rightarrow> (''Error: Failed to create host imports for VM'', 3)
        | FailedToCreateWasmerInstance \<Rightarrow> (''Error: Failed to create WASMER instance'', 4)
        | FailedToGetWASMFn \<Rightarrow> (''Error: Failed to find specified function in WASM binary'', 5)
        | FailedToGetWASMStdout \<Rightarrow> (''Error: Failed to get STDOUT of VM'', 6)
        | FailedToGetWASMStderr \<Rightarrow> (''Error: Failed to get STDERR of VM'', 7)
        | FailedToConvertVMPipeToString \<Rightarrow> (''Error: Failed to convert VM pipe output to String'', 8)
        | ExecutionError err \<Rightarrow> (''Execution Error: '' @ err, 8))"

definition execution_result_of_status :: "vm_result_status \<Rightarrow> execution_result" where
  "execution_result_of_status s = Inr s"

definition exit_info_of_result :: "execution_result \<Rightarrow> exit_info" where
  "exit_info_of_result r =
     (case r of Inr s \<Rightarrow> exit_info_of_status s | Inl s \<Rightarrow> exit_info_of_status s)"


section \<open>The engine, the host adapter and the state of a run\<close>

text \<open>A pipe after a call: not to be had, taken away, not readable as text, or the text in it.\<close>

datatype stream = StreamUnavailable | StreamMissing | StreamUnreadable | StreamText string

text \<open>
  \<open>we_call\<close> is the whole of a guest call: from the context it starts in to the context it leaves,
  the outcome of the call, and what it printed.
\<close>

record ('m, 'bsk, 'bpk, 'esk, 'epk) wasm_engine =
  we_compile :: "bytes \<Rightarrow> string + 'm"
  we_hex_encode :: "bytes \<Rightarrow> string"
  we_ed25519_bytes :: "'epk \<Rightarrow> bytes"
  we_bn254_uncompressed :: "'bpk \<Rightarrow> bytes option"
  we_finalize :: "string \<Rightarrow> (string \<times> string) list \<Rightarrow> string list \<Rightarrow> bool"
  we_imports :: "'m \<Rightarrow> bool"
  we_instantiate :: "'m \<Rightarrow> bool"
  we_has_function :: "'m \<Rightarrow> string \<Rightarrow> bool"
  we_call :: "'m \<Rightarrow> string \<Rightarrow> (string \<times> string) list \<Rightarrow> string list \<Rightarrow> ('bsk, 'bpk, 'esk, 'epk) vm_context
    \<Rightarrow> ('bsk, 'bpk, 'esk, 'epk) vm_context \<times> (string + unit) \<times> stream \<times> stream"

record ('w, 'cfg) host_adapter =
  ha_db_get :: "string \<Rightarrow> 'w \<Rightarrow> 'w \<times> (string + string option) res"
  ha_db_set :: "string \<Rightarrow> string \<Rightarrow> 'w \<Rightarrow> 'w \<times> (string + unit) res"
  ha_http_fetch :: "string \<Rightarrow> 'w \<Rightarrow> 'w \<times> (string + string) res"
  ha_chain_call :: "chain_kind \<Rightarrow> string \<Rightarrow> string \<Rightarrow> bytes \<Rightarrow> u128 \<Rightarrow> 'cfg \<Rightarrow> 'w \<Rightarrow> 'w \<times> (string + bytes) res"
  ha_chain_view :: "chain_kind \<Rightarrow> string \<Rightarrow> string \<Rightarrow> bytes \<Rightarrow> 'w \<Rightarrow> 'w \<times> (string + bytes) res"
  ha_trigger_event :: "event \<Rightarrow> 'w \<Rightarrow> 'w \<times> (string + unit) res"

record ('m, 'w, 'bsk, 'bpk, 'esk, 'epk) runtime =
  rt_wasm_module :: "'m option"
  rt_limited :: bool
  rt_host_adapter :: "('w, ('bsk, 'bpk, 'esk, 'epk) node_config) host_adapter"
  rt_node_config :: "('bsk, 'bpk, 'esk, 'epk) node_config"

record vm_config =
  vm_program_name :: string
  vm_start_func :: "string option"
  vm_args :: "string list"
  vm_debug :: bool

text \<open>
  What a run reads and writes: the two storages, the world behind the host adapter, the
  peer-to-peer channel (open while its receiver lives), the output, and the trace of the queues.
\<close>

record 'w vm_state =
  vs_memory_adapter :: in_memory
  vs_shared_memory :: in_memory
  vs_world :: 'w
  vs_p2p :: "p2p_command list"
  vs_p2p_open :: bool
  vs_stdout :: "string list"
  vs_stderr :: "string list"
  vs_trace :: "promise_queue list"

definition runtime_new ::
  "(string + ('w, ('bsk, 'bpk, 'esk, 'epk) node_config) host_adapter) \<Rightarrow> ('bsk, 'bpk, 'esk, 'epk) node_config \<Rightarrow> bool
    \<Rightarrow> runtime_error + ('m, 'w, 'bsk, 'bpk, 'esk, 'epk) runtime" where
  "runtime_new adapter config limited =
     and_then (map_err NodeError adapter) (\<lambda>ha.
     Inr \<lparr>rt_wasm_module = None, rt_limited = limited, rt_host_adapter = ha, rt_node_config = config\<rparr>)"

definition runtime_init ::
  "('m, 'bsk, 'bpk, 'esk, 'epk) wasm_engine \<Rightarrow> bytes \<Rightarrow> ('m, 'w, 'bsk, 'bpk, 'esk, 'epk) runtime
    \<Rightarrow> ('m, 'w, 'bsk, 'bpk, 'esk, 'epk) runtime \<times> (runtime_error + unit)" where
  "runtime_init eng wasm_binary rt =
     (case we_compile eng wasm_binary of
        Inl e \<Rightarrow> (rt, Inl (WasmCompileError e))
      | Inr m \<Rightarrow> (rt\<lparr>rt_wasm_module := Some m\<rparr>, Inr ()))"


section \<open>Executing one promise\<close>

text \<open>
  The environment variables of a guest. The \<open>unwrap\<close> on the public key's encoding is a panic.
\<close>

definition wasi_env ::
  "('m, 'bsk, 'bpk, 'esk, 'epk) wasm_engine \<Rightarrow> ('bsk, 'bpk, 'esk, 'epk) node_config \<Rightarrow> (string \<times> string) list res" where
  "wasi_env eng cfg =
     and_then (unwrap (we_bn254_uncompressed eng (public_key (nc_keypair_bn254 cfg)))) (\<lambda>bn.
     Inr [(''ORACLE_CONTRACT_ID'', nc_contract_account_id cfg),
          (''ED25519_PUBLIC_KEY'', we_hex_encode eng (we_ed25519_bytes eng (public_key (nc_keypair_ed25519 cfg)))),
          (''BN254_PUBLIC_KEY'', we_hex_encode eng bn)])"

definition require :: "bool \<Rightarrow> 'e \<Rightarrow> 's \<Rightarrow> 's \<times> ('e + unit) res" where
  "require b e s = (s, Inr (if b then Inr () else Inl e))"

text \<open>
  Reading the two pipes after a call. A pipe that is missing is a panic. An output that is not empty
  is kept even when what follows fails.
\<close>

definition read_stdout :: "stream \<Rightarrow> 'w vm_state \<Rightarrow> 'w vm_state \<times> (execution_result + unit) res" where
  "read_stdout out st =
     (case out of
        StreamUnavailable \<Rightarrow> (st, Inr (Inl (Inl FailedToGetWASMStdout)))
      | StreamMissing \<Rightarrow> (st, Inl UnwrapNone)
      | StreamUnreadable \<Rightarrow> (st, Inr (Inl (Inl FailedToConvertVMPipeToString)))
      | StreamText t \<Rightarrow> (if t = [] then st else st\<lparr>vs_stdout := vs_stdout st @ [t]\<rparr>, Inr (Inr ())))"

definition read_stderr :: "stream \<Rightarrow> 'w vm_state \<Rightarrow> 'w vm_state \<times> (execution_result + unit) res" where
  "read_stderr err st =
     (case err of
        StreamUnavailable \<Rightarrow> (st, Inr (Inl (Inl FailedToGetWASMStderr)))
      | StreamMissing \<Rightarrow> (st, Inl UnwrapNone)
      | StreamUnreadable \<Rightarrow> (st, Inr (Inl (Inl FailedToGetWASMStderr)))
      | StreamText t \<Rightarrow> (if t = [] then st else st\<lparr>vs_stderr := vs_stderr st @ [t]\<rparr>, Inr (Inr ())))"

text \<open>
  \<open>CallSelf\<close>: run the guest on the queue as it stands; the value is the guest's result and the
  queue it built.
\<close>

definition exec_call_self ::
  "('m, 'bsk, 'bpk, 'esk, 'epk) wasm_engine \<Rightarrow> ('m, 'w, 'bsk, 'bpk, 'esk, 'epk) runtime \<Rightarrow> 'm \<Rightarrow> call_self_action
    \<Rightarrow> promise_queue \<Rightarrow> 'w vm_state \<Rightarrow> 'w vm_state \<times> (execution_result + bytes \<times> promise_queue) res" where
  "exec_call_self eng rt m call_action current st =
     (let f = cs_function_name call_action; args = cs_args call_action in
      case wasi_env eng (rt_node_config rt) of
        Inl p \<Rightarrow> (st, Inl p)
      | Inr env \<Rightarrow>
          state_bind (require (we_finalize eng f env args) (Inl WasiEnvInitializeFailure) st) (\<lambda>st1 _.
          let vm_ctx = create_vm_context (vs_memory_adapter st1) (vs_shared_memory st1) current
                         promise_queue_new (rt_node_config rt) in
          state_bind (require (we_imports eng m) (Inl FailedToCreateVMImports) st1) (\<lambda>st2 _.
          state_bind (require (we_instantiate eng m) (Inl FailedToCreateWasmerInstance) st2) (\<lambda>st3 _.
          state_bind (require (we_has_function eng m f) (Inl FailedToGetWASMFn) st3) (\<lambda>st4 _.
          case we_call eng m f env args vm_ctx of (ctx, runtime_result, out, err) \<Rightarrow>
          let st5 = st4\<lparr>vs_memory_adapter := vc_memory_adapter ctx, vs_shared_memory := vc_shared_memory ctx\<rparr> in
          state_bind (read_stdout out st5) (\<lambda>st6 _.
          state_bind (read_stderr err st6) (\<lambda>st7 _.
          case runtime_result of
            Inl e \<Rightarrow> (st7, Inr (Inl (execution_result_of_status (ExecutionError e))))
          | Inr _ \<Rightarrow> (st7, Inr (Inr (vc_result ctx, vc_promise_queue ctx))))))))))"

definition limited_rejection :: "promise_action \<Rightarrow> promise_status" where
  "limited_rejection a =
     Rejected (as_bytes (''Method `'' @ action_display a @ ''` not allowed in limited runtime''))"

text \<open>
  One arm of the \<open>match\<close>: the new status of the promise, and the next queue when the arm replaces
  it. The message of \<open>Utf8Error\<close> is an argument.
\<close>

definition on_world ::
  "('v \<Rightarrow> promise_status) \<Rightarrow> ('w \<Rightarrow> 'w \<times> 'v res) \<Rightarrow> 'w vm_state
    \<Rightarrow> 'w vm_state \<times> (execution_result + promise_status \<times> promise_queue option) res" where
  "on_world into_status f st =
     (case f (vs_world st) of
        (w, Inl p) \<Rightarrow> (st\<lparr>vs_world := w\<rparr>, Inl p)
      | (w, Inr r) \<Rightarrow> (st\<lparr>vs_world := w\<rparr>, Inr (Inr (into_status r, None))))"

definition exec_action ::
  "('m, 'bsk, 'bpk, 'esk, 'epk) wasm_engine \<Rightarrow> ('m, 'w, 'bsk, 'bpk, 'esk, 'epk) runtime \<Rightarrow> (bytes \<Rightarrow> string) \<Rightarrow> 'm
    \<Rightarrow> promise_action \<Rightarrow> promise_queue \<Rightarrow> 'w vm_state
    \<Rightarrow> 'w vm_state \<times> (execution_result + promise_status \<times> promise_queue option) res" where
  "exec_action eng rt utf8_message m action current st =
     (let ha = rt_host_adapter rt in
      if rt_limited rt \<and> is_limited_action action then (st, Inr (Inr (limited_rejection action, None)))
      else case action of
        CallSelf call_action \<Rightarrow>
          state_bind (exec_call_self eng rt m call_action current st) (\<lambda>st' (execution_res, next_queue).
          (st', Inr (Inr (Fulfilled (Some execution_res), Some next_queue))))
      | DatabaseSet a \<Rightarrow>
          (if \<not> valid_utf8 (ds_value a)
           then (st, Inr (Inr (status_of_result to_bytes_string (Inl (utf8_message (ds_value a))), None)))
           else on_world (status_of_result to_bytes_unit) (ha_db_set ha (ds_key a) (chars_of (ds_value a))) st)
      | DatabaseGet a \<Rightarrow> on_world (status_of_option_result to_bytes_string) (ha_db_get ha (dg_key a)) st
      | Http a \<Rightarrow> on_world (status_of_result to_bytes_string) (ha_http_fetch ha (h_url a)) st
      | ChainView a \<Rightarrow>
          on_world (status_of_result to_bytes_vec)
            (ha_chain_view ha (cv_chain a) (cv_contract_id a) (cv_method_name a) (cv_args a)) st
      | ChainCall a \<Rightarrow>
          on_world (status_of_result to_bytes_vec)
            (ha_chain_call ha (cc_chain a) (cc_contract_id a) (cc_method_name a) (cc_args a) (cc_deposit a)
               (rt_node_config rt)) st
      | TriggerEvent e \<Rightarrow> on_world (status_of_result to_bytes_unit) (ha_trigger_event ha e) st
      | P2PBroadcast d \<Rightarrow>
          (if vs_p2p_open st then (st\<lparr>vs_p2p := vs_p2p st @ [Broadcast d]\<rparr>, Inr (Inr (Pending, None)))
           else (st, Inl (Panic ''fixed with above TODO''))))"


section \<open>Executing a queue\<close>

text \<open>
  The loop over the indices of a queue: \<open>current\<close> is \<open>promise_queue_mut\<close>, whose entry becomes
  \<open>Pending\<close> first; every guest call replaces the next queue.
\<close>

fun exec_queue ::
  "('m, 'bsk, 'bpk, 'esk, 'epk) wasm_engine \<Rightarrow> ('m, 'w, 'bsk, 'bpk, 'esk, 'epk) runtime \<Rightarrow> (bytes \<Rightarrow> string) \<Rightarrow> 'm
    \<Rightarrow> (nat \<times> promise) list \<Rightarrow> promise_queue \<Rightarrow> promise_queue \<Rightarrow> 'w vm_state
    \<Rightarrow> 'w vm_state \<times> (execution_result + promise_queue \<times> promise_queue) res" where
  "exec_queue eng rt um m [] current next st = (st, Inr (Inr (current, next)))"
| "exec_queue eng rt um m ((i, p) # ps) current next st =
     (let pending = current\<lparr>pq_queue := (pq_queue current)[i := (pq_queue current ! i)\<lparr>p_status := Pending\<rparr>]\<rparr> in
      state_bind (exec_action eng rt um m (p_action p) pending st) (\<lambda>st' (status, replaced).
      exec_queue eng rt um m ps
        (pending\<lparr>pq_queue := (pq_queue pending)[i := (pq_queue pending ! i)\<lparr>p_status := status\<rparr>]\<rparr>)
        (case replaced of None \<Rightarrow> next | Some q \<Rightarrow> q) st'))"

text \<open>\<open>None\<close> is a run that goes on forever.\<close>

partial_function (option) execute_promise_queue ::
  "('m, 'bsk, 'bpk, 'esk, 'epk) wasm_engine \<Rightarrow> ('m, 'w, 'bsk, 'bpk, 'esk, 'epk) runtime \<Rightarrow> (bytes \<Rightarrow> string) \<Rightarrow> 'm
    \<Rightarrow> promise_queue \<Rightarrow> 'w vm_state \<Rightarrow> ('w vm_state \<times> execution_result res) option" where
  "execute_promise_queue eng rt um m q st =
     (if pq_queue q = [] then Some (st, Inr (execution_result_of_status EmptyQueue))
      else
        case exec_queue eng rt um m (enumerate 0 (pq_queue q)) q promise_queue_new st of
          (st', Inl p) \<Rightarrow> Some (st', Inl p)
        | (st', Inr (Inl r)) \<Rightarrow> Some (st', Inr r)
        | (st', Inr (Inr (current, next))) \<Rightarrow>
            execute_promise_queue eng rt um m next (st'\<lparr>vs_trace := vs_trace st' @ [current]\<rparr>))"

text \<open>The result of a run: the status of the last promise of the last queue of the trace.\<close>

definition last_result :: "promise_queue list \<Rightarrow> bytes option res" where
  "last_result trace =
     (if trace \<noteq> [] then
        and_then (ensure (pq_queue (last trace) \<noteq> []) (Panic ''Failed to get last promise in promise queue'')) (\<lambda>_.
        Inr (case p_status (last (pq_queue (last trace))) of
               Fulfilled (Some d) \<Rightarrow> Some d
             | Rejected d \<Rightarrow> Some d
             | _ \<Rightarrow> None))
      else Inr None)"

definition entry_queue :: "vm_config \<Rightarrow> promise_queue" where
  "entry_queue config =
     (let function_name = (case vm_start_func config of Some f \<Rightarrow> f | None \<Rightarrow> ''_start'') in
      add_promise
        \<lparr>p_action = CallSelf \<lparr>cs_function_name = function_name, cs_args = vm_args config\<rparr>,
         p_status = Unfulfilled\<rparr> promise_queue_new)"

definition start_runtime ::
  "('m, 'bsk, 'bpk, 'esk, 'epk) wasm_engine \<Rightarrow> ('m, 'w, 'bsk, 'bpk, 'esk, 'epk) runtime \<Rightarrow> (bytes \<Rightarrow> string)
    \<Rightarrow> vm_config \<Rightarrow> 'w vm_state \<Rightarrow> ('w vm_state \<times> vm_result res) option" where
  "start_runtime eng rt um config st =
     (case rt_wasm_module rt of
        None \<Rightarrow> Some (st, Inl UnwrapNone)
      | Some m \<Rightarrow>
          (case execute_promise_queue eng rt um m (entry_queue config)
                  (st\<lparr>vs_stdout := [], vs_stderr := [], vs_trace := []\<rparr>) of
             None \<Rightarrow> None
           | Some (st', Inl p) \<Rightarrow> Some (st', Inl p)
           | Some (st', Inr r) \<Rightarrow>
               Some (st', and_then (last_result (vs_trace st')) (\<lambda>res.
                 Inr \<lparr>vr_stdout = vs_stdout st', vr_stderr = vs_stderr st', vr_result = res,
                      vr_exit_info = exit_info_of_result r\<rparr>))))"


section \<open>A guest to run\<close>

text \<open>
  The instance the witnesses run on: \<open>_start\<close> leaves a call of \<open>next\<close> and a database write in the
  queue, any other function leaves nothing; the world counts the writes.
\<close>

definition demo_engine :: "(unit, bytes, bytes, bytes, bytes) wasm_engine" where
  "demo_engine =
     \<lparr>we_compile = (\<lambda>_. Inr ()), we_hex_encode = demo_hex, we_ed25519_bytes = (\<lambda>k. k),
      we_bn254_uncompressed = Some, we_finalize = (\<lambda>_ _ _. True), we_imports = (\<lambda>_. True),
      we_instantiate = (\<lambda>_. True), we_has_function = (\<lambda>_ _. True),
      we_call = (\<lambda>_ f _ _ ctx.
        (if f = ''_start''
         then ctx\<lparr>vc_result := [1], vc_promise_queue := \<lparr>pq_queue =
           [\<lparr>p_action = CallSelf \<lparr>cs_function_name = ''next'', cs_args = []\<rparr>, p_status = Unfulfilled\<rparr>,
            \<lparr>p_action = DatabaseSet \<lparr>ds_key = ''k'', ds_value = [65]\<rparr>, p_status = Unfulfilled\<rparr>]\<rparr>\<rparr>
         else ctx, Inr (), StreamText [], StreamText []))\<rparr>"

definition demo_adapter :: "(nat, (bytes, bytes, bytes, bytes) node_config) host_adapter" where
  "demo_adapter =
     \<lparr>ha_db_get = (\<lambda>_ w. (w, Inr (Inr None))), ha_db_set = (\<lambda>_ _ w. (Suc w, Inr (Inr ()))),
      ha_http_fetch = (\<lambda>_ w. (w, Inr (Inr ''ok''))), ha_chain_call = (\<lambda>_ _ _ _ _ _ w. (w, Inr (Inr []))),
      ha_chain_view = (\<lambda>_ _ _ _ w. (w, Inr (Inr []))), ha_trigger_event = (\<lambda>_ w. (w, Inr (Inr ())))\<rparr>"

definition demo_runtime :: "bool \<Rightarrow> (unit, nat, bytes, bytes, bytes, bytes) runtime" where
  "demo_runtime limited =
     \<lparr>rt_wasm_module = Some (), rt_limited = limited, rt_host_adapter = demo_adapter,
      rt_node_config = demo_config [7]\<rparr>"

definition demo_state :: "nat vm_state" where
  "demo_state =
     \<lparr>vs_memory_adapter = in_memory_default, vs_shared_memory = in_memory_default, vs_world = 0, vs_p2p = [],
      vs_p2p_open = True, vs_stdout = [], vs_stderr = [], vs_trace = []\<rparr>"

definition demo_vm_config :: vm_config where
  "demo_vm_config = \<lparr>vm_program_name = ''consensus'', vm_start_func = None, vm_args = [], vm_debug = False\<rparr>"

definition demo_trace :: "promise_status \<Rightarrow> promise_queue list" where
  "demo_trace db_status =
     [\<lparr>pq_queue = [\<lparr>p_action = CallSelf \<lparr>cs_function_name = ''_start'', cs_args = []\<rparr>, p_status = Fulfilled (Some [1])\<rparr>]\<rparr>,
      \<lparr>pq_queue =
        [\<lparr>p_action = CallSelf \<lparr>cs_function_name = ''next'', cs_args = []\<rparr>, p_status = Fulfilled (Some [])\<rparr>,
         \<lparr>p_action = DatabaseSet \<lparr>ds_key = ''k'', ds_value = [65]\<rparr>, p_status = db_status\<rparr>]\<rparr>]"

lemma demo_runtime_fields [simp]:
  "rt_limited (demo_runtime l) = l" "rt_host_adapter (demo_runtime l) = demo_adapter"
  "rt_wasm_module (demo_runtime l) = Some ()"
  by (simp_all add: demo_runtime_def)

lemma demo_exec_call:
  "exec_call_self demo_engine (demo_runtime l) () c q st =
     (st, Inr (Inr (if cs_function_name c = ''_start'' then
        ([1], \<lparr>pq_queue =
           [\<lparr>p_action = CallSelf \<lparr>cs_function_name = ''next'', cs_args = []\<rparr>, p_status = Unfulfilled\<rparr>,
            \<lparr>p_action = DatabaseSet \<lparr>ds_key = ''k'', ds_value = [65]\<rparr>, p_status = Unfulfilled\<rparr>]\<rparr>)
        else ([], promise_queue_new))))"
  by (simp add: exec_call_self_def demo_engine_def demo_runtime_def wasi_env_def require_def read_stdout_def
      read_stderr_def create_vm_context_def Let_def)

lemma demo_run:
  "execute_promise_queue demo_engine (demo_runtime l) um () (entry_queue demo_vm_config) demo_state =
     Some (demo_state\<lparr>vs_world := (if l then 0 else 1), vs_trace := demo_trace
       (if l then limited_rejection (DatabaseSet \<lparr>ds_key = ''k'', ds_value = [65]\<rparr>) else Fulfilled (Some []))\<rparr>,
       Inr (Inr EmptyQueue))"
  by (subst execute_promise_queue.simps, subst execute_promise_queue.simps, subst execute_promise_queue.simps)
    (simp add: entry_queue_def demo_vm_config_def add_promise_def promise_queue_new_def exec_action_def
      demo_exec_call is_limited_action_def Let_def on_world_def demo_adapter_def
      status_of_result_def to_bytes_unit_def demo_state_def demo_trace_def execution_result_of_status_def)


section \<open>What one promise does to the run\<close>

lemma require_eq [simp]:
  "require b e s = (t, r) \<longleftrightarrow> t = s \<and> r = (if b then Inr (Inr ()) else Inr (Inl e))"
  by (auto simp: require_def)

text \<open>A guest call keeps the world, the channel and the trace.\<close>

definition same_outside :: "'w vm_state \<Rightarrow> 'w vm_state \<Rightarrow> bool" where
  "same_outside st st' \<longleftrightarrow>
     vs_world st' = vs_world st \<and> vs_p2p st' = vs_p2p st \<and> vs_p2p_open st' = vs_p2p_open st \<and>
     vs_trace st' = vs_trace st"

lemma same_outside_refl [simp]: "same_outside st st"
  by (simp add: same_outside_def)

lemma same_outside_updates [simp]:
  "same_outside st (st'\<lparr>vs_memory_adapter := a, vs_shared_memory := b\<rparr>) \<longleftrightarrow> same_outside st st'"
  "same_outside st (st'\<lparr>vs_stdout := o1\<rparr>) \<longleftrightarrow> same_outside st st'"
  "same_outside st (st'\<lparr>vs_stderr := o2\<rparr>) \<longleftrightarrow> same_outside st st'"
  by (simp_all add: same_outside_def)

lemmas same_outside_bind = state_bind_preserves [of "same_outside st" for st]

lemma read_same:
  "same_outside s (fst (read_stdout out st)) \<longleftrightarrow> same_outside s st"
  "same_outside s (fst (read_stderr err st)) \<longleftrightarrow> same_outside s st"
  by (auto simp: read_stdout_def read_stderr_def split: stream.splits)

lemma exec_call_self_same: "same_outside st (fst (exec_call_self eng rt m a current st))"
  by (auto simp: exec_call_self_def Let_def read_same require_def split: sum.splits prod.splits
      intro!: same_outside_bind)

text \<open>A queue that some call of a function, started on an empty one, may leave.\<close>

definition guest_queue ::
  "('m, 'bsk, 'bpk, 'esk, 'epk) wasm_engine \<Rightarrow> 'm \<Rightarrow> string \<Rightarrow> promise_queue \<Rightarrow> bool" where
  "guest_queue eng m f q \<longleftrightarrow> (\<exists>env args ctx ctx' out. vc_promise_queue ctx = promise_queue_new \<and>
     we_call eng m f env args ctx = (ctx', out) \<and> q = vc_promise_queue ctx')"

lemma guest_queueI:
  "we_call eng m f env args ctx = (ctx', out) \<Longrightarrow> vc_promise_queue ctx = promise_queue_new \<Longrightarrow>
   guest_queue eng m f (vc_promise_queue ctx')"
  by (auto simp: guest_queue_def simp del: split_paired_Ex) blast

lemma create_vm_context_queue [simp]: "vc_promise_queue (create_vm_context a b c q cfg) = q"
  by (simp add: create_vm_context_def)

lemma exec_call_self_queue:
  assumes "exec_call_self eng rt m a current st = (st', Inr (Inr (res, q)))"
  shows "guest_queue eng m (cs_function_name a) q"
  using assms
  by (auto simp: exec_call_self_def Let_def split: sum.splits prod.splits if_splits elim!: state_bind_cases)
    (rule guest_queueI, assumption, simp)

text \<open>
  A promise that has been handled: rejected when the runtime is limited and the action is not
  allowed there, waiting when it is a broadcast, fulfilled when it is a guest call, and fulfilled
  or rejected otherwise.
\<close>

definition settled :: "bool \<Rightarrow> promise \<Rightarrow> bool" where
  "settled limited p \<longleftrightarrow>
     (if limited \<and> is_limited_action (p_action p) then p_status p = limited_rejection (p_action p)
      else case p_action p of
        P2PBroadcast _ \<Rightarrow> p_status p = Pending
      | CallSelf _ \<Rightarrow> (case p_status p of Fulfilled (Some _) \<Rightarrow> True | _ \<Rightarrow> False)
      | _ \<Rightarrow> p_status p \<noteq> Unfulfilled \<and> p_status p \<noteq> Pending)"

lemma status_of_result_settled [simp]:
  "status_of_result f r \<noteq> Unfulfilled" "status_of_result f r \<noteq> Pending"
  "status_of_option_result f o1 \<noteq> Unfulfilled" "status_of_option_result f o1 \<noteq> Pending"
  by (auto simp: status_of_result_def status_of_option_result_def split: sum.splits)

lemma exec_action_settled:
  assumes "exec_action eng rt um m a current st = (st', Inr (Inr (status, replaced)))"
  shows "settled (rt_limited rt) \<lparr>p_action = a, p_status = status\<rparr>"
proof (cases "rt_limited rt \<and> is_limited_action a")
  case True
  then show ?thesis using assms by (simp add: exec_action_def settled_def)
next
  case False
  then show ?thesis
    using assms
    by (cases a) (auto simp: exec_action_def settled_def on_world_def Let_def
        split: prod.splits sum.splits if_splits elim!: state_bind_cases)
qed

lemma exec_action_replaced:
  assumes "exec_action eng rt um m a current st = (st', Inr (Inr (status, replaced)))"
  shows "replaced = None \<or>
    (\<exists>c q. a = CallSelf c \<and> replaced = Some q \<and> guest_queue eng m (cs_function_name c) q)"
proof (cases "\<exists>c. a = CallSelf c")
  case True
  then show ?thesis
    using assms by (auto simp: exec_action_def is_limited_action_def Let_def elim!: state_bind_cases
        dest!: exec_call_self_queue)
next
  case False
  then show ?thesis
    using assms by (cases a) (auto simp: exec_action_def on_world_def Let_def split: prod.splits sum.splits if_splits)
qed

lemma exec_action_trace: "vs_trace (fst (exec_action eng rt um m a current st)) = vs_trace st"
proof (cases a)
  case (CallSelf c)
  have "vs_trace (fst (exec_call_self eng rt m c current st)) = vs_trace st"
    using exec_call_self_same by (metis same_outside_def)
  then show ?thesis
    using CallSelf by (cases "exec_call_self eng rt m c current st")
      (auto simp: exec_action_def state_bind_def Let_def split: sum.splits)
qed (auto simp: exec_action_def on_world_def Let_def split: prod.splits sum.splits)

text \<open>In a limited runtime only an HTTP request reaches the world.\<close>

definition after_fetches :: "('w, 'cfg) host_adapter \<Rightarrow> string list \<Rightarrow> 'w \<Rightarrow> 'w" where
  "after_fetches ha urls w = fold (\<lambda>url w. fst (ha_http_fetch ha url w)) urls w"

definition only_fetched :: "('w, 'cfg) host_adapter \<Rightarrow> 'w vm_state \<Rightarrow> 'w vm_state \<Rightarrow> bool" where
  "only_fetched ha st st' \<longleftrightarrow>
     (\<exists>urls. vs_world st' = after_fetches ha urls (vs_world st)) \<and> vs_p2p st' = vs_p2p st"

lemma only_fetched_refl: "only_fetched ha st st"
  unfolding only_fetched_def by (intro conjI exI [of _ "[]"]) (simp_all add: after_fetches_def)

lemma only_fetched_trans:
  assumes "only_fetched ha st st1" and "only_fetched ha st1 st2"
  shows "only_fetched ha st st2"
proof -
  from assms obtain us vs where "vs_world st2 = after_fetches ha vs (after_fetches ha us (vs_world st))"
    by (auto simp: only_fetched_def)
  then have "vs_world st2 = after_fetches ha (us @ vs) (vs_world st)" by (simp add: after_fetches_def)
  with assms show ?thesis by (auto simp: only_fetched_def)
qed

lemma same_outside_fetched: "same_outside st st' \<Longrightarrow> only_fetched ha st st'"
  unfolding only_fetched_def
  by (intro conjI exI [of _ "[]"]) (simp_all add: same_outside_def after_fetches_def)

lemma exec_action_limited:
  assumes "rt_limited rt"
  shows "only_fetched (rt_host_adapter rt) st (fst (exec_action eng rt um m a current st))"
proof (cases a)
  case (CallSelf c)
  then show ?thesis
    by (auto simp: exec_action_def is_limited_action_def Let_def exec_call_self_same
        intro!: same_outside_bind same_outside_fetched)
next
  case (Http h)
  have "vs_world (fst (exec_action eng rt um m a current st)) = after_fetches (rt_host_adapter rt) [h_url h] (vs_world st)"
    "vs_p2p (fst (exec_action eng rt um m a current st)) = vs_p2p st"
    using Http by (auto simp: exec_action_def is_limited_action_def on_world_def after_fetches_def Let_def
        split: prod.splits sum.splits)
  then show ?thesis unfolding only_fetched_def by blast
qed (simp_all add: exec_action_def is_limited_action_def assms only_fetched_refl)


section \<open>The loop and the recursion\<close>

lemma exec_queue_preserves:
  assumes "\<And>a current st. P st \<Longrightarrow> P (fst (exec_action eng rt um m a current st))"
  shows "P st \<Longrightarrow> P (fst (exec_queue eng rt um m ps current nxt st))"
proof (induction ps arbitrary: current nxt st)
  case (Cons x ps)
  obtain i p where "x = (i, p)" by (cases x)
  then show ?case
    using Cons assms by (auto simp: Let_def intro!: state_bind_preserves [of P])
qed simp

lemma exec_queue_trace: "vs_trace (fst (exec_queue eng rt um m ps current nxt st)) = vs_trace st"
  by (rule exec_queue_preserves [of "\<lambda>s. vs_trace s = vs_trace st"]) (simp_all add: exec_action_trace)

lemma exec_queue_settles:
  assumes "exec_queue eng rt um m (enumerate k ps) current nxt st = (st', Inr (Inr (current', nxt')))"
    and "length (pq_queue current) = k + length ps"
    and "map p_action (drop k (pq_queue current)) = map p_action ps"
  shows "map p_action (pq_queue current') = map p_action (pq_queue current) \<and>
    take k (pq_queue current') = take k (pq_queue current) \<and>
    list_all (settled (rt_limited rt)) (drop k (pq_queue current'))"
  using assms
proof (induction ps arbitrary: k current nxt st)
  case Nil
  then show ?case by simp
next
  case (Cons p ps)
  let ?q = "pq_queue current"
  have k: "k < length ?q" using Cons.prems(2) by simp
  have drop_k: "drop k ?q = ?q ! k # drop (Suc k) ?q" using k by (simp add: Cons_nth_drop_Suc)
  have act: "p_action (?q ! k) = p_action p" "map p_action (drop (Suc k) ?q) = map p_action ps"
    using Cons.prems(3) drop_k by simp_all
  obtain st1 status replaced where step:
    "exec_action eng rt um m (p_action p)
       (current\<lparr>pq_queue := ?q[k := (?q ! k)\<lparr>p_status := Pending\<rparr>]\<rparr>) st = (st1, Inr (Inr (status, replaced)))"
    "exec_queue eng rt um m (enumerate (Suc k) ps)
       (current\<lparr>pq_queue := ?q[k := (?q ! k)\<lparr>p_status := status\<rparr>]\<rparr>)
       (case replaced of None \<Rightarrow> nxt | Some q \<Rightarrow> q) st1 = (st', Inr (Inr (current', nxt')))"
    using Cons.prems(1) k by (auto simp: Let_def elim!: state_bind_cases)
  have IH: "map p_action (pq_queue current') = map p_action (?q[k := (?q ! k)\<lparr>p_status := status\<rparr>])"
    "take (Suc k) (pq_queue current') = take (Suc k) (?q[k := (?q ! k)\<lparr>p_status := status\<rparr>])"
    "list_all (settled (rt_limited rt)) (drop (Suc k) (pq_queue current'))"
    using Cons.IH [OF step(2)] Cons.prems(2) act(2) by simp_all
  have actions: "map p_action (pq_queue current') = map p_action ?q"
    using IH(1) k by (simp add: map_update list_update_same_conv)
  then have len: "length (pq_queue current') = length ?q" by (metis length_map)
  have at_k: "pq_queue current' ! k = (?q ! k)\<lparr>p_status := status\<rparr>"
    using IH(2) k len by (metis lessI nth_list_update_eq nth_take)
  also have "\<dots> = \<lparr>p_action = p_action p, p_status = status\<rparr>" using act(1) by (cases "?q ! k") simp
  finally have "settled (rt_limited rt) (pq_queue current' ! k)"
    using exec_action_settled [OF step(1)] by simp
  moreover have "drop k (pq_queue current') = pq_queue current' ! k # drop (Suc k) (pq_queue current')"
    using k len by (simp add: Cons_nth_drop_Suc)
  moreover have "take k (take (Suc k) (pq_queue current')) = take k (take (Suc k) (?q[k := (?q ! k)\<lparr>p_status := status\<rparr>]))"
    using IH(2) by simp
  then have "take k (pq_queue current') = take k ?q" by (simp add: min_def)
  ultimately show ?case using actions IH(3) by simp
qed

definition queue_settled :: "bool \<Rightarrow> promise_queue \<Rightarrow> bool" where
  "queue_settled limited q \<longleftrightarrow> pq_queue q \<noteq> [] \<and> list_all (settled limited) (pq_queue q)"

text \<open>One round of the recursion: the empty queue, an early end, or another round.\<close>

lemma execute_round:
  assumes "pq_queue q \<noteq> []"
    and "exec_queue eng rt um m (enumerate 0 (pq_queue q)) q promise_queue_new st = (st', Inr (Inr (current, nxt)))"
  shows "queue_settled (rt_limited rt) current" "vs_trace st' = vs_trace st"
proof -
  have "map p_action (pq_queue current) = map p_action (pq_queue q)" "list_all (settled (rt_limited rt)) (pq_queue current)"
    using exec_queue_settles [OF assms(2)] by simp_all
  then show "queue_settled (rt_limited rt) current"
    using assms(1) by (auto simp: queue_settled_def)
  show "vs_trace st' = vs_trace st"
    using exec_queue_trace [of eng rt um m "enumerate 0 (pq_queue q)" q promise_queue_new st] assms(2) by simp
qed

lemma execute_induct [consumes 1, case_names empty panic early again]:
  assumes "execute_promise_queue eng rt um m q st = Some y"
    and empty: "\<And>q st. pq_queue q = [] \<Longrightarrow> P q st (st, Inr (Inr EmptyQueue))"
    and panic: "\<And>q st st' p. pq_queue q \<noteq> [] \<Longrightarrow>
      exec_queue eng rt um m (enumerate 0 (pq_queue q)) q promise_queue_new st = (st', Inl p) \<Longrightarrow> P q st (st', Inl p)"
    and early: "\<And>q st st' r. pq_queue q \<noteq> [] \<Longrightarrow>
      exec_queue eng rt um m (enumerate 0 (pq_queue q)) q promise_queue_new st = (st', Inr (Inl r)) \<Longrightarrow> P q st (st', Inr r)"
    and again: "\<And>q st st' current nxt y. pq_queue q \<noteq> [] \<Longrightarrow>
      exec_queue eng rt um m (enumerate 0 (pq_queue q)) q promise_queue_new st = (st', Inr (Inr (current, nxt))) \<Longrightarrow>
      P nxt (st'\<lparr>vs_trace := vs_trace st' @ [current]\<rparr>) y \<Longrightarrow> P q st y"
  shows "P q st y"
proof -
  have "eng' = eng \<longrightarrow> rt' = rt \<longrightarrow> um' = um \<longrightarrow> m' = m \<longrightarrow> P q st y"
    if "execute_promise_queue eng' rt' um' m' q st = Some y" for eng' rt' um' m' q st y
    using that
  proof (rule execute_promise_queue.raw_induct [where
        P = "\<lambda>eng' rt' um' m' q st y. eng' = eng \<longrightarrow> rt' = rt \<longrightarrow> um' = um \<longrightarrow> m' = m \<longrightarrow> P q st y", rotated], intro impI)
    fix f eng' rt' um' m' q st y
    assume IH: "\<And>e r u m1 q st y. f e r u m1 q st = Some y \<Longrightarrow>
        e = eng \<longrightarrow> r = rt \<longrightarrow> u = um \<longrightarrow> m1 = m \<longrightarrow> P q st y"
      and body: "(if pq_queue q = [] then Some (st, Inr (execution_result_of_status EmptyQueue))
        else case exec_queue eng' rt' um' m' (enumerate 0 (pq_queue q)) q promise_queue_new st of
            (st', Inl p) \<Rightarrow> Some (st', Inl p)
          | (st', Inr (Inl r)) \<Rightarrow> Some (st', Inr r)
          | (st', Inr (Inr (current, nxt))) \<Rightarrow>
              f eng' rt' um' m' nxt (st'\<lparr>vs_trace := vs_trace st' @ [current]\<rparr>)) = Some y"
      and eqs: "eng' = eng" "rt' = rt" "um' = um" "m' = m"
    show "P q st y"
      using body eqs empty [of q st] panic [of q st] early [of q st] again [of q st] IH [of eng rt um m]
      by (auto simp: execution_result_of_status_def split: if_splits prod.splits sum.splits)
  qed
  then show ?thesis using assms(1) by blast
qed

lemma execute_preserves:
  assumes "execute_promise_queue eng rt um m q st = Some y"
    and action: "\<And>a current s. P s \<Longrightarrow> P (fst (exec_action eng rt um m a current s))"
    and trace: "\<And>s t. P s \<Longrightarrow> P (s\<lparr>vs_trace := t\<rparr>)"
  shows "P st \<Longrightarrow> P (fst y)"
  using assms(1)
proof (induction q st y rule: execute_induct)
  case (panic q st st' p)
  then show ?case
    using exec_queue_preserves [of P eng rt um m st "enumerate 0 (pq_queue q)" q promise_queue_new, OF action] by simp
next
  case (early q st st' r)
  then show ?case
    using exec_queue_preserves [of P eng rt um m st "enumerate 0 (pq_queue q)" q promise_queue_new, OF action] by simp
next
  case (again q st st' current nxt y)
  then show ?case
    using exec_queue_preserves [of P eng rt um m st "enumerate 0 (pq_queue q)" q promise_queue_new, OF action] trace
    by simp
qed simp

lemma execute_trace:
  assumes "execute_promise_queue eng rt um m q st = Some y"
  shows "\<exists>new. vs_trace (fst y) = vs_trace st @ new \<and> list_all (queue_settled (rt_limited rt)) new"
  using assms
proof (induction q st y rule: execute_induct)
  case (panic q st st' p)
  then show ?case
    using exec_queue_trace [of eng rt um m "enumerate 0 (pq_queue q)" q promise_queue_new st] by simp
next
  case (early q st st' r)
  then show ?case
    using exec_queue_trace [of eng rt um m "enumerate 0 (pq_queue q)" q promise_queue_new st] by simp
next
  case (again q st st' current nxt y)
  then show ?case using execute_round [OF again(1,2)] by auto
qed simp

text \<open>C18: In the trace of a run that returns, every queue is non-empty and every promise of it has
  been handled: rejected with the fixed message when the runtime is limited and the action is not
  allowed, left waiting only when it is a broadcast, and fulfilled or rejected otherwise.\<close>

theorem run_settles_promises:
  assumes "execute_promise_queue eng rt um m q st = Some (st', r)"
  shows "\<exists>new. vs_trace st' = vs_trace st @ new \<and> list_all (queue_settled (rt_limited rt)) new"
  using execute_trace [OF assms] by simp

theorem run_settles_promises_witness:
  "\<exists>new. demo_trace (Fulfilled (Some [])) = new \<and> list_all (queue_settled False) new"
  using run_settles_promises [OF demo_run [of False]] by (simp add: demo_state_def)

text \<open>C19: A limited runtime is confined to HTTP: all that a run that returns has done to the world
  behind the host adapter is a sequence of HTTP requests, so it has not touched the database, the
  chains or the event queue, and it has sent nothing to the peers.\<close>

theorem limited_run_confined:
  assumes "rt_limited rt" and "execute_promise_queue eng rt um m q st = Some (st', r)"
  shows "\<exists>urls. vs_world st' = fold (\<lambda>url w. fst (ha_http_fetch (rt_host_adapter rt) url w)) urls (vs_world st) \<and>
    vs_p2p st' = vs_p2p st"
proof -
  let ?keeps = "only_fetched (rt_host_adapter rt) st"
  have "?keeps (fst (exec_action eng rt um m a current s))" if "?keeps s" for a current s
    using only_fetched_trans [OF that exec_action_limited [OF assms(1)]] .
  moreover have "?keeps (s\<lparr>vs_trace := t\<rparr>)" if "?keeps s" for s t
    using that by (simp add: only_fetched_def)
  ultimately have "?keeps (fst (st', r))"
    using execute_preserves [OF assms(2), of ?keeps] only_fetched_refl by blast
  then show ?thesis by (auto simp: only_fetched_def after_fetches_def)
qed

theorem limited_run_confined_witness:
  "vs_world (fst (the (execute_promise_queue demo_engine (demo_runtime True) (\<lambda>_. []) ()
     (entry_queue demo_vm_config) demo_state))) = 0"
proof -
  obtain st' r where run: "execute_promise_queue demo_engine (demo_runtime True) (\<lambda>_. []) ()
      (entry_queue demo_vm_config) demo_state = Some (st', r)"
    using demo_run by blast
  have "fold (\<lambda>url w. fst (ha_http_fetch demo_adapter url w)) urls w = w" for urls w
    by (induction urls arbitrary: w) (simp_all add: demo_adapter_def)
  with limited_run_confined [OF _ run] have "vs_world st' = vs_world demo_state" by auto
  moreover have "vs_world demo_state = 0" by (simp add: demo_state_def)
  ultimately show ?thesis using run by simp
qed


section \<open>Termination\<close>

text \<open>
  A rank that falls along guest calls: whatever queue a call of \<open>f\<close> builds, the functions it calls
  again have a smaller rank.
\<close>

definition rank_below :: "(string \<Rightarrow> nat) \<Rightarrow> nat \<Rightarrow> promise_queue \<Rightarrow> bool" where
  "rank_below rank n q \<longleftrightarrow>
     (\<forall>p \<in> set (pq_queue q). case p_action p of CallSelf c \<Rightarrow> rank (cs_function_name c) < n | _ \<Rightarrow> True)"

definition ranked_guest :: "('m, 'bsk, 'bpk, 'esk, 'epk) wasm_engine \<Rightarrow> 'm \<Rightarrow> (string \<Rightarrow> nat) \<Rightarrow> bool" where
  "ranked_guest eng m rank \<longleftrightarrow> (\<forall>f q. guest_queue eng m f q \<longrightarrow> rank_below rank (rank f) q)"

lemma rank_below_mono: "rank_below rank k q \<Longrightarrow> k \<le> n \<Longrightarrow> rank_below rank n q"
  by (fastforce simp: rank_below_def split: promise_action.splits)

lemma exec_queue_rank:
  assumes "ranked_guest eng m rank"
    and "exec_queue eng rt um m ps current nxt st = (st', Inr (Inr (current', nxt')))"
    and "\<forall>p \<in> snd ` set ps. case p_action p of CallSelf c \<Rightarrow> rank (cs_function_name c) < Suc n | _ \<Rightarrow> True"
    and "rank_below rank n nxt"
  shows "rank_below rank n nxt'"
  using assms(2-4)
proof (induction ps arbitrary: current nxt st)
  case (Cons x ps)
  obtain i p where x: "x = (i, p)" by (cases x)
  let ?pending = "current\<lparr>pq_queue := (pq_queue current)[i := (pq_queue current ! i)\<lparr>p_status := Pending\<rparr>]\<rparr>"
  obtain st1 status replaced current1 where step:
    "exec_action eng rt um m (p_action p) ?pending st = (st1, Inr (Inr (status, replaced)))"
    "exec_queue eng rt um m ps current1 (case replaced of None \<Rightarrow> nxt | Some q \<Rightarrow> q) st1 = (st', Inr (Inr (current', nxt')))"
    using Cons.prems(1) x by (auto simp: Let_def elim!: state_bind_cases)
  have "rank_below rank n (case replaced of None \<Rightarrow> nxt | Some q \<Rightarrow> q)"
  proof (cases replaced)
    case (Some q)
    then obtain c where c: "p_action p = CallSelf c" "guest_queue eng m (cs_function_name c) q"
      using exec_action_replaced [OF step(1)] by auto
    then have "rank_below rank (rank (cs_function_name c)) q" using assms(1) by (simp add: ranked_guest_def)
    moreover have "rank (cs_function_name c) \<le> n" using Cons.prems(2) x c(1) by simp
    ultimately show ?thesis using Some rank_below_mono by simp
  qed (use Cons.prems(3) in simp)
  then show ?case using Cons.IH [OF step(2)] Cons.prems(2) by simp
qed simp

lemma exec_queue_no_calls:
  assumes "exec_queue eng rt um m ps current nxt st = (st', Inr (Inr (current', nxt')))"
    and "\<forall>p \<in> snd ` set ps. case p_action p of CallSelf c \<Rightarrow> False | _ \<Rightarrow> True"
  shows "nxt' = nxt"
  using assms
proof (induction ps arbitrary: current nxt st)
  case (Cons x ps)
  obtain i p where x: "x = (i, p)" by (cases x)
  let ?pending = "current\<lparr>pq_queue := (pq_queue current)[i := (pq_queue current ! i)\<lparr>p_status := Pending\<rparr>]\<rparr>"
  obtain st1 status replaced current1 where step:
    "exec_action eng rt um m (p_action p) ?pending st = (st1, Inr (Inr (status, replaced)))"
    "exec_queue eng rt um m ps current1 (case replaced of None \<Rightarrow> nxt | Some q \<Rightarrow> q) st1 = (st', Inr (Inr (current', nxt')))"
    using Cons.prems(1) x by (auto simp: Let_def elim!: state_bind_cases)
  moreover have "replaced = None" using exec_action_replaced [OF step(1)] Cons.prems(2) x by auto
  ultimately show ?case using Cons.IH [OF step(2)] Cons.prems(2) by simp
qed simp

lemma execute_returns_below:
  assumes "ranked_guest eng m rank" "rank_below rank n q"
  shows "\<exists>y. execute_promise_queue eng rt um m q st = Some y"
  using assms(2)
proof (induction n arbitrary: q st)
  case 0
  then have no: "\<forall>p \<in> snd ` set (enumerate 0 (pq_queue q)). case p_action p of CallSelf c \<Rightarrow> False | _ \<Rightarrow> True"
    by (auto simp: rank_below_def in_set_enumerate_eq split: promise_action.splits)
  have "\<exists>y. execute_promise_queue eng rt um m promise_queue_new s = Some y" for s
    by (subst execute_promise_queue.simps) (simp add: promise_queue_new_def)
  moreover have "nxt = promise_queue_new"
    if "exec_queue eng rt um m (enumerate 0 (pq_queue q)) q promise_queue_new st = (st', Inr (Inr (current, nxt)))"
    for st' current nxt
    using exec_queue_no_calls [OF that no] .
  ultimately show ?case
    by (subst execute_promise_queue.simps) (fastforce split: prod.splits sum.splits)
next
  case (Suc n)
  then have below: "\<forall>p \<in> snd ` set (enumerate 0 (pq_queue q)).
      case p_action p of CallSelf c \<Rightarrow> rank (cs_function_name c) < Suc n | _ \<Rightarrow> True"
    by (auto simp: rank_below_def in_set_enumerate_eq split: promise_action.splits)
  have "rank_below rank n promise_queue_new" by (simp add: rank_below_def promise_queue_new_def)
  then have "rank_below rank n nxt"
    if "exec_queue eng rt um m (enumerate 0 (pq_queue q)) q promise_queue_new st = (st', Inr (Inr (current, nxt)))"
    for st' current nxt
    using exec_queue_rank [OF assms(1) that below] by simp
  then show ?case
    by (subst execute_promise_queue.simps) (auto split: prod.splits sum.splits intro: Suc.IH simp del: split_paired_Ex)
qed

text \<open>C20: A run returns when the guest's calls fall in rank: for every queue, whatever the host
  answers, the recursion over the queues comes to an end, with a result or with a panic.\<close>

theorem ranked_run_returns:
  assumes "ranked_guest eng m rank"
  shows "\<exists>st' r. execute_promise_queue eng rt um m q st = Some (st', r)"
proof -
  define n where "n = Suc (Max (insert 0 ((\<lambda>p. case p_action p of CallSelf c \<Rightarrow> rank (cs_function_name c) | _ \<Rightarrow> 0)
    ` set (pq_queue q))))"
  have "rank_below rank n q"
    by (auto simp: rank_below_def n_def less_Suc_eq_le split: promise_action.splits intro!: Max_ge)
      (force intro: rev_image_eqI)
  then show ?thesis using execute_returns_below [OF assms] by (metis surj_pair)
qed

theorem ranked_run_returns_witness:
  "\<exists>st' r. execute_promise_queue demo_engine (demo_runtime False) (\<lambda>_. []) () (entry_queue demo_vm_config) demo_state
     = Some (st', r)"
proof -
  have "ranked_guest demo_engine () (\<lambda>f. if f = ''_start'' then 1 else 0)"
    by (auto simp: ranked_guest_def guest_queue_def rank_below_def demo_engine_def promise_queue_new_def)
  then show ?thesis by (rule ranked_run_returns)
qed


section \<open>The result of a run\<close>

lemma exit_code_zero: "exit_code (exit_info_of_status s) = 0 \<longleftrightarrow> s = EmptyQueue \<or> (\<exists>msg. s = VmOk msg)"
  by (auto simp: exit_info_of_status_def exit_info_of_def split: vm_result_status.splits)

text \<open>An early end is never a success.\<close>

definition failure :: "execution_result \<Rightarrow> bool" where
  "failure r \<longleftrightarrow> exit_code (exit_info_of_result r) \<noteq> 0"

lemma exec_call_self_failure: "exec_call_self eng rt m a current st = (st', Inr (Inl r)) \<Longrightarrow> failure r"
  by (auto simp: exec_call_self_def failure_def exit_info_of_result_def exit_info_of_status_def exit_info_of_def
      execution_result_of_status_def read_stdout_def read_stderr_def Let_def
      split: sum.splits prod.splits stream.splits if_splits elim!: state_bind_cases)

lemma exec_action_failure: "exec_action eng rt um m a current st = (st', Inr (Inl r)) \<Longrightarrow> failure r"
  by (cases a) (auto simp: exec_action_def on_world_def Let_def exec_call_self_failure
      split: prod.splits sum.splits if_splits elim!: state_bind_cases)

lemma exec_queue_failure: "exec_queue eng rt um m ps current nxt st = (st', Inr (Inl r)) \<Longrightarrow> failure r"
proof (induction ps arbitrary: current nxt st)
  case (Cons x ps)
  then show ?case
    by (cases x) (auto simp: Let_def exec_action_failure elim!: state_bind_cases)
qed simp

lemma execute_result:
  assumes "execute_promise_queue eng rt um m q st = Some y"
  shows "\<forall>r. snd y = Inr r \<longrightarrow> r = Inr EmptyQueue \<or> failure r"
  using assms
  by (induction q st y rule: execute_induct) (auto dest: exec_queue_failure)

text \<open>A run that ends without a panic always yields a result: taking the last promise of the
  last queue cannot fail. Its exit code is 0 exactly when the queues ran empty.\<close>

theorem start_runtime_result:
  assumes "rt_wasm_module rt = Some m"
    and "start_runtime eng rt um config st = Some (st', outcome)"
  shows "(\<exists>p. outcome = Inl p \<and>
      execute_promise_queue eng rt um m (entry_queue config)
        (st\<lparr>vs_stdout := [], vs_stderr := [], vs_trace := []\<rparr>) = Some (st', Inl p)) \<or>
    (\<exists>res. outcome = Inr res \<and>
      (exit_code (vr_exit_info res) = 0 \<longleftrightarrow> vr_exit_info res = exit_info_of_status EmptyQueue) \<and>
      last_result (vs_trace st') = Inr (vr_result res))"
proof -
  obtain r where run: "execute_promise_queue eng rt um m (entry_queue config) (st\<lparr>vs_stdout := [], vs_stderr := [], vs_trace := []\<rparr>)
      = Some (st', r)"
    using assms by (auto simp: start_runtime_def Let_def split: option.splits sum.splits)
  show ?thesis
  proof (cases r)
    case (Inl p)
    then show ?thesis using run assms by (auto simp: start_runtime_def Let_def)
  next
    case (Inr x)
    have "list_all (queue_settled (rt_limited rt)) (vs_trace st')" using execute_trace [OF run] by auto
    then obtain res where res: "last_result (vs_trace st') = Inr res"
      by (cases "vs_trace st' = []") (auto simp: last_result_def queue_settled_def list_all_iff)
    have "x = Inr EmptyQueue \<or> failure x" using execute_result [OF run] Inr by simp
    then have "exit_code (exit_info_of_result x) = 0 \<longleftrightarrow> exit_info_of_result x = exit_info_of_status EmptyQueue"
      by (auto simp: failure_def exit_info_of_result_def exit_info_of_status_def exit_info_of_def)
    then show ?thesis using run assms Inr res by (auto simp: start_runtime_def Let_def)
  qed
qed

theorem start_runtime_result_witness:
  "\<exists>st' res. start_runtime demo_engine (demo_runtime False) (\<lambda>_. []) demo_vm_config demo_state = Some (st', Inr res) \<and>
     exit_code (vr_exit_info res) = 0 \<and> vr_result res = Some []"
proof -
  have init: "demo_state\<lparr>vs_stdout := [], vs_stderr := [], vs_trace := []\<rparr> = demo_state"
    by (simp add: demo_state_def)
  obtain st' outcome where run:
    "start_runtime demo_engine (demo_runtime False) (\<lambda>_. []) demo_vm_config demo_state = Some (st', outcome)"
    and trace: "vs_trace st' = demo_trace (Fulfilled (Some []))"
    by (simp add: start_runtime_def init demo_run)
  from start_runtime_result [OF demo_runtime_fields(3) run] show ?thesis
  proof
    assume "\<exists>p. outcome = Inl p \<and> execute_promise_queue demo_engine (demo_runtime False) (\<lambda>_. []) ()
      (entry_queue demo_vm_config) (demo_state\<lparr>vs_stdout := [], vs_stderr := [], vs_trace := []\<rparr>) = Some (st', Inl p)"
    then show ?thesis by (simp add: init demo_run)
  next
    assume "\<exists>res. outcome = Inr res \<and>
      (exit_code (vr_exit_info res) = 0 \<longleftrightarrow> vr_exit_info res = exit_info_of_status EmptyQueue) \<and>
      last_result (vs_trace st') = Inr (vr_result res)"
    then show ?thesis
      using run trace by (auto simp: start_runtime_def init demo_run exit_info_of_result_def last_result_def demo_trace_def)
  qed
qed

end
