(* ===== verification/Chains.thy ===== *)
theory Chains
  imports Sdk Config
begin

text \<open>
  The chain adapters (\<open>chains/src\<close>): the clients, the dispatch on the chain, and the NEAR adapter
  that signs transactions, sends them and waits for their outcome.

  The NEAR crates, the network and the clock are third-party code and hardware: the record
  \<open>near_lib\<close> holds what the adapter calls, over a world \<open>'w\<close> that a call or a sleep may change.
\<close>

section \<open>Errors and the NEAR crates\<close>

datatype chain_adapter_error =
    CallChangeMethod string
  | CallViewMethod
  | FailedTx string
  | BadTransactionTimestamp
  | FailedToExtractCurrentNonce
  | BadParams string
  | ParseAccountId string
  | JsonRpcQueryError string
  | ParseKey string
  | JsonRpcTxError string
  | MissingNearServerUrlConfig
  | StdIoError string
  | InvalidEd25519KeyPair

datatype near_action =
    FunctionCall (fc_method_name: string) (fc_args: bytes) (fc_gas: u64) (fc_deposit: u128)
  | Transfer (tr_deposit: u128)

datatype block_reference = LatestBlock | FinalBlock

datatype 'pk near_query =
    ViewAccessKey block_reference string 'pk
  | CallFunction block_reference string string bytes

datatype query_response_kind = AccessKey u64 | CallResult bytes | OtherKind

record 'bh query_response =
  qr_kind :: query_response_kind
  qr_block_hash :: 'bh

record 'pk near_signer =
  sg_account_id :: string
  sg_public_key :: 'pk
  sg_secret_key :: bytes

record ('pk, 'bh) near_transaction =
  tx_signer_id :: string
  tx_public_key :: 'pk
  tx_nonce :: u64
  tx_receiver_id :: string
  tx_block_hash :: 'bh
  tx_actions :: "near_action list"

datatype tx_error = UnknownTransaction | OtherTxError string

datatype final_execution_status = SuccessValue bytes | OtherStatus string

text \<open>
  \<open>nl_encode\<close> and \<open>nl_decode\<close> are the Borsh encoding of a signed transaction; \<open>nl_query\<close>,
  \<open>nl_broadcast\<close> and \<open>nl_tx_status\<close> are the three kinds of \<open>client.call\<close>; \<open>nl_now\<close> reads the clock in
  milliseconds. An error is its message.
\<close>

record ('cl, 'w, 'pk, 'bh, 'stx, 'hash) near_lib =
  nl_connect :: "string \<Rightarrow> 'cl"
  nl_parse_account :: "string \<Rightarrow> string + string"
  nl_hex_encode :: "bytes \<Rightarrow> string"
  nl_public_key :: "bytes \<Rightarrow> 'pk"
  nl_query :: "'cl \<Rightarrow> 'pk near_query \<Rightarrow> 'w \<Rightarrow> 'w \<times> (string + 'bh query_response)"
  nl_sign :: "('pk, 'bh) near_transaction \<Rightarrow> 'pk near_signer \<Rightarrow> 'stx"
  nl_encode :: "'stx \<Rightarrow> string + bytes"
  nl_decode :: "bytes \<Rightarrow> string + 'stx"
  nl_signer_id :: "'stx \<Rightarrow> string"
  nl_broadcast :: "'cl \<Rightarrow> 'stx \<Rightarrow> 'w \<Rightarrow> 'w \<times> (string + 'hash)"
  nl_tx_status :: "'cl \<Rightarrow> 'hash \<Rightarrow> string \<Rightarrow> 'w \<Rightarrow> 'w \<times> (tx_error + final_execution_status)"
  nl_now :: "'w \<Rightarrow> nat"
  nl_sleep :: "nat \<Rightarrow> 'w \<Rightarrow> 'w"

text \<open>
  What is documented of them: a transaction that was encoded is decoded, its signer is the one
  it was built with, the clock never runs backwards, and a sleep lasts at least as long as asked.
\<close>

definition borsh_ok :: "('cl, 'w, 'pk, 'bh, 'stx, 'hash) near_lib \<Rightarrow> bool" where
  "borsh_ok lib \<longleftrightarrow>
     (\<forall>stx bs. nl_encode lib stx = Inr bs \<longrightarrow> nl_decode lib bs = Inr stx) \<and>
     (\<forall>tx signer. nl_signer_id lib (nl_sign lib tx signer) = tx_signer_id tx)"

definition clock_ok :: "('cl, 'w, 'pk, 'bh, 'stx, 'hash) near_lib \<Rightarrow> bool" where
  "clock_ok lib \<longleftrightarrow>
     (\<forall>d w. nl_now lib w + d \<le> nl_now lib (nl_sleep lib d w)) \<and>
     (\<forall>cl h a w. nl_now lib w \<le> nl_now lib (fst (nl_tx_status lib cl h a w)))"


section \<open>The NEAR adapter\<close>

definition get_in_memory_signer ::
  "('cl, 'w, 'pk, 'bh, 'stx, 'hash) near_lib \<Rightarrow> string option \<Rightarrow> bytes \<Rightarrow> chain_adapter_error + 'pk near_signer" where
  "get_in_memory_signer lib signer_account_id signer_keypair =
     (if length signer_keypair \<noteq> 64 then Inl InvalidEd25519KeyPair
      else
        and_then (map_err ParseAccountId
            (nl_parse_account lib
              (case signer_account_id of
                 Some account_id \<Rightarrow> account_id
               | None \<Rightarrow> nl_hex_encode lib (drop 32 signer_keypair)))) (\<lambda>account.
        Inr \<lparr>sg_account_id = account, sg_public_key = nl_public_key lib signer_keypair,
             sg_secret_key = signer_keypair\<rparr>))"

definition near_construct_tx ::
  "('cl, 'w, 'pk, 'bh, 'stx, 'hash) near_lib \<Rightarrow> bool \<Rightarrow> string option \<Rightarrow> bytes \<Rightarrow> string \<Rightarrow> string
    \<Rightarrow> near_action list \<Rightarrow> 'w \<Rightarrow> 'w \<times> (chain_adapter_error + bytes) res" where
  "near_construct_tx lib checks signer_account_id signer_keypair receiver_id rpc_url actions w =
     (let client = nl_connect lib rpc_url in
      state_bind (w, Inr (get_in_memory_signer lib signer_account_id signer_keypair)) (\<lambda>w signer.
      case nl_query lib client (ViewAccessKey LatestBlock (sg_account_id signer) (sg_public_key signer)) w of
        (w, Inl e) \<Rightarrow> (w, Inr (Inl (JsonRpcQueryError e)))
      | (w, Inr response) \<Rightarrow>
          (w, bind_err (Inr (case qr_kind response of
                               AccessKey nonce \<Rightarrow> Inr nonce
                             | _ \<Rightarrow> Inl FailedToExtractCurrentNonce)) (\<lambda>current_nonce.
              bind_err (and_then (arith_add checks current_nonce 1) (Inr \<circ> Inr)) (\<lambda>nonce.
              bind_err (Inr (map_err ParseAccountId (nl_parse_account lib receiver_id))) (\<lambda>receiver.
              let transaction =
                    \<lparr>tx_signer_id = sg_account_id signer, tx_public_key = sg_public_key signer,
                     tx_nonce = nonce, tx_receiver_id = receiver,
                     tx_block_hash = qr_block_hash response, tx_actions = actions\<rparr> in
              Inr (map_err StdIoError (nl_encode lib (nl_sign lib transaction signer)))))))))"

text \<open>\<open>construct_signed_tx\<close> repeats \<open>construct_tx\<close> with one action in place of the argument.\<close>

definition near_construct_signed_tx ::
  "('cl, 'w, 'pk, 'bh, 'stx, 'hash) near_lib \<Rightarrow> bool \<Rightarrow> string option \<Rightarrow> bytes \<Rightarrow> string \<Rightarrow> string \<Rightarrow> bytes
    \<Rightarrow> u64 \<Rightarrow> u128 \<Rightarrow> string \<Rightarrow> 'w \<Rightarrow> 'w \<times> (chain_adapter_error + bytes) res" where
  "near_construct_signed_tx lib checks signer_account_id signer_keypair contract_id method_name args gas
     deposit_amount server_url w =
     (let client = nl_connect lib server_url in
      state_bind (w, Inr (get_in_memory_signer lib signer_account_id signer_keypair)) (\<lambda>w signer.
      case nl_query lib client (ViewAccessKey LatestBlock (sg_account_id signer) (sg_public_key signer)) w of
        (w, Inl e) \<Rightarrow> (w, Inr (Inl (JsonRpcQueryError e)))
      | (w, Inr response) \<Rightarrow>
          (w, bind_err (Inr (case qr_kind response of
                               AccessKey nonce \<Rightarrow> Inr nonce
                             | _ \<Rightarrow> Inl FailedToExtractCurrentNonce)) (\<lambda>current_nonce.
              bind_err (and_then (arith_add checks current_nonce 1) (Inr \<circ> Inr)) (\<lambda>nonce.
              bind_err (Inr (map_err ParseAccountId (nl_parse_account lib contract_id))) (\<lambda>receiver.
              let transaction =
                    \<lparr>tx_signer_id = sg_account_id signer, tx_public_key = sg_public_key signer,
                     tx_nonce = nonce, tx_receiver_id = receiver, tx_block_hash = qr_block_hash response,
                     tx_actions = [FunctionCall method_name args gas deposit_amount]\<rparr> in
              Inr (map_err StdIoError (nl_encode lib (nl_sign lib transaction signer)))))))))"

definition near_construct_transfer_tx ::
  "('cl, 'w, 'pk, 'bh, 'stx, 'hash) near_lib \<Rightarrow> bool \<Rightarrow> string option \<Rightarrow> bytes \<Rightarrow> string \<Rightarrow> u128 \<Rightarrow> string
    \<Rightarrow> 'w \<Rightarrow> 'w \<times> (chain_adapter_error + bytes) res" where
  "near_construct_transfer_tx lib checks signer_account_id signer_keypair receiver_id deposit_amount server_url w =
     near_construct_tx lib checks signer_account_id signer_keypair receiver_id server_url
       [Transfer deposit_amount] w"

text \<open>The loop of \<open>send_tx\<close>; \<open>None\<close> is waiting forever.\<close>

partial_function (option) near_poll_tx ::
  "('cl, 'w, 'pk, 'bh, 'stx, 'hash) near_lib \<Rightarrow> 'cl \<Rightarrow> 'hash \<Rightarrow> string \<Rightarrow> nat \<Rightarrow> 'w
    \<Rightarrow> ('w \<times> (chain_adapter_error + bytes)) option" where
  "near_poll_tx lib client tx_hash signer_id sent_at w =
     (case nl_tx_status lib client tx_hash signer_id w of (w1, response) \<Rightarrow>
        if 60 < (nl_now lib w1 - sent_at) div 1000 then Some (w1, Inl BadTransactionTimestamp)
        else case response of
          Inl UnknownTransaction \<Rightarrow> near_poll_tx lib client tx_hash signer_id sent_at (nl_sleep lib 2000 w1)
        | Inl (OtherTxError e) \<Rightarrow> Some (w1, Inl (CallChangeMethod e))
        | Inr (SuccessValue v) \<Rightarrow> Some (w1, Inr v)
        | Inr (OtherStatus s) \<Rightarrow> Some (w1, Inl (FailedTx s)))"

definition near_send_tx ::
  "('cl, 'w, 'pk, 'bh, 'stx, 'hash) near_lib \<Rightarrow> 'cl \<Rightarrow> bytes \<Rightarrow> 'w
    \<Rightarrow> ('w \<times> (chain_adapter_error + bytes)) option" where
  "near_send_tx lib client signed_tx w =
     (case nl_decode lib signed_tx of
        Inl e \<Rightarrow> Some (w, Inl (StdIoError e))
      | Inr stx \<Rightarrow>
          let sent_at = nl_now lib w in
          (case nl_broadcast lib client stx w of
             (w1, Inl e) \<Rightarrow> Some (w1, Inl (JsonRpcTxError e))
           | (w1, Inr tx_hash) \<Rightarrow> near_poll_tx lib client tx_hash (nl_signer_id lib stx) sent_at w1))"

definition near_view ::
  "('cl, 'w, 'pk, 'bh, 'stx, 'hash) near_lib \<Rightarrow> 'cl \<Rightarrow> string \<Rightarrow> string \<Rightarrow> bytes \<Rightarrow> 'w
    \<Rightarrow> 'w \<times> (chain_adapter_error + bytes) res" where
  "near_view lib client contract_id method_name args w =
     state_bind (w, Inr (map_err ParseAccountId (nl_parse_account lib contract_id))) (\<lambda>w account_id.
     case nl_query lib client (CallFunction FinalBlock account_id method_name args) w of
       (w, Inl e) \<Rightarrow> (w, Inr (Inl (JsonRpcQueryError e)))
     | (w, Inr response) \<Rightarrow>
         (w, Inr (case qr_kind response of CallResult r \<Rightarrow> Inr r | _ \<Rightarrow> Inl CallViewMethod)))"


section \<open>The other adapter, the clients and the dispatch\<close>

abbreviation unimplemented :: panic where
  "unimplemented \<equiv> Panic ''not implemented''"

abbreviation unreachable :: panic where
  "unreachable \<equiv> Panic ''internal error: entered unreachable code''"

definition another_construct_signed_tx ::
  "string option \<Rightarrow> bytes \<Rightarrow> string \<Rightarrow> string \<Rightarrow> bytes \<Rightarrow> u64 \<Rightarrow> u128 \<Rightarrow> string \<Rightarrow> 'w
    \<Rightarrow> 'w \<times> (chain_adapter_error + bytes) res" where
  "another_construct_signed_tx signer_account_id signer_keypair contract_id method_name args gas
     deposit_amount server_url w = (w, Inl unimplemented)"

definition another_construct_transfer_tx ::
  "string option \<Rightarrow> bytes \<Rightarrow> string \<Rightarrow> u128 \<Rightarrow> string \<Rightarrow> 'w \<Rightarrow> 'w \<times> (chain_adapter_error + bytes) res" where
  "another_construct_transfer_tx signer_account_id signer_keypair receiver_id deposit_amount server_url w =
     (w, Inl unimplemented)"

definition another_send_tx :: "unit \<Rightarrow> bytes \<Rightarrow> 'w \<Rightarrow> 'w \<times> (chain_adapter_error + bytes) res" where
  "another_send_tx client signed_tx w = (w, Inl unimplemented)"

definition another_view ::
  "unit \<Rightarrow> string \<Rightarrow> string \<Rightarrow> bytes \<Rightarrow> 'w \<Rightarrow> 'w \<times> (chain_adapter_error + bytes) res" where
  "another_view client contract_id method_name args w = (w, Inl unimplemented)"

datatype 'cl client = ClientAnother unit | ClientNear 'cl

definition another_new_client :: "string \<Rightarrow> chain_adapter_error + unit" where
  "another_new_client chain_rpc_url = Inr ()"

definition near_new_client ::
  "('cl, 'w, 'pk, 'bh, 'stx, 'hash) near_lib \<Rightarrow> string \<Rightarrow> chain_adapter_error + 'cl" where
  "near_new_client lib chain_rpc_url = Inr (nl_connect lib chain_rpc_url)"

definition client_new ::
  "('cl, 'w, 'pk, 'bh, 'stx, 'hash) near_lib \<Rightarrow> chain_kind \<Rightarrow> chain_configs \<Rightarrow> chain_adapter_error + 'cl client" where
  "client_new lib chain chains_config =
     (case chain of
        Another \<Rightarrow> and_then (another_new_client (ch_another_rpc_url chains_config)) (\<lambda>c. Inr (ClientAnother c))
      | Near \<Rightarrow> and_then (near_new_client lib (ch_near_rpc_url chains_config)) (\<lambda>c. Inr (ClientNear c)))"

definition client_another :: "'cl client \<Rightarrow> unit res" where
  "client_another c = (case c of ClientAnother v \<Rightarrow> Inr v | _ \<Rightarrow> Inl unreachable)"

definition client_near :: "'cl client \<Rightarrow> 'cl res" where
  "client_near c = (case c of ClientNear v \<Rightarrow> Inr v | _ \<Rightarrow> Inl unreachable)"

definition chain_construct_signed_tx ::
  "('cl, 'w, 'pk, 'bh, 'stx, 'hash) near_lib \<Rightarrow> bool \<Rightarrow> chain_kind \<Rightarrow> string option \<Rightarrow> bytes \<Rightarrow> string \<Rightarrow> string
    \<Rightarrow> bytes \<Rightarrow> u64 \<Rightarrow> u128 \<Rightarrow> string \<Rightarrow> 'w \<Rightarrow> 'w \<times> (chain_adapter_error + bytes) res" where
  "chain_construct_signed_tx lib checks chain signer_account_id signer_keypair contract_id method_name args gas
     deposit_amount server_url w =
     (case chain of
        Another \<Rightarrow> another_construct_signed_tx signer_account_id signer_keypair contract_id method_name args gas
                     deposit_amount server_url w
      | Near \<Rightarrow> near_construct_signed_tx lib checks signer_account_id signer_keypair contract_id method_name args
                  gas deposit_amount server_url w)"

definition chain_construct_transfer_tx ::
  "('cl, 'w, 'pk, 'bh, 'stx, 'hash) near_lib \<Rightarrow> bool \<Rightarrow> chain_kind \<Rightarrow> string option \<Rightarrow> bytes \<Rightarrow> string \<Rightarrow> u128
    \<Rightarrow> string \<Rightarrow> 'w \<Rightarrow> 'w \<times> (chain_adapter_error + bytes) res" where
  "chain_construct_transfer_tx lib checks chain signer_account_id signer_keypair receiver_id amount server_url w =
     (case chain of
        Another \<Rightarrow> another_construct_transfer_tx signer_account_id signer_keypair receiver_id amount server_url w
      | Near \<Rightarrow> near_construct_transfer_tx lib checks signer_account_id signer_keypair receiver_id amount
                  server_url w)"

definition chain_send_tx ::
  "('cl, 'w, 'pk, 'bh, 'stx, 'hash) near_lib \<Rightarrow> chain_kind \<Rightarrow> 'cl client \<Rightarrow> bytes \<Rightarrow> 'w
    \<Rightarrow> ('w \<times> (chain_adapter_error + bytes) res) option" where
  "chain_send_tx lib chain client signed_tx w =
     (case chain of
        Another \<Rightarrow>
          (case client_another client of
             Inl p \<Rightarrow> Some (w, Inl p)
           | Inr c \<Rightarrow> Some (another_send_tx c signed_tx w))
      | Near \<Rightarrow>
          (case client_near client of
             Inl p \<Rightarrow> Some (w, Inl p)
           | Inr c \<Rightarrow> map_option (\<lambda>(w', r). (w', Inr r)) (near_send_tx lib c signed_tx w)))"

definition chain_view_call ::
  "('cl, 'w, 'pk, 'bh, 'stx, 'hash) near_lib \<Rightarrow> chain_kind \<Rightarrow> 'cl client \<Rightarrow> string \<Rightarrow> string \<Rightarrow> bytes \<Rightarrow> 'w
    \<Rightarrow> 'w \<times> (chain_adapter_error + bytes) res" where
  "chain_view_call lib chain client contract_id method_name args w =
     (case chain of
        Another \<Rightarrow>
          (case client_another client of Inl p \<Rightarrow> (w, Inl p) | Inr c \<Rightarrow> another_view c contract_id method_name args w)
      | Near \<Rightarrow>
          (case client_near client of Inl p \<Rightarrow> (w, Inl p) | Inr c \<Rightarrow> near_view lib c contract_id method_name args w))"


section \<open>Waiting for a transaction\<close>

text \<open>
  A transaction is confirmed when a status query reports its value less than 61 seconds after it was
  sent; \<open>w'\<close> is the state of the network after that query.
\<close>

definition confirmed ::
  "('cl, 'w, 'pk, 'bh, 'stx, 'hash) near_lib \<Rightarrow> 'cl \<Rightarrow> 'hash \<Rightarrow> string \<Rightarrow> nat \<Rightarrow> bytes \<Rightarrow> 'w \<Rightarrow> bool" where
  "confirmed lib client tx_hash signer_id sent_at v w' \<longleftrightarrow>
     (\<exists>w. nl_tx_status lib client tx_hash signer_id w = (w', Inr (SuccessValue v))) \<and>
     nl_now lib w' < sent_at + 61000"

lemma poll_delta: "60 < (n - s) div (1000 :: nat) \<longleftrightarrow> s + 61000 \<le> n"
  by (auto simp: less_eq_div_iff_mult_less_eq Suc_le_eq [symmetric])

lemma near_poll_tx_returns:
  assumes "clock_ok lib"
  shows "\<exists>w' r. near_poll_tx lib client tx_hash signer_id sent_at w = Some (w', r) \<and>
    (\<forall>v. r = Inr v \<longrightarrow> confirmed lib client tx_hash signer_id sent_at v w')"
proof (induction "sent_at + 61000 - nl_now lib w" arbitrary: w rule: less_induct)
  case less
  obtain w1 response where st: "nl_tx_status lib client tx_hash signer_id w = (w1, response)" by fastforce
  have now: "nl_now lib w \<le> nl_now lib w1" using assms st unfolding clock_ok_def by (metis fst_conv)
  show ?case
  proof (cases "sent_at + 61000 \<le> nl_now lib w1")
    case True
    then show ?thesis using st by (subst near_poll_tx.simps) (simp add: poll_delta)
  next
    case False
    have "nl_now lib w1 + 2000 \<le> nl_now lib (nl_sleep lib 2000 w1)" using assms by (simp add: clock_ok_def)
    with False now have "sent_at + 61000 - nl_now lib (nl_sleep lib 2000 w1) < sent_at + 61000 - nl_now lib w"
      by linarith
    moreover have "response = Inr (SuccessValue v) \<Longrightarrow> confirmed lib client tx_hash signer_id sent_at v w1" for v
      using False st unfolding confirmed_def by (metis not_le)
    ultimately show ?thesis
      using less [of "nl_sleep lib 2000 w1"] False st
      by (subst near_poll_tx.simps)
        (auto simp: poll_delta split: sum.split tx_error.split final_execution_status.split)
  qed
qed

lemma near_send_tx_returns:
  assumes "clock_ok lib" "nl_decode lib bs = Inr stx"
  shows "\<exists>w' r. near_send_tx lib client bs w = Some (w', r) \<and>
    (\<forall>v. r = Inr v \<longrightarrow> (\<exists>w1 tx_hash. nl_broadcast lib client stx w = (w1, Inr tx_hash) \<and>
       confirmed lib client tx_hash (nl_signer_id lib stx) (nl_now lib w) v w'))"
proof (cases "nl_broadcast lib client stx w")
  case (Pair w1 b)
  with assms near_poll_tx_returns [OF assms(1), of client _ "nl_signer_id lib stx" "nl_now lib w" w1]
  show ?thesis by (cases b) (fastforce simp: near_send_tx_def Let_def)+
qed


section \<open>Building a transaction\<close>

lemma construct_signed_tx_construct_tx:
  "near_construct_signed_tx lib checks signer_account_id kp contract_id method_name args gas dep url w
   = near_construct_tx lib checks signer_account_id kp contract_id url [FunctionCall method_name args gas dep] w"
  by (simp add: near_construct_signed_tx_def near_construct_tx_def)

lemma near_construct_tx_Ok:
  assumes "near_construct_tx lib checks account kp receiver url actions w = (w', Inr (Inr bs))"
  shows "\<exists>signer response nonce tx.
    get_in_memory_signer lib account kp = Inr signer \<and>
    nl_query lib (nl_connect lib url) (ViewAccessKey LatestBlock (sg_account_id signer) (sg_public_key signer)) w
      = (w', Inr response) \<and> qr_kind response = AccessKey nonce \<and>
    tx_nonce tx = nonce + 1 \<and> tx_signer_id tx = sg_account_id signer \<and> tx_public_key tx = sg_public_key signer \<and>
    nl_parse_account lib receiver = Inr (tx_receiver_id tx) \<and> tx_block_hash tx = qr_block_hash response \<and>
    tx_actions tx = actions \<and> nl_encode lib (nl_sign lib tx signer) = Inr bs"
  using assms unfolding near_construct_tx_def Let_def
proof (cases rule: state_bind_cases)
  case (ok w0 signer)
  from ok(2) obtain response where q: "nl_query lib (nl_connect lib url)
      (ViewAccessKey LatestBlock (sg_account_id signer) (sg_public_key signer)) w0 = (w', Inr response)"
    by (auto split: prod.splits sum.splits)
  from ok(2) q obtain nonce where n: "qr_kind response = AccessKey nonce"
    by (auto split: query_response_kind.splits)
  from ok q n obtain nonce' r where a: "arith_add checks nonce 1 = Inr nonce'"
    and r: "nl_parse_account lib receiver = Inr r" by (auto simp: res_simps)
  have "nonce' = nonce + 1" using a by (auto simp: arith_add_def split: if_splits)
  with ok q n a r show ?thesis
    by (intro exI [of _ signer] exI [of _ response] exI [of _ nonce]
        exI [of _ "\<lparr>tx_signer_id = sg_account_id signer, tx_public_key = sg_public_key signer, tx_nonce = nonce',
           tx_receiver_id = r, tx_block_hash = qr_block_hash response, tx_actions = actions\<rparr>"])
      (auto simp: res_simps)
qed simp_all

lemma near_send_tx_total: "clock_ok lib \<Longrightarrow> \<exists>r. near_send_tx lib client bs w = Some r"
  using near_send_tx_returns [of lib bs _ client w]
  by (cases "nl_decode lib bs") (auto simp: near_send_tx_def)

text \<open>
  The instance the witnesses use: the world is the clock, a signed transaction is its signer's
  name, the access key's nonce is 4, and a transaction is known three seconds after the start.
\<close>

definition demo_near :: "(string, nat, bytes, unit, string, unit) near_lib" where
  "demo_near =
     \<lparr>nl_connect = (\<lambda>url. url), nl_parse_account = Inr, nl_hex_encode = demo_hex, nl_public_key = drop 32,
      nl_query = (\<lambda>_ q now. (now + 10, Inr \<lparr>qr_kind =
        (case q of ViewAccessKey _ _ _ \<Rightarrow> AccessKey 4 | CallFunction _ _ _ args \<Rightarrow> CallResult args),
        qr_block_hash = ()\<rparr>)),
      nl_sign = (\<lambda>tx _. tx_signer_id tx), nl_encode = (\<lambda>s. Inr (as_bytes s)), nl_decode = (\<lambda>bs. Inr (chars_of bs)),
      nl_signer_id = (\<lambda>s. s), nl_broadcast = (\<lambda>_ _ now. (now + 10, Inr ())),
      nl_tx_status = (\<lambda>_ _ _ now. (now + 10, if now < 3000 then Inl UnknownTransaction else Inr (SuccessValue [7]))),
      nl_now = (\<lambda>now. now), nl_sleep = (\<lambda>d now. now + d)\<rparr>"

lemma demo_near_ok: "borsh_ok demo_near" "clock_ok demo_near"
  by (auto simp: borsh_ok_def clock_ok_def demo_near_def)

lemma demo_near_simps:
  "nl_now demo_near now = now" "nl_sleep demo_near d now = now + d" "nl_decode demo_near bs = Inr (chars_of bs)"
  "nl_signer_id demo_near a = a" "nl_broadcast demo_near c a now = (now + 10, Inr ())"
  "nl_tx_status demo_near c h a now =
     (now + 10, if now < 3000 then Inl UnknownTransaction else Inr (SuccessValue [7]))"
  by (simp_all add: demo_near_def)

lemma demo_poll:
  "near_poll_tx demo_near c h a 0 now =
     (if 61000 \<le> now + 10 then Some (now + 10, Inl BadTransactionTimestamp)
      else if now < 3000 then near_poll_tx demo_near c h a 0 (now + 2010) else Some (now + 10, Inr [7]))"
  by (subst near_poll_tx.simps) (use poll_delta [of "now + 10" 0] in \<open>simp add: demo_near_simps add.commute\<close>)

lemma demo_send: "near_send_tx demo_near c (as_bytes ''bob'') 0 = Some (4040, Inr [7])"
proof -
  have "near_send_tx demo_near c (as_bytes ''bob'') 0 = near_poll_tx demo_near c () ''bob'' 0 10"
    by (simp add: near_send_tx_def demo_near_simps Let_def)
  also have "\<dots> = near_poll_tx demo_near c () ''bob'' 0 2020" by (subst demo_poll) simp
  also have "\<dots> = near_poll_tx demo_near c () ''bob'' 0 4030" by (subst demo_poll) simp
  also have "\<dots> = Some (4040, Inr [7])" by (subst demo_poll) simp
  finally show ?thesis .
qed

text \<open>
  C30: A method call that was signed and is sent settles: the bytes hold the transaction signed for
  the key's account with the next nonce, the contract and exactly the given method, arguments, gas
  and deposit; sending them always returns, and it returns a value only if that transaction was
  broadcast and the last status query, less than 61 seconds later, reported the value.
\<close>

theorem signed_call_settles:
  assumes "borsh_ok lib" "clock_ok lib"
    and "near_construct_signed_tx lib checks account kp contract_id method args gas dep url w = (w', Inr (Inr bs))"
  shows "\<exists>signer response nonce tx.
    get_in_memory_signer lib account kp = Inr signer \<and>
    nl_query lib (nl_connect lib url) (ViewAccessKey LatestBlock (sg_account_id signer) (sg_public_key signer)) w
      = (w', Inr response) \<and> qr_kind response = AccessKey nonce \<and>
    tx_nonce tx = nonce + 1 \<and> tx_signer_id tx = sg_account_id signer \<and>
    nl_parse_account lib contract_id = Inr (tx_receiver_id tx) \<and>
    tx_actions tx = [FunctionCall method args gas dep] \<and> nl_decode lib bs = Inr (nl_sign lib tx signer) \<and>
    (\<forall>client v. \<exists>v' r. near_send_tx lib client bs v = Some (v', r) \<and>
       (\<forall>res. r = Inr res \<longrightarrow> (\<exists>v1 tx_hash. nl_broadcast lib client (nl_sign lib tx signer) v = (v1, Inr tx_hash) \<and>
          confirmed lib client tx_hash (sg_account_id signer) (nl_now lib v) res v')))"
proof -
  from near_construct_tx_Ok [OF assms(3) [unfolded construct_signed_tx_construct_tx]]
  obtain signer response nonce tx where tx:
    "get_in_memory_signer lib account kp = Inr signer"
    "nl_query lib (nl_connect lib url) (ViewAccessKey LatestBlock (sg_account_id signer) (sg_public_key signer)) w
      = (w', Inr response)" "qr_kind response = AccessKey nonce"
    "tx_nonce tx = nonce + 1" "tx_signer_id tx = sg_account_id signer"
    "nl_parse_account lib contract_id = Inr (tx_receiver_id tx)"
    "tx_actions tx = [FunctionCall method args gas dep]" "nl_encode lib (nl_sign lib tx signer) = Inr bs" by blast
  have dec: "nl_decode lib bs = Inr (nl_sign lib tx signer)"
    and sg: "nl_signer_id lib (nl_sign lib tx signer) = sg_account_id signer"
    using assms(1) tx(5,8) by (simp_all add: borsh_ok_def)
  show ?thesis
    using tx dec near_send_tx_returns [OF assms(2) dec, unfolded sg] by blast
qed

theorem signed_call_settles_witness:
  "near_send_tx demo_near ''url'' (as_bytes ''bob'') 0 = Some (4040, Inr [7]) \<and>
    confirmed demo_near ''url'' () ''bob'' 0 [7] 4040"
proof -
  have "near_construct_signed_tx demo_near True (Some ''bob'') (replicate 64 0) ''alice'' ''m'' [1] 5 6 ''url'' 0
      = (10, Inr (Inr (as_bytes ''bob'')))"
    by (simp add: near_construct_signed_tx_def get_in_memory_signer_def demo_near_def Let_def arith_add_def
        unat_word_ariths)
  from signed_call_settles [OF demo_near_ok this] obtain signer tx where
    "get_in_memory_signer demo_near (Some ''bob'') (replicate 64 0) = Inr signer"
    and all: "\<forall>client v. \<exists>v' r. near_send_tx demo_near client (as_bytes ''bob'') v = Some (v', r) \<and>
       (\<forall>res. r = Inr res \<longrightarrow> (\<exists>v1 h. nl_broadcast demo_near client (nl_sign demo_near tx signer) v = (v1, Inr h) \<and>
          confirmed demo_near client h (sg_account_id signer) (nl_now demo_near v) res v'))" by blast
  then have "sg_account_id signer = ''bob''"
    by (auto simp: get_in_memory_signer_def demo_near_def)
  then show ?thesis
    using all [rule_format, of "''url''" 0] demo_send by (auto simp: demo_near_simps)
qed

end
