(* ===== verification/Fifo.thy ===== *)
theory Fifo
  imports Rust_Std
begin

text \<open>
  The abstract specification of a queue that the node's channels and mailboxes implement, and
  what it means for a labelled transition system to implement it. The locale is interpreted in
  \<open>Event_Loop\<close>, on the event queue of the application and on the channel of peer-to-peer messages.
\<close>

section \<open>The specification\<close>

datatype 'a fifo_op = Enq 'a | Deq 'a

text \<open>What is taken out is what was put in first; taking anything else is not a behaviour of the queue.\<close>

fun fifo_run :: "'a list \<Rightarrow> 'a fifo_op list \<Rightarrow> 'a list option" where
  "fifo_run q [] = Some q"
| "fifo_run q (Enq x # ops) = fifo_run (q @ [x]) ops"
| "fifo_run (y # q) (Deq x # ops) = (if x = y then fifo_run q ops else None)"
| "fifo_run [] (Deq x # ops) = None"

fun enqueued :: "'a fifo_op list \<Rightarrow> 'a list" where
  "enqueued [] = []"
| "enqueued (Enq x # ops) = x # enqueued ops"
| "enqueued (Deq x # ops) = enqueued ops"

fun dequeued :: "'a fifo_op list \<Rightarrow> 'a list" where
  "dequeued [] = []"
| "dequeued (Enq x # ops) = dequeued ops"
| "dequeued (Deq x # ops) = x # dequeued ops"

lemma fifo_run_append:
  "fifo_run q (ops @ ops') = (case fifo_run q ops of None \<Rightarrow> None | Some q' \<Rightarrow> fifo_run q' ops')"
  by (induction q ops rule: fifo_run.induct) auto

text \<open>Nothing is lost, invented or reordered.\<close>

lemma fifo_run_conserves: "fifo_run q ops = Some q' \<Longrightarrow> q @ enqueued ops = dequeued ops @ q'"
  by (induction q ops rule: fifo_run.induct) (auto split: if_splits)


section \<open>Runs of a system and its refinement of the queue\<close>

text \<open>A run collects the labels of its steps; one step may have several.\<close>

inductive labelled_run :: "('s \<Rightarrow> 'l list \<Rightarrow> 's \<Rightarrow> bool) \<Rightarrow> 's \<Rightarrow> 'l list \<Rightarrow> 's \<Rightarrow> bool" for step where
  run_nil: "labelled_run step s [] s"
| run_snoc: "labelled_run step s ls s' \<Longrightarrow> step s' ks s'' \<Longrightarrow> labelled_run step s (ls @ ks) s''"

inductive_cases labelled_run_cases: "labelled_run step s ls s'"

locale fifo_refinement =
  fixes step :: "'s \<Rightarrow> 'l list \<Rightarrow> 's \<Rightarrow> bool"
    and ops :: "'l \<Rightarrow> 'a fifo_op list"
    and contents :: "'s \<Rightarrow> 'a list"
    and inv :: "'s \<Rightarrow> bool"
  assumes step_inv: "inv s \<Longrightarrow> step s ls s' \<Longrightarrow> inv s'"
    and step_fifo: "inv s \<Longrightarrow> step s ls s' \<Longrightarrow> fifo_run (contents s) (concat (map ops ls)) = Some (contents s')"
begin

lemma run_inv: "labelled_run step s ls s' \<Longrightarrow> inv s \<Longrightarrow> inv s'"
  by (induction rule: labelled_run.induct) (auto intro: step_inv)

lemma run_fifo:
  "labelled_run step s ls s' \<Longrightarrow> inv s \<Longrightarrow> fifo_run (contents s) (concat (map ops ls)) = Some (contents s')"
proof (induction rule: labelled_run.induct)
  case (run_snoc s ls s' ks s'')
  then show ?case using run_inv step_fifo by (simp add: fifo_run_append)
qed simp

lemma run_conserves:
  "labelled_run step s ls s' \<Longrightarrow> inv s \<Longrightarrow>
   contents s @ enqueued (concat (map ops ls)) = dequeued (concat (map ops ls)) @ contents s'"
  using run_fifo fifo_run_conserves by blast

end

end
