(* ===== verification/Event_Loop.thy ===== *)
theory Event_Loop
  imports Sdk Fifo
begin

text \<open>
  The node's event loop (\<open>node/src\<close>): the event queue, the application actor with its job manager,
  the ticker of the host actor and the listener for peer-to-peer messages.

  An actor handles one message of its mailbox at a time. A handler is a function from the actor's
  state to its new state and a list of effects, in the order in which the code sends them; the
  step relation of the system picks any actor that has a message, any timer and any outside event.
\<close>

section \<open>The event queue\<close>

record event_queue =
  eq_items :: "event list"

definition event_queue_default :: event_queue where
  "event_queue_default = \<lparr>eq_items = []\<rparr>"

definition event_queue_add :: "event \<Rightarrow> event_queue \<Rightarrow> event_queue" where
  "event_queue_add e q = q\<lparr>eq_items := eq_items q @ [e]\<rparr>"

text \<open>\<open>Vec::remove\<close>, and the loop of \<open>get_next\<close> over the indices still to visit.\<close>

definition vec_remove :: "nat \<Rightarrow> 'a list \<Rightarrow> 'a list" where
  "vec_remove i xs = take i xs @ drop (Suc i) xs"

primrec get_next_from :: "string list \<Rightarrow> nat list \<Rightarrow> event_queue \<Rightarrow> event_queue \<times> event option" where
  "get_next_from skip_ids [] q = (q, None)"
| "get_next_from skip_ids (i # is) q =
     (if event_id (eq_items q ! i) \<in> set skip_ids then get_next_from skip_ids is q
      else (q\<lparr>eq_items := vec_remove i (eq_items q)\<rparr>, Some (eq_items q ! i)))"

definition get_next :: "string list \<Rightarrow> event_queue \<Rightarrow> event_queue \<times> event option" where
  "get_next skip_ids q = get_next_from skip_ids [0..<length (eq_items q)] q"

text \<open>The specification: the first event whose identifier is not to be skipped, and the rest in order.\<close>

primrec first_other :: "string list \<Rightarrow> event list \<Rightarrow> event list \<times> event option" where
  "first_other skip_ids [] = ([], None)"
| "first_other skip_ids (e # es) =
     (if event_id e \<in> set skip_ids
      then (case first_other skip_ids es of (es', r) \<Rightarrow> (e # es', r))
      else (es, Some e))"

lemma get_next_from_first_other:
  "get_next_from skip [length xs..<length xs + length ys] \<lparr>eq_items = xs @ ys\<rparr> =
   (case first_other skip ys of (ys', r) \<Rightarrow> (\<lparr>eq_items = xs @ ys'\<rparr>, r))"
proof (induction ys arbitrary: xs)
  case (Cons y ys)
  have upt: "[length xs..<length xs + length (y # ys)] = length xs # [length (xs @ [y])..<length (xs @ [y]) + length ys]"
    by (subst upt_conv_Cons) (simp_all del: upt_Suc)
  show ?case
    using Cons [of "xs @ [y]"] unfolding upt
    by (auto simp: vec_remove_def split: prod.splits)
qed simp

lemma get_next_first_other:
  "get_next skip q = (case first_other skip (eq_items q) of (es, r) \<Rightarrow> (\<lparr>eq_items = es\<rparr>, r))"
  using get_next_from_first_other [of skip "[]" "eq_items q"] by (cases q) (simp add: get_next_def)

lemma first_other_None:
  "first_other skip es = (es', None) \<Longrightarrow> es' = es \<and> (\<forall>e \<in> set es. event_id e \<in> set skip)"
  by (induction es arbitrary: es') (auto split: prod.splits if_splits)

lemma first_other_all: "\<forall>e \<in> set es. event_id e \<in> set skip \<Longrightarrow> first_other skip es = (es, None)"
  by (induction es) auto

lemma first_other_Some:
  assumes "first_other skip es = (es', Some e)"
  shows "\<exists>xs ys. es = xs @ e # ys \<and> es' = xs @ ys \<and> event_id e \<notin> set skip \<and>
    (\<forall>x \<in> set xs. event_id x \<in> set skip)"
  using assms
proof (induction es arbitrary: es')
  case (Cons a es)
  show ?case
  proof (cases "event_id a \<in> set skip")
    case True
    then obtain t where t: "first_other skip es = (t, Some e)" "es' = a # t"
      using Cons.prems by (auto split: prod.splits)
    from Cons.IH [OF t(1)] obtain xs ys where "es = xs @ e # ys" "t = xs @ ys" "event_id e \<notin> set skip"
      "\<forall>x \<in> set xs. event_id x \<in> set skip" by blast
    with t(2) True show ?thesis by (intro exI [of _ "a # xs"] exI [of _ ys]) simp
  next
    case False
    with Cons.prems show ?thesis by (intro exI [of _ "[]"] exI [of _ es]) simp
  qed
qed simp

lemma get_next_nil: "get_next [] q = (case eq_items q of [] \<Rightarrow> (q, None) | e # es \<Rightarrow> (\<lparr>eq_items = es\<rparr>, Some e))"
  by (cases q; cases "eq_items q") (simp_all add: get_next_first_other)


section \<open>Messages, effects and the actors\<close>

datatype app_message = AddEventToQueue event | StartJobManager | Shutdown

datatype host_message = SetAppAddress | BatchTickManager | HostTriggerEvent event

definition add_event_of :: "event \<Rightarrow> app_message" where
  "add_event_of e = AddEventToQueue e"

datatype effect =
    ToApp app_message
  | ToHost host_message
  | ToWorker event
  | AppLater app_message nat
  | HostLater host_message nat
  | StopRpcServer
  | StopSystem

record app =
  app_event_queue :: event_queue
  app_running_event_ids :: "string list"

definition app_new :: app where
  "app_new = \<lparr>app_event_queue = event_queue_default, app_running_event_ids = []\<rparr>"

definition app_started :: "effect list" where
  "app_started = [ToHost SetAppAddress, ToHost BatchTickManager, ToApp StartJobManager]"

definition JOB_MANAGER_INTERVAL :: nat where "JOB_MANAGER_INTERVAL = 200"
definition BATCH_TICK_INTERVAL :: nat where "BATCH_TICK_INTERVAL = 1000 * 10"

definition handle_add_event :: "event \<Rightarrow> app \<Rightarrow> app \<times> effect list" where
  "handle_add_event e a = (a\<lparr>app_event_queue := event_queue_add e (app_event_queue a)\<rparr>, [])"

definition handle_start_job_manager :: "app \<Rightarrow> app \<times> effect list" where
  "handle_start_job_manager a =
     (case get_next (app_running_event_ids a) (app_event_queue a) of
        (q, next) \<Rightarrow>
          (a\<lparr>app_event_queue := q\<rparr>,
           (case next of Some e \<Rightarrow> [ToWorker e] | None \<Rightarrow> []) @ [AppLater StartJobManager JOB_MANAGER_INTERVAL]))"

definition handle_shutdown :: "app \<Rightarrow> app \<times> effect list" where
  "handle_shutdown a = (a, [StopRpcServer, StopSystem])"

definition app_handle :: "app_message \<Rightarrow> app \<Rightarrow> app \<times> effect list" where
  "app_handle msg a =
     (case msg of
        AddEventToQueue e \<Rightarrow> handle_add_event e a
      | StartJobManager \<Rightarrow> handle_start_job_manager a
      | Shutdown \<Rightarrow> handle_shutdown a)"

text \<open>Of the host actor the event loop needs whether it knows the application's address.\<close>

definition handle_set_app_address :: "bool \<Rightarrow> bool \<times> effect list" where
  "handle_set_app_address app_actor_addr = (True, [])"

definition handle_batch_tick :: "bool \<Rightarrow> bool \<times> effect list" where
  "handle_batch_tick app_actor_addr =
     (app_actor_addr,
      (if app_actor_addr then [ToApp (add_event_of (event_new (\<lambda>s. s) ''BatchChainTick'' BatchChainTick))] else [])
      @ [HostLater BatchTickManager BATCH_TICK_INTERVAL])"

definition handle_trigger_event :: "event \<Rightarrow> bool \<Rightarrow> bool \<times> effect list \<times> bool" where
  "handle_trigger_event e app_actor_addr =
     (if app_actor_addr then (app_actor_addr, [ToApp (AddEventToQueue e)], True)
      else (app_actor_addr, [], False))"

definition host_handle :: "host_message \<Rightarrow> bool \<Rightarrow> bool \<times> effect list" where
  "host_handle msg h =
     (case msg of
        SetAppAddress \<Rightarrow> handle_set_app_address h
      | BatchTickManager \<Rightarrow> handle_batch_tick h
      | HostTriggerEvent e \<Rightarrow> (case handle_trigger_event e h of (h', effs, _) \<Rightarrow> (h', effs)))"

definition p2p_listen_event :: "p2p_message \<Rightarrow> app_message" where
  "p2p_listen_event m = AddEventToQueue \<lparr>event_id = ''p2p-message'', event_data = P2PMessage m\<rparr>"


section \<open>The system\<close>

record node_system =
  nd_app :: app
  nd_app_mailbox :: "app_message list"
  nd_app_timers :: "app_message list"
  nd_host_addr :: bool
  nd_host_mailbox :: "host_message list"
  nd_host_timers :: "host_message list"
  nd_channel :: "p2p_message list"
  nd_jobs :: "event list"
  nd_rpc_open :: bool
  nd_stopped :: bool

definition deliver :: "effect \<Rightarrow> node_system \<Rightarrow> node_system" where
  "deliver eff n =
     (case eff of
        ToApp m \<Rightarrow> n\<lparr>nd_app_mailbox := nd_app_mailbox n @ [m]\<rparr>
      | ToHost m \<Rightarrow> n\<lparr>nd_host_mailbox := nd_host_mailbox n @ [m]\<rparr>
      | ToWorker e \<Rightarrow> n\<lparr>nd_jobs := nd_jobs n @ [e]\<rparr>
      | AppLater m _ \<Rightarrow> n\<lparr>nd_app_timers := nd_app_timers n @ [m]\<rparr>
      | HostLater m _ \<Rightarrow> n\<lparr>nd_host_timers := nd_host_timers n @ [m]\<rparr>
      | StopRpcServer \<Rightarrow> n\<lparr>nd_rpc_open := False\<rparr>
      | StopSystem \<Rightarrow> n\<lparr>nd_stopped := True\<rparr>)"

definition deliver_all :: "effect list \<Rightarrow> node_system \<Rightarrow> node_system" where
  "deliver_all effs n = fold deliver effs n"

text \<open>The system after \<open>App::new(..).start()\<close>, before any message is handled.\<close>

definition node_init :: node_system where
  "node_init =
     deliver_all app_started
       \<lparr>nd_app = app_new, nd_app_mailbox = [], nd_app_timers = [], nd_host_addr = False, nd_host_mailbox = [],
        nd_host_timers = [], nd_channel = [], nd_jobs = [], nd_rpc_open = True, nd_stopped = False\<rparr>"

text \<open>
  What can be observed of a step: a message arrives from a peer, the listener takes one, an event
  is posted to the application, an event is handed to the workers by the job manager.
\<close>

datatype observation =
    Received p2p_message
  | Accepted p2p_message
  | Posted event
  | Dispatched event

primrec observe :: "effect \<Rightarrow> observation list" where
  "observe (ToApp m) = (case m of AddEventToQueue e \<Rightarrow> [Posted e] | _ \<Rightarrow> [])"
| "observe (ToHost m) = []"
| "observe (ToWorker e) = [Dispatched e]"
| "observe (AppLater m d) = []"
| "observe (HostLater m d) = []"
| "observe StopRpcServer = []"
| "observe StopSystem = []"

definition observe_all :: "effect list \<Rightarrow> observation list" where
  "observe_all effs = concat (map observe effs)"

text \<open>The two channels hold 100 elements, as \<open>run\<close> creates them.\<close>

definition CHANNEL_SIZE :: nat where "CHANNEL_SIZE = 100"

inductive node_step :: "node_system \<Rightarrow> observation list \<Rightarrow> node_system \<Rightarrow> bool" where
  app_receives:
    "\<not> nd_stopped n \<Longrightarrow> nd_app_mailbox n = m # ms \<Longrightarrow> app_handle m (nd_app n) = (a, effs) \<Longrightarrow>
     node_step n (observe_all effs) (deliver_all effs (n\<lparr>nd_app := a, nd_app_mailbox := ms\<rparr>))"
| host_receives:
    "\<not> nd_stopped n \<Longrightarrow> nd_host_mailbox n = m # ms \<Longrightarrow> host_handle m (nd_host_addr n) = (h, effs) \<Longrightarrow>
     node_step n (observe_all effs) (deliver_all effs (n\<lparr>nd_host_addr := h, nd_host_mailbox := ms\<rparr>))"
| app_timer:
    "\<not> nd_stopped n \<Longrightarrow> nd_app_timers n = xs @ m # ys \<Longrightarrow>
     node_step n (observe_all [ToApp m]) (deliver_all [ToApp m] (n\<lparr>nd_app_timers := xs @ ys\<rparr>))"
| host_timer:
    "\<not> nd_stopped n \<Longrightarrow> nd_host_timers n = xs @ m # ys \<Longrightarrow>
     node_step n (observe_all [ToHost m]) (deliver_all [ToHost m] (n\<lparr>nd_host_timers := xs @ ys\<rparr>))"
| p2p_arrives:
    "\<not> nd_stopped n \<Longrightarrow> length (nd_channel n) < CHANNEL_SIZE \<Longrightarrow>
     node_step n [Received m] (n\<lparr>nd_channel := nd_channel n @ [m]\<rparr>)"
| p2p_listens:
    "\<not> nd_stopped n \<Longrightarrow> nd_channel n = m # ms \<Longrightarrow>
     node_step n (Accepted m # observe_all [ToApp (p2p_listen_event m)])
       (deliver_all [ToApp (p2p_listen_event m)] (n\<lparr>nd_channel := ms\<rparr>))"
| vm_triggers:
    "\<not> nd_stopped n \<Longrightarrow> node_step n [] (deliver_all [ToHost (HostTriggerEvent e)] n)"
| rpc_cli:
    "\<not> nd_stopped n \<Longrightarrow> nd_rpc_open n \<Longrightarrow>
     node_step n [] (n\<lparr>nd_jobs := nd_jobs n @ [\<lparr>event_id = ''test'', event_data = CliCall args\<rparr>]\<rparr>)"
| worker_takes:
    "\<not> nd_stopped n \<Longrightarrow> nd_jobs n = e # es \<Longrightarrow> node_step n [] (n\<lparr>nd_jobs := es\<rparr>)"
| ctrl_c:
    "\<not> nd_stopped n \<Longrightarrow> node_step n [] (deliver_all [ToApp Shutdown] n)"

inductive_cases node_step_cases: "node_step n ls n'"

lemma deliver_all_simps [simp]:
  "deliver_all [] n = n" "deliver_all (eff # effs) n = deliver_all effs (deliver eff n)"
  by (simp_all add: deliver_all_def)

lemma observe_all_simps [simp]:
  "observe_all [] = []" "observe_all (eff # effs) = observe eff @ observe_all effs"
  "observe_all (effs @ effs') = observe_all effs @ observe_all effs'"
  by (simp_all add: observe_all_def)


section \<open>The loop is a queue\<close>

text \<open>The events on their way: those in the queue, then those posted to the application.\<close>

primrec posted :: "app_message list \<Rightarrow> event list" where
  "posted [] = []"
| "posted (m # ms) = (case m of AddEventToQueue e \<Rightarrow> e # posted ms | _ \<Rightarrow> posted ms)"

definition pending_events :: "node_system \<Rightarrow> event list" where
  "pending_events n = eq_items (app_event_queue (nd_app n)) @ posted (nd_app_mailbox n)"

primrec event_ops :: "observation \<Rightarrow> event fifo_op list" where
  "event_ops (Received m) = []"
| "event_ops (Accepted m) = []"
| "event_ops (Posted e) = [Enq e]"
| "event_ops (Dispatched e) = [Deq e]"

primrec channel_ops :: "observation \<Rightarrow> p2p_message fifo_op list" where
  "channel_ops (Received m) = [Enq m]"
| "channel_ops (Accepted m) = [Deq m]"
| "channel_ops (Posted e) = []"
| "channel_ops (Dispatched e) = []"

text \<open>No event is ever recorded as running.\<close>

definition idle :: "node_system \<Rightarrow> bool" where
  "idle n \<longleftrightarrow> app_running_event_ids (nd_app n) = []"

lemma posted_append [simp]: "posted (ms @ ms') = posted ms @ posted ms'"
  by (induction ms) (auto split: app_message.splits)

lemma deliver_frame [simp]:
  "nd_app (deliver eff n) = nd_app n" "nd_channel (deliver eff n) = nd_channel n"
  "nd_host_addr (deliver eff n) = nd_host_addr n"
  by (auto simp: deliver_def split: effect.splits)

lemma deliver_all_frame [simp]:
  "nd_app (deliver_all effs n) = nd_app n" "nd_channel (deliver_all effs n) = nd_channel n"
  "nd_host_addr (deliver_all effs n) = nd_host_addr n"
  by (induction effs arbitrary: n) simp_all

lemma deliver_event:
  "(\<And>e. eff \<noteq> ToWorker e) \<Longrightarrow>
   fifo_run (pending_events n) (concat (map event_ops (observe eff)) @ ops) = fifo_run (pending_events (deliver eff n)) ops"
  by (cases eff) (auto simp: deliver_def pending_events_def split: app_message.splits)

lemma deliver_events:
  "(\<And>e. ToWorker e \<notin> set effs) \<Longrightarrow>
   fifo_run (pending_events n) (concat (map event_ops (observe_all effs))) = Some (pending_events (deliver_all effs n))"
proof (induction effs arbitrary: n)
  case (Cons eff effs)
  have "\<And>e. eff \<noteq> ToWorker e" using Cons.prems by auto
  then show ?case using Cons.IH Cons.prems by (simp add: deliver_event)
qed simp

lemma channel_silent: "concat (map channel_ops (observe_all effs)) = []"
proof -
  have "concat (map channel_ops (observe eff)) = []" for eff
    by (cases eff) (auto split: app_message.splits)
  then show ?thesis by (induction effs) auto
qed

lemma host_handle_no_job: "host_handle m h = (h', effs) \<Longrightarrow> ToWorker e \<notin> set effs"
  by (auto simp: host_handle_def handle_set_app_address_def handle_batch_tick_def handle_trigger_event_def
      split: host_message.splits if_splits)

lemma app_handle_event:
  assumes "app_handle m (nd_app n) = (a, effs)" "nd_app_mailbox n = m # ms" "idle n"
  shows "fifo_run (pending_events n) (concat (map event_ops (observe_all effs)))
    = Some (pending_events (deliver_all effs (n\<lparr>nd_app := a, nd_app_mailbox := ms\<rparr>)))"
proof (cases m)
  case (AddEventToQueue e)
  then show ?thesis
    using assms by (auto simp: app_handle_def handle_add_event_def event_queue_add_def pending_events_def)
next
  case StartJobManager
  then show ?thesis
    using assms
    by (auto simp: app_handle_def handle_start_job_manager_def get_next_nil idle_def pending_events_def deliver_def
        split: list.splits)
next
  case Shutdown
  then show ?thesis
    using assms by (auto simp: app_handle_def handle_shutdown_def pending_events_def deliver_def)
qed

lemma app_handle_running: "app_handle m a = (a', effs) \<Longrightarrow> app_running_event_ids a' = app_running_event_ids a"
  by (auto simp: app_handle_def handle_add_event_def handle_start_job_manager_def handle_shutdown_def
      split: app_message.splits prod.splits)

lemma node_step_idle: "node_step n ls n' \<Longrightarrow> idle n \<Longrightarrow> idle n'"
  by (erule node_step_cases) (auto simp: idle_def app_handle_running)

lemma node_step_event:
  assumes "node_step n ls n'" "idle n"
  shows "fifo_run (pending_events n) (concat (map event_ops ls)) = Some (pending_events n')"
  using assms(1)
proof cases
  case (app_receives m ms a effs)
  then show ?thesis using app_handle_event assms(2) by simp
next
  case (host_receives m ms h effs)
  then show ?thesis
    using deliver_events [of effs "n\<lparr>nd_host_addr := h, nd_host_mailbox := ms\<rparr>"] host_handle_no_job [of m "nd_host_addr n"]
    by (simp add: pending_events_def)
next
  case (app_timer xs m ys)
  then show ?thesis
    using deliver_events [of "[ToApp m]" "n\<lparr>nd_app_timers := xs @ ys\<rparr>"] by (simp add: pending_events_def)
next
  case (p2p_listens m ms)
  then show ?thesis
    by (simp add: p2p_listen_event_def deliver_def pending_events_def)
qed (simp_all add: pending_events_def deliver_def)

lemma node_step_channel:
  assumes "node_step n ls n'"
  shows "fifo_run (nd_channel n) (concat (map channel_ops ls)) = Some (nd_channel n')"
  using assms
proof cases
  case (app_timer xs m ys)
  then show ?thesis by (simp split: app_message.splits)
qed (simp_all add: channel_silent p2p_listen_event_def)

interpretation events: fifo_refinement node_step event_ops pending_events idle
  by unfold_locales (rule node_step_idle, assumption+, rule node_step_event, assumption+)

interpretation peer_messages: fifo_refinement node_step channel_ops nd_channel "\<lambda>_. True"
  by unfold_locales (simp, rule node_step_channel)

lemma node_init_simps:
  "idle node_init" "pending_events node_init = []" "nd_channel node_init = []"
  by (simp_all add: node_init_def app_started_def deliver_def idle_def app_new_def pending_events_def
      event_queue_default_def)

text \<open>
  C28: The node's event loop implements two first-in first-out queues. In every run from the
  start, events reach the workers exactly in the order in which they were posted to the
  application, none lost and none twice, and so do the messages of the peers reach the listener;
  what is still under way is what the mailbox, the event queue and the channel hold.
\<close>

theorem event_loop_fifo:
  assumes "labelled_run node_step node_init ls n"
  shows "fifo_run [] (concat (map event_ops ls)) = Some (pending_events n) \<and>
    fifo_run [] (concat (map channel_ops ls)) = Some (nd_channel n)"
  using events.run_fifo [OF assms] peer_messages.run_fifo [OF assms] by (simp add: node_init_simps)

definition demo_message :: p2p_message where
  "demo_message = \<lparr>pm_source = None, pm_data = [104, 105]\<rparr>"

definition demo_event :: event where
  "demo_event = \<lparr>event_id = ''p2p-message'', event_data = P2PMessage demo_message\<rparr>"

text \<open>A run that takes one message from a peer to the workers.\<close>

lemma node_run_step:
  "labelled_run node_step s ls n \<Longrightarrow> node_step n ks n' \<Longrightarrow> ls' = ls @ ks \<Longrightarrow> labelled_run node_step s ls' n'"
  by (simp add: run_snoc)

definition demo_node0 :: node_system where
  "demo_node0 = \<lparr>nd_app = app_new, nd_app_mailbox = [StartJobManager], nd_app_timers = [], nd_host_addr = False,
     nd_host_mailbox = [SetAppAddress, BatchTickManager], nd_host_timers = [], nd_channel = [], nd_jobs = [],
     nd_rpc_open = True, nd_stopped = False\<rparr>"

lemma node_init_demo: "node_init = demo_node0"
  by (simp add: node_init_def demo_node0_def app_started_def deliver_def)

lemma demo_loop_run:
  "labelled_run node_step node_init [Received demo_message, Accepted demo_message, Posted demo_event, Dispatched demo_event]
    (demo_node0\<lparr>nd_app_mailbox := [], nd_app_timers := [StartJobManager], nd_jobs := [demo_event]\<rparr>)"
proof -
  let ?n1 = "demo_node0\<lparr>nd_channel := [demo_message]\<rparr>"
  let ?n2 = "demo_node0\<lparr>nd_app_mailbox := [StartJobManager, AddEventToQueue demo_event]\<rparr>"
  let ?n3 = "demo_node0\<lparr>nd_app_mailbox := [AddEventToQueue demo_event], nd_app_timers := [StartJobManager]\<rparr>"
  let ?a = "\<lparr>app_event_queue = \<lparr>eq_items = [demo_event]\<rparr>, app_running_event_ids = []\<rparr>"
  let ?n4 = "demo_node0\<lparr>nd_app := ?a, nd_app_mailbox := [], nd_app_timers := [StartJobManager]\<rparr>"
  let ?n5 = "demo_node0\<lparr>nd_app := ?a, nd_app_mailbox := [StartJobManager]\<rparr>"
  have r0: "labelled_run node_step node_init [] demo_node0" by (simp add: node_init_demo run_nil)
  have s1: "node_step demo_node0 [Received demo_message] ?n1"
    using p2p_arrives [of demo_node0 demo_message] by (simp add: demo_node0_def CHANNEL_SIZE_def)
  have s2: "node_step ?n1 [Accepted demo_message, Posted demo_event] ?n2"
    using p2p_listens [of ?n1 demo_message "[]"]
    by (simp add: demo_node0_def p2p_listen_event_def demo_event_def deliver_def)
  have s3: "node_step ?n2 [] ?n3"
    using app_receives [of ?n2 StartJobManager "[AddEventToQueue demo_event]" app_new
        "[AppLater StartJobManager JOB_MANAGER_INTERVAL]"]
    by (simp add: demo_node0_def app_handle_def handle_start_job_manager_def get_next_nil app_new_def
        event_queue_default_def deliver_def)
  have s4: "node_step ?n3 [] ?n4"
    using app_receives [of ?n3 "AddEventToQueue demo_event" "[]" ?a "[]"]
    by (simp add: demo_node0_def app_handle_def handle_add_event_def event_queue_add_def app_new_def
        event_queue_default_def)
  have s5: "node_step ?n4 [] ?n5"
    using app_timer [of ?n4 "[]" StartJobManager "[]"] by (simp add: demo_node0_def deliver_def)
  have s6: "node_step ?n5 [Dispatched demo_event]
      (demo_node0\<lparr>nd_app_mailbox := [], nd_app_timers := [StartJobManager], nd_jobs := [demo_event]\<rparr>)"
    using app_receives [of ?n5 StartJobManager "[]" app_new
        "[ToWorker demo_event, AppLater StartJobManager JOB_MANAGER_INTERVAL]"]
    by (simp add: demo_node0_def app_handle_def handle_start_job_manager_def get_next_nil app_new_def
        event_queue_default_def deliver_def)
  have r2: "labelled_run node_step node_init [Received demo_message, Accepted demo_message, Posted demo_event] ?n2"
    by (rule node_run_step [OF node_run_step [OF r0 s1 refl] s2]) simp
  have "labelled_run node_step node_init [Received demo_message, Accepted demo_message, Posted demo_event] ?n5"
    by (rule node_run_step [OF node_run_step [OF node_run_step [OF r2 s3 refl] s4 refl] s5]) simp
  from node_run_step [OF this s6] show ?thesis by simp
qed

theorem event_loop_fifo_witness:
  "\<exists>n. labelled_run node_step node_init
      [Received demo_message, Accepted demo_message, Posted demo_event, Dispatched demo_event] n \<and>
    pending_events n = [] \<and> nd_channel n = []"
proof -
  obtain n where run: "labelled_run node_step node_init
      [Received demo_message, Accepted demo_message, Posted demo_event, Dispatched demo_event] n"
    using demo_loop_run by blast
  from event_loop_fifo [OF this] show ?thesis by (intro exI [of _ n]) (simp add: run)
qed


section \<open>The tickers never stop\<close>

text \<open>
  One message keeps each ticker going; the host's tick waits behind the address of the
  application as long as the host does not have it.
\<close>

definition app_ticks :: "node_system \<Rightarrow> nat" where
  "app_ticks n = count_list (nd_app_mailbox n @ nd_app_timers n) StartJobManager"

definition host_ticks :: "node_system \<Rightarrow> nat" where
  "host_ticks n = count_list (nd_host_mailbox n @ nd_host_timers n) BatchTickManager"

definition addressed :: "node_system \<Rightarrow> bool" where
  "addressed n \<longleftrightarrow> nd_host_addr n \<or> BatchTickManager \<notin> set (nd_host_timers n) \<and>
     BatchTickManager \<notin> set (takeWhile (\<lambda>m. m \<noteq> SetAppAddress) (nd_host_mailbox n))"

definition scheduled :: "node_system \<Rightarrow> bool" where
  "scheduled n \<longleftrightarrow> app_ticks n = 1 \<and> host_ticks n = 1 \<and> addressed n"

definition some_step :: "node_system \<Rightarrow> node_system \<Rightarrow> bool" where
  "some_step n n' \<longleftrightarrow> (\<exists>ls. node_step n ls n')"

primrec app_gain :: "effect list \<Rightarrow> nat" where
  "app_gain [] = 0"
| "app_gain (eff # effs) = (case eff of ToApp StartJobManager \<Rightarrow> 1 | AppLater StartJobManager _ \<Rightarrow> 1 | _ \<Rightarrow> 0) + app_gain effs"

primrec host_gain :: "effect list \<Rightarrow> nat" where
  "host_gain [] = 0"
| "host_gain (eff # effs) = (case eff of ToHost BatchTickManager \<Rightarrow> 1 | HostLater BatchTickManager _ \<Rightarrow> 1 | _ \<Rightarrow> 0) + host_gain effs"

lemma deliver_ticks:
  "app_ticks (deliver_all effs n) = app_ticks n + app_gain effs"
  "host_ticks (deliver_all effs n) = host_ticks n + host_gain effs"
proof (induction effs arbitrary: n)
  case (Cons eff effs)
  { case 1 show ?case
      by (simp add: Cons) (auto simp: deliver_def app_ticks_def split: effect.splits app_message.splits)
  next
    case 2 show ?case
      by (simp add: Cons) (auto simp: deliver_def host_ticks_def split: effect.splits host_message.splits) }
qed simp_all

lemma app_handle_gain:
  assumes "app_handle m a = (a', effs)"
  shows "app_gain effs = count_list [m] StartJobManager" "host_gain effs = 0"
  using assms
  by (auto simp: app_handle_def handle_add_event_def handle_start_job_manager_def handle_shutdown_def
      split: app_message.splits prod.splits option.splits)

lemma host_handle_gain:
  assumes "host_handle m h = (h', effs)"
  shows "host_gain effs = count_list [m] BatchTickManager" "app_gain effs = 0"
  using assms
  by (auto simp: host_handle_def handle_set_app_address_def handle_batch_tick_def handle_trigger_event_def
      add_event_of_def split: host_message.splits if_splits)

lemma node_step_ticks:
  assumes "node_step n ls n'"
  shows "app_ticks n' = app_ticks n \<and> host_ticks n' = host_ticks n"
  using assms
proof cases
  case (app_receives m ms a effs)
  then show ?thesis
    using app_handle_gain [OF app_receives(5)] unfolding app_receives(2) deliver_ticks
    by (simp add: app_ticks_def host_ticks_def)
next
  case (host_receives m ms h effs)
  then show ?thesis
    using host_handle_gain [OF host_receives(5)] unfolding host_receives(2) deliver_ticks
    by (simp add: app_ticks_def host_ticks_def)
next
  case (app_timer xs m ys)
  then show ?thesis
    unfolding app_timer(2) deliver_ticks by (simp add: app_ticks_def host_ticks_def split: app_message.splits)
next
  case (host_timer xs m ys)
  then show ?thesis
    unfolding host_timer(2) deliver_ticks by (simp add: app_ticks_def host_ticks_def split: host_message.splits)
next
  case (p2p_listens m ms)
  then show ?thesis
    unfolding p2p_listens(2) deliver_ticks by (simp add: app_ticks_def host_ticks_def p2p_listen_event_def)
qed (auto simp: app_ticks_def host_ticks_def deliver_def)

lemma takeWhile_snoc_set: "set (takeWhile P (xs @ [x])) \<subseteq> set (takeWhile P xs) \<union> {x}"
proof (cases "\<forall>y \<in> set xs. P y")
  case True
  then have eq: "takeWhile P xs = xs" "takeWhile P (xs @ [x]) = xs @ takeWhile P [x]"
    by (simp_all add: takeWhile_eq_all_conv takeWhile_append)
  show ?thesis unfolding eq by (cases "P x") auto
next
  case False
  then have "takeWhile P (xs @ [x]) = takeWhile P xs" by (auto simp: takeWhile_append)
  then show ?thesis by (simp only:) blast
qed

lemma deliver_addressed: "addressed n \<Longrightarrow> host_gain [eff] = 0 \<or> nd_host_addr n \<Longrightarrow> addressed (deliver eff n)"
proof (cases eff)
  case (ToHost m)
  assume "addressed n" "host_gain [eff] = 0 \<or> nd_host_addr n"
  then show ?thesis
    using ToHost takeWhile_snoc_set [of "\<lambda>m. m \<noteq> SetAppAddress" "nd_host_mailbox n" m]
    by (auto simp: addressed_def deliver_def split: host_message.splits)
qed (auto simp: addressed_def deliver_def split: host_message.splits)

lemma deliver_all_addressed:
  "addressed n \<Longrightarrow> host_gain effs = 0 \<or> nd_host_addr n \<Longrightarrow> addressed (deliver_all effs n)"
proof (induction effs arbitrary: n)
  case (Cons eff effs)
  then have "addressed (deliver eff n)" by (intro deliver_addressed) auto
  with Cons show ?case by auto
qed simp

lemma node_step_addressed:
  assumes "node_step n ls n'" "addressed n"
  shows "addressed n'"
  using assms(1)
proof cases
  case (app_receives m ms a effs)
  have "addressed (n\<lparr>nd_app := a, nd_app_mailbox := ms\<rparr>)" using assms(2) by (simp add: addressed_def)
  then show ?thesis
    unfolding app_receives(2) using app_handle_gain(2) [OF app_receives(5)] by (intro deliver_all_addressed) simp_all
next
  case (host_receives m ms h effs)
  have "nd_host_addr n \<Longrightarrow> h"
    using host_receives(5) by (auto simp: host_handle_def handle_set_app_address_def handle_batch_tick_def
        handle_trigger_event_def split: host_message.splits if_splits)
  moreover have "h \<or> m \<noteq> SetAppAddress"
    using host_receives(5) by (auto simp: host_handle_def handle_set_app_address_def)
  ultimately have "addressed (n\<lparr>nd_host_addr := h, nd_host_mailbox := ms\<rparr>)" "h \<or> m \<noteq> BatchTickManager"
    using assms(2) host_receives(4) by (auto simp: addressed_def split: if_splits)
  then show ?thesis
    unfolding host_receives(2) using host_handle_gain(1) [OF host_receives(5)]
    by (intro deliver_all_addressed) auto
next
  case (host_timer xs m ys)
  have "addressed (n\<lparr>nd_host_timers := xs @ ys\<rparr>)" "nd_host_addr n \<or> m \<noteq> BatchTickManager"
    using assms(2) host_timer(4) by (auto simp: addressed_def)
  then show ?thesis
    unfolding host_timer(2) by (intro deliver_all_addressed) (auto split: host_message.splits)
qed (use assms(2) in \<open>auto simp: addressed_def deliver_def dest!: takeWhile_snoc_set [THEN subsetD]\<close>)

interpretation tickers: inductive_invariant "\<lambda>n. n = node_init" some_step scheduled
proof
  show "n = node_init \<Longrightarrow> scheduled n" for n
    by (simp add: node_init_demo demo_node0_def scheduled_def app_ticks_def host_ticks_def addressed_def)
  show "scheduled n \<Longrightarrow> some_step n n' \<Longrightarrow> scheduled n'" for n n'
    using node_step_ticks node_step_addressed by (auto simp: scheduled_def some_step_def)
qed

text \<open>
  C29: The two tickers never stop and never multiply. In every state that the node can reach there
  is exactly one job-manager message and exactly one batch-tick message, waiting in a mailbox or
  in a timer; and whenever the host is about to handle the batch tick it knows the application,
  so that no tick is dropped.
\<close>

theorem tickers_scheduled:
  assumes "reachable (\<lambda>n. n = node_init) some_step n"
  shows "app_ticks n = 1 \<and> host_ticks n = 1 \<and>
    (\<forall>ms. nd_host_mailbox n = BatchTickManager # ms \<longrightarrow>
       host_handle BatchTickManager (nd_host_addr n) =
         (True, [ToApp (AddEventToQueue \<lparr>event_id = ''BatchChainTick'', event_data = BatchChainTick\<rparr>),
                 HostLater BatchTickManager BATCH_TICK_INTERVAL]))"
proof -
  have "scheduled n" using tickers.reachable_inv [OF assms] .
  then have "app_ticks n = 1" "host_ticks n = 1" "addressed n" by (simp_all add: scheduled_def)
  then show ?thesis
    by (auto simp: addressed_def host_handle_def handle_batch_tick_def add_event_of_def event_new_def)
qed

theorem tickers_scheduled_witness:
  "app_ticks node_init = 1 \<and> host_ticks node_init = 1"
  using tickers_scheduled [of node_init] by (simp add: reachable.intros)

end
