(* ===== verification/Peer_List.thy ===== *)
theory Peer_List
  imports Config "HOL-Library.AList"
begin

text \<open>
  The peer list (\<open>p2p/src/libp2p/peer_list.rs\<close>): two hash maps, from addresses to what is known of
  the peer and from peer identities to addresses.

  A \<open>HashMap\<close> is an association list with distinct keys. Its iteration order is unspecified in
  Rust: what iterates takes a permutation \<open>perm\<close> as an argument. Addresses (\<open>Multiaddr\<close>) and
  identities (\<open>PeerId\<close>) are the types \<open>'a\<close> and \<open>'p\<close>.
\<close>

section \<open>Connection types\<close>

datatype connection_type = ConnNone | Manual | MDns | ConnChain | Kademlia

definition conn_rank :: "connection_type \<Rightarrow> nat" where
  "conn_rank c = (case c of ConnNone \<Rightarrow> 0 | Manual \<Rightarrow> 1 | MDns \<Rightarrow> 2 | ConnChain \<Rightarrow> 3 | Kademlia \<Rightarrow> 4)"

text \<open>The derived order is the order of the discriminants.\<close>

lemma conn_rank_inject [simp]: "conn_rank a = conn_rank b \<longleftrightarrow> a = b"
  by (cases a; cases b) (simp_all add: conn_rank_def)

instantiation connection_type :: linorder
begin

definition less_eq_connection_type :: "connection_type \<Rightarrow> connection_type \<Rightarrow> bool" where
  "less_eq_connection_type a b \<longleftrightarrow> conn_rank a \<le> conn_rank b"

definition less_connection_type :: "connection_type \<Rightarrow> connection_type \<Rightarrow> bool" where
  "less_connection_type a b \<longleftrightarrow> conn_rank a < conn_rank b"

instance
  by standard (auto simp: less_eq_connection_type_def less_connection_type_def dest: antisym)

end


section \<open>The two maps\<close>

record 'p peer_info =
  pi_peer_id :: "'p option"
  pi_conn_type :: connection_type

record ('a, 'p) peer_list =
  addr_to_peer :: "('a \<times> 'p peer_info) list"
  peer_to_addr :: "('p \<times> 'a) list"

definition peer_list_default :: "('a, 'p) peer_list" where
  "peer_list_default = \<lparr>addr_to_peer = [], peer_to_addr = []\<rparr>"

text \<open>\<open>from_vec\<close>; an address that does not parse is a panic.\<close>

primrec manual_addrs ::
  "(string \<Rightarrow> 'a option) \<Rightarrow> string list \<Rightarrow> ('a \<times> 'p peer_info) list \<Rightarrow> ('a \<times> 'p peer_info) list res" where
  "manual_addrs parse [] m = Inr m"
| "manual_addrs parse (s # ss) m =
     and_then (unwrap (parse s)) (\<lambda>addr.
     manual_addrs parse ss (AList.update addr \<lparr>pi_peer_id = None, pi_conn_type = Manual\<rparr> m))"

definition peer_list_from_vec :: "(string \<Rightarrow> 'a option) \<Rightarrow> string list \<Rightarrow> ('a, 'p) peer_list res" where
  "peer_list_from_vec parse addrs =
     and_then (manual_addrs parse addrs []) (\<lambda>m. Inr \<lparr>addr_to_peer = m, peer_to_addr = []\<rparr>)"

definition peer_list_len :: "('a, 'p) peer_list \<Rightarrow> nat" where
  "peer_list_len l = length (peer_to_addr l)"

definition peer_list_is_empty :: "('a, 'p) peer_list \<Rightarrow> bool" where
  "peer_list_is_empty l \<longleftrightarrow> peer_to_addr l = []"

definition add_peer :: "'a \<Rightarrow> 'p option \<Rightarrow> connection_type \<Rightarrow> ('a, 'p) peer_list \<Rightarrow> ('a, 'p) peer_list" where
  "add_peer multi_addr peer_id conn_type l =
     (let l1 = l\<lparr>addr_to_peer :=
                  AList.update multi_addr \<lparr>pi_peer_id = peer_id, pi_conn_type = conn_type\<rparr> (addr_to_peer l)\<rparr> in
      case peer_id of
        None \<Rightarrow> l1
      | Some peer \<Rightarrow> l1\<lparr>peer_to_addr := AList.update peer multi_addr (peer_to_addr l1)\<rparr>)"

definition get_peer_by_id :: "'p \<Rightarrow> ('a, 'p) peer_list \<Rightarrow> ('a \<times> 'p peer_info) option" where
  "get_peer_by_id peer_id l =
     (case map_of (peer_to_addr l) peer_id of
        None \<Rightarrow> None
      | Some addr \<Rightarrow>
          (case map_of (addr_to_peer l) addr of None \<Rightarrow> None | Some peer_inf \<Rightarrow> Some (addr, peer_inf)))"

definition get_peer_by_addr :: "'a \<Rightarrow> ('a, 'p) peer_list \<Rightarrow> 'p peer_info option" where
  "get_peer_by_addr addr l = map_of (addr_to_peer l) addr"

definition set_peer_id :: "'a \<Rightarrow> 'p \<Rightarrow> ('a, 'p) peer_list \<Rightarrow> ('a, 'p) peer_list res" where
  "set_peer_id multi_addr peer_id l =
     and_then (unwrap (map_of (addr_to_peer l) multi_addr)) (\<lambda>peer_inf.
     Inr (l\<lparr>addr_to_peer := AList.update multi_addr (peer_inf\<lparr>pi_peer_id := Some peer_id\<rparr>) (addr_to_peer l),
            peer_to_addr := AList.update peer_id multi_addr (peer_to_addr l)\<rparr>))"

definition remove_peer_by_addr :: "'a \<Rightarrow> ('a, 'p) peer_list \<Rightarrow> ('a, 'p) peer_list" where
  "remove_peer_by_addr multi_addr l =
     (let l1 = (case map_of (addr_to_peer l) multi_addr of
                  None \<Rightarrow> l
                | Some peer_inf \<Rightarrow>
                    (case pi_peer_id peer_inf of
                       None \<Rightarrow> l
                     | Some peer_id \<Rightarrow> l\<lparr>peer_to_addr := AList.delete peer_id (peer_to_addr l)\<rparr>)) in
      l1\<lparr>addr_to_peer := AList.delete multi_addr (addr_to_peer l1)\<rparr>)"

definition remove_peer_by_id :: "'p \<Rightarrow> ('a, 'p) peer_list \<Rightarrow> ('a, 'p) peer_list" where
  "remove_peer_by_id peer_id l =
     (let l1 = (case map_of (peer_to_addr l) peer_id of
                  None \<Rightarrow> l
                | Some multi_addr \<Rightarrow> l\<lparr>addr_to_peer := AList.delete multi_addr (addr_to_peer l)\<rparr>) in
      l1\<lparr>peer_to_addr := AList.delete peer_id (peer_to_addr l1)\<rparr>)"

definition has_peer_id :: "'p \<Rightarrow> ('a, 'p) peer_list \<Rightarrow> bool" where
  "has_peer_id peer_id l \<longleftrightarrow> map_of (peer_to_addr l) peer_id \<noteq> None"

definition has_addr :: "'a \<Rightarrow> ('a, 'p) peer_list \<Rightarrow> bool" where
  "has_addr addr l \<longleftrightarrow> map_of (addr_to_peer l) addr \<noteq> None"

text \<open>The map that \<open>get_json\<close> renders; \<open>addr.to_string()\<close> and \<open>peer.to_base58()\<close> are arguments.\<close>

definition peer_list_get_json ::
  "(('p \<times> 'a) list \<Rightarrow> ('p \<times> 'a) list) \<Rightarrow> ('a \<Rightarrow> string) \<Rightarrow> ('p \<Rightarrow> string) \<Rightarrow> ('a, 'p) peer_list
    \<Rightarrow> (string \<times> string) list" where
  "peer_list_get_json perm show_addr show_peer l =
     fold (\<lambda>(peer, addr) result. AList.update (show_addr addr) (show_peer peer) result) (perm (peer_to_addr l)) []"

definition get_all :: "('a, 'p) peer_list \<Rightarrow> ('p \<times> 'a) list" where
  "get_all l = peer_to_addr l"

definition get_all_info :: "('a, 'p) peer_list \<Rightarrow> ('a \<times> 'p peer_info) list" where
  "get_all_info l = addr_to_peer l"


section \<open>Well-formed lists\<close>

definition peer_list_wf :: "('a, 'p) peer_list \<Rightarrow> bool" where
  "peer_list_wf l \<longleftrightarrow> distinct (map fst (addr_to_peer l)) \<and> distinct (map fst (peer_to_addr l))"

named_theorems peer_simps \<open>lookups in the two maps of a peer list\<close>

lemma peer_list_default_wf [simp]: "peer_list_wf peer_list_default"
  by (simp add: peer_list_wf_def peer_list_default_def)

lemma add_peer_wf [intro]: "peer_list_wf l \<Longrightarrow> peer_list_wf (add_peer a p c l)"
  by (auto simp: peer_list_wf_def add_peer_def Let_def AList.distinct_update split: option.splits)

lemma set_peer_id_wf [intro]: "peer_list_wf l \<Longrightarrow> set_peer_id a p l = Inr l' \<Longrightarrow> peer_list_wf l'"
  by (auto simp: peer_list_wf_def set_peer_id_def res_simps AList.distinct_update)

lemma remove_peer_by_addr_wf [intro]: "peer_list_wf l \<Longrightarrow> peer_list_wf (remove_peer_by_addr a l)"
  by (auto simp: peer_list_wf_def remove_peer_by_addr_def Let_def AList.distinct_delete split: option.splits)

lemma remove_peer_by_id_wf [intro]: "peer_list_wf l \<Longrightarrow> peer_list_wf (remove_peer_by_id p l)"
  by (auto simp: peer_list_wf_def remove_peer_by_id_def Let_def AList.distinct_delete split: option.splits)

lemma has_addr_add_peer [peer_simps]: "has_addr b (add_peer a p c l) \<longleftrightarrow> b = a \<or> has_addr b l"
  by (auto simp: has_addr_def add_peer_def Let_def AList.update_conv' split: option.splits)

lemma has_addr_set_peer_id [peer_simps]: "set_peer_id a p l = Inr l' \<Longrightarrow> has_addr b l' \<longleftrightarrow> has_addr b l"
  by (auto simp: has_addr_def set_peer_id_def res_simps AList.update_conv' split: if_splits)

lemma has_addr_remove_by_addr [peer_simps]: "has_addr b (remove_peer_by_addr a l) \<longleftrightarrow> b \<noteq> a \<and> has_addr b l"
  by (auto simp: has_addr_def remove_peer_by_addr_def Let_def AList.delete_conv' split: option.splits)

lemma get_peer_after_add [peer_simps]:
  "get_peer_by_id p (add_peer a (Some p) c l) = Some (a, \<lparr>pi_peer_id = Some p, pi_conn_type = c\<rparr>)"
  "get_peer_by_addr a (add_peer a q c l) = Some \<lparr>pi_peer_id = q, pi_conn_type = c\<rparr>"
  by (simp_all add: get_peer_by_id_def get_peer_by_addr_def add_peer_def Let_def AList.update_conv'
      split: option.splits)

lemma set_peer_id_panics [peer_simps]: "set_peer_id a p l = Inl e \<longleftrightarrow> \<not> has_addr a l \<and> e = UnwrapNone"
  by (auto simp: set_peer_id_def has_addr_def res_simps)

text \<open>
  Removing a peer by its address forgets the identity recorded there; an identity that was
  recorded for the same address earlier stays behind.
\<close>

lemma stale_identity:
  assumes "p \<noteq> q"
  shows "has_peer_id p (remove_peer_by_addr a (add_peer a (Some q) c (add_peer a (Some p) c' l)))"
    "get_peer_by_id p (remove_peer_by_addr a (add_peer a (Some q) c (add_peer a (Some p) c' l))) = None"
  using assms
  by (simp_all add: has_peer_id_def get_peer_by_id_def remove_peer_by_addr_def add_peer_def Let_def
      AList.update_conv' AList.delete_conv')

end
