(* ===== verification/Discovery.thy ===== *)
theory Discovery
  imports Peer_List
begin

text \<open>
  Peer discovery (\<open>p2p/src/libp2p/discovery_status.rs\<close>): which source the next peer is taken from,
  which address is free to be dialled, and the cooldown of addresses that failed. The time of the
  system clock, in milliseconds, is an argument \<open>now\<close>.
\<close>

type_synonym ('a, 'p) infos = "('a \<times> 'p peer_info) list"

section \<open>The status and its operations\<close>

record ('a, 'p) discovery_status =
  d_p2p_config :: p2p_config
  d_connected_peers :: "('a, 'p) peer_list"
  d_cooldown_addrs :: "('a \<times> nat) list"
  d_found_manual_peers :: "('a, 'p) peer_list"
  d_found_chain_peers :: "('a, 'p) peer_list"
  d_found_mdns_peers :: "('a, 'p) peer_list"
  d_found_kademlia_peers :: "('a, 'p) peer_list"

definition discovery_new :: "p2p_config \<Rightarrow> ('a, 'p) peer_list \<Rightarrow> ('a, 'p) discovery_status" where
  "discovery_new config initial_manual_peers =
     \<lparr>d_p2p_config = config, d_connected_peers = peer_list_default, d_cooldown_addrs = [],
      d_found_manual_peers = initial_manual_peers, d_found_chain_peers = peer_list_default,
      d_found_mdns_peers = peer_list_default, d_found_kademlia_peers = peer_list_default\<rparr>"

definition get_connected_len_by_type :: "connection_type \<Rightarrow> ('a, 'p) discovery_status \<Rightarrow> nat" where
  "get_connected_len_by_type c d =
     length (filter (\<lambda>(addr, info). pi_conn_type info = c) (get_all_info (d_connected_peers d)))"

definition get_connected_list :: "('a, 'p) discovery_status \<Rightarrow> ('a, 'p) peer_list" where
  "get_connected_list d = d_connected_peers d"

definition is_unused_addr :: "nat \<Rightarrow> 'a \<Rightarrow> ('a, 'p) discovery_status \<Rightarrow> ('a, 'p) discovery_status \<times> bool" where
  "is_unused_addr now addr d =
     (if has_addr addr (d_connected_peers d) then (d, False)
      else case map_of (d_cooldown_addrs d) addr of
        Some peer_cooldowned_time \<Rightarrow>
          if now > peer_cooldowned_time + pc_cooldown_duration (d_p2p_config d)
          then (d\<lparr>d_cooldown_addrs := AList.delete addr (d_cooldown_addrs d)\<rparr>, True)
          else (d, False)
      | None \<Rightarrow> (d, True))"

text \<open>
  \<open>len() as i32\<close> truncates to a signed 32-bit number and is compared as one; \<open>max as usize\<close>
  sign-extends.
\<close>

definition below_max :: "connection_type \<Rightarrow> i32 \<Rightarrow> ('a, 'p) discovery_status \<Rightarrow> bool" where
  "below_max c limit d \<longleftrightarrow> get_connected_len_by_type c d < unat (scast limit :: u64)"

definition get_current_discovery_method ::
  "connection_type option \<Rightarrow> ('a, 'p) discovery_status \<Rightarrow> connection_type" where
  "get_current_discovery_method skip d =
     (let cfg = d_p2p_config d in
      if sint (of_nat (peer_list_len (d_connected_peers d)) :: i32) \<ge> sint (pc_out_peers cfg) then ConnNone
      else
        let sk = (case skip of Some c \<Rightarrow> c | None \<Rightarrow> ConnNone) in
        if \<not> pc_disable_manual_peers cfg \<and> below_max Manual (pc_max_manual_peers cfg) d \<and> sk < Manual then Manual
        else if \<not> pc_disable_mdns cfg \<and> below_max MDns (pc_max_mdns_peers cfg) d \<and> sk < MDns then MDns
        else if \<not> pc_disable_kademlia_peers cfg \<and> below_max Kademlia (pc_max_kademlia_peers cfg) d \<and> sk < Kademlia
        then Kademlia
        else ConnNone)"

definition cooldown_addr :: "nat \<Rightarrow> 'a \<Rightarrow> ('a, 'p) discovery_status \<Rightarrow> ('a, 'p) discovery_status" where
  "cooldown_addr now addr d = d\<lparr>d_cooldown_addrs := AList.update addr now (d_cooldown_addrs d)\<rparr>"

definition add_connected_peer :: "'a \<Rightarrow> 'p \<Rightarrow> ('a, 'p) discovery_status \<Rightarrow> ('a, 'p) discovery_status res" where
  "add_connected_peer addr peer_id d =
     and_then (set_peer_id addr peer_id (d_connected_peers d)) (\<lambda>l. Inr (d\<lparr>d_connected_peers := l\<rparr>))"

text \<open>
  Dropping a connection forgets the peer in the list it was found by; manual peers are kept.
\<close>

definition forget_found ::
  "connection_type \<Rightarrow> (('a, 'p) peer_list \<Rightarrow> ('a, 'p) peer_list) \<Rightarrow> ('a, 'p) discovery_status
    \<Rightarrow> ('a, 'p) discovery_status" where
  "forget_found c remove d =
     (case c of
        ConnChain \<Rightarrow> d\<lparr>d_found_chain_peers := remove (d_found_chain_peers d)\<rparr>
      | Kademlia \<Rightarrow> d\<lparr>d_found_kademlia_peers := remove (d_found_kademlia_peers d)\<rparr>
      | MDns \<Rightarrow> d\<lparr>d_found_mdns_peers := remove (d_found_mdns_peers d)\<rparr>
      | _ \<Rightarrow> d)"

definition remove_connected_by_id :: "'p \<Rightarrow> ('a, 'p) discovery_status \<Rightarrow> ('a, 'p) discovery_status" where
  "remove_connected_by_id peer_id d =
     (let d1 = (case get_peer_by_id peer_id (d_connected_peers d) of
                  None \<Rightarrow> d
                | Some (_, info) \<Rightarrow> forget_found (pi_conn_type info) (remove_peer_by_id peer_id) d) in
      d1\<lparr>d_connected_peers := remove_peer_by_id peer_id (d_connected_peers d1)\<rparr>)"

definition remove_connected_by_addr :: "'a \<Rightarrow> ('a, 'p) discovery_status \<Rightarrow> ('a, 'p) discovery_status" where
  "remove_connected_by_addr addr d =
     (let d1 = (case get_peer_by_addr addr (d_connected_peers d) of
                  None \<Rightarrow> d
                | Some info \<Rightarrow> forget_found (pi_conn_type info) (remove_peer_by_addr addr) d) in
      d1\<lparr>d_connected_peers := remove_peer_by_addr addr (d_connected_peers d1)\<rparr>)"

definition remove_connected_peer ::
  "'p option \<Rightarrow> 'a option \<Rightarrow> ('a, 'p) discovery_status \<Rightarrow> ('a, 'p) discovery_status" where
  "remove_connected_peer peer_id address d =
     (let d1 = (case peer_id of None \<Rightarrow> d | Some p \<Rightarrow> remove_connected_by_id p d) in
      case address of None \<Rightarrow> d1 | Some a \<Rightarrow> remove_connected_by_addr a d1)"

text \<open>The loop of the three \<open>get_next_\<close> functions over the peers of a source.\<close>

fun next_unused ::
  "nat \<Rightarrow> connection_type \<Rightarrow> ('a, 'p) infos \<Rightarrow> ('a, 'p) discovery_status
    \<Rightarrow> ('a, 'p) discovery_status \<times> ('a \<times> 'p peer_info) option" where
  "next_unused now c [] d = (d, None)"
| "next_unused now c ((addr, info) # rest) d =
     (case is_unused_addr now addr d of
        (d', True) \<Rightarrow>
          (d'\<lparr>d_connected_peers := add_peer addr (pi_peer_id info) c (d_connected_peers d')\<rparr>, Some (addr, info))
      | (d', False) \<Rightarrow> next_unused now c rest d')"

definition get_next_manual_peer ::
  "(('a, 'p) infos \<Rightarrow> ('a, 'p) infos) \<Rightarrow> nat \<Rightarrow> ('a, 'p) discovery_status
    \<Rightarrow> ('a, 'p) discovery_status \<times> ('a \<times> 'p peer_info) option" where
  "get_next_manual_peer perm now d = next_unused now Manual (perm (get_all_info (d_found_manual_peers d))) d"

definition add_mdns_peer :: "'a \<Rightarrow> 'p \<Rightarrow> ('a, 'p) discovery_status \<Rightarrow> ('a, 'p) discovery_status" where
  "add_mdns_peer addr peer_id d =
     d\<lparr>d_found_mdns_peers := add_peer addr (Some peer_id) MDns (d_found_mdns_peers d)\<rparr>"

definition get_next_mdns_peer ::
  "(('a, 'p) infos \<Rightarrow> ('a, 'p) infos) \<Rightarrow> nat \<Rightarrow> ('a, 'p) discovery_status
    \<Rightarrow> ('a, 'p) discovery_status \<times> ('a \<times> 'p peer_info) option" where
  "get_next_mdns_peer perm now d = next_unused now MDns (perm (get_all_info (d_found_mdns_peers d))) d"

definition add_kademlia_peer :: "'a \<Rightarrow> 'p \<Rightarrow> ('a, 'p) discovery_status \<Rightarrow> ('a, 'p) discovery_status" where
  "add_kademlia_peer addr peer_id d =
     d\<lparr>d_found_kademlia_peers := add_peer addr (Some peer_id) Kademlia (d_found_kademlia_peers d)\<rparr>"

definition get_next_kademlia_peer ::
  "(('a, 'p) infos \<Rightarrow> ('a, 'p) infos) \<Rightarrow> nat \<Rightarrow> ('a, 'p) discovery_status
    \<Rightarrow> ('a, 'p) discovery_status \<times> ('a \<times> 'p peer_info) option" where
  "get_next_kademlia_peer perm now d = next_unused now Kademlia (perm (get_all_info (d_found_kademlia_peers d))) d"

text \<open>A peer added by hand goes to the list of the peers that Kademlia found.\<close>

definition add_manual_peer :: "'a \<Rightarrow> 'p option \<Rightarrow> ('a, 'p) discovery_status \<Rightarrow> ('a, 'p) discovery_status" where
  "add_manual_peer addr peer_id d =
     d\<lparr>d_found_kademlia_peers := add_peer addr peer_id Kademlia (d_found_kademlia_peers d)\<rparr>"


section \<open>The discovery method\<close>

lemma method_priority:
  assumes "get_current_discovery_method skip d = c" "c \<noteq> ConnNone"
  shows "(case skip of Some s \<Rightarrow> s | None \<Rightarrow> ConnNone) < c" "c \<noteq> ConnChain"
    "sint (of_nat (peer_list_len (d_connected_peers d)) :: i32) < sint (pc_out_peers (d_p2p_config d))"
  using assms by (auto simp: get_current_discovery_method_def Let_def split: if_splits)


section \<open>Free addresses and the cooldown\<close>

definition cooling :: "nat \<Rightarrow> 'a \<Rightarrow> ('a, 'p) discovery_status \<Rightarrow> bool" where
  "cooling now addr d \<longleftrightarrow>
     (case map_of (d_cooldown_addrs d) addr of
        Some t \<Rightarrow> now \<le> t + pc_cooldown_duration (d_p2p_config d)
      | None \<Rightarrow> False)"

lemma is_unused_addr_spec:
  assumes "is_unused_addr now addr d = (d', b)"
  shows "b \<longleftrightarrow> \<not> has_addr addr (d_connected_peers d) \<and> \<not> cooling now addr d"
    "d_connected_peers d' = d_connected_peers d" "d_p2p_config d' = d_p2p_config d"
    "d_found_manual_peers d' = d_found_manual_peers d" "d_found_mdns_peers d' = d_found_mdns_peers d"
    "d_found_kademlia_peers d' = d_found_kademlia_peers d" "d_found_chain_peers d' = d_found_chain_peers d"
    "cooling now x d' \<longleftrightarrow> cooling now x d"
    "cooling now x d \<Longrightarrow> map_of (d_cooldown_addrs d') x = map_of (d_cooldown_addrs d) x"
  using assms
  by (auto simp: is_unused_addr_def cooling_def AList.delete_conv' split: if_splits option.splits)

lemma cooling_connected [simp]: "cooling now x (d\<lparr>d_connected_peers := l\<rparr>) \<longleftrightarrow> cooling now x d"
  by (simp add: cooling_def split: option.splits)

text \<open>What a search leaves alone: the configuration, the sources, and the cooldowns in force.\<close>

definition search_frame :: "nat \<Rightarrow> ('a, 'p) discovery_status \<Rightarrow> ('a, 'p) discovery_status \<Rightarrow> bool" where
  "search_frame now d d' \<longleftrightarrow>
     d_p2p_config d' = d_p2p_config d \<and> d_found_manual_peers d' = d_found_manual_peers d \<and>
     d_found_mdns_peers d' = d_found_mdns_peers d \<and> d_found_kademlia_peers d' = d_found_kademlia_peers d \<and>
     d_found_chain_peers d' = d_found_chain_peers d \<and>
     (\<forall>x. cooling now x d' \<longleftrightarrow> cooling now x d) \<and>
     (\<forall>x. cooling now x d \<longrightarrow> map_of (d_cooldown_addrs d') x = map_of (d_cooldown_addrs d) x)"

lemma search_frame_refl [simp]: "search_frame now d d"
  by (simp add: search_frame_def)

lemma search_frame_trans [trans]: "search_frame now d d1 \<Longrightarrow> search_frame now d1 d2 \<Longrightarrow> search_frame now d d2"
  by (simp add: search_frame_def)

lemma search_frame_connected [simp]: "search_frame now d (d'\<lparr>d_connected_peers := l\<rparr>) \<longleftrightarrow> search_frame now d d'"
  by (simp add: search_frame_def)

lemma is_unused_addr_frame: "is_unused_addr now addr d = (d', b) \<Longrightarrow> search_frame now d d'"
  unfolding search_frame_def by (blast dest: is_unused_addr_spec)

lemma next_unused_frame: "next_unused now c xs d = (d', r) \<Longrightarrow> search_frame now d d'"
proof (induction xs arbitrary: d)
  case (Cons x xs)
  obtain addr info d1 b where x: "x = (addr, info)" and step: "is_unused_addr now addr d = (d1, b)"
    by (cases x, cases "is_unused_addr now (fst x) d") simp
  have "search_frame now d d1" using step by (rule is_unused_addr_frame)
  then show ?case using Cons x step by (cases b) (auto intro: search_frame_trans)
qed simp

lemma next_unused_some:
  "next_unused now c xs d = (d', Some (addr, info)) \<Longrightarrow>
   (addr, info) \<in> set xs \<and> \<not> has_addr addr (d_connected_peers d) \<and> \<not> cooling now addr d \<and>
   d_connected_peers d' = add_peer addr (pi_peer_id info) c (d_connected_peers d)"
proof (induction xs arbitrary: d)
  case (Cons x xs)
  obtain a i d1 b where x: "x = (a, i)" and step: "is_unused_addr now a d = (d1, b)"
    by (cases x, cases "is_unused_addr now (fst x) d") simp
  then show ?case using Cons.prems Cons.IH [of d1] is_unused_addr_spec [OF step] by (cases b) auto
qed simp

lemma next_unused_none:
  "next_unused now c xs d = (d', None) \<Longrightarrow>
   d_connected_peers d' = d_connected_peers d \<and>
   (\<forall>(addr, info) \<in> set xs. has_addr addr (d_connected_peers d) \<or> cooling now addr d)"
proof (induction xs arbitrary: d)
  case (Cons x xs)
  obtain a i d1 b where x: "x = (a, i)" and step: "is_unused_addr now a d = (d1, b)"
    by (cases x, cases "is_unused_addr now (fst x) d") simp
  then show ?case using Cons.prems Cons.IH [of d1] is_unused_addr_spec [OF step] by (cases b) auto
qed simp

end
