(* ===== verification/P2p_Server.thy ===== *)
theory P2p_Server
  imports Discovery Sdk
begin

text \<open>
  The peer-to-peer server (\<open>p2p/src/libp2p/mod.rs\<close>): the search for peers and the event loop.
  \<open>libp2p\<close> is third-party code. What the server asks of its swarm is recorded as a list of calls,
  and what the swarm reports is a list of events; the order in which \<open>tokio::select!\<close> picks ticks,
  events and commands is the order of the inputs.
\<close>

section \<open>Calls, events and inputs\<close>

datatype ('a, 'p) swarm_call =
    Dial 'a
  | KadAddAddress 'p 'a
  | GossipAddExplicitPeer 'p
  | KadRemovePeer 'p
  | KadGetClosestPeers 'p
  | GossipPublish bytes
  | DisconnectPeer 'p

datatype ('a, 'p) swarm_event =
    NewListenAddr 'a
  | ConnectionEstablishedDialer 'p 'a
  | ConnectionClosed 'p
  | OutgoingConnectionErrorTransport "'a list"
  | OutgoingConnectionErrorOther
  | GossipMessage "'p option" bytes
  | MdnsDiscovered "('p \<times> 'a) list"
  | KadClosestPeers "string + 'p list"
  | OtherEvent

datatype ('a, 'p) input = Tick | FromSwarm "('a, 'p) swarm_event" | FromNode "p2p_command option"

record ('a, 'p) p2p_server =
  ps_discovery_status :: "('a, 'p) discovery_status"
  ps_local_peer_id :: 'p
  ps_messages :: "p2p_message list"
  ps_message_channel_open :: bool
  ps_calls :: "('a, 'p) swarm_call list"

text \<open>
  The third-party functions the loop uses: parsing of addresses and identities, their rendering,
  and the addresses that Kademlia knows of a peer; and the iteration order of hash maps.
\<close>

record ('a, 'p) p2p_lib =
  pl_parse_addr :: "string \<Rightarrow> 'a option"
  pl_parse_peer :: "string \<Rightarrow> 'p option"
  pl_show_peer :: "'p \<Rightarrow> string"
  pl_addresses_of_peer :: "'p \<Rightarrow> 'a list"
  pl_perm :: "('a, 'p) infos \<Rightarrow> ('a, 'p) infos"

definition perm_ok :: "('a, 'p) p2p_lib \<Rightarrow> bool" where
  "perm_ok lib \<longleftrightarrow> (\<forall>xs. mset (pl_perm lib xs) = mset xs)"

definition p2p_call :: "('a, 'p) swarm_call \<Rightarrow> ('a, 'p) p2p_server \<Rightarrow> ('a, 'p) p2p_server" where
  "p2p_call c s = s\<lparr>ps_calls := ps_calls s @ [c]\<rparr>"

definition on_discovery ::
  "(('a, 'p) discovery_status \<Rightarrow> ('a, 'p) discovery_status) \<Rightarrow> ('a, 'p) p2p_server \<Rightarrow> ('a, 'p) p2p_server" where
  "on_discovery f s = s\<lparr>ps_discovery_status := f (ps_discovery_status s)\<rparr>"


section \<open>Searching for a peer\<close>

definition dial_peer :: "'a \<Rightarrow> ('a, 'p) p2p_server \<Rightarrow> ('a, 'p) p2p_server" where
  "dial_peer addr s = p2p_call (Dial addr) s"

definition search_kademlia_peers ::
  "('a, 'p) p2p_lib \<Rightarrow> nat \<Rightarrow> ('a, 'p) p2p_server \<Rightarrow> ('a, 'p) p2p_server" where
  "search_kademlia_peers lib now s =
     (case get_next_kademlia_peer (pl_perm lib) now (ps_discovery_status s) of
        (d, Some (addr, _)) \<Rightarrow> dial_peer addr (s\<lparr>ps_discovery_status := d\<rparr>)
      | (d, None) \<Rightarrow> p2p_call (KadGetClosestPeers (ps_local_peer_id s)) (s\<lparr>ps_discovery_status := d\<rparr>))"

function search_new_peer ::
  "('a, 'p) p2p_lib \<Rightarrow> nat \<Rightarrow> connection_type option \<Rightarrow> ('a, 'p) p2p_server \<Rightarrow> ('a, 'p) p2p_server"
  and search_manual_peers :: "('a, 'p) p2p_lib \<Rightarrow> nat \<Rightarrow> ('a, 'p) p2p_server \<Rightarrow> ('a, 'p) p2p_server"
  and search_mdns_peers :: "('a, 'p) p2p_lib \<Rightarrow> nat \<Rightarrow> ('a, 'p) p2p_server \<Rightarrow> ('a, 'p) p2p_server" where
  "search_new_peer lib now skip s =
     (case get_current_discovery_method skip (ps_discovery_status s) of
        Manual \<Rightarrow> search_manual_peers lib now s
      | MDns \<Rightarrow> search_mdns_peers lib now s
      | ConnChain \<Rightarrow> search_new_peer lib now (Some ConnChain) s
      | Kademlia \<Rightarrow> search_kademlia_peers lib now s
      | ConnNone \<Rightarrow> s)"
| "search_manual_peers lib now s =
     (case get_next_manual_peer (pl_perm lib) now (ps_discovery_status s) of
        (d, Some (addr, _)) \<Rightarrow> dial_peer addr (s\<lparr>ps_discovery_status := d\<rparr>)
      | (d, None) \<Rightarrow> search_new_peer lib now (Some Manual) (s\<lparr>ps_discovery_status := d\<rparr>))"
| "search_mdns_peers lib now s =
     (case get_next_mdns_peer (pl_perm lib) now (ps_discovery_status s) of
        (d, Some (addr, _)) \<Rightarrow> dial_peer addr (s\<lparr>ps_discovery_status := d\<rparr>)
      | (d, None) \<Rightarrow> search_new_peer lib now (Some MDns) (s\<lparr>ps_discovery_status := d\<rparr>))"
  by pat_completeness auto

text \<open>The recursion ends because the method chosen is always above the one to skip.\<close>

definition skip_rank :: "connection_type option \<Rightarrow> nat" where
  "skip_rank skip = conn_rank (case skip of Some c \<Rightarrow> c | None \<Rightarrow> ConnNone)"

lemma method_rank:
  assumes "get_current_discovery_method skip d = c" "c \<noteq> ConnNone"
  shows "skip_rank skip < conn_rank c" "c \<noteq> ConnChain"
  using method_priority(1,2) [OF assms] by (simp_all add: skip_rank_def less_connection_type_def)

termination search_new_peer
  by (relation "measure (\<lambda>x. case x of
        Inl (lib, now, skip, s) \<Rightarrow> 2 * (5 - skip_rank skip)
      | Inr (Inl _) \<Rightarrow> 9
      | Inr (Inr _) \<Rightarrow> 7)")
    (auto simp: skip_rank_def conn_rank_def dest: method_rank)

declare search_new_peer.simps [simp del] search_manual_peers.simps [simp del] search_mdns_peers.simps [simp del]


section \<open>The event loop\<close>

definition handle_established ::
  "('a, 'p) p2p_lib \<Rightarrow> nat \<Rightarrow> 'p \<Rightarrow> 'a \<Rightarrow> ('a, 'p) p2p_server \<Rightarrow> ('a, 'p) p2p_server res" where
  "handle_established lib now peer_id address s =
     and_then (add_connected_peer address peer_id (ps_discovery_status s)) (\<lambda>d.
     Inr (search_new_peer lib now None
            (p2p_call (GossipAddExplicitPeer peer_id)
              (p2p_call (KadAddAddress peer_id address) (s\<lparr>ps_discovery_status := d\<rparr>)))))"

definition handle_closed ::
  "('a, 'p) p2p_lib \<Rightarrow> nat \<Rightarrow> 'p \<Rightarrow> ('a, 'p) p2p_server \<Rightarrow> ('a, 'p) p2p_server" where
  "handle_closed lib now peer_id s =
     p2p_call (KadRemovePeer peer_id)
       (search_new_peer lib now None (on_discovery (remove_connected_peer (Some peer_id) None) s))"

definition fail_addr :: "nat \<Rightarrow> 'a \<Rightarrow> ('a, 'p) discovery_status \<Rightarrow> ('a, 'p) discovery_status" where
  "fail_addr now addr d = cooldown_addr now addr (remove_connected_peer None (Some addr) d)"

definition handle_dial_error ::
  "('a, 'p) p2p_lib \<Rightarrow> nat \<Rightarrow> 'a list \<Rightarrow> ('a, 'p) p2p_server \<Rightarrow> ('a, 'p) p2p_server" where
  "handle_dial_error lib now failed_peers s =
     search_new_peer lib now None (on_discovery (fold (fail_addr now) failed_peers) s)"

definition handle_gossip ::
  "('a, 'p) p2p_lib \<Rightarrow> 'p option \<Rightarrow> bytes \<Rightarrow> ('a, 'p) p2p_server \<Rightarrow> ('a, 'p) p2p_server" where
  "handle_gossip lib source data s =
     (if ps_message_channel_open s
      then s\<lparr>ps_messages := ps_messages s @ [\<lparr>pm_source = map_option (pl_show_peer lib) source, pm_data = data\<rparr>]\<rparr>
      else s)"

definition handle_mdns ::
  "('a, 'p) p2p_lib \<Rightarrow> nat \<Rightarrow> ('p \<times> 'a) list \<Rightarrow> ('a, 'p) p2p_server \<Rightarrow> ('a, 'p) p2p_server" where
  "handle_mdns lib now found s =
     search_new_peer lib now None
       (on_discovery (fold (\<lambda>(peer_id, addr). add_mdns_peer addr peer_id) found) s)"

definition handle_closest ::
  "('a, 'p) p2p_lib \<Rightarrow> string + 'p list \<Rightarrow> ('a, 'p) p2p_server \<Rightarrow> ('a, 'p) p2p_server" where
  "handle_closest lib res s =
     (case res of
        Inl err \<Rightarrow> s
      | Inr peers \<Rightarrow>
          on_discovery (fold (\<lambda>peer_id d.
            case pl_addresses_of_peer lib peer_id of [] \<Rightarrow> d | addr # _ \<Rightarrow> add_kademlia_peer addr peer_id d) peers) s)"

definition handle_swarm_event ::
  "('a, 'p) p2p_lib \<Rightarrow> nat \<Rightarrow> ('a, 'p) swarm_event \<Rightarrow> ('a, 'p) p2p_server \<Rightarrow> ('a, 'p) p2p_server res" where
  "handle_swarm_event lib now ev s =
     (case ev of
        NewListenAddr _ \<Rightarrow> Inr s
      | ConnectionEstablishedDialer peer_id address \<Rightarrow> handle_established lib now peer_id address s
      | ConnectionClosed peer_id \<Rightarrow> Inr (handle_closed lib now peer_id s)
      | OutgoingConnectionErrorTransport failed_peers \<Rightarrow> Inr (handle_dial_error lib now failed_peers s)
      | OutgoingConnectionErrorOther \<Rightarrow> Inr (search_new_peer lib now None s)
      | GossipMessage source data \<Rightarrow> Inr (handle_gossip lib source data s)
      | MdnsDiscovered found \<Rightarrow> Inr (handle_mdns lib now found s)
      | KadClosestPeers r \<Rightarrow> Inr (handle_closest lib r s)
      | OtherEvent \<Rightarrow> Inr s)"

definition handle_command ::
  "('a, 'p) p2p_lib \<Rightarrow> nat \<Rightarrow> p2p_command option \<Rightarrow> ('a, 'p) p2p_server \<Rightarrow> ('a, 'p) p2p_server res" where
  "handle_command lib now task s =
     (case task of
        None \<Rightarrow> Inr s
      | Some (Broadcast data) \<Rightarrow> Inr (p2p_call (GossipPublish data) s)
      | Some (Unicast _) \<Rightarrow> Inl (Panic ''not implemented: Todo unicast'')
      | Some (AddPeer multi_addr) \<Rightarrow>
          (case pl_parse_addr lib multi_addr of
             Some addr \<Rightarrow> Inr (search_new_peer lib now None (on_discovery (add_manual_peer addr None) s))
           | None \<Rightarrow> Inr s)
      | Some (RemovePeer peer) \<Rightarrow>
          (case pl_parse_peer lib peer of
             Some peer_id \<Rightarrow>
               Inr (search_new_peer lib now None
                 (on_discovery (remove_connected_peer (Some peer_id) None) (p2p_call (DisconnectPeer peer_id) s)))
           | None \<Rightarrow> Inr s)
      | Some DiscoverPeers \<Rightarrow> Inr (search_new_peer lib now None s))"

definition loop_step ::
  "('a, 'p) p2p_lib \<Rightarrow> nat \<Rightarrow> ('a, 'p) input \<Rightarrow> ('a, 'p) p2p_server \<Rightarrow> ('a, 'p) p2p_server res" where
  "loop_step lib now i s =
     (case i of
        Tick \<Rightarrow> Inr (search_new_peer lib now None s)
      | FromSwarm ev \<Rightarrow> handle_swarm_event lib now ev s
      | FromNode task \<Rightarrow> handle_command lib now task s)"

text \<open>
  Every input comes with its time and with the answers that libp2p and the hash maps give at that
  time: Kademlia's addresses and the order of a map change while the server runs.
\<close>

primrec loop_stream ::
  "(nat \<times> ('a, 'p) input \<times> ('a, 'p) p2p_lib) list \<Rightarrow> ('a, 'p) p2p_server \<Rightarrow> ('a, 'p) p2p_server res" where
  "loop_stream [] s = Inr s"
| "loop_stream (x # xs) s = and_then (loop_step (snd (snd x)) (fst x) (fst (snd x)) s) (loop_stream xs)"

definition p2p_start :: "('a, 'p) p2p_lib \<Rightarrow> nat \<Rightarrow> ('a, 'p) p2p_server \<Rightarrow> ('a, 'p) p2p_server" where
  "p2p_start lib now s = search_new_peer lib now None s"


section \<open>What a search does\<close>

abbreviation connected :: "('a, 'p) p2p_server \<Rightarrow> ('a, 'p) peer_list" where
  "connected s \<equiv> d_connected_peers (ps_discovery_status s)"

definition below_out_peers :: "('a, 'p) p2p_server \<Rightarrow> bool" where
  "below_out_peers s \<longleftrightarrow>
     sint (of_nat (peer_list_len (connected s)) :: i32) < sint (pc_out_peers (d_p2p_config (ps_discovery_status s)))"

text \<open>
  The possible outcomes: nothing, a query to Kademlia, or one dial to an address that is neither
  connected nor cooling down and that counts as connected from then on.
\<close>

definition search_ok :: "nat \<Rightarrow> ('a, 'p) p2p_server \<Rightarrow> ('a, 'p) p2p_server \<Rightarrow> bool" where
  "search_ok now s s' \<longleftrightarrow>
     search_frame now (ps_discovery_status s) (ps_discovery_status s') \<and> ps_messages s' = ps_messages s \<and>
     (ps_calls s' = ps_calls s \<and> connected s' = connected s \<or>
      ps_calls s' = ps_calls s @ [KadGetClosestPeers (ps_local_peer_id s)] \<and> connected s' = connected s \<or>
      (\<exists>a peer c. ps_calls s' = ps_calls s @ [Dial a] \<and> connected s' = add_peer a peer c (connected s) \<and>
         \<not> has_addr a (connected s) \<and> \<not> cooling now a (ps_discovery_status s) \<and> below_out_peers s))"

lemma search_ok_retry:
  assumes "search_frame now (ps_discovery_status s) d" "d_connected_peers d = connected s"
    and "search_ok now (s\<lparr>ps_discovery_status := d\<rparr>) s'"
  shows "search_ok now s s'"
proof -
  have "below_out_peers (s\<lparr>ps_discovery_status := d\<rparr>) \<longleftrightarrow> below_out_peers s"
    using assms(1,2) by (simp add: below_out_peers_def search_frame_def)
  moreover have "cooling now a d \<longleftrightarrow> cooling now a (ps_discovery_status s)" for a
    using assms(1) by (simp add: search_frame_def)
  ultimately show ?thesis
    using assms search_frame_trans [OF assms(1)] by (auto simp: search_ok_def)
qed

lemma dial_ok:
  assumes "next_unused now c xs (ps_discovery_status s) = (d, Some (addr, info))" "below_out_peers s"
  shows "search_ok now s (dial_peer addr (s\<lparr>ps_discovery_status := d\<rparr>))"
  using assms next_unused_some [OF assms(1)] next_unused_frame [OF assms(1)]
  by (auto simp: search_ok_def dial_peer_def p2p_call_def)

lemma search_kademlia_ok:
  assumes "below_out_peers s"
  shows "search_ok now s (search_kademlia_peers lib now s)"
proof (cases "get_next_kademlia_peer (pl_perm lib) now (ps_discovery_status s)")
  case (Pair d r)
  note found = Pair [unfolded get_next_kademlia_peer_def]
  show ?thesis
  proof (cases r)
    case None
    then show ?thesis
      using Pair next_unused_none [OF found [unfolded None]] next_unused_frame [OF found]
      by (simp add: search_kademlia_peers_def p2p_call_def search_ok_def)
  next
    case (Some x)
    then show ?thesis
      using Pair found assms by (cases x) (simp add: search_kademlia_peers_def dial_ok)
  qed
qed

lemma search_all_ok:
  "search_ok now s (search_new_peer lib now skip s)"
  "below_out_peers s \<longrightarrow> search_ok now s (search_manual_peers lib now s)"
  "below_out_peers s \<longrightarrow> search_ok now s (search_mdns_peers lib now s)"
proof (induction lib now skip s and lib now s and lib now s
    rule: search_new_peer_search_manual_peers_search_mdns_peers.induct)
  case (1 lib now skip s)
  have "below_out_peers s" if "get_current_discovery_method skip (ps_discovery_status s) \<noteq> ConnNone"
    using method_priority(3) [OF refl that] by (simp add: below_out_peers_def)
  moreover have "search_ok now s s" by (simp add: search_ok_def)
  ultimately show ?case
    using 1 search_kademlia_ok
    by (cases "get_current_discovery_method skip (ps_discovery_status s)")
      (auto simp: search_new_peer.simps [of lib now skip s])
next
  case (2 lib now s)
  show ?case
  proof (intro impI, cases "get_next_manual_peer (pl_perm lib) now (ps_discovery_status s)")
    case (Pair d r)
    assume below: "below_out_peers s"
    note nxt = Pair [unfolded get_next_manual_peer_def]
    show "search_ok now s (search_manual_peers lib now s)"
    proof (cases r)
      case None
      then show ?thesis
        using 2 [OF Pair [symmetric]] next_unused_none [OF nxt [unfolded None]] next_unused_frame [OF nxt] Pair
        by (simp add: search_manual_peers.simps [of lib now s] search_ok_retry [of now s d])
    next
      case (Some x)
      then show ?thesis
        using nxt Pair below by (cases x) (simp add: search_manual_peers.simps [of lib now s] dial_ok)
    qed
  qed
next
  case (3 lib now s)
  show ?case
  proof (intro impI, cases "get_next_mdns_peer (pl_perm lib) now (ps_discovery_status s)")
    case (Pair d r)
    assume below: "below_out_peers s"
    note nxt = Pair [unfolded get_next_mdns_peer_def]
    show "search_ok now s (search_mdns_peers lib now s)"
    proof (cases r)
      case None
      then show ?thesis
        using 3 [OF Pair [symmetric]] next_unused_none [OF nxt [unfolded None]] next_unused_frame [OF nxt] Pair
        by (simp add: search_mdns_peers.simps [of lib now s] search_ok_retry [of now s d])
    next
      case (Some x)
      then show ?thesis
        using nxt Pair below by (cases x) (simp add: search_mdns_peers.simps [of lib now s] dial_ok)
    qed
  qed
qed

text \<open>A search for a peer always ends, with nothing, with one Kademlia query or with one dial. An
  address it dials is neither connected nor cooling down, is listed as connected afterwards, and is
  dialled only while fewer identified peers are connected than \<open>out_peers\<close> allows.\<close>

theorem search_dials_one_unused:
  "\<exists>new. ps_calls (search_new_peer lib now skip s) = ps_calls s @ new \<and> length new \<le> 1 \<and>
    (\<forall>a. Dial a \<in> set new = (has_addr a (connected (search_new_peer lib now skip s)) \<and> \<not> has_addr a (connected s))) \<and>
    (new = [] \<or> new = [KadGetClosestPeers (ps_local_peer_id s)] \<or>
     (\<exists>a. new = [Dial a] \<and> \<not> cooling now a (ps_discovery_status s) \<and> below_out_peers s))"
  using search_all_ok(1) [of now s lib skip] by (auto simp: search_ok_def peer_simps)


section \<open>The cooldown across events\<close>

text \<open>What one step may add to the calls while an address cools down.\<close>

definition quiet :: "'a \<Rightarrow> ('a, 'p) p2p_server \<Rightarrow> ('a, 'p) p2p_server \<Rightarrow> bool" where
  "quiet a s s' \<longleftrightarrow> (\<exists>new. ps_calls s' = ps_calls s @ new \<and> Dial a \<notin> set new)"

definition cooled_since :: "nat \<Rightarrow> nat \<Rightarrow> 'a \<Rightarrow> ('a, 'p) p2p_server \<Rightarrow> bool" where
  "cooled_since t0 dur a s \<longleftrightarrow>
     pc_cooldown_duration (d_p2p_config (ps_discovery_status s)) = dur \<and>
     (case map_of (d_cooldown_addrs (ps_discovery_status s)) a of Some t \<Rightarrow> t0 \<le> t | None \<Rightarrow> False)"

lemma quiet_refl [simp]: "quiet a s s"
  by (simp add: quiet_def)

lemma quiet_trans: "quiet a s s1 \<Longrightarrow> quiet a s1 s2 \<Longrightarrow> quiet a s s2"
  by (auto simp: quiet_def)

lemma search_keeps_cool:
  assumes "cooled_since t0 dur a s" "now \<le> t0 + dur"
  shows "cooled_since t0 dur a (search_new_peer lib now skip s)" "quiet a s (search_new_peer lib now skip s)"
proof -
  have ok: "search_ok now s (search_new_peer lib now skip s)" by (rule search_all_ok(1))
  have cool: "cooling now a (ps_discovery_status s)"
    using assms by (auto simp: cooled_since_def cooling_def split: option.splits)
  then have "map_of (d_cooldown_addrs (ps_discovery_status (search_new_peer lib now skip s))) a
      = map_of (d_cooldown_addrs (ps_discovery_status s)) a"
    using ok by (simp add: search_ok_def search_frame_def)
  then show "cooled_since t0 dur a (search_new_peer lib now skip s)"
    using assms(1) ok by (simp add: cooled_since_def search_ok_def search_frame_def)
  show "quiet a s (search_new_peer lib now skip s)"
    using ok cool by (auto simp: search_ok_def quiet_def)
qed

text \<open>Operations that leave the cooldowns and the configuration alone.\<close>

definition same_cooldown :: "('a, 'p) discovery_status \<Rightarrow> ('a, 'p) discovery_status \<Rightarrow> bool" where
  "same_cooldown d d' \<longleftrightarrow> d_cooldown_addrs d' = d_cooldown_addrs d \<and> d_p2p_config d' = d_p2p_config d"

lemma same_cooldown_trans: "same_cooldown d d1 \<Longrightarrow> same_cooldown d1 d2 \<Longrightarrow> same_cooldown d d2"
  by (simp add: same_cooldown_def)

lemma same_cooldown_ops [simp]:
  "same_cooldown d d"
  "same_cooldown d (forget_found c f d)"
  "same_cooldown d (add_mdns_peer a p d)"
  "same_cooldown d (add_kademlia_peer a p d)"
  "same_cooldown d (add_manual_peer a q d)"
  by (simp_all add: same_cooldown_def forget_found_def add_mdns_peer_def add_kademlia_peer_def add_manual_peer_def
      split: connection_type.splits)

lemma same_cooldown_remove [simp]: "same_cooldown d (remove_connected_peer p a d)"
proof -
  have "same_cooldown d (remove_connected_by_id q d)" for q :: 'b and d :: "('a, 'b) discovery_status"
    using same_cooldown_ops(2) by (auto simp: remove_connected_by_id_def same_cooldown_def Let_def split: option.splits)
  moreover have "same_cooldown d (remove_connected_by_addr x d)" for x and d :: "('a, 'b) discovery_status"
    using same_cooldown_ops(2) by (auto simp: remove_connected_by_addr_def same_cooldown_def Let_def split: option.splits)
  ultimately show ?thesis
    by (auto simp: remove_connected_peer_def Let_def same_cooldown_def split: option.splits)
qed

lemma same_cooldown_fold: "(\<And>x d. same_cooldown d (f x d)) \<Longrightarrow> same_cooldown d (fold f xs d)"
  by (induction xs arbitrary: d) (auto intro: same_cooldown_trans)

lemma on_discovery_cool:
  "same_cooldown (ps_discovery_status s) (f (ps_discovery_status s)) \<Longrightarrow> cooled_since t0 dur a s \<Longrightarrow>
   cooled_since t0 dur a (on_discovery f s)"
  by (simp add: cooled_since_def on_discovery_def same_cooldown_def)

lemma on_discovery_quiet [simp]: "quiet a s (on_discovery f s)"
  by (simp add: quiet_def on_discovery_def)

lemma calls_cool [simp]:
  "cooled_since t0 dur a (s\<lparr>ps_calls := cs\<rparr>) \<longleftrightarrow> cooled_since t0 dur a s"
  "cooled_since t0 dur a (p2p_call c s) \<longleftrightarrow> cooled_since t0 dur a s"
  by (simp_all add: cooled_since_def p2p_call_def)

lemma p2p_call_quiet: "c \<noteq> Dial a \<Longrightarrow> quiet a s (p2p_call c s)"
  by (simp add: quiet_def p2p_call_def)

lemma fail_addr_cooldown:
  "d_p2p_config (fail_addr now x d) = d_p2p_config d"
  "map_of (d_cooldown_addrs (fail_addr now x d)) a = (if a = x then Some now else map_of (d_cooldown_addrs d) a)"
  using same_cooldown_remove [of d None "Some x"]
  by (simp_all add: fail_addr_def cooldown_addr_def same_cooldown_def AList.update_conv')

lemma fold_fail_cooldown:
  "d_p2p_config (fold (fail_addr now) xs d) = d_p2p_config d"
  "map_of (d_cooldown_addrs (fold (fail_addr now) xs d)) a
     = (if a \<in> set xs then Some now else map_of (d_cooldown_addrs d) a)"
  by (induction xs arbitrary: d) (auto simp: fail_addr_cooldown)

lemma fail_starts_cooldown:
  assumes "a \<in> set xs"
  shows "cooled_since now (pc_cooldown_duration (d_p2p_config (ps_discovery_status s))) a
    (on_discovery (fold (fail_addr now) xs) s)"
  using assms by (simp add: cooled_since_def on_discovery_def fold_fail_cooldown)

lemma fail_keeps_cool:
  assumes "cooled_since t0 dur a s" "t0 \<le> now"
  shows "cooled_since t0 dur a (on_discovery (fold (fail_addr now) xs) s)"
  using assms by (auto simp: cooled_since_def on_discovery_def fold_fail_cooldown)

text \<open>A search after a preparation that keeps the cooldown.\<close>

lemma prepared_search_cool:
  assumes "cooled_since t0 dur a s1" "now \<le> t0 + dur" "quiet a s s1"
  shows "cooled_since t0 dur a (search_new_peer lib now skip s1) \<and> quiet a s (search_new_peer lib now skip s1)"
  using search_keeps_cool [OF assms(1,2)] quiet_trans [OF assms(3)] by simp

lemma established_cool:
  assumes "cooled_since t0 dur a s" "now \<le> t0 + dur" "handle_established lib now p x s = Inr s'"
  shows "cooled_since t0 dur a s' \<and> quiet a s s'"
proof -
  obtain d where d: "add_connected_peer x p (ps_discovery_status s) = Inr d"
    and s': "s' = search_new_peer lib now None (p2p_call (GossipAddExplicitPeer p)
      (p2p_call (KadAddAddress p x) (s\<lparr>ps_discovery_status := d\<rparr>)))"
    using assms(3) by (auto simp: handle_established_def res_simps)
  have "same_cooldown (ps_discovery_status s) d"
    using d by (auto simp: add_connected_peer_def res_simps same_cooldown_def)
  then have "cooled_since t0 dur a (s\<lparr>ps_discovery_status := d\<rparr>)"
    using assms(1) by (simp add: cooled_since_def same_cooldown_def)
  then show ?thesis
    unfolding s' using assms(2) by (intro prepared_search_cool) (auto simp: quiet_def p2p_call_def)
qed

lemma swarm_event_cool:
  assumes "cooled_since t0 dur a s" "t0 \<le> now" "now \<le> t0 + dur" "handle_swarm_event lib now ev s = Inr s'"
  shows "cooled_since t0 dur a s' \<and> quiet a s s'"
proof (cases ev)
  case (ConnectionEstablishedDialer p x)
  then show ?thesis using assms established_cool by (simp add: handle_swarm_event_def)
next
  case (ConnectionClosed p)
  have "cooled_since t0 dur a (search_new_peer lib now None (on_discovery (remove_connected_peer (Some p) None) s)) \<and>
      quiet a s (search_new_peer lib now None (on_discovery (remove_connected_peer (Some p) None) s))"
    using assms by (intro prepared_search_cool) (simp_all add: on_discovery_cool)
  moreover have "s' = p2p_call (KadRemovePeer p)
      (search_new_peer lib now None (on_discovery (remove_connected_peer (Some p) None) s))"
    using assms(4) ConnectionClosed by (simp add: handle_swarm_event_def handle_closed_def)
  ultimately show ?thesis using quiet_trans p2p_call_quiet by fastforce
next
  case (OutgoingConnectionErrorTransport xs)
  then have s': "s' = search_new_peer lib now None (on_discovery (fold (fail_addr now) xs) s)"
    using assms(4) by (simp add: handle_swarm_event_def handle_dial_error_def)
  show ?thesis
    unfolding s' using assms by (intro prepared_search_cool fail_keeps_cool) simp_all
next
  case OutgoingConnectionErrorOther
  then have s': "s' = search_new_peer lib now None s" using assms(4) by (simp add: handle_swarm_event_def)
  show ?thesis unfolding s' using assms by (intro prepared_search_cool) simp_all
next
  case (MdnsDiscovered found)
  then have s': "s' = search_new_peer lib now None
      (on_discovery (fold (\<lambda>(peer_id, addr). add_mdns_peer addr peer_id) found) s)"
    using assms(4) by (simp add: handle_swarm_event_def handle_mdns_def)
  show ?thesis
    unfolding s' using assms
    by (intro prepared_search_cool on_discovery_cool same_cooldown_fold) (auto split: prod.splits)
next
  case (KadClosestPeers r)
  have "cooled_since t0 dur a (handle_closest lib r s)"
    unfolding handle_closest_def using assms(1)
    by (cases r) (auto intro!: on_discovery_cool same_cooldown_fold split: list.splits)
  moreover have "quiet a s (handle_closest lib r s)" by (simp add: handle_closest_def split: sum.splits)
  ultimately show ?thesis using assms(4) KadClosestPeers by (simp add: handle_swarm_event_def)
next
  case (GossipMessage src data)
  then show ?thesis
    using assms by (auto simp: handle_swarm_event_def handle_gossip_def cooled_since_def quiet_def split: if_splits)
qed (use assms in \<open>simp_all add: handle_swarm_event_def\<close>)

lemma command_cool:
  assumes "cooled_since t0 dur a s" "now \<le> t0 + dur" "handle_command lib now task s = Inr s'"
  shows "cooled_since t0 dur a s' \<and> quiet a s s'"
proof -
  have broadcast: "quiet a s (p2p_call (GossipPublish x) s)" for x by (rule p2p_call_quiet) simp
  have add: "cooled_since t0 dur a (search_new_peer lib now None (on_discovery (add_manual_peer x None) s)) \<and>
      quiet a s (search_new_peer lib now None (on_discovery (add_manual_peer x None) s))" for x
    using assms by (intro prepared_search_cool on_discovery_cool) simp_all
  have rem: "cooled_since t0 dur a (search_new_peer lib now None
        (on_discovery (remove_connected_peer (Some p) None) (p2p_call (DisconnectPeer p) s))) \<and>
      quiet a s (search_new_peer lib now None
        (on_discovery (remove_connected_peer (Some p) None) (p2p_call (DisconnectPeer p) s)))" for p
    using assms by (intro prepared_search_cool on_discovery_cool)
      (auto simp: quiet_def on_discovery_def p2p_call_def)
  have find: "cooled_since t0 dur a (search_new_peer lib now None s) \<and> quiet a s (search_new_peer lib now None s)"
    using assms by (intro prepared_search_cool) simp_all
  show ?thesis
    using assms(1,3) broadcast add rem find
    by (auto simp: handle_command_def split: option.splits p2p_command.splits)
qed

lemma loop_step_cool:
  assumes "cooled_since t0 dur a s" "t0 \<le> now" "now \<le> t0 + dur" "loop_step lib now i s = Inr s'"
  shows "cooled_since t0 dur a s' \<and> quiet a s s'"
proof (cases i)
  case Tick
  then show ?thesis using assms search_keeps_cool [OF assms(1,3)] by (auto simp: loop_step_def)
qed (use assms swarm_event_cool command_cool in \<open>simp_all add: loop_step_def\<close>)

lemma loop_stream_cool:
  assumes "cooled_since t0 dur a s" "list_all (\<lambda>x. t0 \<le> fst x \<and> fst x \<le> t0 + dur) xs"
    and "loop_stream xs s = Inr s'"
  shows "cooled_since t0 dur a s' \<and> quiet a s s'"
  using assms
proof (induction xs arbitrary: s)
  case (Cons x xs)
  then obtain s1 where s1: "loop_step (snd (snd x)) (fst x) (fst (snd x)) s = Inr s1" "loop_stream xs s1 = Inr s'"
    by (auto simp: res_simps)
  have "cooled_since t0 dur a s1 \<and> quiet a s s1"
    using Cons.prems(1,2) loop_step_cool [OF _ _ _ s1(1)] by simp
  then show ?case using Cons.IH [OF _ _ s1(2)] Cons.prems(2) quiet_trans by auto
qed simp

text \<open>C36: An address whose connection attempt failed at time \<open>t0\<close> is left alone for the whole
  cooldown: the server dials it neither in reaction to the failure nor in reaction to any sequence
  of ticks, swarm events and commands up to \<open>t0\<close> plus the configured duration.\<close>

theorem cooldown_respected:
  assumes "a \<in> set failed"
    and "loop_step lib t0 (FromSwarm (OutgoingConnectionErrorTransport failed)) s = Inr s1"
    and "list_all (\<lambda>x. t0 \<le> fst x \<and>
           fst x \<le> t0 + pc_cooldown_duration (d_p2p_config (ps_discovery_status s))) inputs"
    and "loop_stream inputs s1 = Inr s2"
  shows "\<exists>new. ps_calls s2 = ps_calls s @ new \<and> Dial a \<notin> set new"
proof -
  let ?dur = "pc_cooldown_duration (d_p2p_config (ps_discovery_status s))"
  have "s1 = search_new_peer lib t0 None (on_discovery (fold (fail_addr t0) failed) s)"
    using assms(2) by (simp add: loop_step_def handle_swarm_event_def handle_dial_error_def)
  then have "cooled_since t0 ?dur a s1 \<and> quiet a s s1"
    using prepared_search_cool [OF fail_starts_cooldown [OF assms(1)], of t0 t0 s s] by simp
  then show ?thesis
    using loop_stream_cool [OF _ assms(3,4)] quiet_trans by (metis quiet_def)
qed

definition demo_p2p_lib :: "(nat, nat) p2p_lib" where
  "demo_p2p_lib =
     \<lparr>pl_parse_addr = (\<lambda>_. None), pl_parse_peer = (\<lambda>_. None), pl_show_peer = decimal,
      pl_addresses_of_peer = (\<lambda>_. []), pl_perm = (\<lambda>xs. xs)\<rparr>"

definition demo_server :: "(nat, nat) p2p_server" where
  "demo_server =
     \<lparr>ps_discovery_status = discovery_new p2p_test_config
        \<lparr>addr_to_peer = [(7, \<lparr>pi_peer_id = None, pi_conn_type = Manual\<rparr>)], peer_to_addr = []\<rparr>,
      ps_local_peer_id = 1, ps_messages = [], ps_message_channel_open = True, ps_calls = []\<rparr>"

theorem cooldown_respected_witness:
  "\<exists>s1 s2 new.
     loop_step demo_p2p_lib 100 (FromSwarm (OutgoingConnectionErrorTransport [7])) demo_server = Inr s1 \<and>
     loop_stream [(200, Tick, demo_p2p_lib), (300, FromNode (Some DiscoverPeers), demo_p2p_lib)] s1 = Inr s2 \<and>
     ps_calls s2 = new \<and> Dial 7 \<notin> set new"
proof -
  obtain s1 where s1: "loop_step demo_p2p_lib 100 (FromSwarm (OutgoingConnectionErrorTransport [7])) demo_server = Inr s1"
    by (simp add: loop_step_def handle_swarm_event_def)
  obtain s2 where s2: "loop_stream [(200, Tick, demo_p2p_lib), (300, FromNode (Some DiscoverPeers), demo_p2p_lib)] s1 = Inr s2"
    by (simp add: loop_step_def handle_command_def)
  have dur: "pc_cooldown_duration (d_p2p_config (ps_discovery_status demo_server)) = 30000000"
    by (simp add: demo_server_def discovery_new_def p2p_test_config_def from_secs_def COOLDOWN_DURATION_def)
  have "\<exists>new. ps_calls s2 = ps_calls demo_server @ new \<and> Dial 7 \<notin> set new"
    by (rule cooldown_respected [OF _ s1 _ s2]) (simp_all add: dur)
  then show ?thesis using s1 s2 by (simp add: demo_server_def)
qed


section \<open>Two surprises\<close>

text \<open>
  An outgoing connection to an address that the status does not list, for example one that Kademlia
  opened by itself, takes the server down.
\<close>

lemma unlisted_connection_panics:
  assumes "\<not> has_addr address (connected s)"
  shows "handle_established lib now peer_id address s = Inl UnwrapNone"
  using assms by (simp add: handle_established_def add_connected_peer_def set_peer_id_def has_addr_def)

text \<open>A peer that is added by command is not a manual peer: with Kademlia disabled it is not used.\<close>

lemma added_peer_is_not_manual:
  "d_found_manual_peers (add_manual_peer addr peer d) = d_found_manual_peers d"
  "get_peer_by_addr addr (d_found_kademlia_peers (add_manual_peer addr peer d))
     = Some \<lparr>pi_peer_id = peer, pi_conn_type = Kademlia\<rparr>"
  by (simp_all add: add_manual_peer_def peer_simps)

end
