(* ===== verification/Node_Host.thy ===== *)
theory Node_Host
  imports Vm_Runtime Chains Event_Loop P2p_Server
begin

text \<open>
  The node around the virtual machine (\<open>node/src\<close>): the host actor with its database, the adapter
  through which the runtime reaches it, the worker that runs an event in the virtual machine, the
  JSON-RPC methods and the start of the node.

  SQLite, the HTTP client and the JSON-RPC server are third-party code. A table is the list of its
  rows in the order of insertion; \<open>sl_scan\<close> is the order in which a query without \<open>ORDER BY\<close> visits
  them, and \<open>sl_failure\<close> the message of a statement that fails.
\<close>

section \<open>Errors and the database\<close>

datatype node_error =
    RPCError string
  | MailboxError string
  | P2PError string
  | ReqwestError string
  | RusqliteError string
  | NodeChainAdapterError chain_adapter_error
  | MissingAppActorAddress

type_synonym rows = "(string \<times> string) list"

record sql_lib =
  sl_scan :: "rows \<Rightarrow> rows"
  sl_failure :: "rows \<Rightarrow> string option"

text \<open>\<open>CREATE TABLE IF NOT EXISTS\<close> on the database file, if there is one.\<close>

definition host_default :: "rows option \<Rightarrow> rows" where
  "host_default db_file = (case db_file of Some rows \<Rightarrow> rows | None \<Rightarrow> [])"

definition database_get :: "sql_lib \<Rightarrow> string \<Rightarrow> rows \<Rightarrow> node_error + string option" where
  "database_get sql key rows =
     (case sl_failure sql rows of
        Some e \<Rightarrow> Inl (RusqliteError e)
      | None \<Rightarrow>
          (case filter (\<lambda>row. fst row = key) (sl_scan sql rows) of
             [] \<Rightarrow> Inl (RusqliteError ''Query returned no rows'')
           | row # _ \<Rightarrow> Inr (Some (snd row))))"

definition database_set :: "sql_lib \<Rightarrow> string \<Rightarrow> string \<Rightarrow> rows \<Rightarrow> rows \<times> (node_error + unit)" where
  "database_set sql key v rows =
     (case sl_failure sql rows of
        Some e \<Rightarrow> (rows, Inl (RusqliteError e))
      | None \<Rightarrow> (rows @ [(key, v)], Inr ()))"


section \<open>The adapter between the runtime and the host actor\<close>

text \<open>
  The state behind the adapter: the host actor's table, whether it knows the application, what it
  posted to it, whether its mailbox takes messages, and the network.
\<close>

record 'w host_world =
  hw_rows :: rows
  hw_app_actor_addr :: bool
  hw_app_mailbox :: "app_message list"
  hw_mailbox_open :: bool
  hw_net :: 'w

record 'cl runtime_adapter =
  ra_chains_config :: chain_configs
  ra_another_client :: "'cl client"
  ra_near_client :: "'cl client"

definition adapter_new ::
  "('cl, 'w, 'pk, 'bh, 'stx, 'hash) near_lib \<Rightarrow> chain_configs \<Rightarrow> node_error + 'cl runtime_adapter" where
  "adapter_new lib config =
     and_then (map_err NodeChainAdapterError (another_new_client (ch_another_rpc_url config))) (\<lambda>another.
     and_then (map_err NodeChainAdapterError (near_new_client lib (ch_near_rpc_url config))) (\<lambda>near.
     Inr \<lparr>ra_chains_config = config, ra_another_client = ClientAnother another, ra_near_client = ClientNear near\<rparr>))"

definition select_client_from_chain :: "'cl runtime_adapter \<Rightarrow> chain_kind \<Rightarrow> 'cl client" where
  "select_client_from_chain ra chain =
     (case chain of Another \<Rightarrow> ra_another_client ra | Near \<Rightarrow> ra_near_client ra)"

text \<open>\<open>host_actor.send(..).await?\<close>: an actor whose mailbox is closed does not answer.\<close>

definition send_to_host ::
  "('w host_world \<Rightarrow> 'w host_world \<times> (node_error + 'v) res) \<Rightarrow> 'w host_world \<Rightarrow> 'w host_world \<times> (node_error + 'v) res" where
  "send_to_host handler w =
     (if hw_mailbox_open w then handler w else (w, Inr (Inl (MailboxError ''Mailbox has closed''))))"

definition adapter_db_get ::
  "sql_lib \<Rightarrow> string \<Rightarrow> 'w host_world \<Rightarrow> 'w host_world \<times> (node_error + string option) res" where
  "adapter_db_get sql key = send_to_host (\<lambda>w. (w, Inr (database_get sql key (hw_rows w))))"

definition adapter_db_set ::
  "sql_lib \<Rightarrow> string \<Rightarrow> string \<Rightarrow> 'w host_world \<Rightarrow> 'w host_world \<times> (node_error + unit) res" where
  "adapter_db_set sql key v =
     send_to_host (\<lambda>w. case database_set sql key v (hw_rows w) of (rows, r) \<Rightarrow> (w\<lparr>hw_rows := rows\<rparr>, Inr r))"

text \<open>\<open>reqwest::get\<close> and \<open>text()\<close>: the request may fail, and then the body; both are unwrapped.\<close>

definition http_fetch_handler ::
  "(string \<Rightarrow> 'w \<Rightarrow> 'w \<times> (string + (string + string))) \<Rightarrow> string \<Rightarrow> 'w \<Rightarrow> 'w \<times> string res" where
  "http_fetch_handler get url net =
     (case get url net of
        (net', Inr (Inr body)) \<Rightarrow> (net', Inr body)
      | (net', _) \<Rightarrow> (net', Inl (Panic ''unwrap on an Err value'')))"

definition adapter_http_fetch ::
  "(string \<Rightarrow> 'w \<Rightarrow> 'w \<times> (string + (string + string))) \<Rightarrow> string \<Rightarrow> 'w host_world
    \<Rightarrow> 'w host_world \<times> (node_error + string) res" where
  "adapter_http_fetch get url =
     send_to_host (\<lambda>w. case http_fetch_handler get url (hw_net w) of
       (net, r) \<Rightarrow> (w\<lparr>hw_net := net\<rparr>, and_then r (\<lambda>body. Inr (Inr body))))"

definition chain_error :: "(chain_adapter_error + 'v) res \<Rightarrow> (node_error + 'v) res" where
  "chain_error r = and_then r (\<lambda>x. Inr (map_err NodeChainAdapterError x))"

definition chain_view_handler ::
  "('cl, 'w, 'pk, 'bh, 'stx, 'hash) near_lib \<Rightarrow> chain_kind \<Rightarrow> string \<Rightarrow> string \<Rightarrow> bytes \<Rightarrow> 'cl client \<Rightarrow> 'w
    \<Rightarrow> 'w \<times> (node_error + bytes) res" where
  "chain_view_handler lib chain contract_id method_name args client net =
     (case chain_view_call lib chain client contract_id method_name args net of (net', r) \<Rightarrow> (net', chain_error r))"

definition adapter_chain_view ::
  "('cl, 'w, 'pk, 'bh, 'stx, 'hash) near_lib \<Rightarrow> 'cl runtime_adapter \<Rightarrow> chain_kind \<Rightarrow> string \<Rightarrow> string \<Rightarrow> bytes
    \<Rightarrow> 'w host_world \<Rightarrow> 'w host_world \<times> (node_error + bytes) res" where
  "adapter_chain_view lib ra chain contract_id method_name args =
     (let client = select_client_from_chain ra chain in
      send_to_host (\<lambda>w. case chain_view_handler lib chain contract_id method_name args client (hw_net w) of
        (net, r) \<Rightarrow> (w\<lparr>hw_net := net\<rparr>, r)))"

text \<open>\<open>ChainCall::call_bytes\<close>; \<open>None\<close> is waiting forever for the transaction.\<close>

definition call_bytes ::
  "('cl, 'w, 'pk, 'bh, 'stx, 'hash) near_lib \<Rightarrow> bool \<Rightarrow> ('esk \<Rightarrow> bytes) \<Rightarrow> ('epk \<Rightarrow> bytes) \<Rightarrow> chain_kind \<Rightarrow> string
    \<Rightarrow> string \<Rightarrow> bytes \<Rightarrow> 'cl client \<Rightarrow> u128 \<Rightarrow> ('bsk, 'bpk, 'esk, 'epk) node_config \<Rightarrow> chain_configs \<Rightarrow> 'w
    \<Rightarrow> ('w \<times> (node_error + bytes) res) option" where
  "call_bytes lib checks private_bytes public_bytes chain contract_id method_name args client deposit_amount
     node_config chains_config net =
     (let server_url = (case chain of Another \<Rightarrow> ch_another_rpc_url chains_config | Near \<Rightarrow> ch_near_rpc_url chains_config);
          keypair = ed25519_key_pair_bytes private_bytes public_bytes (nc_keypair_ed25519 node_config) in
      case chain_construct_signed_tx lib checks chain None keypair contract_id method_name args
             (nc_gas node_config) deposit_amount server_url net of
        (net1, Inl p) \<Rightarrow> Some (net1, Inl p)
      | (net1, Inr (Inl e)) \<Rightarrow> Some (net1, Inr (Inl (NodeChainAdapterError e)))
      | (net1, Inr (Inr signed_txn)) \<Rightarrow>
          map_option (\<lambda>(net2, r). (net2, chain_error r)) (chain_send_tx lib chain client signed_txn net1))"

definition adapter_chain_call ::
  "('cl, 'w, 'pk, 'bh, 'stx, 'hash) near_lib \<Rightarrow> bool \<Rightarrow> ('esk \<Rightarrow> bytes) \<Rightarrow> ('epk \<Rightarrow> bytes) \<Rightarrow> 'cl runtime_adapter
    \<Rightarrow> chain_kind \<Rightarrow> string \<Rightarrow> string \<Rightarrow> bytes \<Rightarrow> u128 \<Rightarrow> ('bsk, 'bpk, 'esk, 'epk) node_config \<Rightarrow> 'w host_world
    \<Rightarrow> ('w host_world \<times> (node_error + bytes) res) option" where
  "adapter_chain_call lib checks private_bytes public_bytes ra chain contract_id method_name args deposit_amount
     node_config w =
     (let client = select_client_from_chain ra chain in
      if hw_mailbox_open w then
        map_option (\<lambda>(net, r). (w\<lparr>hw_net := net\<rparr>, r))
          (call_bytes lib checks private_bytes public_bytes chain contract_id method_name args client deposit_amount
             node_config (ra_chains_config ra) (hw_net w))
      else Some (w, Inr (Inl (MailboxError ''Mailbox has closed''))))"

definition adapter_trigger_event ::
  "event \<Rightarrow> 'w host_world \<Rightarrow> 'w host_world \<times> (node_error + unit) res" where
  "adapter_trigger_event e =
     send_to_host (\<lambda>w. case handle_trigger_event e (hw_app_actor_addr w) of
       (_, effs, ok) \<Rightarrow>
         (w\<lparr>hw_app_mailbox := hw_app_mailbox w @ concat (map (\<lambda>eff. case eff of ToApp m \<Rightarrow> [m] | _ \<Rightarrow> []) effs)\<rparr>,
          Inr (if ok then Inr () else Inl MissingAppActorAddress)))"


section \<open>The worker\<close>

text \<open>\<open>fs::read\<close> of the consensus binary; every failure of the start is a panic.\<close>

definition fs_read :: "host \<Rightarrow> string \<Rightarrow> string + bytes" where
  "fs_read h p =
     (case files h p of
        None \<Rightarrow> Inl ''No such file or directory''
      | Some Directory \<Rightarrow> Inl ''Is a directory''
      | Some (File bs) \<Rightarrow> Inr bs)"

definition worker_started ::
  "('m, 'bsk, 'bpk, 'esk, 'epk) wasm_engine \<Rightarrow> (string + ('w, ('bsk, 'bpk, 'esk, 'epk) node_config) host_adapter)
    \<Rightarrow> ('bsk, 'bpk, 'esk, 'epk) node_config \<Rightarrow> host \<Rightarrow> ('m, 'w, 'bsk, 'bpk, 'esk, 'epk) runtime option res" where
  "worker_started eng adapter config h =
     and_then (map_err (\<lambda>_. Panic ''TODO'') (runtime_new adapter config False)) (\<lambda>rt.
     and_then (map_err (\<lambda>_. Panic ''unwrap on an Err value'') (fs_read h (nc_consensus_wasm_path config))) (\<lambda>binary.
     case runtime_init eng binary rt of (rt', r) \<Rightarrow>
       and_then (map_err (\<lambda>_. Panic ''unwrap on an Err value'') r) (\<lambda>_. Inr (Some rt'))))"

definition job_args :: "event \<Rightarrow> string list res" where
  "job_args e =
     (case event_data e of
        BatchChainTick \<Rightarrow> Inr [''batch'']
      | ChainTick \<Rightarrow> Inr []
      | CliCall args \<Rightarrow> Inr args
      | P2PMessage message \<Rightarrow>
          and_then (from_bytes_string (pm_data message)) (\<lambda>r.
          case r of Inl _ \<Rightarrow> Inl (Panic ''unwrap on an Err value'') | Inr s \<Rightarrow> Inr [''p2p'', s]))"

definition handle_runtime_job ::
  "('m, 'bsk, 'bpk, 'esk, 'epk) wasm_engine \<Rightarrow> ('m, 'w, 'bsk, 'bpk, 'esk, 'epk) runtime option \<Rightarrow> (bytes \<Rightarrow> string)
    \<Rightarrow> event \<Rightarrow> 'w vm_state \<Rightarrow> ('w vm_state \<times> vm_result res) option" where
  "handle_runtime_job eng worker_runtime um e st =
     (case job_args e of
        Inl p \<Rightarrow> Some (st, Inl p)
      | Inr args \<Rightarrow>
          let vm_config = \<lparr>vm_program_name = ''test'', vm_start_func = None, vm_args = args, vm_debug = False\<rparr> in
          (case worker_runtime of
             None \<Rightarrow> Some (st, Inl UnwrapNone)
           | Some rt \<Rightarrow> start_runtime eng rt um vm_config (st\<lparr>vs_memory_adapter := in_memory_default\<rparr>)))"


section \<open>The JSON-RPC methods\<close>

datatype rpc_error = RpcCustom string

text \<open>\<open>None\<close> is a run that does not end; a panic of the worker reaches the caller as a closed mailbox.\<close>

definition rpc_cli ::
  "('m, 'bsk, 'bpk, 'esk, 'epk) wasm_engine \<Rightarrow> ('m, 'w, 'bsk, 'bpk, 'esk, 'epk) runtime option \<Rightarrow> (bytes \<Rightarrow> string)
    \<Rightarrow> string list \<Rightarrow> 'w vm_state \<Rightarrow> ('w vm_state \<times> (rpc_error + string list)) option" where
  "rpc_cli eng worker_runtime um args st =
     map_option (\<lambda>(st', r).
       (st', case r of Inl _ \<Rightarrow> Inl (RpcCustom ''Mailbox has closed'') | Inr vm_res \<Rightarrow> Inr (vr_stderr vm_res)))
     (handle_runtime_job eng worker_runtime um \<lparr>event_id = ''test'', event_data = CliCall args\<rparr> st)"

record command_channel =
  cch_commands :: "p2p_command list"
  cch_open :: bool

definition send_command :: "p2p_command \<Rightarrow> command_channel \<Rightarrow> command_channel \<times> (rpc_error + unit)" where
  "send_command c ch =
     (if cch_open ch then (ch\<lparr>cch_commands := cch_commands ch @ [c]\<rparr>, Inr ())
      else (ch, Inl (RpcCustom ''channel closed'')))"

definition rpc_add_peer ::
  "('a, 'p) p2p_lib \<Rightarrow> (string \<Rightarrow> string) \<Rightarrow> string \<Rightarrow> command_channel \<Rightarrow> command_channel \<times> (rpc_error + unit)" where
  "rpc_add_peer lib parse_message multi_addr ch =
     (case pl_parse_addr lib multi_addr of
        None \<Rightarrow> (ch, Inl (RpcCustom (parse_message multi_addr)))
      | Some _ \<Rightarrow> send_command (AddPeer multi_addr) ch)"

definition rpc_list_peers ::
  "(('p \<times> 'a) list \<Rightarrow> ('p \<times> 'a) list) \<Rightarrow> ('a \<Rightarrow> string) \<Rightarrow> ('p \<Rightarrow> string) \<Rightarrow> ('a, 'p) discovery_status
    \<Rightarrow> (string \<times> string) list" where
  "rpc_list_peers perm show_addr show_peer d = peer_list_get_json perm show_addr show_peer (d_connected_peers d)"

definition rpc_remove_peer ::
  "('a, 'p) p2p_lib \<Rightarrow> (string \<Rightarrow> string) \<Rightarrow> string \<Rightarrow> command_channel \<Rightarrow> command_channel \<times> (rpc_error + unit)" where
  "rpc_remove_peer lib parse_message peer_id ch =
     (case pl_parse_peer lib peer_id of
        None \<Rightarrow> (ch, Inl (RpcCustom (parse_message peer_id)))
      | Some _ \<Rightarrow> send_command (RemovePeer peer_id) ch)"

definition rpc_discover_peers :: "command_channel \<Rightarrow> command_channel \<times> (rpc_error + unit)" where
  "rpc_discover_peers ch = send_command DiscoverPeers ch"


section \<open>The start of the node\<close>

definition run_discovery_status ::
  "(string \<Rightarrow> 'a option) \<Rightarrow> p2p_config \<Rightarrow> ('a, 'p) discovery_status res" where
  "run_discovery_status parse p2p_config =
     and_then (peer_list_from_vec parse (pc_known_peers p2p_config)) (\<lambda>known_peers.
     Inr (discovery_new p2p_config known_peers))"



section \<open>What the database keeps\<close>

definition scan_by_insertion :: sql_lib where
  "scan_by_insertion = \<lparr>sl_scan = (\<lambda>rows. rows), sl_failure = (\<lambda>_. None)\<rparr>"

definition set_all :: "sql_lib \<Rightarrow> rows \<Rightarrow> rows \<Rightarrow> rows" where
  "set_all sql writes rows = fold (\<lambda>(key, v) rows. fst (database_set sql key v rows)) writes rows"

lemma set_all_rows: "set_all scan_by_insertion writes rows = rows @ writes"
  by (induction writes arbitrary: rows) (auto simp: set_all_def database_set_def scan_by_insertion_def)

text \<open>
  The database remembers the first value written under a key. After any sequence of writes to
  an empty table that is scanned in the order of insertion, reading a key gives the value of the
  first write of that key, later writes never show, and a key that was never written is an error
  although the interface has a value for absence.
\<close>

theorem db_first_write_wins:
  "database_get scan_by_insertion key (set_all scan_by_insertion writes (host_default None)) =
     (case map_of writes key of
        None \<Rightarrow> Inl (RusqliteError ''Query returned no rows'')
      | Some v \<Rightarrow> Inr (Some v))"
proof -
  have "map_of writes key = (case filter (\<lambda>row. fst row = key) writes of [] \<Rightarrow> None | row # _ \<Rightarrow> Some (snd row))"
    by (induction writes) auto
  then show ?thesis
    unfolding set_all_rows
    by (auto simp: host_default_def database_get_def scan_by_insertion_def split: list.splits)
qed


section \<open>Clients match their chains\<close>

definition client_matches :: "chain_kind \<Rightarrow> 'cl client \<Rightarrow> bool" where
  "client_matches chain c \<longleftrightarrow> (case chain of Another \<Rightarrow> (\<exists>u. c = ClientAnother u) | Near \<Rightarrow> (\<exists>v. c = ClientNear v))"

lemma adapter_new_matches:
  "adapter_new lib config = Inr ra \<Longrightarrow> client_matches chain (select_client_from_chain ra chain)"
  by (auto simp: adapter_new_def another_new_client_def near_new_client_def select_client_from_chain_def
      client_matches_def split: chain_kind.split)

lemma near_view_no_panic: "near_view lib client contract_id method_name args net \<noteq> (net', Inl p)"
  by (auto simp: near_view_def state_bind_def split: prod.splits sum.splits)

lemma near_construct_tx_panic:
  assumes "near_construct_tx lib checks account kp receiver url actions net = (net', Inl p)"
  shows "checks \<and> p = ArithmeticOverflow"
  using assms
  by (auto simp: near_construct_tx_def state_bind_def bind_err_def Let_def arith_add_def
      split: prod.splits sum.splits query_response_kind.splits if_splits)

lemma chain_view_panic:
  assumes "chain_view_call lib chain client contract_id method_name args net = (net', Inl p)"
    and "client_matches chain client"
  shows "chain = Another \<and> p = unimplemented"
  using assms
  by (auto simp: near_view_no_panic chain_view_call_def client_matches_def client_another_def client_near_def another_view_def
      split: chain_kind.splits)

lemma chain_send_panic:
  assumes "chain_send_tx lib chain client tx net = Some (net', Inl p)" "client_matches chain client"
  shows "chain = Another \<and> p = unimplemented"
  using assms
  by (auto simp: chain_send_tx_def client_matches_def client_another_def client_near_def another_send_tx_def
      split: chain_kind.splits)

lemma chain_error_Inl [simp]: "chain_error r = Inl p \<longleftrightarrow> r = Inl p"
  by (cases r) (simp_all add: chain_error_def)

lemma call_bytes_panic:
  assumes "call_bytes lib checks private_bytes public_bytes chain contract_id method_name args client dep cfg ccs net
      = Some (net', Inl p)" "client_matches chain client"
  shows "chain = Another \<and> p = unimplemented \<or> chain = Near \<and> checks \<and> p = ArithmeticOverflow"
proof (cases chain)
  case Another
  then show ?thesis
    using assms(1) by (simp add: call_bytes_def chain_construct_signed_tx_def another_construct_signed_tx_def Let_def)
next
  case Near
  then show ?thesis
    using assms near_construct_tx_panic chain_send_panic [of lib chain client]
    by (fastforce simp: call_bytes_def chain_construct_signed_tx_def construct_signed_tx_construct_tx Let_def
        split: prod.splits sum.splits)
qed

text \<open>
  An adapter is well typed: the client it selects for a chain is always the client of that
  chain. So neither a view nor a call reaches the code that the dispatch marks as unreachable: the
  chain \<open>Another\<close>, which is not implemented, panics as such, and on NEAR the only panic is the
  overflow of the nonce in a build with overflow checks.
\<close>

theorem adapter_well_typed:
  assumes "adapter_new lib config = Inr ra"
  shows "client_matches chain (select_client_from_chain ra chain) \<and>
    (adapter_chain_view lib ra chain contract_id method_name args w = (w', Inl p) \<longrightarrow>
       chain = Another \<and> p = unimplemented) \<and>
    (adapter_chain_call lib checks private_bytes public_bytes ra chain contract_id method_name args dep cfg w
       = Some (w', Inl q) \<longrightarrow>
       chain = Another \<and> q = unimplemented \<or> chain = Near \<and> checks \<and> q = ArithmeticOverflow)"
proof -
  have m: "client_matches chain (select_client_from_chain ra chain)"
    using adapter_new_matches [OF assms] .
  have "chain = Another \<and> p = unimplemented"
    if "adapter_chain_view lib ra chain contract_id method_name args w = (w', Inl p)"
    using that
    by (auto simp: adapter_chain_view_def send_to_host_def chain_view_handler_def split: if_splits prod.splits
        dest!: chain_view_panic [OF _ m])
  moreover have "chain = Another \<and> q = unimplemented \<or> chain = Near \<and> checks \<and> q = ArithmeticOverflow"
    if "adapter_chain_call lib checks private_bytes public_bytes ra chain contract_id method_name args dep cfg w
       = Some (w', Inl q)"
    using that
    by (auto simp: adapter_chain_call_def Let_def split: if_splits dest!: call_bytes_panic [OF _ m])
  ultimately show ?thesis using m by blast
qed

theorem adapter_well_typed_witness:
  "client_matches Near (select_client_from_chain \<lparr>ra_chains_config = chains_test_config,
     ra_another_client = ClientAnother (), ra_near_client = ClientNear NEAR_RPC_URL\<rparr> Near)"
proof -
  have "adapter_new demo_near chains_test_config = Inr \<lparr>ra_chains_config = chains_test_config,
     ra_another_client = ClientAnother (), ra_near_client = ClientNear NEAR_RPC_URL\<rparr>"
    by (simp add: adapter_new_def another_new_client_def near_new_client_def demo_near_def chains_test_config_def)
  from adapter_well_typed [OF this, of Near] show ?thesis by blast
qed


section \<open>From a peer to the guest\<close>

text \<open>A worker that has started runs the full interface on the compiled binary.\<close>

lemma worker_started_runtime:
  assumes "worker_started eng adapter config h = Inr r"
  shows "\<exists>rt ha binary m. r = Some rt \<and> adapter = Inr ha \<and> rt_host_adapter rt = ha \<and> \<not> rt_limited rt \<and>
    rt_node_config rt = config \<and> fs_read h (nc_consensus_wasm_path config) = Inr binary \<and>
    we_compile eng binary = Inr m \<and> rt_wasm_module rt = Some m"
  using assms
  by (auto simp: worker_started_def runtime_new_def runtime_init_def res_simps split: prod.splits sum.splits)

text \<open>A peer or an identity that the RPC accepts is understood by the peer-to-peer server.\<close>

lemma rpc_add_peer_understood:
  assumes "rpc_add_peer lib parse_message a ch = (ch', Inr ())"
  shows "cch_commands ch' = cch_commands ch @ [AddPeer a] \<and>
    (\<exists>addr. pl_parse_addr lib a = Some addr \<and>
       handle_command lib now (Some (AddPeer a)) s =
         Inr (search_new_peer lib now None (on_discovery (add_manual_peer addr None) s)))"
  using assms by (auto simp: rpc_add_peer_def send_command_def handle_command_def split: option.splits if_splits)

lemma rpc_remove_peer_understood:
  assumes "rpc_remove_peer lib parse_message a ch = (ch', Inr ())"
  shows "cch_commands ch' = cch_commands ch @ [RemovePeer a] \<and>
    (\<exists>peer. pl_parse_peer lib a = Some peer \<and>
       handle_command lib now (Some (RemovePeer a)) s =
         Inr (search_new_peer lib now None
           (on_discovery (remove_connected_peer (Some peer) None) (p2p_call (DisconnectPeer peer) s))))"
  using assms by (auto simp: rpc_remove_peer_def send_command_def handle_command_def split: option.splits if_splits)

text \<open>
  What a peer gossips reaches the guest unchanged or takes the worker down. The server puts
  the message in the channel with its data, the listener wraps it in an event, and the worker of
  that event starts the virtual machine with the arguments \<open>p2p\<close> and the data read as a string, on
  a fresh local memory; when the data is not UTF-8 the worker panics before anything runs.
\<close>

theorem gossip_to_guest:
  assumes "ps_message_channel_open s"
    and "loop_step lib now (FromSwarm (GossipMessage source data)) s = Inr s'"
  shows "\<exists>m e. ps_messages s' = ps_messages s @ [m] \<and> p2p_listen_event m = AddEventToQueue e \<and>
    handle_runtime_job eng (Some rt) um e st =
      (if valid_utf8 data
       then start_runtime eng rt um
              \<lparr>vm_program_name = ''test'', vm_start_func = None, vm_args = [''p2p'', chars_of data], vm_debug = False\<rparr>
              (st\<lparr>vs_memory_adapter := in_memory_default\<rparr>)
       else Some (st, Inl (Panic ''unwrap on an Err value'')))"
  using assms
  by (auto simp: loop_step_def handle_swarm_event_def handle_gossip_def p2p_listen_event_def handle_runtime_job_def
      job_args_def from_bytes_string_def Let_def)

theorem gossip_to_guest_witness:
  "\<exists>m e. p2p_listen_event m = AddEventToQueue e \<and>
    handle_runtime_job demo_engine (Some (demo_runtime False)) (\<lambda>_. []) e demo_state
      = Some (demo_state, Inl (Panic ''unwrap on an Err value''))"
proof -
  have open_channel: "ps_message_channel_open demo_server" by (simp add: demo_server_def)
  obtain s' where step: "loop_step demo_p2p_lib 0 (FromSwarm (GossipMessage None [255])) demo_server = Inr s'"
    by (simp add: loop_step_def handle_swarm_event_def)
  have "\<not> valid_utf8 [255]" by (simp add: utf8_pair_def)
  with gossip_to_guest [OF open_channel step, of demo_engine "demo_runtime False" "\<lambda>_. []" demo_state]
  show ?thesis by auto
qed

end
