(* ===== verification/Consensus.thy ===== *)
theory Consensus
  imports Mainchain_State Vm_Guest "HOL-Library.AList" "HOL-Library.Multiset"
begin

text \<open>
  The consensus program that the node runs in its virtual machine (\<open>wasm/consensus/src\<close>): the batch
  task with its two stages, the task for messages of peers, and the bridge task.

  A task changes the context of its run and ends with a value, with a host error that traps it, or
  with a panic; what it wrote before stays. The operations of the SDK are taken at the level that
  \<open>Vm_Guest\<close> establishes for well-formed buffers, without the linear memory. JSON, hexadecimal, the
  group operations of BN254 and the parsing of 256-bit numbers are third-party code, in the record
  \<open>consensus_lib\<close>. Logging is left out.
\<close>

section \<open>Stores and messages\<close>

record batch_signature_store =
  bs_aggregated_signature :: bytes
  bs_aggregated_public_keys :: bytes
  bs_signers :: "string list"
  bs_signatures :: "(string \<times> bytes) list"
  bs_slot :: u64
  bs_batch_header :: bytes
  bs_p2p_message :: bytes

definition BATCH_SIGNATURE_STORE_KEY :: string where
  "BATCH_SIGNATURE_STORE_KEY = ''batch_signatures''"

definition EMPTY_SHA256 :: bytes where
  "EMPTY_SHA256 =
     [227, 176, 196, 66, 152, 252, 28, 20, 154, 251, 244, 200, 153, 111, 185, 36, 39, 174, 65, 228, 100, 155, 147, 76,
      164, 149, 153, 27, 120, 82, 184, 85]"

definition store_default :: batch_signature_store where
  "store_default =
     \<lparr>bs_aggregated_signature = [], bs_aggregated_public_keys = [], bs_signers = [], bs_signatures = [],
      bs_slot = 0, bs_batch_header = EMPTY_SHA256, bs_p2p_message = []\<rparr>"

definition store_new :: "u64 \<Rightarrow> bytes \<Rightarrow> batch_signature_store" where
  "store_new slot root =
     \<lparr>bs_aggregated_signature = [], bs_aggregated_public_keys = [], bs_signers = [], bs_signatures = [],
      bs_slot = slot, bs_batch_header = root, bs_p2p_message = []\<rparr>"

record batch_message =
  bm_batch_header :: bytes
  bm_bn254_public_key :: bytes
  bm_signature :: bytes
  bm_ed25519_public_key :: bytes

datatype consensus_message = BatchMsg batch_message

record ('sig, 'bsk, 'bpk) consensus_lib =
  cl_vm :: "('sig, 'bsk, 'bpk) vm_lib"
  cl_sig_add :: "'sig \<Rightarrow> 'sig \<Rightarrow> 'sig"
  cl_pk_add :: "'bpk \<Rightarrow> 'bpk \<Rightarrow> 'bpk"
  cl_hex_encode :: "bytes \<Rightarrow> string"
  cl_hex_decode :: "string \<Rightarrow> bytes option"
  cl_json_of_store :: "batch_signature_store \<Rightarrow> string option"
  cl_store_of_json :: "bytes \<Rightarrow> batch_signature_store option"
  cl_json_of_message :: "consensus_message \<Rightarrow> bytes option"
  cl_message_of_json :: "string \<Rightarrow> consensus_message option"
  cl_merkle_result_of_json :: "bytes \<Rightarrow> compute_merkle_root_result option"
  cl_config_of_json :: "bytes \<Rightarrow> config option"
  cl_string_of_json :: "bytes \<Rightarrow> string option"
  cl_u256_of_dec :: "string \<Rightarrow> u256 option"
  cl_json_of_batch_args :: "bytes \<Rightarrow> bytes \<Rightarrow> string list \<Rightarrow> bytes \<Rightarrow> bytes"
  cl_json_of_data_request :: "string \<Rightarrow> bytes"


section \<open>The SDK as the tasks use it\<close>

type_synonym ('c, 'a) guest = "'c \<times> (runtime_error + 'a) res"

definition ret :: "'a res \<Rightarrow> 'c \<Rightarrow> ('c, 'a) guest" where
  "ret r ctx = (ctx, and_then r (\<lambda>a. Inr (Inr a)))"

definition expect_ok :: "string \<Rightarrow> 'e + 'a \<Rightarrow> 'a res" where
  "expect_ok msg r = map_err (\<lambda>_. Panic msg) r"

definition sdk_env :: "(string \<times> string) list \<Rightarrow> string \<Rightarrow> string res" where
  "sdk_env env name = expect (''Env '' @ [CHR 0x27] @ name @ [CHR 0x27] @ '' does not exist'') (map_of env name)"

definition sdk_shared_set ::
  "string \<Rightarrow> bytes \<Rightarrow> ('bsk, 'bpk, 'esk, 'epk) vm_context \<Rightarrow> ('bsk, 'bpk, 'esk, 'epk) vm_context" where
  "sdk_shared_set key v ctx = ctx\<lparr>vc_shared_memory := fst (im_put to_bytes_vec key v (vc_shared_memory ctx))\<rparr>"

definition sdk_shared_get :: "string \<Rightarrow> ('bsk, 'bpk, 'esk, 'epk) vm_context \<Rightarrow> bytes" where
  "sdk_shared_get key ctx = stored (vc_shared_memory ctx) key"

definition sdk_memory_write ::
  "string \<Rightarrow> bytes \<Rightarrow> ('bsk, 'bpk, 'esk, 'epk) vm_context \<Rightarrow> ('bsk, 'bpk, 'esk, 'epk) vm_context" where
  "sdk_memory_write key v ctx = ctx\<lparr>vc_memory_adapter := fst (im_put to_bytes_vec key v (vc_memory_adapter ctx))\<rparr>"

definition sdk_memory_read :: "string \<Rightarrow> ('bsk, 'bpk, 'esk, 'epk) vm_context \<Rightarrow> bytes" where
  "sdk_memory_read key ctx = stored (vc_memory_adapter ctx) key"

text \<open>\<open>p.start().then(..).then(..)\<close>\<close>

definition sdk_start ::
  "wasm_promise \<Rightarrow> wasm_promise list \<Rightarrow> ('bsk, 'bpk, 'esk, 'epk) vm_context \<Rightarrow> ('bsk, 'bpk, 'esk, 'epk) vm_context" where
  "sdk_start p rest ctx =
     ctx\<lparr>vc_promise_queue := \<lparr>pq_queue = snd (promise_chain p rest (pq_queue (vc_promise_queue ctx)))\<rparr>\<rparr>"

definition sdk_result ::
  "nat \<Rightarrow> ('bsk, 'bpk, 'esk, 'epk) vm_context \<Rightarrow> (('bsk, 'bpk, 'esk, 'epk) vm_context, promise_status) guest" where
  "sdk_result i ctx = (ctx, Inr (current_status ctx (of_nat i)))"

definition sdk_bn254_sign ::
  "('sig, 'bsk, 'bpk) vm_lib \<Rightarrow> bytes \<Rightarrow> ('bsk, 'bpk, 'esk, 'epk) vm_context
    \<Rightarrow> (('bsk, 'bpk, 'esk, 'epk) vm_context, 'sig) guest" where
  "sdk_bn254_sign lib message ctx =
     state_bind (ctx, Inr (map_err RuntimeBn254Error
       (ecdsa_sign lib message (private_key (nc_keypair_bn254 (vc_node_config ctx)))))) (\<lambda>ctx s.
     state_bind (ctx, Inr (map_err RuntimeBn254Error (sig_to_uncompressed lib s))) (\<lambda>ctx result_bytes.
     if length result_bytes \<noteq> 64 then (ctx, Inr (Inl (length_mismatch 64 result_bytes)))
     else ret (expect_ok ''Signature should be valid'' (sig_from_uncompressed lib result_bytes)) ctx))"

definition sdk_bn254_verify ::
  "('sig, 'bsk, 'bpk) vm_lib \<Rightarrow> bytes \<Rightarrow> 'sig \<Rightarrow> 'bpk \<Rightarrow> 'c \<Rightarrow> ('c, bool) guest" where
  "sdk_bn254_verify lib message signature pk ctx =
     state_bind (ret (expect_ok ''Signature should be valid'' (sig_to_uncompressed lib signature)) ctx) (\<lambda>ctx sb.
     state_bind (ret (expect_ok ''Public Key should be valid'' (pk_to_uncompressed lib pk)) ctx) (\<lambda>ctx pb.
     state_bind (ctx, Inr (map_err RuntimeBn254Error (sig_from_uncompressed lib sb))) (\<lambda>ctx s.
     state_bind (ctx, Inr (map_err RuntimeBn254Error (pk_from_uncompressed lib pb))) (\<lambda>ctx k.
     (ctx, Inr (Inr (ecdsa_verify lib message s k = Inr ())))))))"


section \<open>The store\<close>

definition get_or_create_batch_signature_store ::
  "('sig, 'bsk, 'bpk) consensus_lib \<Rightarrow> string \<Rightarrow> ('bsk, 'bpk, 'esk, 'epk) vm_context \<Rightarrow> batch_signature_store res" where
  "get_or_create_batch_signature_store lib storage_key ctx =
     (if im_contains_key storage_key (vc_shared_memory ctx)
      then expect ''Invalid stored `BatchSignatureStore` object'' (cl_store_of_json lib (sdk_shared_get storage_key ctx))
      else Inr store_default)"

definition add_signature :: "('sig, 'bsk, 'bpk) consensus_lib \<Rightarrow> bytes \<Rightarrow> 'sig \<Rightarrow> 'sig res" where
  "add_signature lib aggregated_signature signature =
     (if aggregated_signature = [] then Inr signature
      else and_then (expect_ok ''Given Bn254Signature signature is not decodable''
                       (sig_from_uncompressed (cl_vm lib) aggregated_signature)) (\<lambda>a.
           Inr (cl_sig_add lib a signature)))"

definition add_public_key :: "('sig, 'bsk, 'bpk) consensus_lib \<Rightarrow> bytes \<Rightarrow> 'bpk \<Rightarrow> 'bpk res" where
  "add_public_key lib aggregated_public_key pk =
     (if aggregated_public_key = [] then Inr pk
      else and_then (expect_ok ''Given Bn254PublicKey is not decodable''
                       (pk_from_uncompressed (cl_vm lib) aggregated_public_key)) (\<lambda>a.
           Inr (cl_pk_add lib a pk)))"

definition save_store ::
  "string \<Rightarrow> ('sig, 'bsk, 'bpk) consensus_lib \<Rightarrow> batch_signature_store \<Rightarrow> ('bsk, 'bpk, 'esk, 'epk) vm_context
    \<Rightarrow> (('bsk, 'bpk, 'esk, 'epk) vm_context, unit) guest" where
  "save_store msg lib store ctx =
     state_bind (ret (expect msg (cl_json_of_store lib store)) ctx) (\<lambda>ctx json.
     (sdk_shared_set BATCH_SIGNATURE_STORE_KEY (as_bytes json) ctx, Inr (Inr ())))"


section \<open>The batch task\<close>

definition batch_handle ::
  "('sig, 'bsk, 'bpk) consensus_lib \<Rightarrow> (string \<times> string) list \<Rightarrow> ('bsk, 'bpk, 'esk, 'epk) vm_context
    \<Rightarrow> (('bsk, 'bpk, 'esk, 'epk) vm_context, unit) guest" where
  "batch_handle lib env ctx =
     state_bind (ret (sdk_env env ''ORACLE_CONTRACT_ID'') ctx) (\<lambda>ctx contract_id.
     let ctx = sdk_shared_set ''contract_id'' (as_bytes contract_id) ctx in
     state_bind (ret (and_then (sdk_env env ''ED25519_PUBLIC_KEY'') (\<lambda>h.
                   expect ''Missing WASI env var for ED25519 public key'' (cl_hex_decode lib h))) ctx) (\<lambda>ctx ed.
     let ctx = sdk_shared_set ''ed25519_public_key'' ed ctx in
     state_bind (ret (and_then (sdk_env env ''BN254_PUBLIC_KEY'') (\<lambda>h.
                   expect ''Missing WASI env var for BN254 public key'' (cl_hex_decode lib h))) ctx) (\<lambda>ctx bn.
     let ctx = sdk_shared_set ''bn254_public_key'' bn ctx in
     (sdk_start (chain_view Near contract_id ''compute_merkle_root'' [])
        [chain_view Near contract_id ''get_config'' [],
         chain_view Near contract_id ''get_last_generated_random_number'' [],
         call_self ''batch_step_1'' []] ctx,
      Inr (Inr ())))))"

text \<open>
  The new store of the third case of \<open>process_batch\<close>: the node's own signature, key and message.
\<close>

definition new_batch_store ::
  "('sig, 'bsk, 'bpk) consensus_lib \<Rightarrow> compute_merkle_root_result \<Rightarrow> 'sig \<Rightarrow> bytes \<Rightarrow> bytes \<Rightarrow> batch_signature_store res" where
  "new_batch_store lib root bn254_signature ed bn =
     (let store = store_new (cm_current_slot root) (cm_merkle_root root) in
      and_then (add_signature lib (bs_aggregated_signature store) bn254_signature) (\<lambda>sum_sig.
      and_then (expect_ok ''Could not compress Bn254 signature'' (sig_to_uncompressed (cl_vm lib) sum_sig)) (\<lambda>agg_sig.
      and_then (expect_ok ''Could not derive key'' (pk_from_uncompressed (cl_vm lib) bn)) (\<lambda>pk.
      and_then (add_public_key lib (bs_aggregated_public_keys store) pk) (\<lambda>sum_pk.
      and_then (expect_ok ''Could not compress Bn254 Public Key'' (pk_to_uncompressed (cl_vm lib) sum_pk)) (\<lambda>agg_pk.
      and_then (expect_ok ''unwrap on an Err value'' (sig_to_uncompressed (cl_vm lib) bn254_signature)) (\<lambda>sig_bytes.
      and_then (expect ''`BatchMessage` could not be serialized to bytes''
                  (cl_json_of_message lib (BatchMsg
                    \<lparr>bm_batch_header = cm_merkle_root root, bm_bn254_public_key = bn, bm_signature = sig_bytes,
                     bm_ed25519_public_key = ed\<rparr>))) (\<lambda>message.
      Inr (store\<lparr>bs_aggregated_signature := agg_sig, bs_aggregated_public_keys := agg_pk,
                 bs_signers := [cl_hex_encode lib ed], bs_signatures := [(cl_hex_encode lib bn, sig_bytes)],
                 bs_slot := cm_current_slot root, bs_p2p_message := message\<rparr>)))))))))"

text \<open>
  \<open>process_batch\<close>; the value is the store behind the caller's reference. The third case builds a
  store of its own and leaves the caller's as it was.
\<close>

definition process_batch ::
  "('sig, 'bsk, 'bpk) consensus_lib \<Rightarrow> compute_merkle_root_result \<Rightarrow> batch_signature_store \<Rightarrow> bytes \<Rightarrow> bytes
    \<Rightarrow> ('bsk, 'bpk, 'esk, 'epk) vm_context \<Rightarrow> (('bsk, 'bpk, 'esk, 'epk) vm_context, batch_signature_store) guest" where
  "process_batch lib root store ed bn ctx =
     (if cm_merkle_root root = bs_batch_header store \<and> cm_current_slot root = bs_slot store then (ctx, Inr (Inr store))
      else if cm_merkle_root root = bs_batch_header store \<and> cm_current_slot root \<noteq> bs_slot store then
        let store = store\<lparr>bs_slot := cm_current_slot root\<rparr> in
        state_bind (save_store ''unwrap on an Err value'' lib store ctx) (\<lambda>ctx _.
        (sdk_start (p2p_broadcast_message (bs_p2p_message store)) [] ctx, Inr (Inr store)))
      else
        state_bind (sdk_bn254_sign (cl_vm lib) (cm_merkle_root root) ctx) (\<lambda>ctx bn254_signature.
        state_bind (ret (new_batch_store lib root bn254_signature ed bn) ctx) (\<lambda>ctx own_store.
        state_bind (save_store ''Could not convert SignatureStore to json'' lib own_store ctx) (\<lambda>ctx _.
        (sdk_start (p2p_broadcast_message (bs_p2p_message own_store)) [] ctx, Inr (Inr store))))))"

definition process_slot_leader ::
  "('sig, 'bsk, 'bpk) consensus_lib \<Rightarrow> bool \<Rightarrow> batch_signature_store \<Rightarrow> string
    \<Rightarrow> ('bsk, 'bpk, 'esk, 'epk) vm_context \<Rightarrow> (('bsk, 'bpk, 'esk, 'epk) vm_context, unit) guest" where
  "process_slot_leader lib checks store contract_id ctx =
     state_bind (sdk_result 1 ctx) (\<lambda>ctx status.
     state_bind (ret (case status of
         Fulfilled (Some c) \<Rightarrow> expect ''Config is not of type `MainChainConfig`'' (cl_config_of_json lib c)
       | _ \<Rightarrow> Inl (Panic ''Could not fetch config from contract'')) ctx) (\<lambda>ctx chain_config.
     state_bind (sdk_result 2 ctx) (\<lambda>ctx status.
     state_bind (ret (case status of
         Fulfilled (Some num) \<Rightarrow>
           and_then (expect ''random number is not a string'' (cl_string_of_json lib num)) (\<lambda>encoded.
           expect ''Generated number is not a U256'' (cl_u256_of_dec lib encoded))
       | _ \<Rightarrow> Inl (Panic ''Could not fetch random number'')) ctx) (\<lambda>ctx last_random_number.
     if committee_size chain_config = of_nat (length (bs_signatures store)) then
       state_bind (sdk_bn254_sign (cl_vm lib) (to_le_bytes 32 last_random_number) ctx) (\<lambda>ctx s.
       state_bind (ret (expect_ok ''Could not compress Bn254 signaturre'' (sig_to_uncompressed (cl_vm lib) s)) ctx)
         (\<lambda>ctx leader_signature_bytes.
       state_bind (ret (to_yocto checks ''1'') ctx) (\<lambda>ctx deposit_amount.
       (sdk_start (chain_call Near contract_id ''post_signed_batch''
          (cl_json_of_batch_args lib (bs_aggregated_signature store) (bs_aggregated_public_keys store)
             (bs_signers store) leader_signature_bytes) deposit_amount) [] ctx, Inr (Inr ())))))
     else (ctx, Inr (Inr ()))))))"

definition batch_step_1 ::
  "('sig, 'bsk, 'bpk) consensus_lib \<Rightarrow> bool \<Rightarrow> ('bsk, 'bpk, 'esk, 'epk) vm_context
    \<Rightarrow> (('bsk, 'bpk, 'esk, 'epk) vm_context, unit) guest" where
  "batch_step_1 lib checks ctx =
     state_bind (ret (if valid_utf8 (sdk_shared_get ''contract_id'' ctx)
                      then Inr (chars_of (sdk_shared_get ''contract_id'' ctx))
                      else Inl (Panic ''Could not read contract id from shared memory'')) ctx) (\<lambda>ctx contract_id.
     let bn = sdk_shared_get ''bn254_public_key'' ctx; ed = sdk_shared_get ''ed25519_public_key'' ctx in
     state_bind (ret (get_or_create_batch_signature_store lib BATCH_SIGNATURE_STORE_KEY ctx) ctx) (\<lambda>ctx store.
     state_bind (sdk_result 0 ctx) (\<lambda>ctx status.
     state_bind (ret (case status of
         Fulfilled (Some batch_bytes) \<Rightarrow>
           expect ''Cannot convert `merkle_root` json to `ComputeMerkleRootResult`'' (cl_merkle_result_of_json lib batch_bytes)
       | Rejected err \<Rightarrow>
           (if valid_utf8 err then Inl (Panic (''`compute_merkle_root` promise rejected: '' @ chars_of err))
            else Inl (Panic ''unwrap on an Err value''))
       | _ \<Rightarrow> Inl (Panic ''`compute_merkle_root` promise other'')) ctx) (\<lambda>ctx root.
     let node_implicit_account = cl_hex_encode lib ed in
     state_bind (process_batch lib root store ed bn ctx) (\<lambda>ctx store.
     if cm_current_slot_leader root = None then (ctx, Inr (Inr ()))
     else if cm_current_slot_leader root = Some node_implicit_account
     then process_slot_leader lib checks store contract_id ctx
     else (ctx, Inr (Inr ())))))))"


section \<open>Messages of peers\<close>

definition add_batch_message ::
  "('sig, 'bsk, 'bpk) consensus_lib \<Rightarrow> batch_message \<Rightarrow> 'sig \<Rightarrow> 'bpk \<Rightarrow> batch_signature_store \<Rightarrow> batch_signature_store res" where
  "add_batch_message lib m bn254_signature pk store =
     and_then (add_signature lib (bs_aggregated_signature store) bn254_signature) (\<lambda>sum_sig.
     and_then (expect_ok ''Could not compress Bn254 signature'' (sig_to_uncompressed (cl_vm lib) sum_sig)) (\<lambda>agg_sig.
     and_then (add_public_key lib (bs_aggregated_public_keys store) pk) (\<lambda>sum_pk.
     and_then (expect_ok ''Could not compress Bn254 Public Key'' (pk_to_uncompressed (cl_vm lib) sum_pk)) (\<lambda>agg_pk.
     Inr (store\<lparr>bs_aggregated_signature := agg_sig, bs_aggregated_public_keys := agg_pk,
                bs_signers := bs_signers store @ [cl_hex_encode lib (bm_ed25519_public_key m)],
                bs_signatures := AList.update (cl_hex_encode lib (bm_bn254_public_key m)) (bm_signature m)
                  (bs_signatures store)\<rparr>)))))"

definition p2p_handle ::
  "('sig, 'bsk, 'bpk) consensus_lib \<Rightarrow> string \<Rightarrow> ('bsk, 'bpk, 'esk, 'epk) vm_context
    \<Rightarrow> (('bsk, 'bpk, 'esk, 'epk) vm_context, unit) guest" where
  "p2p_handle lib text ctx =
     state_bind (ret (expect ''Failed to read from json string'' (cl_message_of_json lib text)) ctx) (\<lambda>ctx message.
     case message of BatchMsg m \<Rightarrow>
       state_bind (ret (expect_ok ''Could not get signature from compressed bytes''
         (sig_from_uncompressed (cl_vm lib) (bm_signature m))) ctx) (\<lambda>ctx bn254_signature.
       state_bind (ret (expect_ok ''Could not get signature from compressed bytes''
         (pk_from_uncompressed (cl_vm lib) (bm_bn254_public_key m))) ctx) (\<lambda>ctx pk.
       state_bind (sdk_bn254_verify (cl_vm lib) (bm_batch_header m) bn254_signature pk ctx) (\<lambda>ctx valid.
       if \<not> valid then (ctx, Inr (Inr ()))
       else
         state_bind (ret (get_or_create_batch_signature_store lib BATCH_SIGNATURE_STORE_KEY ctx) ctx) (\<lambda>ctx store.
         if bm_batch_header m = bs_batch_header store then
           if map_of (bs_signatures store) (cl_hex_encode lib (bm_bn254_public_key m)) \<noteq> None then (ctx, Inr (Inr ()))
           else
             state_bind (ret (add_batch_message lib m bn254_signature pk store) ctx) (\<lambda>ctx store.
             save_store ''unwrap on an Err value'' lib store ctx)
         else (ctx, Inl (Panic ''not yet implemented: Not yet implemented because batch header is always the same'')))))))"


section \<open>The bridge task\<close>

definition bridge_handle ::
  "(string \<times> string) list \<Rightarrow> chain_kind \<Rightarrow> string \<Rightarrow> string \<Rightarrow> u128 \<Rightarrow> string \<Rightarrow> ('bsk, 'bpk, 'esk, 'epk) vm_context
    \<Rightarrow> (('bsk, 'bpk, 'esk, 'epk) vm_context, unit) guest" where
  "bridge_handle env chain contract_id method_name deposit_amount args ctx =
     state_bind (ret (sdk_env env ''ORACLE_CONTRACT_ID'') ctx) (\<lambda>ctx oracle_contract_id.
     let ctx = sdk_shared_set ''contract_id'' (as_bytes oracle_contract_id) ctx;
         ctx = sdk_memory_write ''bridge_deposit'' (to_bytes_num 16 deposit_amount) ctx in
     (sdk_start (chain_view chain contract_id method_name (as_bytes args)) [call_self ''bridge_step_1'' []] ctx,
      Inr (Inr ())))"

definition bridge_step_1 ::
  "('sig, 'bsk, 'bpk) consensus_lib \<Rightarrow> ('bsk, 'bpk, 'esk, 'epk) vm_context
    \<Rightarrow> (('bsk, 'bpk, 'esk, 'epk) vm_context, unit) guest" where
  "bridge_step_1 lib ctx =
     state_bind (ret (if valid_utf8 (sdk_shared_get ''contract_id'' ctx)
                      then Inr (chars_of (sdk_shared_get ''contract_id'' ctx))
                      else Inl (Panic ''Could not read contract id from shared memory'')) ctx) (\<lambda>ctx contract_id.
     state_bind (sdk_result 0 ctx) (\<lambda>ctx status.
     state_bind (ret (and_then (from_bytes_num 16 (sdk_memory_read ''bridge_deposit'' ctx))
                        (expect_ok ''unwrap on an Err value'')) ctx) (\<lambda>ctx deposit_amount.
     case status of
       Fulfilled (Some data) \<Rightarrow>
         state_bind (ret (and_then (from_bytes_string data) (expect_ok ''chain_view resulted in a invalid string'')) ctx)
           (\<lambda>ctx text.
         (sdk_start (chain_call Near contract_id ''post_data_request'' (cl_json_of_data_request lib text) deposit_amount)
            [call_self ''bridge_step_2'' []] ctx, Inr (Inr ())))
     | _ \<Rightarrow> (ctx, Inr (Inr ())))))"

text \<open>\<open>bridge_step_2\<close> only prints; the value is what it writes to the standard output.\<close>

definition bridge_step_2 ::
  "('bsk, 'bpk, 'esk, 'epk) vm_context \<Rightarrow> (('bsk, 'bpk, 'esk, 'epk) vm_context, string) guest" where
  "bridge_step_2 ctx =
     state_bind (sdk_result 0 ctx) (\<lambda>ctx status.
     state_bind (ret (case status of
         Fulfilled (Some bs) \<Rightarrow> and_then (from_bytes_string bs) (\<lambda>r. and_then (expect_ok ''unwrap on an Err value'' r) (\<lambda>_. Inr ()))
       | _ \<Rightarrow> Inr ()) ctx) (\<lambda>ctx _.
     (ctx, Inr (Inr ''{\"status\": \"success\"}''))))"


section \<open>The program\<close>

datatype task =
    BatchTask
  | BridgeTask chain_kind string string u128 string
  | P2PTask string

definition task_handle ::
  "('sig, 'bsk, 'bpk) consensus_lib \<Rightarrow> (string \<times> string) list \<Rightarrow> task \<Rightarrow> ('bsk, 'bpk, 'esk, 'epk) vm_context
    \<Rightarrow> (('bsk, 'bpk, 'esk, 'epk) vm_context, unit) guest" where
  "task_handle lib env t ctx =
     (case t of
        BatchTask \<Rightarrow> batch_handle lib env ctx
      | BridgeTask chain contract_id method_name deposit_amount args \<Rightarrow>
          bridge_handle env chain contract_id method_name deposit_amount args ctx
      | P2PTask message \<Rightarrow> p2p_handle lib message ctx)"



section \<open>The SDK and the linear memory\<close>

text \<open>
  The operations above are those of \<open>Vm_Guest\<close> up to the linear memory: on buffers inside it, the
  guest functions return the same value and leave the same context.
\<close>

lemma sdk_shared_set_refined:
  assumes "wasm_ok lib" "vc_memory env = Some mem" "buffers mem kp key vp v"
  shows "\<exists>mem'. guest_shared_memory_set lib kp vp key v env = ((sdk_shared_set key v env)\<lparr>vc_memory := Some mem'\<rparr>, Inr (Inr ()))"
proof -
  have "env\<lparr>vc_memory := Some mem', vc_shared_memory := fst (im_put to_bytes_vec key v (vc_shared_memory env))\<rparr>
      = (sdk_shared_set key v env)\<lparr>vc_memory := Some mem'\<rparr>" for mem'
    by (cases env) (simp add: sdk_shared_set_def)
  with guest_shared_memory_set_effect [OF assms] show ?thesis by metis
qed

lemma sdk_sign_refined:
  assumes "wasm_ok lib" "bn254_ok lib public_of" "vc_memory env = Some mem"
    and "length message < 2 ^ 32" "in_bounds mem mp (length message)" "in_bounds mem rp 64" "apart rp 64 mp (length message)"
    and "ecdsa_sign lib message (private_key (nc_keypair_bn254 (vc_node_config env))) = Inr s"
    and "sig_to_uncompressed lib s = Inr sb"
  shows "\<exists>mem'. guest_bn254_sign lib mp rp message env
    = ((fst (sdk_bn254_sign lib message env))\<lparr>vc_memory := Some mem'\<rparr>, snd (sdk_bn254_sign lib message env))"
proof -
  have "length sb = 64" "sig_from_uncompressed lib sb = Inr s" using assms(2,9) by (auto simp: bn254_ok_def)
  then have "sdk_bn254_sign lib message env = (env, Inr (Inr s))"
    using assms(8,9) by (simp add: sdk_bn254_sign_def state_bind_def ret_def expect_ok_def)
  with guest_sign_value [OF assms] show ?thesis by auto
qed


section \<open>What a store commits to\<close>

text \<open>
  The documented behaviour of BN254 signatures: the encodings of \<open>bn254_ok\<close>, no key has the empty
  encoding, and signatures of the same message add up to a signature under the sum of the keys.
  \<open>serde_json\<close> reads back a store that it wrote; the order of a hash map's entries may change.
\<close>

definition bls_ok :: "('sig, 'bsk, 'bpk) consensus_lib \<Rightarrow> ('bsk \<Rightarrow> 'bpk) \<Rightarrow> bool" where
  "bls_ok lib public_of \<longleftrightarrow>
     bn254_ok (cl_vm lib) public_of \<and> (\<exists>e. pk_from_uncompressed (cl_vm lib) [] = Inl e) \<and>
     (\<forall>m s s' k k'. ecdsa_verify (cl_vm lib) m s k = Inr () \<longrightarrow> ecdsa_verify (cl_vm lib) m s' k' = Inr () \<longrightarrow>
        ecdsa_verify (cl_vm lib) m (cl_sig_add lib s s') (cl_pk_add lib k k') = Inr ())"

definition store_json_ok :: "('sig, 'bsk, 'bpk) consensus_lib \<Rightarrow> bool" where
  "store_json_ok lib \<longleftrightarrow>
     (\<forall>store j. cl_json_of_store lib store = Some j \<longrightarrow>
        (\<exists>es. mset es = mset (bs_signatures store) \<and>
           cl_store_of_json lib (as_bytes j) = Some (store\<lparr>bs_signatures := es\<rparr>)))"

text \<open>
  A sound store: different keys, each with a valid signature of the header, and the two
  aggregates are the sums of these signatures and of these keys, in the order they came in.
\<close>

definition sum_of :: "('a \<Rightarrow> 'a \<Rightarrow> 'a) \<Rightarrow> 'a list \<Rightarrow> 'a" where
  "sum_of add xs = foldl add (hd xs) (tl xs)"

definition signed_entries ::
  "('sig, 'bsk, 'bpk) consensus_lib \<Rightarrow> bytes \<Rightarrow> (bytes \<times> bytes) list \<Rightarrow> 'bpk list \<Rightarrow> 'sig list \<Rightarrow> bool" where
  "signed_entries lib root es ks ss \<longleftrightarrow>
     distinct (map fst es) \<and>
     list_all2 (\<lambda>e k. pk_from_uncompressed (cl_vm lib) (fst e) = Inr k) es ks \<and>
     list_all2 (\<lambda>e s. sig_from_uncompressed (cl_vm lib) (snd e) = Inr s) es ss \<and>
     list_all2 (\<lambda>s k. ecdsa_verify (cl_vm lib) root s k = Inr ()) ss ks"

definition aggregates ::
  "('sig, 'bsk, 'bpk) consensus_lib \<Rightarrow> batch_signature_store \<Rightarrow> 'bpk list \<Rightarrow> 'sig list \<Rightarrow> bool" where
  "aggregates lib store ks ss \<longleftrightarrow>
     (if ks = [] then bs_aggregated_signature store = [] \<and> bs_aggregated_public_keys store = []
      else sig_to_uncompressed (cl_vm lib) (sum_of (cl_sig_add lib) ss) = Inr (bs_aggregated_signature store) \<and>
           pk_to_uncompressed (cl_vm lib) (sum_of (cl_pk_add lib) ks) = Inr (bs_aggregated_public_keys store))"

definition store_sound :: "('sig, 'bsk, 'bpk) consensus_lib \<Rightarrow> batch_signature_store \<Rightarrow> bool" where
  "store_sound lib store \<longleftrightarrow>
     (\<exists>es ks ss. mset (bs_signatures store) = mset (map (\<lambda>e. (cl_hex_encode lib (fst e), snd e)) es) \<and>
        signed_entries lib (bs_batch_header store) es ks ss \<and> length (bs_signers store) = length es \<and>
        aggregates lib store ks ss)"

lemma sum_of_single [simp]: "sum_of add [x] = x"
  by (simp add: sum_of_def)

lemma sum_of_snoc [simp]: "xs \<noteq> [] \<Longrightarrow> sum_of add (xs @ [x]) = add (sum_of add xs) x"
  by (cases xs) (simp_all add: sum_of_def)

lemma sum_verifies:
  assumes "bls_ok lib public_of" "ss \<noteq> []"
    and "list_all2 (\<lambda>s k. ecdsa_verify (cl_vm lib) root s k = Inr ()) ss ks"
  shows "ecdsa_verify (cl_vm lib) root (sum_of (cl_sig_add lib) ss) (sum_of (cl_pk_add lib) ks) = Inr ()"
  using assms(2,3)
proof (induction ss arbitrary: ks rule: rev_induct)
  case (snoc s ss)
  then obtain ks' k where ks: "ks = ks' @ [k]" "ecdsa_verify (cl_vm lib) root s k = Inr ()"
    "list_all2 (\<lambda>s k. ecdsa_verify (cl_vm lib) root s k = Inr ()) ss ks'"
    by (auto simp: list_all2_append1 list_all2_Cons1)
  show ?case
  proof (cases "ss = []")
    case True
    with ks show ?thesis by simp
  next
    case False
    then have "ks' \<noteq> []" using ks(3) by auto
    with False ks snoc.IH [OF False ks(3)] assms(1) show ?thesis by (simp add: bls_ok_def)
  qed
qed simp

lemma store_default_sound: "store_sound lib store_default"
  by (simp add: store_sound_def store_default_def signed_entries_def aggregates_def)

lemma aggregates_slot [simp]: "aggregates lib (store\<lparr>bs_slot := n\<rparr>) ks ss \<longleftrightarrow> aggregates lib store ks ss"
  by (simp add: aggregates_def)

lemma store_slot_sound: "store_sound lib store \<Longrightarrow> store_sound lib (store\<lparr>bs_slot := n\<rparr>)"
  by (simp add: store_sound_def)

lemma expect_ok_eq_Inr [res_simps]: "expect_ok msg r = Inr a \<longleftrightarrow> r = Inr a"
  by (cases r) (simp_all add: expect_ok_def)

text \<open>The node's own entry, and an entry of a peer.\<close>

lemma new_batch_store_sound:
  assumes "bls_ok lib public_of" "new_batch_store lib root s ed bn = Inr store"
    and "pk_from_uncompressed (cl_vm lib) bn = Inr k" "ecdsa_verify (cl_vm lib) (cm_merkle_root root) s k = Inr ()"
  shows "store_sound lib store \<and> bs_batch_header store = cm_merkle_root root"
proof -
  from assms(2,3) obtain sb kb where sb: "sig_to_uncompressed (cl_vm lib) s = Inr sb"
    "pk_to_uncompressed (cl_vm lib) k = Inr kb"
    and store: "bs_batch_header store = cm_merkle_root root" "bs_aggregated_signature store = sb"
      "bs_aggregated_public_keys store = kb" "bs_signers store = [cl_hex_encode lib ed]"
      "bs_signatures store = [(cl_hex_encode lib bn, sb)]"
    by (auto simp: new_batch_store_def add_signature_def add_public_key_def store_new_def Let_def res_simps)
  have "sig_from_uncompressed (cl_vm lib) sb = Inr s" using assms(1) sb by (auto simp: bls_ok_def bn254_ok_def)
  with assms(3,4) sb store show ?thesis
    unfolding store_sound_def signed_entries_def aggregates_def
    by (intro conjI exI [of _ "[(bn, sb)]"] exI [of _ "[k]"] exI [of _ "[s]"]) simp_all
qed

lemma bls_decodes:
  assumes "bls_ok lib public_of"
  shows "sig_to_uncompressed (cl_vm lib) s = Inr b \<Longrightarrow> b \<noteq> [] \<and> sig_from_uncompressed (cl_vm lib) b = Inr s"
    "pk_to_uncompressed (cl_vm lib) k = Inr c \<Longrightarrow> c \<noteq> [] \<and> pk_from_uncompressed (cl_vm lib) c = Inr k"
  using assms unfolding bls_ok_def bn254_ok_def by force+

lemma add_signature_sum:
  assumes "bls_ok lib public_of" "add_signature lib agg s = Inr t"
    and "if ss = [] then agg = [] else sig_to_uncompressed (cl_vm lib) (sum_of (cl_sig_add lib) ss) = Inr agg"
  shows "t = sum_of (cl_sig_add lib) (ss @ [s])"
  using assms(2,3) bls_decodes(1) [OF assms(1)] by (force simp: add_signature_def res_simps split: if_splits)

lemma add_public_key_sum:
  assumes "bls_ok lib public_of" "add_public_key lib agg k = Inr t"
    and "if ks = [] then agg = [] else pk_to_uncompressed (cl_vm lib) (sum_of (cl_pk_add lib) ks) = Inr agg"
  shows "t = sum_of (cl_pk_add lib) (ks @ [k])"
  using assms(2,3) bls_decodes(2) [OF assms(1)] by (force simp: add_public_key_def res_simps split: if_splits)

lemma update_fresh: "k \<notin> fst ` set al \<Longrightarrow> AList.update k v al = al @ [(k, v)]"
  by (induction al) auto

lemma add_batch_message_sound:
  assumes "bls_ok lib public_of" "store_sound lib store" "add_batch_message lib m s k store = Inr store'"
    and "sig_from_uncompressed (cl_vm lib) (bm_signature m) = Inr s"
    and "pk_from_uncompressed (cl_vm lib) (bm_bn254_public_key m) = Inr k"
    and "ecdsa_verify (cl_vm lib) (bs_batch_header store) s k = Inr ()"
    and fresh: "map_of (bs_signatures store) (cl_hex_encode lib (bm_bn254_public_key m)) = None"
  shows "store_sound lib store' \<and> bs_batch_header store' = bs_batch_header store"
proof -
  let ?kb = "bm_bn254_public_key m"
  from assms(2) obtain es ks ss where st: "mset (bs_signatures store) = mset (map (\<lambda>e. (cl_hex_encode lib (fst e), snd e)) es)"
    "signed_entries lib (bs_batch_header store) es ks ss" "length (bs_signers store) = length es"
    "aggregates lib store ks ss" unfolding store_sound_def by blast
  have len: "ss = [] \<longleftrightarrow> ks = []" using st(2) by (auto simp: signed_entries_def)
  from assms(3) obtain t u tb ub where ts: "add_signature lib (bs_aggregated_signature store) s = Inr t"
    "add_public_key lib (bs_aggregated_public_keys store) k = Inr u"
    "sig_to_uncompressed (cl_vm lib) t = Inr tb" "pk_to_uncompressed (cl_vm lib) u = Inr ub"
    and store': "store' = store\<lparr>bs_aggregated_signature := tb, bs_aggregated_public_keys := ub,
      bs_signers := bs_signers store @ [cl_hex_encode lib (bm_ed25519_public_key m)],
      bs_signatures := AList.update (cl_hex_encode lib ?kb) (bm_signature m) (bs_signatures store)\<rparr>"
    by (auto simp: add_batch_message_def res_simps)
  have sums: "t = sum_of (cl_sig_add lib) (ss @ [s])" "u = sum_of (cl_pk_add lib) (ks @ [k])"
    using st(4) len add_signature_sum [OF assms(1) ts(1), of ss] add_public_key_sum [OF assms(1) ts(2), of ks]
    by (auto simp: aggregates_def split: if_splits)
  have new: "cl_hex_encode lib ?kb \<notin> fst ` set (bs_signatures store)" using fresh by (simp add: map_of_eq_None_iff)
  then have upd: "mset (AList.update (cl_hex_encode lib ?kb) (bm_signature m) (bs_signatures store))
      = mset (map (\<lambda>e. (cl_hex_encode lib (fst e), snd e)) (es @ [(?kb, bm_signature m)]))"
    by (simp add: update_fresh st(1))
  have "set (bs_signatures store) = (\<lambda>e. (cl_hex_encode lib (fst e), snd e)) ` set es"
    using mset_eq_setD [OF st(1)] by simp
  with new have "?kb \<notin> set (map fst es)" by force
  then have "signed_entries lib (bs_batch_header store) (es @ [(?kb, bm_signature m)]) (ks @ [k]) (ss @ [s])"
    using st(2) assms(4-6) by (auto simp: signed_entries_def intro!: list_all2_appendI)
  then show ?thesis
    using st(3) ts sums upd unfolding store_sound_def store'
    by (intro conjI exI [of _ "es @ [(?kb, bm_signature m)]"] exI [of _ "ks @ [k]"] exI [of _ "ss @ [s]"])
      (simp_all add: aggregates_def)
qed


section \<open>The store in shared memory\<close>

definition sound_memory :: "('sig, 'bsk, 'bpk) consensus_lib \<Rightarrow> in_memory \<Rightarrow> bool" where
  "sound_memory lib sm \<longleftrightarrow>
     (im_contains_key BATCH_SIGNATURE_STORE_KEY sm \<longrightarrow>
        (\<exists>store. cl_store_of_json lib (stored sm BATCH_SIGNATURE_STORE_KEY) = Some store \<and> store_sound lib store))"

text \<open>The key that the node publishes is its own.\<close>

definition own_key :: "('sig, 'bsk, 'bpk) consensus_lib \<Rightarrow> 'bpk \<Rightarrow> in_memory \<Rightarrow> bool" where
  "own_key lib pk sm \<longleftrightarrow>
     (im_contains_key ''bn254_public_key'' sm \<longrightarrow>
        pk_from_uncompressed (cl_vm lib) (stored sm ''bn254_public_key'') = Inr pk)"

definition memory_inv :: "('sig, 'bsk, 'bpk) consensus_lib \<Rightarrow> 'bpk \<Rightarrow> in_memory \<Rightarrow> bool" where
  "memory_inv lib pk sm \<longleftrightarrow> sound_memory lib sm \<and> own_key lib pk sm"

lemma ret_simps [simp]:
  "fst (ret r ctx) = ctx"
  "ret r ctx = (ctx', Inr (Inr a)) \<longleftrightarrow> ctx' = ctx \<and> r = Inr a"
  by (cases r; auto simp: ret_def)+

lemma sdk_frame [simp]:
  "vc_shared_memory (sdk_start p rest ctx) = vc_shared_memory ctx"
  "vc_node_config (sdk_start p rest ctx) = vc_node_config ctx"
  "vc_shared_memory (sdk_memory_write key v ctx) = vc_shared_memory ctx"
  "vc_node_config (sdk_shared_set key v ctx) = vc_node_config ctx"
  "vc_shared_memory (sdk_shared_set key v ctx) = fst (im_put to_bytes_vec key v (vc_shared_memory ctx))"
  "fst (sdk_result i ctx) = ctx"
  by (simp_all add: sdk_start_def sdk_memory_write_def sdk_shared_set_def sdk_result_def)

lemma sdk_sign_fst [simp]: "fst (sdk_bn254_sign lib m ctx) = ctx"
  by (auto simp: sdk_bn254_sign_def state_bind_def split: sum.splits)

lemma sdk_verify_fst [simp]: "fst (sdk_bn254_verify lib m s k ctx) = ctx"
  by (auto simp: sdk_bn254_verify_def state_bind_def ret_def split: sum.splits prod.splits)

lemma sdk_sign_Ok:
  assumes "bn254_ok lib public_of" "sdk_bn254_sign lib m ctx = (ctx', Inr (Inr s))"
  shows "ctx' = ctx" "ecdsa_sign lib m (private_key (nc_keypair_bn254 (vc_node_config ctx))) = Inr s"
  using assms
  by (auto simp: sdk_bn254_sign_def bn254_ok_def res_simps elim!: state_bind_cases split: if_splits)

lemma sdk_verify_Ok:
  assumes "bn254_ok lib public_of" "sdk_bn254_verify lib m s k ctx = (ctx', Inr (Inr v))"
  shows "ctx' = ctx" "v \<longleftrightarrow> ecdsa_verify lib m s k = Inr ()"
  using assms
  by (auto simp: sdk_bn254_verify_def bn254_ok_def res_simps elim!: state_bind_cases)

lemma stored_other: "k' \<noteq> k \<Longrightarrow> stored (fst (im_put to_bytes_vec k v m)) k' = stored m k'"
  by (simp add: stored_def im_put_def)

lemma memory_inv_put:
  assumes "memory_inv lib pk sm" "key \<noteq> BATCH_SIGNATURE_STORE_KEY" "key \<noteq> ''bn254_public_key''"
  shows "memory_inv lib pk (fst (im_put to_bytes_vec key v sm))"
  using assms by (auto simp: memory_inv_def sound_memory_def own_key_def im_contains_put stored_other)

lemma memory_inv_put_key:
  assumes "memory_inv lib pk sm" "pk_from_uncompressed (cl_vm lib) v = Inr pk"
  shows "memory_inv lib pk (fst (im_put to_bytes_vec ''bn254_public_key'' v sm))"
  using assms
  by (auto simp: memory_inv_def sound_memory_def own_key_def im_contains_put stored_other BATCH_SIGNATURE_STORE_KEY_def)

lemma store_order_sound:
  assumes "store_sound lib store" "mset es = mset (bs_signatures store)"
  shows "store_sound lib (store\<lparr>bs_signatures := es\<rparr>)"
proof -
  have "aggregates lib (store\<lparr>bs_signatures := es\<rparr>) = aggregates lib store" by (intro ext) (simp add: aggregates_def)
  with assms show ?thesis by (simp add: store_sound_def)
qed

lemma stored_store:
  assumes "store_json_ok lib" "cl_json_of_store lib store = Some j" "store_sound lib store"
  shows "\<exists>store'. cl_store_of_json lib (as_bytes j) = Some store' \<and> store_sound lib store' \<and>
    bs_batch_header store' = bs_batch_header store"
  using assms store_order_sound by (force simp: store_json_ok_def)

lemma save_store_inv:
  assumes "store_json_ok lib" "memory_inv lib pk (vc_shared_memory ctx)" "store_sound lib store"
  shows "memory_inv lib pk (vc_shared_memory (fst (save_store msg lib store ctx)))"
proof (cases "cl_json_of_store lib store")
  case (Some j)
  with stored_store [OF assms(1) Some assms(3)] assms(2) show ?thesis
    by (auto simp: save_store_def state_bind_def ret_def memory_inv_def sound_memory_def own_key_def im_contains_put
        stored_other BATCH_SIGNATURE_STORE_KEY_def expect_def)
qed (use assms(2) in \<open>simp add: save_store_def state_bind_def ret_def expect_def\<close>)

text \<open>What every piece of a task keeps: the invariant of the shared memory and the configuration.\<close>

definition guest_inv ::
  "('sig, 'bsk, 'bpk) consensus_lib \<Rightarrow> ('bsk \<Rightarrow> 'bpk) \<Rightarrow> ('bsk, 'bpk, 'esk, 'epk) vm_context \<Rightarrow> bool" where
  "guest_inv lib public_of ctx \<longleftrightarrow>
     memory_inv lib (public_of (private_key (nc_keypair_bn254 (vc_node_config ctx)))) (vc_shared_memory ctx)"

lemmas guest_inv_bind = state_bind_preserves [of "guest_inv lib public_of" for lib public_of]

lemma guest_inv_simps [simp]:
  "guest_inv lib public_of (sdk_start p rest ctx) \<longleftrightarrow> guest_inv lib public_of ctx"
  "guest_inv lib public_of (sdk_memory_write key v ctx) \<longleftrightarrow> guest_inv lib public_of ctx"
  by (simp_all add: guest_inv_def sdk_memory_write_def)

lemma guest_inv_set:
  "guest_inv lib public_of ctx \<Longrightarrow> key \<noteq> BATCH_SIGNATURE_STORE_KEY \<Longrightarrow> key \<noteq> ''bn254_public_key'' \<Longrightarrow>
   guest_inv lib public_of (sdk_shared_set key v ctx)"
  by (simp add: guest_inv_def memory_inv_put)

lemma get_store_sound:
  assumes "guest_inv lib public_of ctx"
    and "get_or_create_batch_signature_store lib BATCH_SIGNATURE_STORE_KEY ctx = Inr store"
  shows "store_sound lib store"
  using assms
  by (auto simp: get_or_create_batch_signature_store_def guest_inv_def memory_inv_def sound_memory_def
      sdk_shared_get_def expect_def store_default_sound split: if_splits)

lemma own_key_get:
  assumes "bls_ok lib public_of" "guest_inv lib public_of ctx"
    and "pk_from_uncompressed (cl_vm lib) (sdk_shared_get ''bn254_public_key'' ctx) = Inr k"
  shows "k = public_of (private_key (nc_keypair_bn254 (vc_node_config ctx)))"
proof (cases "im_contains_key ''bn254_public_key'' (vc_shared_memory ctx)")
  case True
  with assms(2,3) show ?thesis by (simp add: guest_inv_def memory_inv_def own_key_def sdk_shared_get_def)
next
  case False
  then have "sdk_shared_get ''bn254_public_key'' ctx = []"
    by (simp add: sdk_shared_get_def stored_def im_contains_key_def)
  with assms(1,3) show ?thesis by (auto simp: bls_ok_def)
qed

lemma save_store_guest_inv:
  assumes "store_json_ok lib" "guest_inv lib public_of ctx" "store_sound lib store"
  shows "guest_inv lib public_of (fst (save_store msg lib store ctx))"
proof -
  have "vc_node_config (fst (save_store msg lib store ctx)) = vc_node_config ctx"
    by (auto simp: save_store_def state_bind_def ret_def split: sum.splits prod.splits)
  then show ?thesis using save_store_inv [OF assms(1) _ assms(3)] assms(2) by (simp add: guest_inv_def)
qed

lemma own_store_sound:
  assumes "bls_ok lib public_of" "guest_inv lib public_of ctx"
    and "sdk_bn254_sign (cl_vm lib) (cm_merkle_root root) ctx = (ctx', Inr (Inr s))"
    and "new_batch_store lib root s ed (sdk_shared_get ''bn254_public_key'' ctx) = Inr store"
  shows "store_sound lib store \<and> bs_batch_header store = cm_merkle_root root"
proof -
  have bn: "bn254_ok (cl_vm lib) public_of" using assms(1) by (simp add: bls_ok_def)
  obtain k where k: "pk_from_uncompressed (cl_vm lib) (sdk_shared_get ''bn254_public_key'' ctx) = Inr k"
    using assms(4) by (auto simp: new_batch_store_def Let_def res_simps)
  have "ecdsa_verify (cl_vm lib) (cm_merkle_root root) s k = Inr ()"
    using sdk_sign_Ok(2) [OF bn assms(3)] own_key_get [OF assms(1,2) k] bn by (simp add: bn254_ok_def)
  from new_batch_store_sound [OF assms(1,4) k this] show ?thesis .
qed

lemma process_batch_inv:
  assumes "bls_ok lib public_of" "store_json_ok lib" "guest_inv lib public_of ctx" "store_sound lib store"
    and bn: "bn = sdk_shared_get ''bn254_public_key'' ctx"
  shows "guest_inv lib public_of (fst (process_batch lib root store ed bn ctx))"
proof -
  have "guest_inv lib public_of (fst (state_bind (sdk_bn254_sign (cl_vm lib) (cm_merkle_root root) ctx) (\<lambda>ctx s.
        state_bind (ret (new_batch_store lib root s ed bn) ctx) (\<lambda>ctx own_store.
        state_bind (save_store ''Could not convert SignatureStore to json'' lib own_store ctx) (\<lambda>ctx _.
        (sdk_start (p2p_broadcast_message (bs_p2p_message own_store)) [] ctx, Inr (Inr store)))))))"
  proof (intro guest_inv_bind)
    fix c s c' own c'' u
    assume "sdk_bn254_sign (cl_vm lib) (cm_merkle_root root) ctx = (c, Inr (Inr s))"
      "ret (new_batch_store lib root s ed bn) c = (c', Inr (Inr own))" and inv: "guest_inv lib public_of c'"
    moreover from this have "c = ctx" by (metis fst_conv sdk_sign_fst)
    ultimately have "store_sound lib own" using own_store_sound [OF assms(1,3)] bn by auto
    with inv show "guest_inv lib public_of (fst (save_store ''Could not convert SignatureStore to json'' lib own c'))"
      by (intro save_store_guest_inv [OF assms(2)])
  qed (use assms(3) in simp_all)
  moreover have "guest_inv lib public_of (fst (state_bind (save_store msg lib (store\<lparr>bs_slot := n\<rparr>) ctx) (\<lambda>ctx _.
        (sdk_start p [] ctx, Inr (Inr (store\<lparr>bs_slot := n\<rparr>))))))" for n p msg
    using assms by (intro guest_inv_bind save_store_guest_inv) (simp_all add: store_slot_sound)
  ultimately show ?thesis using assms(3) by (simp add: process_batch_def Let_def)
qed

lemma process_batch_store:
  assumes "process_batch lib root store ed bn ctx = (ctx', Inr (Inr store'))"
  shows "store' = store \<or> cm_merkle_root root = bs_batch_header store \<and> store' = store\<lparr>bs_slot := cm_current_slot root\<rparr>"
  using assms by (auto simp: process_batch_def Let_def elim!: state_bind_cases split: if_splits)

lemma process_slot_leader_shared:
  "guest_inv lib public_of ctx \<Longrightarrow> guest_inv lib public_of (fst (process_slot_leader lib checks store contract_id ctx))"
  unfolding process_slot_leader_def
  by (intro guest_inv_bind) (auto split: if_splits intro!: guest_inv_bind)

lemma batch_step_1_inv:
  assumes "bls_ok lib public_of" "store_json_ok lib" "guest_inv lib public_of ctx"
  shows "guest_inv lib public_of (fst (batch_step_1 lib checks ctx))"
  unfolding batch_step_1_def Let_def
proof (intro guest_inv_bind)
  fix c0 cid c1 store c2 status c3 root
  assume "ret (get_or_create_batch_signature_store lib BATCH_SIGNATURE_STORE_KEY c0) c0 = (c1, Inr (Inr store))"
    "guest_inv lib public_of c0" "sdk_result 0 c1 = (c2, Inr (Inr status))"
    "ret (case status of
         Fulfilled (Some batch_bytes) \<Rightarrow>
           expect ''Cannot convert `merkle_root` json to `ComputeMerkleRootResult`'' (cl_merkle_result_of_json lib batch_bytes)
       | Rejected err \<Rightarrow>
           (if valid_utf8 err then Inl (Panic (''`compute_merkle_root` promise rejected: '' @ chars_of err))
            else Inl (Panic ''unwrap on an Err value''))
       | _ \<Rightarrow> Inl (Panic ''`compute_merkle_root` promise other'')) c2 = (c3, Inr (Inr root))"
  then have "c3 = c0" "store_sound lib store" "guest_inv lib public_of c3"
    using get_store_sound by (auto simp: sdk_result_def)
  then show "guest_inv lib public_of (fst (process_batch lib root store (sdk_shared_get ''ed25519_public_key'' c0)
      (sdk_shared_get ''bn254_public_key'' c0) c3))"
    by (simp add: process_batch_inv [OF assms(1,2)])
qed (use assms(3) process_slot_leader_shared in \<open>auto split: if_splits\<close>)

lemma add_batch_message_guest_inv:
  assumes "bls_ok lib public_of" "store_json_ok lib" "guest_inv lib public_of ctx"
    and "add_batch_message lib m s k store = Inr store'"
    and "get_or_create_batch_signature_store lib BATCH_SIGNATURE_STORE_KEY ctx = Inr store"
    and "ecdsa_verify (cl_vm lib) (bs_batch_header store) s k = Inr ()"
    and "sig_from_uncompressed (cl_vm lib) (bm_signature m) = Inr s"
    and "pk_from_uncompressed (cl_vm lib) (bm_bn254_public_key m) = Inr k"
    and "map_of (bs_signatures store) (cl_hex_encode lib (bm_bn254_public_key m)) = None"
  shows "guest_inv lib public_of (fst (save_store msg lib store' ctx))"
  using add_batch_message_sound [OF assms(1) get_store_sound [OF assms(3,5)] assms(4,7,8,6,9)] assms(2,3)
  by (intro save_store_guest_inv) simp_all

lemma p2p_handle_inv:
  assumes "bls_ok lib public_of" "store_json_ok lib" "guest_inv lib public_of ctx"
  shows "guest_inv lib public_of (fst (p2p_handle lib text ctx))"
proof -
  have bn: "bn254_ok (cl_vm lib) public_of" using assms(1) by (simp add: bls_ok_def)
  show ?thesis
    unfolding p2p_handle_def
    apply (intro guest_inv_bind)
     apply (auto simp: assms(3) res_simps intro!: guest_inv_bind dest!: sdk_verify_Ok [OF bn]
        split: consensus_message.splits)
    apply (rule add_batch_message_guest_inv [OF assms(1,2)])
          apply assumption+
    done
qed

text \<open>The node tells the program its own public key in \<open>BN254_PUBLIC_KEY\<close>.\<close>

definition key_configured ::
  "('sig, 'bsk, 'bpk) consensus_lib \<Rightarrow> ('bsk \<Rightarrow> 'bpk) \<Rightarrow> (string \<times> string) list
    \<Rightarrow> ('bsk, 'bpk, 'esk, 'epk) node_config \<Rightarrow> bool" where
  "key_configured lib public_of env cfg \<longleftrightarrow>
     (\<forall>h b. map_of env ''BN254_PUBLIC_KEY'' = Some h \<longrightarrow> cl_hex_decode lib h = Some b \<longrightarrow>
        pk_from_uncompressed (cl_vm lib) b = Inr (public_of (private_key (nc_keypair_bn254 cfg))))"

lemma key_configured_set:
  assumes "key_configured lib public_of env cfg" "guest_inv lib public_of ctx" "vc_node_config ctx = cfg"
    and "and_then (sdk_env env ''BN254_PUBLIC_KEY'') (\<lambda>h. expect msg (cl_hex_decode lib h)) = Inr b"
  shows "guest_inv lib public_of (sdk_shared_set ''bn254_public_key'' b ctx)"
proof -
  obtain h where "map_of env ''BN254_PUBLIC_KEY'' = Some h" "cl_hex_decode lib h = Some b"
    using assms(4) by (auto simp: sdk_env_def res_simps)
  then have "pk_from_uncompressed (cl_vm lib) b = Inr (public_of (private_key (nc_keypair_bn254 cfg)))"
    using assms(1) unfolding key_configured_def by blast
  with assms(2,3) show ?thesis by (simp add: guest_inv_def memory_inv_put_key)
qed

lemma batch_handle_inv:
  assumes "guest_inv lib public_of ctx" "key_configured lib public_of env (vc_node_config ctx)"
  shows "guest_inv lib public_of (fst (batch_handle lib env ctx))"
  unfolding batch_handle_def Let_def
proof (intro guest_inv_bind)
  fix c cid c' ed c'' bn
  assume "ret (sdk_env env ''ORACLE_CONTRACT_ID'') ctx = (c, Inr (Inr cid))"
    "ret (and_then (sdk_env env ''ED25519_PUBLIC_KEY'')
      (\<lambda>h. expect ''Missing WASI env var for ED25519 public key'' (cl_hex_decode lib h)))
      (sdk_shared_set ''contract_id'' (as_bytes cid) c) = (c', Inr (Inr ed))"
    "ret (and_then (sdk_env env ''BN254_PUBLIC_KEY'')
      (\<lambda>h. expect ''Missing WASI env var for BN254 public key'' (cl_hex_decode lib h)))
      (sdk_shared_set ''ed25519_public_key'' ed c') = (c'', Inr (Inr bn))"
    and inv: "guest_inv lib public_of c''"
  then have "guest_inv lib public_of (sdk_shared_set ''bn254_public_key'' bn c'')"
    by (intro key_configured_set [OF assms(2)]) auto
  then show "guest_inv lib public_of (fst (sdk_start (chain_view Near cid ''compute_merkle_root'' [])
        [chain_view Near cid ''get_config'' [], chain_view Near cid ''get_last_generated_random_number'' [],
         call_self ''batch_step_1'' []] (sdk_shared_set ''bn254_public_key'' bn c''), Inr (Inr ())))"
    by simp
qed (simp_all add: assms(1) guest_inv_set BATCH_SIGNATURE_STORE_KEY_def)

lemma bridge_inv:
  assumes "guest_inv lib public_of ctx"
  shows "guest_inv lib public_of (fst (bridge_handle env chain cid meth dep args ctx))"
    "guest_inv lib public_of (fst (bridge_step_1 lib ctx))" "fst (bridge_step_2 ctx) = ctx"
  subgoal unfolding bridge_handle_def Let_def
    by (intro guest_inv_bind) (auto simp: assms BATCH_SIGNATURE_STORE_KEY_def intro!: guest_inv_set)
  subgoal unfolding bridge_step_1_def
    by (intro guest_inv_bind) (auto simp: assms intro!: guest_inv_bind split: promise_status.splits option.splits)
  subgoal unfolding bridge_step_2_def by (intro state_bind_preserves [of "\<lambda>c. c = ctx"]) auto
  done



section \<open>Runs of the program\<close>

text \<open>
  The node keeps the shared memory from task to task and gives each run a fresh queue and memory.
  A step is one task or one later stage, in any context with the node's configuration; it counts
  also when the task panics.
\<close>

inductive consensus_step ::
  "('sig, 'bsk, 'bpk) consensus_lib \<Rightarrow> bool \<Rightarrow> (string \<times> string) list \<Rightarrow> ('bsk, 'bpk, 'esk, 'epk) node_config
    \<Rightarrow> in_memory \<Rightarrow> in_memory \<Rightarrow> bool"
  for lib checks env cfg where
  a_task: "consensus_step lib checks env cfg (vc_shared_memory ctx) (vc_shared_memory ctx')"
    if "vc_node_config ctx = cfg" "task_handle lib env t ctx = (ctx', r)"
| batch_stage: "consensus_step lib checks env cfg (vc_shared_memory ctx) (vc_shared_memory ctx')"
    if "vc_node_config ctx = cfg" "batch_step_1 lib checks ctx = (ctx', r)"
| bridge_stage_1: "consensus_step lib checks env cfg (vc_shared_memory ctx) (vc_shared_memory ctx')"
    if "vc_node_config ctx = cfg" "bridge_step_1 lib ctx = (ctx', r)"
| bridge_stage_2: "consensus_step lib checks env cfg (vc_shared_memory ctx) (vc_shared_memory ctx')"
    if "vc_node_config ctx = cfg" "bridge_step_2 ctx = (ctx', out)"

definition program_ok ::
  "('sig, 'bsk, 'bpk) consensus_lib \<Rightarrow> ('bsk \<Rightarrow> 'bpk) \<Rightarrow> (string \<times> string) list
    \<Rightarrow> ('bsk, 'bpk, 'esk, 'epk) node_config \<Rightarrow> bool" where
  "program_ok lib public_of env cfg \<longleftrightarrow>
     bls_ok lib public_of \<and> store_json_ok lib \<and> key_configured lib public_of env cfg"

abbreviation node_public_key :: "('bsk \<Rightarrow> 'bpk) \<Rightarrow> ('bsk, 'bpk, 'esk, 'epk) node_config \<Rightarrow> 'bpk" where
  "node_public_key public_of cfg \<equiv> public_of (private_key (nc_keypair_bn254 cfg))"

text \<open>The configuration stays what it was, so the invariant of a context is that of its memory.\<close>

lemma config_bind:
  "vc_node_config (fst m) = cfg \<Longrightarrow> (\<And>c v. vc_node_config c = cfg \<Longrightarrow> vc_node_config (fst (f c v)) = cfg) \<Longrightarrow>
   vc_node_config (fst (state_bind m f)) = cfg"
  by (rule state_bind_preserves)

lemma task_config [simp]:
  "vc_node_config (fst (save_store msg lib store ctx)) = vc_node_config ctx"
  "vc_node_config (fst (process_batch lib root store ed bn ctx)) = vc_node_config ctx"
  "vc_node_config (fst (process_slot_leader lib checks store cid ctx)) = vc_node_config ctx"
  subgoal unfolding save_store_def by (intro config_bind) simp_all
  subgoal unfolding process_batch_def Let_def by (simp, intro conjI impI) (auto intro!: config_bind simp: save_store_def)
  subgoal unfolding process_slot_leader_def by (intro config_bind) (auto intro!: config_bind)
  done

lemma task_handle_config: "vc_node_config (fst (task_handle lib env t ctx)) = vc_node_config ctx"
proof (cases t)
  case BatchTask
  then show ?thesis
    by (simp add: task_handle_def batch_handle_def Let_def) (intro config_bind; simp)
next
  case BridgeTask
  then show ?thesis
    by (simp add: task_handle_def bridge_handle_def Let_def) (intro config_bind; simp add: sdk_memory_write_def)
next
  case P2PTask
  then show ?thesis
    by (simp add: task_handle_def p2p_handle_def)
      (intro config_bind; auto intro!: config_bind split: consensus_message.splits)
qed

lemma stage_config:
  "vc_node_config (fst (batch_step_1 lib checks ctx)) = vc_node_config ctx"
  "vc_node_config (fst (bridge_step_1 lib ctx)) = vc_node_config ctx"
  subgoal unfolding batch_step_1_def Let_def by (intro config_bind) auto
  subgoal unfolding bridge_step_1_def
    by (intro config_bind) (auto intro!: config_bind split: promise_status.splits option.splits)
  done

lemma task_handle_inv:
  assumes "program_ok lib public_of env (vc_node_config ctx)" "guest_inv lib public_of ctx"
  shows "guest_inv lib public_of (fst (task_handle lib env t ctx))"
  using assms batch_handle_inv bridge_inv(1) p2p_handle_inv
  by (auto simp: program_ok_def task_handle_def split: task.splits)

lemma consensus_step_inv:
  assumes "consensus_step lib checks env cfg sm sm'" "program_ok lib public_of env cfg"
    and "memory_inv lib (node_public_key public_of cfg) sm"
  shows "memory_inv lib (node_public_key public_of cfg) sm'"
  using assms
proof (induction rule: consensus_step.induct)
  case (a_task ctx t ctx' r)
  then show ?case
    using task_handle_inv [of lib public_of env ctx t] task_handle_config [of lib env t ctx] by (auto simp: guest_inv_def)
next
  case (batch_stage ctx ctx' r)
  then show ?case
    using batch_step_1_inv [of lib public_of ctx checks] stage_config(1) [of lib checks ctx]
    by (auto simp: guest_inv_def program_ok_def)
next
  case (bridge_stage_1 ctx ctx' r)
  then show ?case
    using bridge_inv(2) [of lib public_of ctx] stage_config(2) [of lib ctx] by (auto simp: guest_inv_def)
next
  case (bridge_stage_2 ctx ctx' out)
  then show ?case using bridge_inv(3) [of lib public_of ctx] by (auto simp: guest_inv_def)
qed

interpretation stores: inductive_invariant "\<lambda>sm. sm = in_memory_default" "consensus_step lib checks env cfg"
  "\<lambda>sm. program_ok lib public_of env cfg \<longrightarrow> memory_inv lib (node_public_key public_of cfg) sm"
  for lib :: "('sig, 'bsk, 'bpk) consensus_lib" and public_of checks env and cfg :: "('bsk, 'bpk, 'esk, 'epk) node_config"
proof
  show "program_ok lib public_of env cfg \<longrightarrow> memory_inv lib (node_public_key public_of cfg) sm"
    if "sm = in_memory_default" for sm
    using that by (simp add: memory_inv_def sound_memory_def own_key_def im_contains_key_def in_memory_default_def)
qed (use consensus_step_inv in blast)



section \<open>What the slot leader submits\<close>

abbreviation queue_of :: "('bsk, 'bpk, 'esk, 'epk) vm_context \<Rightarrow> promise list" where
  "queue_of ctx \<equiv> pq_queue (vc_promise_queue ctx)"

abbreviation batch_submission :: "('sig, 'bsk, 'bpk) consensus_lib \<Rightarrow> string \<Rightarrow> batch_signature_store \<Rightarrow> bytes \<Rightarrow> wasm_promise" where
  "batch_submission lib contract_id store leader_signature \<equiv>
     chain_call Near contract_id ''post_signed_batch''
       (cl_json_of_batch_args lib (bs_aggregated_signature store) (bs_aggregated_public_keys store) (bs_signers store)
          leader_signature) (10 ^ 24)"

lemma sdk_start_queue [simp]:
  "queue_of (sdk_start p rest ctx) = queue_of ctx @ map bare_promise (p # rest)"
  "vc_current_promise_queue (sdk_start p rest ctx) = vc_current_promise_queue ctx"
  by (simp_all add: sdk_start_def promise_chain_queue)

lemma current_status_start [simp]: "current_status (sdk_start p rest ctx) i = current_status ctx i"
  by (simp add: current_status_def)

lemma one_near: "to_yocto checks ''1'' = Inr (10 ^ 24)"
  using to_yocto_whole_value [of "''1''" checks] by (simp add: decimal_value_def is_digit_def digit_value_def)

lemma sdk_sign_ctx: "sdk_bn254_sign lib m ctx = (ctx', r) \<Longrightarrow> ctx' = ctx"
  by (metis fst_conv sdk_sign_fst)

text \<open>The leader signature: that of the node on the random number it was told.\<close>

definition leader_signed ::
  "('sig, 'bsk, 'bpk) consensus_lib \<Rightarrow> ('bsk, 'bpk, 'esk, 'epk) vm_context \<Rightarrow> bytes \<Rightarrow> bool" where
  "leader_signed lib ctx leader \<longleftrightarrow>
     (\<exists>num encoded r sg. current_status ctx 2 = Inr (Fulfilled (Some num)) \<and> cl_string_of_json lib num = Some encoded \<and>
        cl_u256_of_dec lib encoded = Some r \<and>
        snd (sdk_bn254_sign (cl_vm lib) (to_le_bytes 32 r) ctx) = Inr (Inr sg) \<and> sig_to_uncompressed (cl_vm lib) sg = Inr leader)"

lemma leader_signed_cong:
  assumes "vc_current_promise_queue ctx = vc_current_promise_queue ctx'" "vc_node_config ctx = vc_node_config ctx'"
  shows "leader_signed lib ctx leader = leader_signed lib ctx' leader"
proof -
  have "snd (sdk_bn254_sign (cl_vm lib) m ctx) = snd (sdk_bn254_sign (cl_vm lib) m ctx')" for m
    using assms(2) by (auto simp: sdk_bn254_sign_def state_bind_def ret_def split: sum.splits)
  with assms(1) show ?thesis by (simp add: leader_signed_def current_status_def)
qed

definition leader_outcome ::
  "('sig, 'bsk, 'bpk) consensus_lib \<Rightarrow> config \<Rightarrow> string \<Rightarrow> batch_signature_store
    \<Rightarrow> ('bsk, 'bpk, 'esk, 'epk) vm_context \<Rightarrow> ('bsk, 'bpk, 'esk, 'epk) vm_context \<Rightarrow> bool" where
  "leader_outcome lib chain_config cid store ctx ctx' \<longleftrightarrow>
     (if committee_size chain_config = of_nat (length (bs_signatures store))
      then \<exists>leader. ctx' = sdk_start (batch_submission lib cid store leader) [] ctx \<and> leader_signed lib ctx leader
      else ctx' = ctx)"

lemma process_slot_leader_submits:
  assumes "process_slot_leader lib checks store cid ctx = (ctx', Inr (Inr ()))"
  shows "\<exists>c chain_config. current_status ctx 1 = Inr (Fulfilled (Some c)) \<and> cl_config_of_json lib c = Some chain_config \<and>
    leader_outcome lib chain_config cid store ctx ctx'"
  using assms
  by (auto simp: process_slot_leader_def sdk_result_def one_near res_simps
      elim!: state_bind_cases split: if_splits promise_status.splits option.splits)
    (auto simp: leader_outcome_def leader_signed_def dest: sdk_sign_ctx)

lemma process_batch_effect:
  assumes "process_batch lib root store ed bn ctx = (ctx', Inr (Inr store'))"
  shows "vc_current_promise_queue ctx' = vc_current_promise_queue ctx"
    "queue_of ctx' = queue_of ctx \<or> (\<exists>d. queue_of ctx' = queue_of ctx @ [bare_promise (p2p_broadcast_message d)])"
  using assms
  by (auto simp: process_batch_def Let_def save_store_def sdk_shared_set_def
      elim!: state_bind_cases dest!: sdk_sign_ctx split: if_splits)

lemma batch_step_1_parts:
  assumes "batch_step_1 lib checks ctx = (ctx', Inr (Inr ()))"
  obtains cid store root bytes ctx1 store1 where
    "cid = chars_of (sdk_shared_get ''contract_id'' ctx)"
    "get_or_create_batch_signature_store lib BATCH_SIGNATURE_STORE_KEY ctx = Inr store"
    "current_status ctx 0 = Inr (Fulfilled (Some bytes))" "cl_merkle_result_of_json lib bytes = Some root"
    "process_batch lib root store (sdk_shared_get ''ed25519_public_key'' ctx) (sdk_shared_get ''bn254_public_key'' ctx) ctx
     = (ctx1, Inr (Inr store1))"
    "if cm_current_slot_leader root = Some (cl_hex_encode lib (sdk_shared_get ''ed25519_public_key'' ctx))
     then process_slot_leader lib checks store1 cid ctx1 = (ctx', Inr (Inr ())) else ctx' = ctx1"
  using assms
  by (auto simp: batch_step_1_def Let_def sdk_result_def res_simps
      elim!: state_bind_cases split: if_splits promise_status.splits option.splits)

text \<open>The promises that a stage adds to the queue of its run.\<close>

definition new_promises ::
  "('bsk, 'bpk, 'esk, 'epk) vm_context \<Rightarrow> ('bsk, 'bpk, 'esk, 'epk) vm_context \<Rightarrow> promise list" where
  "new_promises ctx ctx' = drop (length (queue_of ctx)) (queue_of ctx')"

lemma broadcast_no_call: "p_action (bare_promise (p2p_broadcast_message d)) \<noteq> ChainCall call"
  by (simp add: bare_promise_def p2p_broadcast_message_def wasm_promise_new_def)

lemma batch_step_1_submission:
  assumes "batch_step_1 lib checks ctx = (ctx', Inr (Inr ()))" "p \<in> set (new_promises ctx ctx')" "p_action p = ChainCall call"
  obtains store c chain_config leader where
    "get_or_create_batch_signature_store lib BATCH_SIGNATURE_STORE_KEY ctx = Inr store"
    "current_status ctx 1 = Inr (Fulfilled (Some c))" "cl_config_of_json lib c = Some chain_config"
    "committee_size chain_config = of_nat (length (bs_signatures store))"
    "p = bare_promise (batch_submission lib (chars_of (sdk_shared_get ''contract_id'' ctx)) store leader)"
    "leader_signed lib ctx leader"
  using assms(1)
proof (rule batch_step_1_parts)
  fix cid store root bytes ctx1 store1
  assume cid: "cid = chars_of (sdk_shared_get ''contract_id'' ctx)"
    and store: "get_or_create_batch_signature_store lib BATCH_SIGNATURE_STORE_KEY ctx = Inr store"
    and pb: "process_batch lib root store (sdk_shared_get ''ed25519_public_key'' ctx)
      (sdk_shared_get ''bn254_public_key'' ctx) ctx = (ctx1, Inr (Inr store1))"
    and leader: "if cm_current_slot_leader root = Some (cl_hex_encode lib (sdk_shared_get ''ed25519_public_key'' ctx))
      then process_slot_leader lib checks store1 cid ctx1 = (ctx', Inr (Inr ())) else ctx' = ctx1"
  have "ctx' \<noteq> ctx1"
    using process_batch_effect(2) [OF pb] assms(2,3) broadcast_no_call by (auto simp: new_promises_def)
  then obtain c chain_config where c: "current_status ctx1 1 = Inr (Fulfilled (Some c))"
    "cl_config_of_json lib c = Some chain_config" and out: "leader_outcome lib chain_config cid store1 ctx1 ctx'"
    using leader process_slot_leader_submits by (metis (no_types, lifting))
  with \<open>ctx' \<noteq> ctx1\<close> obtain l where size: "committee_size chain_config = of_nat (length (bs_signatures store1))"
    and ctx': "ctx' = sdk_start (batch_submission lib cid store1 l) [] ctx1" and l: "leader_signed lib ctx1 l"
    by (auto simp: leader_outcome_def split: if_splits)
  have "vc_node_config ctx1 = vc_node_config ctx" using task_config(2) [of lib root store _ _ ctx] pb by (metis fst_conv)
  then have "leader_signed lib ctx l" using l leader_signed_cong process_batch_effect(1) [OF pb] by metis
  moreover
  have "current_status ctx1 1 = current_status ctx 1"
    using process_batch_effect(1) [OF pb] by (simp add: current_status_def)
  moreover have "p = bare_promise (batch_submission lib cid store1 l)"
    using process_batch_effect(2) [OF pb] assms(2,3) broadcast_no_call by (auto simp: new_promises_def ctx')
  moreover have "bs_signatures store1 = bs_signatures store" "batch_submission lib cid store1 l = batch_submission lib cid store l"
    using process_batch_store [OF pb] by auto
  ultimately show thesis using that [OF store _ c(2)] c(1) size cid by simp
qed

lemma store_sound_verifies:
  assumes "bls_ok lib public_of" "store_sound lib store"
  shows "\<exists>es ks ss. signed_entries lib (bs_batch_header store) es ks ss \<and>
    length (bs_signatures store) = length es \<and> length (bs_signers store) = length es \<and>
    (es \<noteq> [] \<longrightarrow> (\<exists>s k. sig_from_uncompressed (cl_vm lib) (bs_aggregated_signature store) = Inr s \<and>
       pk_from_uncompressed (cl_vm lib) (bs_aggregated_public_keys store) = Inr k \<and>
       ecdsa_verify (cl_vm lib) (bs_batch_header store) s k = Inr ()))"
proof -
  from assms(2) obtain es ks ss where st: "mset (bs_signatures store) = mset (map (\<lambda>e. (cl_hex_encode lib (fst e), snd e)) es)"
    "signed_entries lib (bs_batch_header store) es ks ss" "length (bs_signers store) = length es"
    "aggregates lib store ks ss" unfolding store_sound_def by blast
  have "length (bs_signatures store) = length es" using mset_eq_length [OF st(1)] by simp
  moreover have "\<exists>s k. sig_from_uncompressed (cl_vm lib) (bs_aggregated_signature store) = Inr s \<and>
       pk_from_uncompressed (cl_vm lib) (bs_aggregated_public_keys store) = Inr k \<and>
       ecdsa_verify (cl_vm lib) (bs_batch_header store) s k = Inr ()" if "es \<noteq> []"
  proof -
    have ne: "ks \<noteq> []" "ss \<noteq> []" using that st(2) by (auto simp: signed_entries_def)
    then have "sig_from_uncompressed (cl_vm lib) (bs_aggregated_signature store) = Inr (sum_of (cl_sig_add lib) ss)"
      "pk_from_uncompressed (cl_vm lib) (bs_aggregated_public_keys store) = Inr (sum_of (cl_pk_add lib) ks)"
      using st(4) bls_decodes [OF assms(1)] by (simp_all add: aggregates_def)
    with st(2) sum_verifies [OF assms(1) ne(2)] show ?thesis by (simp add: signed_entries_def)
  qed
  ultimately show ?thesis using st(2,3) by blast
qed

text \<open>
  C27: What the slot leader submits is an aggregate that verifies. In every shared memory that the
  tasks can leave behind, a call that \<open>batch_step_1\<close> adds to the queue is \<open>post_signed_batch\<close> with a
  deposit of one NEAR and with the aggregates and signers of the stored signatures. These are as
  many as the committee has members, they come from as many different keys, each is a valid
  signature of the stored batch header, and the aggregated signature verifies for this header
  under the aggregated key.
\<close>

theorem leader_submission_verifies:
  assumes "program_ok lib public_of env cfg"
    and "reachable (\<lambda>sm. sm = in_memory_default) (consensus_step lib checks env cfg) (vc_shared_memory ctx)"
    and "vc_node_config ctx = cfg" "batch_step_1 lib checks ctx = (ctx', Inr (Inr ()))"
    and "p \<in> set (new_promises ctx ctx')" "p_action p = ChainCall call"
  shows "\<exists>store c chain_config leader es ks ss.
    get_or_create_batch_signature_store lib BATCH_SIGNATURE_STORE_KEY ctx = Inr store \<and>
    p = bare_promise (batch_submission lib (chars_of (sdk_shared_get ''contract_id'' ctx)) store leader) \<and>
    current_status ctx 1 = Inr (Fulfilled (Some c)) \<and> cl_config_of_json lib c = Some chain_config \<and>
    signed_entries lib (bs_batch_header store) es ks ss \<and>
    committee_size chain_config = of_nat (length es) \<and> length (bs_signers store) = length es \<and>
    (es \<noteq> [] \<longrightarrow> (\<exists>s k. sig_from_uncompressed (cl_vm lib) (bs_aggregated_signature store) = Inr s \<and>
       pk_from_uncompressed (cl_vm lib) (bs_aggregated_public_keys store) = Inr k \<and>
       ecdsa_verify (cl_vm lib) (bs_batch_header store) s k = Inr ()))"
proof -
  from batch_step_1_submission [OF assms(4-6)] obtain store c chain_config leader where sub:
    "get_or_create_batch_signature_store lib BATCH_SIGNATURE_STORE_KEY ctx = Inr store"
    "current_status ctx 1 = Inr (Fulfilled (Some c))" "cl_config_of_json lib c = Some chain_config"
    "committee_size chain_config = of_nat (length (bs_signatures store))"
    "p = bare_promise (batch_submission lib (chars_of (sdk_shared_get ''contract_id'' ctx)) store leader)"
    "leader_signed lib ctx leader" .
  have "guest_inv lib public_of ctx" using stores.reachable_inv [OF assms(2)] assms(1,3) by (simp add: guest_inv_def)
  from get_store_sound [OF this sub(1)] have "store_sound lib store" .
  from store_sound_verifies [OF _ this] assms(1) obtain es ks ss where
    "signed_entries lib (bs_batch_header store) es ks ss" "length (bs_signatures store) = length es"
    "length (bs_signers store) = length es"
    "es \<noteq> [] \<longrightarrow> (\<exists>s k. sig_from_uncompressed (cl_vm lib) (bs_aggregated_signature store) = Inr s \<and>
       pk_from_uncompressed (cl_vm lib) (bs_aggregated_public_keys store) = Inr k \<and>
       ecdsa_verify (cl_vm lib) (bs_batch_header store) s k = Inr ())"
    unfolding program_ok_def by blast
  with sub show ?thesis by auto
qed

lemma save_store_header:
  assumes "store_json_ok lib" "save_store msg lib store ctx = (ctx', Inr (Inr ()))"
  shows "\<exists>store'. get_or_create_batch_signature_store lib BATCH_SIGNATURE_STORE_KEY ctx' = Inr store' \<and>
    bs_batch_header store' = bs_batch_header store"
proof -
  from assms(2) obtain j where j: "cl_json_of_store lib store = Some j"
    and ctx': "ctx' = sdk_shared_set BATCH_SIGNATURE_STORE_KEY (as_bytes j) ctx"
    by (auto simp: save_store_def res_simps elim!: state_bind_cases)
  from assms(1) j obtain es where "cl_store_of_json lib (as_bytes j) = Some (store\<lparr>bs_signatures := es\<rparr>)"
    unfolding store_json_ok_def by blast
  then show ?thesis
    by (simp add: get_or_create_batch_signature_store_def ctx' sdk_shared_get_def im_contains_put expect_def)
qed

lemma get_store_start [simp]:
  "get_or_create_batch_signature_store lib key (sdk_start p rest ctx) = get_or_create_batch_signature_store lib key ctx"
  by (simp add: get_or_create_batch_signature_store_def sdk_shared_get_def)

lemma new_batch_store_header: "new_batch_store lib root s ed bn = Inr store \<Longrightarrow> bs_batch_header store = cm_merkle_root root"
  by (auto simp: new_batch_store_def store_new_def Let_def res_simps)

lemma process_batch_new:
  assumes "store_json_ok lib" "process_batch lib root store ed bn ctx = (ctx', Inr (Inr store'))"
    and "cm_merkle_root root \<noteq> bs_batch_header store"
  shows "store' = store" "\<exists>d. queue_of ctx' = queue_of ctx @ [bare_promise (p2p_broadcast_message d)]"
    "\<exists>saved. get_or_create_batch_signature_store lib BATCH_SIGNATURE_STORE_KEY ctx' = Inr saved \<and>
       bs_batch_header saved = cm_merkle_root root"
proof -
  from assms(2,3) obtain s own ctx1 where own: "new_batch_store lib root s ed bn = Inr own"
    and save: "save_store ''Could not convert SignatureStore to json'' lib own ctx = (ctx1, Inr (Inr ()))"
    and ctx': "ctx' = sdk_start (p2p_broadcast_message (bs_p2p_message own)) [] ctx1" "store' = store"
    by (auto simp: process_batch_def elim!: state_bind_cases dest!: sdk_sign_ctx)
  then have "queue_of ctx1 = queue_of ctx"
    by (auto simp: save_store_def sdk_shared_set_def elim!: state_bind_cases)
  with ctx' new_batch_store_header [OF own] save_store_header [OF assms(1) save]
  show "store' = store" "\<exists>d. queue_of ctx' = queue_of ctx @ [bare_promise (p2p_broadcast_message d)]"
    "\<exists>saved. get_or_create_batch_signature_store lib BATCH_SIGNATURE_STORE_KEY ctx' = Inr saved \<and>
       bs_batch_header saved = cm_merkle_root root"
    by auto
qed

text \<open>
  C39: The signatures that the slot leader submits may be those of the previous batch. When the
  merkle root has changed, the node is the slot leader and it holds all signatures of the old
  batch, then \<open>batch_step_1\<close> saves a store for the new root and broadcasts its own signature of it,
  and submits the aggregate of the old store, because \<open>process_batch\<close> shadows \<open>signature_store\<close>.
\<close>

theorem stale_submission:
  assumes "store_json_ok lib" "batch_step_1 lib checks ctx = (ctx', Inr (Inr ()))"
    and "get_or_create_batch_signature_store lib BATCH_SIGNATURE_STORE_KEY ctx = Inr store"
    and "current_status ctx 0 = Inr (Fulfilled (Some batch_bytes))" "cl_merkle_result_of_json lib batch_bytes = Some root"
    and "cm_merkle_root root \<noteq> bs_batch_header store"
    and "cm_current_slot_leader root = Some (cl_hex_encode lib (sdk_shared_get ''ed25519_public_key'' ctx))"
    and "current_status ctx 1 = Inr (Fulfilled (Some c))" "cl_config_of_json lib c = Some chain_config"
    and "committee_size chain_config = of_nat (length (bs_signatures store))"
  shows "\<exists>message leader saved.
    new_promises ctx ctx' =
      [bare_promise (p2p_broadcast_message message),
       bare_promise (batch_submission lib (chars_of (sdk_shared_get ''contract_id'' ctx)) store leader)] \<and>
    get_or_create_batch_signature_store lib BATCH_SIGNATURE_STORE_KEY ctx' = Inr saved \<and>
    bs_batch_header saved = cm_merkle_root root"
  using assms(2)
proof (rule batch_step_1_parts)
  fix cid store0 root0 bytes ctx1 store1
  assume eqs: "cid = chars_of (sdk_shared_get ''contract_id'' ctx)"
    "get_or_create_batch_signature_store lib BATCH_SIGNATURE_STORE_KEY ctx = Inr store0"
    "current_status ctx 0 = Inr (Fulfilled (Some bytes))" "cl_merkle_result_of_json lib bytes = Some root0"
    and pb: "process_batch lib root0 store0 (sdk_shared_get ''ed25519_public_key'' ctx)
      (sdk_shared_get ''bn254_public_key'' ctx) ctx = (ctx1, Inr (Inr store1))"
    and leader: "if cm_current_slot_leader root0 = Some (cl_hex_encode lib (sdk_shared_get ''ed25519_public_key'' ctx))
      then process_slot_leader lib checks store1 cid ctx1 = (ctx', Inr (Inr ())) else ctx' = ctx1"
  have same: "store0 = store" "root0 = root" using eqs assms(3-5) by simp_all
  note new = process_batch_new [OF assms(1) pb, unfolded same, OF assms(6)]
  have "current_status ctx1 1 = current_status ctx 1"
    using process_batch_effect(1) [OF pb] by (simp add: current_status_def)
  with process_slot_leader_submits [of lib checks store1 cid ctx1 ctx'] leader assms(7-9)
  have "leader_outcome lib chain_config cid store1 ctx1 ctx'" by (auto simp: same)
  then obtain l where "ctx' = sdk_start (batch_submission lib cid store l) [] ctx1"
    using assms(10) new(1) by (auto simp: leader_outcome_def)
  with new(2,3) eqs(1) show ?thesis by (auto simp: new_promises_def)
qed


section \<open>A run with two signers\<close>

text \<open>
  An instance of the libraries: signatures and keys are bytes, a signature is the product of a hash
  and the key, hexadecimal is the identity on characters, and the store has a name for each of the
  stores of the run.
\<close>

definition sample_hash :: "bytes \<Rightarrow> u8" where
  "sample_hash m = foldl (+) 1 m"

definition sample_vm :: "(u8, u8, u8) vm_lib" where
  "sample_vm =
     \<lparr>wasm_deref = wasm_deref demo_vm, wasm_utf8 = wasm_utf8 demo_vm, json_promise = json_promise demo_vm,
      json_of_promise = json_of_promise demo_vm, json_of_status = json_of_status demo_vm,
      json_status = json_status demo_vm, json_level = json_level demo_vm, json_of_level = json_of_level demo_vm,
      sig_from_uncompressed = (\<lambda>b. if length b = 64 then Inr (hd b) else Inl ''invalid length''),
      sig_to_uncompressed = (\<lambda>s. Inr (s # replicate 63 0)),
      pk_from_uncompressed = (\<lambda>b. if length b = 1 then Inr (hd b) else Inl ''invalid length''),
      pk_to_uncompressed = (\<lambda>k. Inr [k]),
      ecdsa_verify = (\<lambda>m s k. if s = sample_hash m * k then Inr () else Inl ''verification failed''),
      ecdsa_sign = (\<lambda>m k. Inr (sample_hash m * k))\<rparr>"

text \<open>A root of 32 bytes.\<close>

definition sample_digest :: "bytes \<Rightarrow> bytes" where
  "sample_digest b = b @ replicate 31 0"

definition sample_store :: "bytes \<Rightarrow> u8 list \<Rightarrow> string list \<Rightarrow> batch_signature_store" where
  "sample_store root ks names =
     \<lparr>bs_aggregated_signature = sample_hash root * sum_list ks # replicate 63 0, bs_aggregated_public_keys = [sum_list ks],
      bs_signers = names, bs_signatures = map (\<lambda>k. (chars_of [k], sample_hash root * k # replicate 63 0)) ks,
      bs_slot = 7, bs_batch_header = sample_digest root, bs_p2p_message = sample_hash root * hd ks # replicate 63 0\<rparr>"

definition sample_stores :: "(string \<times> batch_signature_store) list" where
  "sample_stores =
     [(''a'', sample_store [5] [65] [''N'']), (''ab'', sample_store [5] [65, 66] [''N'', ''M'']), (''c'', sample_store [6] [65] [''N''])]"

definition sample_lib :: "(u8, u8, u8) consensus_lib" where
  "sample_lib =
     \<lparr>cl_vm = sample_vm, cl_sig_add = (+), cl_pk_add = (+), cl_hex_encode = chars_of, cl_hex_decode = (\<lambda>s. Some (as_bytes s)),
      cl_json_of_store = (\<lambda>store. map_option fst (find (\<lambda>e. snd e = store) sample_stores)),
      cl_store_of_json = (\<lambda>b. map_of sample_stores (chars_of b)),
      cl_json_of_message = (\<lambda>m. case m of BatchMsg b \<Rightarrow> Some (bm_signature b)),
      cl_message_of_json = (\<lambda>_. Some (BatchMsg
        \<lparr>bm_batch_header = sample_digest [5], bm_bn254_public_key = [66], bm_signature = 140 # replicate 63 0,
         bm_ed25519_public_key = as_bytes ''M''\<rparr>)),
      cl_merkle_result_of_json = (\<lambda>b. Some \<lparr>cm_merkle_root = sample_digest b, cm_current_slot = 7, cm_current_slot_leader = Some ''N''\<rparr>),
      cl_config_of_json = (\<lambda>_. Some \<lparr>minimum_stake = 1, epoch_delay_for_election = 2, committee_size = 2, withdraw_delay = 3\<rparr>),
      cl_string_of_json = (\<lambda>b. Some (chars_of b)), cl_u256_of_dec = (\<lambda>_. Some 42),
      cl_json_of_batch_args = (\<lambda>a k ss l. a @ k @ l), cl_json_of_data_request = as_bytes\<rparr>"

definition sample_env :: "(string \<times> string) list" where
  "sample_env = [(''ORACLE_CONTRACT_ID'', ''mc''), (''ED25519_PUBLIC_KEY'', ''N''), (''BN254_PUBLIC_KEY'', ''A'')]"

definition sample_config :: "(u8, u8, unit, unit) node_config" where
  "sample_config =
     \<lparr>nc_deposit = 0, nc_gas = 0, nc_keypair_bn254 = \<lparr>private_key = 65, public_key = 65\<rparr>,
      nc_keypair_ed25519 = \<lparr>private_key = (), public_key = ()\<rparr>, nc_contract_account_id = ''mc'',
      nc_job_manager_interval_ms = 200, nc_runtime_worker_threads = 1, nc_consensus_wasm_path = []\<rparr>"

definition sample_context :: "in_memory \<Rightarrow> bytes list \<Rightarrow> (u8, u8, unit, unit) vm_context" where
  "sample_context sm results =
     create_vm_context in_memory_default sm
       \<lparr>pq_queue = map (\<lambda>r. \<lparr>p_action = P2PBroadcast [], p_status = Fulfilled (Some r)\<rparr>) results\<rparr>
       promise_queue_new sample_config"

text \<open>The node starts its batch task, signs the root, and receives the signature of a peer.\<close>

definition sample_memory_1 :: in_memory where
  "sample_memory_1 = vc_shared_memory (fst (task_handle sample_lib sample_env BatchTask (sample_context in_memory_default [])))"

definition sample_memory_2 :: in_memory where
  "sample_memory_2 = vc_shared_memory (fst (batch_step_1 sample_lib True (sample_context sample_memory_1 [[5], [0], [0]])))"

definition sample_memory_3 :: in_memory where
  "sample_memory_3 = vc_shared_memory (fst (task_handle sample_lib sample_env (P2PTask []) (sample_context sample_memory_2 [])))"

lemma sample_context_fields [simp]:
  "vc_shared_memory (sample_context sm rs) = sm" "vc_node_config (sample_context sm rs) = sample_config"
  by (simp_all add: sample_context_def create_vm_context_def)

lemma step_fst:
  assumes "vc_node_config ctx = cfg"
  shows "consensus_step lib checks env cfg (vc_shared_memory ctx) (vc_shared_memory (fst (task_handle lib env t ctx)))"
    "consensus_step lib checks env cfg (vc_shared_memory ctx) (vc_shared_memory (fst (batch_step_1 lib checks ctx)))"
  by (rule a_task [OF assms surjective_pairing], rule batch_stage [OF assms surjective_pairing])

lemma sample_reachable:
  "reachable (\<lambda>sm. sm = in_memory_default) (consensus_step sample_lib True sample_env sample_config) sample_memory_3"
proof -
  let ?step = "consensus_step sample_lib True sample_env sample_config"
  note task = step_fst [OF sample_context_fields(2), unfolded sample_context_fields(1)]
  have "?step in_memory_default sample_memory_1" unfolding sample_memory_1_def by (rule task)
  moreover have "?step sample_memory_1 sample_memory_2" unfolding sample_memory_2_def by (rule task)
  moreover have "?step sample_memory_2 sample_memory_3" unfolding sample_memory_3_def by (rule task)
  ultimately show ?thesis
    by (blast intro: reachable.step [OF reachable.step [OF reachable.step [OF reachable.start]]])
qed

lemma sample_store_json: "store_json_ok sample_lib"
proof -
  have "map_of sample_stores (fst e) = Some (snd e)" if "e \<in> set sample_stores" for e
    using that by (auto simp: sample_stores_def)
  then have "map_of sample_stores j = Some store" if "map_option fst (find (\<lambda>e. snd e = store) sample_stores) = Some j" for store j
    using that by (auto simp: find_Some_iff) (metis nth_mem prod.sel)
  then show ?thesis by (force simp: store_json_ok_def sample_lib_def)
qed

lemma sample_program_ok: "program_ok sample_lib id sample_env sample_config"
proof -
  have "bls_ok sample_lib id"
    by (auto simp: bls_ok_def bn254_ok_def sample_lib_def sample_vm_def distrib_left split: if_splits)
  moreover have "key_configured sample_lib id sample_env sample_config"
    by (simp add: key_configured_def sample_env_def sample_lib_def sample_vm_def sample_config_def as_bytes_def)
  ultimately show ?thesis by (simp add: program_ok_def sample_store_json)
qed

lemma sample_memory_3_values:
  "map (im_memory sample_memory_3) [''contract_id'', ''ed25519_public_key'', ''bn254_public_key'', BATCH_SIGNATURE_STORE_KEY] =
    [Some (as_bytes ''mc''), Some (as_bytes ''N''), Some (as_bytes ''A''), Some (as_bytes ''ab'')]"
  by code_simp

lemma sample_lib_fields [simp]:
  "cl_vm sample_lib = sample_vm" "cl_hex_encode sample_lib = chars_of" "cl_json_of_store sample_lib = (\<lambda>store. map_option fst (find (\<lambda>e. snd e = store) sample_stores))"
  "cl_store_of_json sample_lib b = map_of sample_stores (chars_of b)"
  "cl_merkle_result_of_json sample_lib b = Some \<lparr>cm_merkle_root = sample_digest b, cm_current_slot = 7, cm_current_slot_leader = Some ''N''\<rparr>"
  "cl_config_of_json sample_lib b = Some \<lparr>minimum_stake = 1, epoch_delay_for_election = 2, committee_size = 2, withdraw_delay = 3\<rparr>"
  "cl_string_of_json sample_lib b = Some (chars_of b)" "cl_u256_of_dec sample_lib t = Some 42"
  by (simp_all add: sample_lib_def)

lemma sample_sig_bytes [simp]: "sig_to_uncompressed sample_vm s = Inr (s # replicate 63 0)"
  by (simp add: sample_vm_def)

lemma sample_sign:
  "sdk_bn254_sign sample_vm m ctx = (ctx, Inr (Inr (sample_hash m * private_key (nc_keypair_bn254 (vc_node_config ctx)))))"
  by (simp add: sdk_bn254_sign_def sample_vm_def state_bind_def ret_def expect_ok_def)

lemma sample_shared [simp]:
  "sdk_shared_get ''contract_id'' (sample_context sample_memory_3 rs) = as_bytes ''mc''"
  "sdk_shared_get ''ed25519_public_key'' (sample_context sample_memory_3 rs) = as_bytes ''N''"
  "sdk_shared_get ''bn254_public_key'' (sample_context sample_memory_3 rs) = as_bytes ''A''"
  "get_or_create_batch_signature_store sample_lib BATCH_SIGNATURE_STORE_KEY (sample_context sample_memory_3 rs)
   = Inr (sample_store [5] [65, 66] [''N'', ''M''])"
  using sample_memory_3_values
  by (simp_all add: sdk_shared_get_def stored_def get_or_create_batch_signature_store_def im_contains_key_def expect_def sample_stores_def)

lemma sample_status [simp]:
  "current_status (sample_context sm [a, b, c]) 0 = Inr (Fulfilled (Some a))"
  "current_status (sample_context sm [a, b, c]) 1 = Inr (Fulfilled (Some b))"
  "current_status (sample_context sm [a, b, c]) 2 = Inr (Fulfilled (Some c))"
  by (simp_all add: current_status_def sample_context_def create_vm_context_def Let_def)

lemma sample_leader:
  assumes "length (bs_signatures store) = 2" "current_status ctx 1 = Inr (Fulfilled (Some b))"
    "current_status ctx 2 = Inr (Fulfilled (Some c))"
  shows "\<exists>leader. process_slot_leader sample_lib True store cid ctx
    = (sdk_start (batch_submission sample_lib cid store leader) [] ctx, Inr (Inr ()))"
  using assms
  by (auto simp: process_slot_leader_def sdk_result_def state_bind_def ret_def expect_def sample_sign one_near expect_ok_def)

definition sample_root :: "bytes \<Rightarrow> compute_merkle_root_result" where
  "sample_root b = \<lparr>cm_merkle_root = sample_digest b, cm_current_slot = 7, cm_current_slot_leader = Some ''N''\<rparr>"

lemma sample_process_batch:
  "snd (process_batch sample_lib (sample_root [5]) (sample_store [5] [65, 66] [''N'', ''M'']) (as_bytes ''N'') (as_bytes ''A'')
     (sample_context sample_memory_3 [[5], [0], [0]])) = Inr (Inr (sample_store [5] [65, 66] [''N'', ''M'']))"
  "snd (process_batch sample_lib (sample_root [6]) (sample_store [5] [65, 66] [''N'', ''M'']) (as_bytes ''N'') (as_bytes ''A'')
     (sample_context sample_memory_3 [[6], [0], [0]])) = Inr (Inr (sample_store [5] [65, 66] [''N'', ''M'']))"
  by code_simp+

lemma sample_submits:
  assumes "snd (process_batch sample_lib (sample_root b) (sample_store [5] [65, 66] [''N'', ''M'']) (as_bytes ''N'') (as_bytes ''A'')
     (sample_context sample_memory_3 [b, [0], [0]])) = Inr (Inr (sample_store [5] [65, 66] [''N'', ''M'']))"
  shows "\<exists>ctx leader. batch_step_1 sample_lib True (sample_context sample_memory_3 [b, [0], [0]]) =
     (sdk_start (batch_submission sample_lib ''mc'' (sample_store [5] [65, 66] [''N'', ''M'']) leader) [] ctx, Inr (Inr ())) \<and>
     length (queue_of (sample_context sample_memory_3 [b, [0], [0]])) \<le> length (queue_of ctx)"
proof -
  let ?ctx = "sample_context sample_memory_3 [b, [0], [0]]" and ?store = "sample_store [5] [65, 66] [''N'', ''M'']"
  obtain ctx1 where pb: "process_batch sample_lib (sample_root b) ?store (as_bytes ''N'') (as_bytes ''A'') ?ctx = (ctx1, Inr (Inr ?store))"
    using assms by (metis prod.collapse)
  have st: "current_status ctx1 i = current_status ?ctx i" for i
    using process_batch_effect(1) [OF pb] by (simp add: current_status_def)
  have "length (bs_signatures ?store) = 2" by (simp add: sample_store_def)
  from sample_leader [OF this, of ctx1 "[0]" "[0]" "''mc''"] st obtain leader where
    "process_slot_leader sample_lib True ?store ''mc'' ctx1 = (sdk_start (batch_submission sample_lib ''mc'' ?store leader) [] ctx1, Inr (Inr ()))"
    by auto
  moreover have "valid_utf8 (as_bytes ''mc'')" by code_simp
  ultimately have "batch_step_1 sample_lib True ?ctx = (sdk_start (batch_submission sample_lib ''mc'' ?store leader) [] ctx1, Inr (Inr ()))"
    using pb by (simp add: batch_step_1_def sdk_result_def state_bind_def ret_def expect_def sample_root_def)
  moreover have "length (queue_of ?ctx) \<le> length (queue_of ctx1)" using process_batch_effect(2) [OF pb] by auto
  ultimately show ?thesis by blast
qed

theorem leader_submission_verifies_witness:
  "\<exists>store es ks ss s k.
     get_or_create_batch_signature_store sample_lib BATCH_SIGNATURE_STORE_KEY (sample_context sample_memory_3 [[5], [0], [0]]) = Inr store \<and>
     signed_entries sample_lib (bs_batch_header store) es ks ss \<and> length (bs_signers store) = length es \<and>
     sig_from_uncompressed sample_vm (bs_aggregated_signature store) = Inr s \<and>
     pk_from_uncompressed sample_vm (bs_aggregated_public_keys store) = Inr k \<and>
     ecdsa_verify sample_vm (bs_batch_header store) s k = Inr ()"
proof -
  let ?ctx = "sample_context sample_memory_3 [[5], [0], [0]]" and ?store = "sample_store [5] [65, 66] [''N'', ''M'']"
  obtain ctx1 leader where step: "batch_step_1 sample_lib True ?ctx =
      (sdk_start (batch_submission sample_lib ''mc'' ?store leader) [] ctx1, Inr (Inr ()))"
    and len: "length (queue_of ?ctx) \<le> length (queue_of ctx1)"
    using sample_submits [OF sample_process_batch(1)] by blast
  let ?p = "bare_promise (batch_submission sample_lib ''mc'' ?store leader)"
  have "?p \<in> set (new_promises ?ctx (sdk_start (batch_submission sample_lib ''mc'' ?store leader) [] ctx1))"
    using len by (simp add: new_promises_def)
  moreover obtain call where "p_action ?p = ChainCall call"
    by (simp add: bare_promise_def chain_call_def wasm_promise_new_def)
  moreover have "reachable (\<lambda>sm. sm = in_memory_default) (consensus_step sample_lib True sample_env sample_config) (vc_shared_memory ?ctx)"
    using sample_reachable by simp
  ultimately have "\<exists>store c chain_config leader es ks ss.
    get_or_create_batch_signature_store sample_lib BATCH_SIGNATURE_STORE_KEY ?ctx = Inr store \<and>
    ?p = bare_promise (batch_submission sample_lib (chars_of (sdk_shared_get ''contract_id'' ?ctx)) store leader) \<and>
    current_status ?ctx 1 = Inr (Fulfilled (Some c)) \<and> cl_config_of_json sample_lib c = Some chain_config \<and>
    signed_entries sample_lib (bs_batch_header store) es ks ss \<and>
    committee_size chain_config = of_nat (length es) \<and> length (bs_signers store) = length es \<and>
    (es \<noteq> [] \<longrightarrow> (\<exists>s k. sig_from_uncompressed (cl_vm sample_lib) (bs_aggregated_signature store) = Inr s \<and>
       pk_from_uncompressed (cl_vm sample_lib) (bs_aggregated_public_keys store) = Inr k \<and>
       ecdsa_verify (cl_vm sample_lib) (bs_batch_header store) s k = Inr ()))"
    using sample_program_ok step by (intro leader_submission_verifies [where cfg = sample_config and public_of = id and env = sample_env]) simp_all
  then show ?thesis by (force simp: sample_store_def)
qed

theorem stale_submission_witness:
  "\<exists>ctx' message leader saved.
    new_promises (sample_context sample_memory_3 [[6], [0], [0]]) ctx' =
      [bare_promise (p2p_broadcast_message message),
       bare_promise (batch_submission sample_lib ''mc'' (sample_store [5] [65, 66] [''N'', ''M'']) leader)] \<and>
    get_or_create_batch_signature_store sample_lib BATCH_SIGNATURE_STORE_KEY ctx' = Inr saved \<and>
    bs_batch_header saved = sample_digest [6]"
proof -
  let ?ctx = "sample_context sample_memory_3 [[6], [0], [0]]" and ?store = "sample_store [5] [65, 66] [''N'', ''M'']"
  obtain ctx1 leader where step: "batch_step_1 sample_lib True ?ctx =
      (sdk_start (batch_submission sample_lib ''mc'' ?store leader) [] ctx1, Inr (Inr ()))"
    using sample_submits [OF sample_process_batch(2)] by blast
  have "\<exists>message leader' saved.
    new_promises ?ctx (sdk_start (batch_submission sample_lib ''mc'' ?store leader) [] ctx1) =
      [bare_promise (p2p_broadcast_message message),
       bare_promise (batch_submission sample_lib (chars_of (sdk_shared_get ''contract_id'' ?ctx)) ?store leader')] \<and>
    get_or_create_batch_signature_store sample_lib BATCH_SIGNATURE_STORE_KEY
      (sdk_start (batch_submission sample_lib ''mc'' ?store leader) [] ctx1) = Inr saved \<and>
    bs_batch_header saved = cm_merkle_root (sample_root [6])"
    by (rule stale_submission [OF sample_store_json step, where c = "[0]" and batch_bytes = "[6]" and chain_config =
        "\<lparr>minimum_stake = 1, epoch_delay_for_election = 2, committee_size = 2, withdraw_delay = 3\<rparr>"])
      (simp_all add: sample_root_def sample_store_def sample_digest_def)
  then show ?thesis
    by (intro exI [of _ "sdk_start (batch_submission sample_lib ''mc'' ?store leader) [] ctx1"]) (simp add: sample_root_def)
qed

end
