(* ===== verification/Guest_Cli.thy ===== *)
theory Guest_Cli
  imports Consensus
begin

text \<open>
  The command line program that a node runs in its virtual machine on behalf of an RPC caller
  (\<open>wasm/cli/src/main.rs\<close>): the commands, and the functions that are called with their results.
  The value of a task is what it prints; \<open>clap\<close> hands over the command.
\<close>

section \<open>The commands\<close>

datatype cli_command =
    P2p string
  | Hello
  | HttpFetch string
  | View chain_kind string string string
  | Call chain_kind string string string u128

definition cli_main ::
  "cli_command option \<Rightarrow> ('bsk, 'bpk, 'esk, 'epk) vm_context \<Rightarrow> (('bsk, 'bpk, 'esk, 'epk) vm_context, string list) guest" where
  "cli_main command ctx =
     (case command of
        None \<Rightarrow> (ctx, Inr (Inr []))
      | Some (HttpFetch url) \<Rightarrow> (sdk_start (http_fetch url) [call_self ''http_fetch_result'' []] ctx, Inr (Inr []))
      | Some (P2p message) \<Rightarrow>
          (sdk_start (p2p_broadcast_message [23]) [] ctx, Inr (Inr [''Received a message from inside wasm '' @ message]))
      | Some Hello \<Rightarrow> (ctx, Inr (Inr [''Hello World from inside wasm'']))
      | Some (View chain contract_id method_name args) \<Rightarrow>
          (sdk_start (chain_view chain contract_id method_name (as_bytes args)) [call_self ''chain_view_test_success'' []] ctx,
           Inr (Inr []))
      | Some (Call chain contract_id method_name args deposit) \<Rightarrow>
          (sdk_start (chain_call chain contract_id method_name (as_bytes args) deposit)
             [call_self ''chain_call_test_success'' []] ctx, Inr (Inr [])))"

text \<open>The \<open>match\<close> on the result that the three functions share.\<close>

definition value_to_store :: "promise_status \<Rightarrow> string res" where
  "value_to_store status =
     (case status of
        Fulfilled (Some vec) \<Rightarrow> and_then (from_bytes_string vec) (expect_ok ''unwrap on an Err value'')
      | _ \<Rightarrow> Inr ''Promise failed..'')"

definition http_fetch_result ::
  "('bsk, 'bpk, 'esk, 'epk) vm_context \<Rightarrow> (('bsk, 'bpk, 'esk, 'epk) vm_context, string list) guest" where
  "http_fetch_result ctx =
     state_bind (sdk_result 0 ctx) (\<lambda>ctx result.
     state_bind (ret (value_to_store result) ctx) (\<lambda>ctx v.
     (ctx, Inr (Inr [''Value: '' @ v]))))"

definition chain_view_test_success ::
  "('bsk, 'bpk, 'esk, 'epk) vm_context \<Rightarrow> (('bsk, 'bpk, 'esk, 'epk) vm_context, string list) guest" where
  "chain_view_test_success ctx =
     state_bind (sdk_result 0 ctx) (\<lambda>ctx result.
     state_bind (ret (value_to_store result) ctx) (\<lambda>ctx v.
     (sdk_start (db_set ''chain_view_result'' v) [] ctx, Inr (Inr [''Value: '' @ v]))))"

definition chain_call_test_success ::
  "('bsk, 'bpk, 'esk, 'epk) vm_context \<Rightarrow> (('bsk, 'bpk, 'esk, 'epk) vm_context, string list) guest" where
  "chain_call_test_success ctx =
     state_bind (sdk_result 0 ctx) (\<lambda>ctx result.
     state_bind (ret (value_to_store result) ctx) (\<lambda>ctx v.
     (sdk_start (db_set ''chain_call_result'' v) [] ctx, Inr (Inr [''Value: '' @ v]))))"


section \<open>What the program may do\<close>

text \<open>A command leaves storage and configuration alone and queues one effect and its continuation at most.\<close>

lemma cli_main_effect:
  assumes "cli_main command ctx = (ctx', r)"
  shows "vc_shared_memory ctx' = vc_shared_memory ctx \<and> vc_node_config ctx' = vc_node_config ctx \<and>
    length (new_promises ctx ctx') \<le> 2 \<and> (\<exists>out. r = Inr (Inr out))"
  using assms by (auto simp: cli_main_def new_promises_def split: option.splits cli_command.splits)

text \<open>
  The value of a view or a call comes back as it is, as long as it is UTF-8, and is put in the
  database under the fixed key; a promise that was rejected stores the text of a failure.
\<close>

lemma chain_view_test_success_value:
  assumes "current_status ctx 0 = Inr (Fulfilled (Some vec))" "valid_utf8 vec"
  shows "snd (chain_view_test_success ctx) = Inr (Inr [''Value: '' @ chars_of vec])"
    "new_promises ctx (fst (chain_view_test_success ctx)) = [bare_promise (db_set ''chain_view_result'' (chars_of vec))]"
  using assms
  by (simp_all add: chain_view_test_success_def sdk_result_def state_bind_def ret_def value_to_store_def
      from_bytes_string_def expect_ok_def map_err_def new_promises_def)

end
