(* ===== verification/Delegate.thy ===== *)
theory Delegate
  imports Chains Keys
begin

text \<open>
  The delegation tool (\<open>delegate-cli/src\<close>): topping up an account, registering a node, staking, and
  the command that does all three. Each builds a transaction with the chain adapters and sends it.

  The outcome of a command is a panic, an error or nothing, over the state of the network; \<open>None\<close>
  is waiting forever. The curves, Base58 and the JSON of the arguments are third-party code, in the
  record \<open>delegate_lib\<close>. What the commands print is left out.
\<close>

section \<open>Errors and amounts\<close>

datatype delegate_error =
    DelegateConfigError string
  | DelegateCrypto crypto_error
  | DelegateBn254 string
  | DelegateChain chain_adapter_error

text \<open>The tool has its own copy of \<open>to_yocto\<close>.\<close>

definition delegate_to_yocto :: "bool \<Rightarrow> string \<Rightarrow> u128 res" where
  "delegate_to_yocto checks value =
   (let vals = split_char (CHR ''.'') value in
    and_then (index vals 0) (\<lambda>v0.
    and_then (unwrap (parse_uint v0)) (\<lambda>n0.
    and_then (arith_pow checks 10 24) (\<lambda>unit24.
    and_then (arith_mul checks n0 unit24) (\<lambda>part1.
    if 1 < length vals then
      and_then (index vals 1) (\<lambda>v1.
      let power = (of_nat (length v1) :: u32) in
      and_then (unwrap (parse_uint v1)) (\<lambda>n1.
      and_then (arith_sub checks 24 power) (\<lambda>e.
      and_then (arith_pow checks 10 e) (\<lambda>scale.
      and_then (arith_mul checks n1 scale) (\<lambda>part2.
      arith_add checks part1 part2)))))
    else Inr part1)))))"

record ('cl, 'w, 'pk, 'bh, 'stx, 'hash, 'sig, 'bsk, 'bpk, 'esk, 'epk) delegate_lib =
  dl_near :: "('cl, 'w, 'pk, 'bh, 'stx, 'hash) near_lib"
  dl_crypto :: "('bsk, 'bpk, 'esk, 'epk) crypto_lib"
  dl_ecdsa_sign :: "bytes \<Rightarrow> 'bsk \<Rightarrow> string + 'sig"
  dl_sig_to_uncompressed :: "'sig \<Rightarrow> string + bytes"
  dl_pk_to_uncompressed :: "'bpk \<Rightarrow> string + bytes"
  dl_private_bytes :: "'esk \<Rightarrow> bytes"
  dl_public_bytes :: "'epk \<Rightarrow> bytes"
  dl_base58_decode :: "string \<Rightarrow> bytes option"
  dl_json_register :: "string \<Rightarrow> bytes \<Rightarrow> bytes \<Rightarrow> bytes"
  dl_json_deposit :: "string \<Rightarrow> bytes \<Rightarrow> bytes"

fun strip_prefix :: "string \<Rightarrow> string \<Rightarrow> string option" where
  "strip_prefix [] s = Some s"
| "strip_prefix (c # cs) [] = None"
| "strip_prefix (c # cs) (d # ds) = (if c = d then strip_prefix cs ds else None)"

definition get_signer_keypair_from_config ::
  "('cl, 'w, 'pk, 'bh, 'stx, 'hash, 'sig, 'bsk, 'bpk, 'esk, 'epk) delegate_lib \<Rightarrow> string \<Rightarrow> (delegate_error + bytes) res" where
  "get_signer_keypair_from_config lib account_secret_key =
     bind_err (Inr (ok_or (DelegateConfigError ''`account_secret_key` should contain prefix `ed25519:`'')
         (strip_prefix ''ed25519:'' account_secret_key))) (\<lambda>signer_keypair_str.
     and_then (expect ''Base58-encoded ed25519 keypair should be valid'' (dl_base58_decode lib signer_keypair_str))
       (Inr \<circ> Inr))"


section \<open>Commands\<close>

type_synonym ('w, 'a) command = "('w \<times> (delegate_error + 'a) res) option"

definition command_bind :: "('w, 'a) command \<Rightarrow> ('w \<Rightarrow> 'a \<Rightarrow> ('w, 'b) command) \<Rightarrow> ('w, 'b) command" where
  "command_bind m f =
     (case m of
        None \<Rightarrow> None
      | Some (w, Inl p) \<Rightarrow> Some (w, Inl p)
      | Some (w, Inr (Inl e)) \<Rightarrow> Some (w, Inr (Inl e))
      | Some (w, Inr (Inr a)) \<Rightarrow> f w a)"

definition pure_step :: "'w \<Rightarrow> 'a res \<Rightarrow> ('w, 'a) command" where
  "pure_step w r = Some (w, and_then r (Inr \<circ> Inr))"

definition chain_step :: "'w \<times> (chain_adapter_error + 'a) res \<Rightarrow> 'w \<times> (delegate_error + 'a) res" where
  "chain_step r = (fst r, and_then (snd r) (\<lambda>x. Inr (map_err DelegateChain x)))"

definition crypto_step :: "'w \<Rightarrow> (crypto_error + 'a) res \<Rightarrow> ('w, 'a) command" where
  "crypto_step w r = Some (w, and_then r (\<lambda>x. Inr (map_err DelegateCrypto x)))"

text \<open>What the three commands end with: a client of the test configuration sends the transaction.\<close>

definition send_signed ::
  "('cl, 'w, 'pk, 'bh, 'stx, 'hash, 'sig, 'bsk, 'bpk, 'esk, 'epk) delegate_lib \<Rightarrow> bytes \<Rightarrow> 'w \<Rightarrow> ('w, unit) command" where
  "send_signed lib signed_tx w =
     command_bind (Some (w, Inr (map_err DelegateChain (client_new (dl_near lib) Near chains_test_config)))) (\<lambda>w client.
     command_bind (map_option chain_step (chain_send_tx (dl_near lib) Near client signed_tx w)) (\<lambda>w _.
     Some (w, Inr (Inr ()))))"

definition top_up_handle ::
  "('cl, 'w, 'pk, 'bh, 'stx, 'hash, 'sig, 'bsk, 'bpk, 'esk, 'epk) delegate_lib \<Rightarrow> bool \<Rightarrow> string \<Rightarrow> u64 \<Rightarrow> delegate_config
    \<Rightarrow> 'w \<Rightarrow> ('w, unit) command" where
  "top_up_handle lib checks receiver amount config w =
     command_bind (pure_step w (delegate_to_yocto checks (decimal (unat amount)))) (\<lambda>w amount_yocto.
     command_bind (Some (w, get_signer_keypair_from_config lib (dc_account_secret_key config))) (\<lambda>w signer_keypair.
     command_bind (Some (chain_step (chain_construct_transfer_tx (dl_near lib) checks Near
         (Some (dc_signer_account_id config)) signer_keypair receiver amount_yocto (dc_rpc_url config) w))) (\<lambda>w signed_tx.
     send_signed lib signed_tx w)))"

definition register_handle ::
  "('cl, 'w, 'pk, 'bh, 'stx, 'hash, 'sig, 'bsk, 'bpk, 'esk, 'epk) delegate_lib \<Rightarrow> bool \<Rightarrow> string \<Rightarrow> string
    \<Rightarrow> delegate_config \<Rightarrow> 'w \<Rightarrow> ('w, unit) command" where
  "register_handle lib checks delegation_contract_id multi_addr config w =
     command_bind (crypto_step w (Inr (master_key_of_hex (dl_crypto lib) (dc_validator_master_key config)))) (\<lambda>w mk.
     command_bind (crypto_step w (derive_bn254 (dl_crypto lib) mk 0)) (\<lambda>w bn254_key.
     command_bind (crypto_step w (derive_ed25519 (dl_crypto lib) mk 0)) (\<lambda>w ed25519_key.
     let account_id = hex_encode (dl_crypto lib) (dl_public_bytes lib (public_key ed25519_key)) in
     command_bind (Some (w, Inr (map_err DelegateBn254
         (dl_ecdsa_sign lib (as_bytes account_id) (private_key bn254_key))))) (\<lambda>w signature.
     let keypair = ed25519_key_pair_bytes (dl_private_bytes lib) (dl_public_bytes lib) ed25519_key in
     command_bind (Some (w, Inr (map_err DelegateBn254 (dl_pk_to_uncompressed lib (public_key bn254_key))))) (\<lambda>w pk_bytes.
     command_bind (Some (w, Inr (map_err DelegateBn254 (dl_sig_to_uncompressed lib signature)))) (\<lambda>w sig_bytes.
     command_bind (pure_step w (delegate_to_yocto checks ''0.01'')) (\<lambda>w deposit.
     command_bind (Some (chain_step (chain_construct_signed_tx (dl_near lib) checks Near None keypair
         delegation_contract_id ''register_node'' (dl_json_register lib multi_addr pk_bytes sig_bytes)
         80000000000000 deposit (dc_rpc_url config) w))) (\<lambda>w signed_tx.
     send_signed lib signed_tx w))))))))"

definition stake_handle ::
  "('cl, 'w, 'pk, 'bh, 'stx, 'hash, 'sig, 'bsk, 'bpk, 'esk, 'epk) delegate_lib \<Rightarrow> bool \<Rightarrow> string \<Rightarrow> u64
    \<Rightarrow> delegate_config \<Rightarrow> 'w \<Rightarrow> ('w, unit) command" where
  "stake_handle lib checks delegation_contract_id amount config w =
     command_bind (pure_step w (delegate_to_yocto checks (decimal (unat amount)))) (\<lambda>w amount_yocto.
     command_bind (crypto_step w (Inr (master_key_of_hex (dl_crypto lib) (dc_validator_master_key config)))) (\<lambda>w mk.
     command_bind (crypto_step w (derive_ed25519 (dl_crypto lib) mk 0)) (\<lambda>w ed25519_key.
     let ed25519_public_key = 0 # dl_public_bytes lib (public_key ed25519_key) in
     command_bind (Some (w, get_signer_keypair_from_config lib (dc_account_secret_key config))) (\<lambda>w signer_keypair.
     command_bind (pure_step w (delegate_to_yocto checks ''0.01'')) (\<lambda>w deposit.
     command_bind (Some (chain_step (chain_construct_signed_tx (dl_near lib) checks Near
         (Some (dc_signer_account_id config)) signer_keypair delegation_contract_id ''deposit''
         (dl_json_deposit lib (decimal (unat amount_yocto)) ed25519_public_key) (dc_gas config) deposit
         (dc_rpc_url config) w))) (\<lambda>w signed_tx.
     send_signed lib signed_tx w))))))"

definition setup_handle ::
  "('cl, 'w, 'pk, 'bh, 'stx, 'hash, 'sig, 'bsk, 'bpk, 'esk, 'epk) delegate_lib \<Rightarrow> bool \<Rightarrow> string \<Rightarrow> u64 \<Rightarrow> u64 \<Rightarrow> string
    \<Rightarrow> delegate_config \<Rightarrow> 'w \<Rightarrow> ('w, unit) command" where
  "setup_handle lib checks delegation_contract_id topup_amount stake_amount multi_addr config w =
     command_bind (pure_step w (and_then (Inr (master_key_of_hex (dl_crypto lib) (dc_validator_master_key config)))
         (map_err (\<lambda>_. Panic ''unwrap on an Err value'')))) (\<lambda>w mk.
     command_bind (pure_step w (and_then (derive_ed25519 (dl_crypto lib) mk 0)
         (map_err (\<lambda>_. Panic ''unwrap on an Err value'')))) (\<lambda>w ed25519_key.
     command_bind (top_up_handle lib checks (hex_encode (dl_crypto lib) (dl_public_bytes lib (public_key ed25519_key)))
         topup_amount config w) (\<lambda>w _.
     command_bind (register_handle lib checks delegation_contract_id multi_addr config w) (\<lambda>w _.
     command_bind (stake_handle lib checks delegation_contract_id stake_amount config w) (\<lambda>w _.
     Some (w, Inr (Inr ())))))))"

datatype delegate_command =
    TopUp string u64
  | Register string string
  | Stake string u64
  | Setup string u64 u64 string

definition command_handle ::
  "('cl, 'w, 'pk, 'bh, 'stx, 'hash, 'sig, 'bsk, 'bpk, 'esk, 'epk) delegate_lib \<Rightarrow> bool \<Rightarrow> delegate_command
    \<Rightarrow> delegate_config \<Rightarrow> 'w \<Rightarrow> ('w, unit) command" where
  "command_handle lib checks cmd config w =
     command_bind
       (case cmd of
          TopUp receiver amount \<Rightarrow> top_up_handle lib checks receiver amount config w
        | Register contract multi_addr \<Rightarrow> register_handle lib checks contract multi_addr config w
        | Stake contract amount \<Rightarrow> stake_handle lib checks contract amount config w
        | Setup contract topup stake multi_addr \<Rightarrow> setup_handle lib checks contract topup stake multi_addr config w)
       (\<lambda>w _. Some (w, Inr (Inr ())))"



section \<open>The commands end\<close>

lemma command_bind_Some:
  assumes "\<exists>r. m = Some r" "\<And>w a. \<exists>r. f w a = Some r"
  shows "\<exists>r. command_bind m f = Some r"
  using assms by (auto simp: command_bind_def split: sum.split)

lemma command_bind_cases [consumes 1, case_names ok]:
  assumes "command_bind m f = Some (w', Inr (Inr b))"
  obtains (ok) w a where "m = Some (w, Inr (Inr a))" "f w a = Some (w', Inr (Inr b))"
  using assms by (auto simp: command_bind_def split: option.splits prod.splits sum.splits)

lemma send_signed_near:
  "send_signed lib bs w =
     command_bind (map_option (\<lambda>(w, r). (w, Inr (map_err DelegateChain r)))
       (near_send_tx (dl_near lib) (nl_connect (dl_near lib) NEAR_RPC_URL) bs w)) (\<lambda>w _. Some (w, Inr (Inr ())))"
  by (cases "near_send_tx (dl_near lib) (nl_connect (dl_near lib) NEAR_RPC_URL) bs w")
    (simp_all add: send_signed_def command_bind_def client_new_def near_new_client_def chain_send_tx_def client_near_def
      chains_test_config_def map_err_def chain_step_def split_beta)

lemma send_signed_returns: "clock_ok (dl_near lib) \<Longrightarrow> \<exists>r. send_signed lib bs w = Some r"
  using near_send_tx_total [of "dl_near lib" "nl_connect (dl_near lib) NEAR_RPC_URL" bs w]
  unfolding send_signed_near by (intro command_bind_Some) auto

text \<open>Every command returns, with an error or without: the network cannot keep the tool waiting.\<close>

lemma command_returns:
  assumes "clock_ok (dl_near lib)"
  shows "\<exists>r. command_handle lib checks cmd config w = Some r"
proof -
  note send = send_signed_returns [OF assms]
  have top_up: "\<exists>r. top_up_handle lib checks receiver amount config w = Some r" for receiver amount w
    unfolding top_up_handle_def pure_step_def by (intro command_bind_Some send) simp_all
  have register: "\<exists>r. register_handle lib checks contract multi_addr config w = Some r" for contract multi_addr w
    unfolding register_handle_def pure_step_def crypto_step_def Let_def by (intro command_bind_Some send) simp_all
  have stake: "\<exists>r. stake_handle lib checks contract amount config w = Some r" for contract amount w
    unfolding stake_handle_def pure_step_def crypto_step_def Let_def by (intro command_bind_Some send) simp_all
  have "\<exists>r. setup_handle lib checks contract n m multi_addr config w = Some r" for contract n m multi_addr w
    unfolding setup_handle_def pure_step_def by (intro command_bind_Some top_up register stake) simp_all
  with top_up register stake show ?thesis
    unfolding command_handle_def by (cases cmd; intro command_bind_Some; simp only: delegate_command.case; blast)
qed


section \<open>What a stake sends\<close>

lemma delegate_to_yocto_sdk: "delegate_to_yocto = to_yocto"
  by (intro ext) (simp add: delegate_to_yocto_def to_yocto_def)

lemma delegate_amount:
  assumes "unat amount * 10 ^ 24 < 2 ^ 128"
  shows "delegate_to_yocto checks (decimal (unat amount)) = Inr (of_nat (unat amount * 10 ^ 24))"
  using to_yocto_whole_value [of "decimal (unat amount)" checks] assms
  by (simp add: delegate_to_yocto_sdk decimal_digits decimal_nonempty)

lemma delegate_amount_wraps:
  fixes amount :: u64
  assumes "delegate_to_yocto checks (decimal (unat amount)) = Inr yocto"
  shows "unat yocto = (if checks then unat amount * 10 ^ 24 else unat amount * 10 ^ 24 mod 2 ^ 128)"
proof -
  have "unat amount < 2 ^ 128" using unat_u64_less [of amount] by simp
  then show ?thesis
    using to_yocto_whole_wraps [of "decimal (unat amount)" checks yocto] assms
    by (cases checks) (simp_all add: delegate_to_yocto_sdk decimal_digits decimal_nonempty)
qed

text \<open>
  C38: A stake that succeeds is one transaction, signed with the configured key for the configured
  account: the method \<open>deposit\<close> with the amount in its smallest unit, the validator's key, and a
  hundredth of a NEAR. The amount is exact in a build with overflow checks; in one without them it
  is the remainder modulo \<open>2 ^ 128\<close>. The transaction was confirmed, but by the endpoint of the test
  configuration, whatever endpoint is configured.
\<close>

theorem stake_transaction:
  assumes "borsh_ok (dl_near lib)" "clock_ok (dl_near lib)"
    and "stake_handle lib checks contract amount config w = Some (w', Inr (Inr ()))"
  shows "\<exists>mk key kp signer tx yocto deposit w1 w2 tx_hash v.
    master_key_of_hex (dl_crypto lib) (dc_validator_master_key config) = Inr mk \<and>
    derive_ed25519 (dl_crypto lib) mk 0 = Inr (Inr key) \<and> delegate_to_yocto checks ''0.01'' = Inr deposit \<and>
    get_signer_keypair_from_config lib (dc_account_secret_key config) = Inr (Inr kp) \<and>
    get_in_memory_signer (dl_near lib) (Some (dc_signer_account_id config)) kp = Inr signer \<and>
    nl_parse_account (dl_near lib) (dc_signer_account_id config) = Inr (tx_signer_id tx) \<and>
    tx_public_key tx = nl_public_key (dl_near lib) kp \<and>
    nl_parse_account (dl_near lib) contract = Inr (tx_receiver_id tx) \<and>
    tx_actions tx = [FunctionCall ''deposit''
      (dl_json_deposit lib (decimal yocto) (0 # dl_public_bytes lib (public_key key))) (dc_gas config) deposit] \<and>
    yocto = (if checks then unat amount * 10 ^ 24 else unat amount * 10 ^ 24 mod 2 ^ 128) \<and>
    nl_broadcast (dl_near lib) (nl_connect (dl_near lib) NEAR_RPC_URL) (nl_sign (dl_near lib) tx signer) w1
      = (w2, Inr tx_hash) \<and>
    confirmed (dl_near lib) (nl_connect (dl_near lib) NEAR_RPC_URL) tx_hash (tx_signer_id tx) (nl_now (dl_near lib) w1) v w'"
proof -
  let ?near = "dl_near lib"
  from assms(3) obtain mk key kp yocto deposit w0 w1 bs where steps:
    "master_key_of_hex (dl_crypto lib) (dc_validator_master_key config) = Inr mk"
    "derive_ed25519 (dl_crypto lib) mk 0 = Inr (Inr key)" "delegate_to_yocto checks ''0.01'' = Inr deposit"
    "get_signer_keypair_from_config lib (dc_account_secret_key config) = Inr (Inr kp)"
    and amount: "delegate_to_yocto checks (decimal (unat amount)) = Inr yocto"
    and tx: "near_construct_tx ?near checks (Some (dc_signer_account_id config)) kp contract (dc_rpc_url config)
      [FunctionCall ''deposit'' (dl_json_deposit lib (decimal (unat yocto))
        (0 # dl_public_bytes lib (public_key key))) (dc_gas config) deposit] w0 = (w1, Inr (Inr bs))"
    and send: "send_signed lib bs w1 = Some (w', Inr (Inr ()))"
    unfolding stake_handle_def Let_def
    by (auto elim!: command_bind_cases simp: pure_step_def crypto_step_def chain_step_def chain_construct_signed_tx_def
        construct_signed_tx_construct_tx res_simps prod_eq_iff)
  from near_construct_tx_Ok [OF tx] obtain signer tr where tr:
    "get_in_memory_signer ?near (Some (dc_signer_account_id config)) kp = Inr signer" "tx_signer_id tr = sg_account_id signer"
    "nl_parse_account ?near contract = Inr (tx_receiver_id tr)" "nl_encode ?near (nl_sign ?near tr signer) = Inr bs"
    "tx_actions tr = [FunctionCall ''deposit'' (dl_json_deposit lib (decimal (unat yocto))
        (0 # dl_public_bytes lib (public_key key))) (dc_gas config) deposit]" "tx_public_key tr = sg_public_key signer"
    by blast
  have account: "nl_parse_account ?near (dc_signer_account_id config) = Inr (tx_signer_id tr)"
    "tx_public_key tr = nl_public_key ?near kp"
    using tr(1,2,6) by (auto simp: get_in_memory_signer_def res_simps split: if_splits)
  have dec: "nl_decode ?near bs = Inr (nl_sign ?near tr signer)"
    and sg: "nl_signer_id ?near (nl_sign ?near tr signer) = tx_signer_id tr"
    using assms(1) tr(4) by (simp_all add: borsh_ok_def)
  from send obtain v where "near_send_tx ?near (nl_connect ?near NEAR_RPC_URL) bs w1 = Some (w', Inr v)"
    unfolding send_signed_near by (auto elim!: command_bind_cases simp: res_simps)
  with near_send_tx_returns [OF assms(2) dec, of "nl_connect ?near NEAR_RPC_URL" w1] obtain w3 tx_hash where
    "nl_broadcast ?near (nl_connect ?near NEAR_RPC_URL) (nl_sign ?near tr signer) w1 = (w3, Inr tx_hash)"
    "confirmed ?near (nl_connect ?near NEAR_RPC_URL) tx_hash (tx_signer_id tr) (nl_now ?near w1) v w'"
    unfolding sg by auto
  with steps tr(1,3,5) account delegate_amount_wraps [OF amount] show ?thesis by blast
qed

definition demo_delegate :: "(string, nat, bytes, unit, string, unit, bytes, bytes, bytes, bytes, bytes) delegate_lib" where
  "demo_delegate =
     \<lparr>dl_near = demo_near, dl_crypto = demo_lib, dl_ecdsa_sign = (\<lambda>m k. Inr m), dl_sig_to_uncompressed = Inr,
      dl_pk_to_uncompressed = Inr, dl_private_bytes = (\<lambda>k. k), dl_public_bytes = (\<lambda>k. k),
      dl_base58_decode = (\<lambda>s. Some (replicate 64 0)), dl_json_register = (\<lambda>a k sg. k @ sg),
      dl_json_deposit = (\<lambda>a k. as_bytes a @ k)\<rparr>"

definition demo_delegate_config :: delegate_config where
  "demo_delegate_config =
     \<lparr>dc_account_secret_key = ''ed25519:secret'', dc_validator_master_key = demo_hex (replicate 32 1),
      dc_signer_account_id = ''bob'', dc_delegate_contract_id = ''mc'', dc_rpc_url = ''https://example.near'', dc_gas = 300\<rparr>"

lemma demo_deposit: "\<exists>d. delegate_to_yocto False ''0.01'' = Inr d"
  by (simp add: delegate_to_yocto_def Let_def index_def arith_pow_def arith_mul_def arith_sub_def arith_add_def
      parse_uint_def is_digit_def digit_value_def decimal_value_def)

lemma demo_delegate_send: "near_send_tx demo_near c (as_bytes ''bob'') 10 = Some (4050, Inr [7])"
proof -
  have "near_send_tx demo_near c (as_bytes ''bob'') 10 = near_poll_tx demo_near c () ''bob'' 10 20"
    by (simp add: near_send_tx_def demo_near_simps Let_def)
  also have "\<dots> = near_poll_tx demo_near c () ''bob'' 10 2030" by (subst near_poll_tx.simps) (simp add: demo_near_simps)
  also have "\<dots> = near_poll_tx demo_near c () ''bob'' 10 4040" by (subst near_poll_tx.simps) (simp add: demo_near_simps)
  also have "\<dots> = Some (4050, Inr [7])" by (subst near_poll_tx.simps) (simp add: demo_near_simps)
  finally show ?thesis .
qed

lemma demo_stake: "stake_handle demo_delegate False ''mc'' 5 demo_delegate_config 0 = Some (4050, Inr (Inr ()))"
proof -
  obtain d where d: "delegate_to_yocto False ''0.01'' = Inr d" using demo_deposit by blast
  have mk: "master_key_of_hex demo_lib (demo_hex (replicate 32 1)) = Inr \<lparr>seed = replicate 32 1\<rparr>"
    by (simp add: master_key_of_hex_def demo_lib_def demo_unhex_hex del: replicate.simps)
  have amount: "delegate_to_yocto False (decimal (unat (5 :: u64))) = Inr (of_nat (unat (5 :: u64) * 10 ^ 24))"
    by (rule delegate_amount) simp
  have tx: "near_construct_tx demo_near False (Some ''bob'') (replicate 64 0) ''mc'' url actions 0
      = (10, Inr (Inr (as_bytes ''bob'')))" for url actions
    by (simp add: near_construct_tx_def get_in_memory_signer_def demo_near_def Let_def arith_add_def)
  have kp: "get_signer_keypair_from_config demo_delegate ''ed25519:secret'' = Inr (Inr (replicate 64 0))"
    by (simp add: get_signer_keypair_from_config_def demo_delegate_def)
  have fields: "dl_near demo_delegate = demo_near" "dl_crypto demo_delegate = demo_lib"
    by (simp_all add: demo_delegate_def)
  obtain key where key: "derive_ed25519 demo_lib \<lparr>seed = replicate 32 1\<rparr> 0 = Inr (Inr key)"
    by (simp add: derive_ed25519_def demo_lib_def del: replicate.simps)
  have "send_signed demo_delegate (as_bytes ''bob'') 10 = Some (4050, Inr (Inr ()))"
    by (simp add: send_signed_near fields demo_delegate_send command_bind_def map_err_def)
  with d mk amount tx kp key show ?thesis
    by (simp add: stake_handle_def fields demo_delegate_config_def pure_step_def crypto_step_def command_bind_def
        chain_step_def chain_construct_signed_tx_def construct_signed_tx_construct_tx map_err_def Let_def)
qed

theorem stake_transaction_witness:
  "\<exists>tx signer w1 w2 v.
    tx_signer_id tx = ''bob'' \<and> tx_receiver_id tx = ''mc'' \<and> sg_secret_key signer = replicate 64 0 \<and>
    nl_broadcast demo_near NEAR_RPC_URL (nl_sign demo_near tx signer) w1 = (w2, Inr ()) \<and>
    confirmed demo_near NEAR_RPC_URL () ''bob'' w1 v 4050 \<and> dc_rpc_url demo_delegate_config \<noteq> NEAR_RPC_URL"
proof -
  have ok: "borsh_ok (dl_near demo_delegate)" "clock_ok (dl_near demo_delegate)"
    using demo_near_ok by (simp_all add: demo_delegate_def)
  have fields: "dl_near demo_delegate = demo_near" "nl_parse_account demo_near = Inr" "nl_connect demo_near u = u"
    "nl_now demo_near n = n" "dc_signer_account_id demo_delegate_config = ''bob''"
    "dc_account_secret_key demo_delegate_config = ''ed25519:secret''" for u n
    by (simp_all add: demo_delegate_def demo_near_def demo_delegate_config_def)
  from stake_transaction [OF ok demo_stake, unfolded fields] obtain tx kp signer w1 w2 h v where
    tx: "Inr ''bob'' = (Inr (tx_signer_id tx) :: string + string)" "Inr ''mc'' = (Inr (tx_receiver_id tx) :: string + string)"
      "nl_broadcast demo_near NEAR_RPC_URL (nl_sign demo_near tx signer) w1 = (w2, Inr h)"
      "confirmed demo_near NEAR_RPC_URL h (tx_signer_id tx) w1 v 4050"
    and kp: "get_signer_keypair_from_config demo_delegate ''ed25519:secret'' = Inr (Inr kp)"
      "get_in_memory_signer demo_near (Some ''bob'') kp = Inr signer" by blast
  have "sg_secret_key signer = replicate 64 0"
    using kp by (auto simp: get_signer_keypair_from_config_def demo_delegate_def get_in_memory_signer_def res_simps
        simp del: replicate.simps split: if_splits)
  moreover have "dc_rpc_url demo_delegate_config \<noteq> NEAR_RPC_URL" by (simp add: demo_delegate_config_def NEAR_RPC_URL_def)
  ultimately show ?thesis using tx by (metis (full_types) old.unit.exhaust sum.inject(2))
qed

end
