(* ===== verification/Json.thy ===== *)
theory Json
  imports Rust_Std
begin

text \<open>
  JSON values (\<open>serde_json::Value\<close>) and the readings of a value at the types the programs ask for.
  Text and values are converted by \<open>serde_json\<close>, which is third-party code: \<open>serde\<close> is the record
  of what it derives for a type. A number is its decimal text, an object the list of its fields.
\<close>

section \<open>Values\<close>

datatype json =
    JNull
  | JBool bool
  | JNumber string
  | JString string
  | JArray "json list"
  | JObject "(string \<times> json) list"

definition json_field :: "string \<Rightarrow> json \<Rightarrow> json option" where
  "json_field name v = (case v of JObject members \<Rightarrow> map_of members name | _ \<Rightarrow> None)"

definition json_keys :: "json \<Rightarrow> string list" where
  "json_keys v = (case v of JObject members \<Rightarrow> map fst members | _ \<Rightarrow> [])"

definition json_of_bytes :: "bytes \<Rightarrow> json" where
  "json_of_bytes bs = JArray (map (\<lambda>b. JNumber (decimal (unat b))) bs)"

definition json_of_strings :: "string list \<Rightarrow> json" where
  "json_of_strings ss = JArray (map JString ss)"


section \<open>Reading a value at a type\<close>

definition unit_of_json :: "json \<Rightarrow> string + unit" where
  "unit_of_json v = (if v = JNull then Inr () else Inl ''invalid type: expected unit'')"

definition string_of_json :: "json \<Rightarrow> string + string" where
  "string_of_json v = (case v of JString s \<Rightarrow> Inr s | _ \<Rightarrow> Inl ''invalid type: expected a string'')"

primrec strings_of_values :: "json list \<Rightarrow> string + string list" where
  "strings_of_values [] = Inr []"
| "strings_of_values (v # vs) =
     and_then (string_of_json v) (\<lambda>s. and_then (strings_of_values vs) (\<lambda>ss. Inr (s # ss)))"

definition strings_of_json :: "json \<Rightarrow> string + string list" where
  "strings_of_json v =
     (case v of JArray vs \<Rightarrow> strings_of_values vs | _ \<Rightarrow> Inl ''invalid type: expected a sequence'')"

lemma strings_of_json_of_strings [simp]: "strings_of_json (json_of_strings ss) = Inr ss"
proof -
  have "strings_of_values (map JString ss) = Inr ss"
    by (induction ss) (simp_all add: string_of_json_def)
  then show ?thesis by (simp add: strings_of_json_def json_of_strings_def)
qed

text \<open>\<open>from_slice\<close>, \<open>to_value\<close> and \<open>to_writer_pretty\<close> at a type.\<close>

record 't serde =
  sd_from_slice :: "bytes \<Rightarrow> string + 't"
  sd_to_value :: "'t \<Rightarrow> json"
  sd_to_pretty :: "'t \<Rightarrow> string"

text \<open>Documented of \<open>serde_json\<close>: the empty input is refused at every type.\<close>

definition refuses_empty :: "'t serde \<Rightarrow> bool" where
  "refuses_empty sd \<longleftrightarrow> (\<exists>e. sd_from_slice sd [] = Inl e)"

end
