(* ===== verification/Node_Start.thy ===== *)
theory Node_Start
  imports Node_Host Json
begin

text \<open>
  The start of a node: the construction of the peer-to-peer server (\<open>P2PServer::new\<close>, \<open>behaviour.rs\<close>
  and \<open>transport.rs\<close> in \<open>p2p/src/libp2p\<close>), the JSON-RPC server (\<open>node/src/rpc.rs\<close>), the application
  (\<open>App::new\<close>) and \<open>run\<close> in \<open>node/src/lib.rs\<close> that puts them together; and the dispatch of a request
  on the methods of the JSON-RPC server.

  \<open>libp2p\<close> and \<open>jsonrpsee\<close> are third-party code: the records \<open>swarm_lib\<close> and \<open>rpc_lib\<close> hold the
  constructors that may fail, and what the source configures is a record of the values it sets.
\<close>

section \<open>The swarm\<close>

datatype p2p_adapter_error =
    Trasnport string
  | Gossip string
  | GossipSubscription string
  | P2pIo string
  | MultiAddr string
  | P2pDialError string

datatype validation_mode = StrictValidation
datatype kbucket_inserts = ManualInserts
datatype upgrade_version = UpgradeV1

record 'p gossip_message =
  gm_source :: "'p option"
  gm_data :: bytes
  gm_sequence_number :: "u64 option"
  gm_topic :: string

record 'p gossipsub_config =
  gc_heartbeat_interval :: duration
  gc_validation_mode :: validation_mode
  gc_message_id_fn :: "'p gossip_message \<Rightarrow> string"

record 'p kademlia =
  kd_local_peer_id :: 'p
  kd_disjoint_query_paths :: bool
  kd_kbucket_inserts :: kbucket_inserts

record ('p, 'gs, 'md) seda_behaviour =
  sb_gossipsub :: 'gs
  sb_mdns :: 'md
  sb_kademlia :: "'p kademlia"

record 'noise tcp_transport =
  tt_noise :: 'noise
  tt_nodelay :: bool
  tt_version :: upgrade_version
  tt_timeout :: duration

record ('a, 'p, 'noise, 'gs, 'md) swarm =
  sw_transport :: "'noise tcp_transport"
  sw_behaviour :: "('p, 'gs, 'md) seda_behaviour"
  sw_local_peer_id :: 'p
  sw_listen_on :: 'a

text \<open>\<open>wl_hasher\<close> is \<open>DefaultHasher\<close>, whose algorithm the standard library leaves open.\<close>

record ('a, 'p, 'key, 'noise, 'gs, 'md) swarm_lib =
  wl_peer_id :: "'key \<Rightarrow> 'p"
  wl_into_authentic :: "'key \<Rightarrow> 'noise option"
  wl_hasher :: "bytes \<Rightarrow> u64"
  wl_config_build :: "'p gossipsub_config \<Rightarrow> 'p gossipsub_config option"
  wl_gossipsub_new :: "'key \<Rightarrow> 'p gossipsub_config \<Rightarrow> string + 'gs"
  wl_subscribe :: "string \<Rightarrow> 'gs \<Rightarrow> string + 'gs"
  wl_mdns_new :: "string + 'md"
  wl_parse_addr :: "string \<Rightarrow> string + 'a"
  wl_listen_on :: "'a \<Rightarrow> string option"

definition GOSSIP_TOPIC :: string where "GOSSIP_TOPIC = ''testnet''"

definition build_tcp_transport ::
  "('a, 'p, 'key, 'noise, 'gs, 'md) swarm_lib \<Rightarrow> 'key \<Rightarrow> (p2p_adapter_error + 'noise tcp_transport) res" where
  "build_tcp_transport wl key_pair =
     and_then (unwrap (wl_into_authentic wl key_pair)) (\<lambda>noise_keys.
     Inr (Inr \<lparr>tt_noise = noise_keys, tt_nodelay = True, tt_version = UpgradeV1, tt_timeout = from_secs 20\<rparr>))"

definition create_message_id ::
  "('a, 'p, 'key, 'noise, 'gs, 'md) swarm_lib \<Rightarrow> 'p gossip_message \<Rightarrow> string" where
  "create_message_id wl message = decimal (unat (wl_hasher wl (gm_data message)))"

definition seda_behaviour_new ::
  "('a, 'p, 'key, 'noise, 'gs, 'md) swarm_lib \<Rightarrow> 'key
    \<Rightarrow> (p2p_adapter_error + ('p, 'gs, 'md) seda_behaviour) res" where
  "seda_behaviour_new wl key_pair =
     and_then (expect ''Valid config'' (wl_config_build wl
         \<lparr>gc_heartbeat_interval = from_secs 5, gc_validation_mode = StrictValidation,
          gc_message_id_fn = create_message_id wl\<rparr>)) (\<lambda>gossipsub_config.
     bind_err (Inr (map_err Gossip (wl_gossipsub_new wl key_pair gossipsub_config))) (\<lambda>gossipsub.
     bind_err (Inr (map_err GossipSubscription (wl_subscribe wl GOSSIP_TOPIC gossipsub))) (\<lambda>gossipsub.
     let kademlia = \<lparr>kd_local_peer_id = wl_peer_id wl key_pair, kd_disjoint_query_paths = True,
                     kd_kbucket_inserts = ManualInserts\<rparr> in
     bind_err (Inr (map_err P2pIo (wl_mdns_new wl))) (\<lambda>mdns.
     Inr (Inr \<lparr>sb_gossipsub = gossipsub, sb_mdns = mdns, sb_kademlia = kademlia\<rparr>)))))"

text \<open>The key pair that \<open>generate_ed25519\<close> draws is an argument.\<close>

definition p2p_server_new ::
  "('a, 'p, 'key, 'noise, 'gs, 'md) swarm_lib \<Rightarrow> 'key \<Rightarrow> ('a, 'p) discovery_status \<Rightarrow> p2p_config
    \<Rightarrow> (p2p_adapter_error + ('a, 'p, 'noise, 'gs, 'md) swarm \<times> ('a, 'p) p2p_server) res" where
  "p2p_server_new wl local_key discovery p2p_config =
     (let local_peer_id = wl_peer_id wl local_key in
      bind_err (build_tcp_transport wl local_key) (\<lambda>transport.
      bind_err (seda_behaviour_new wl local_key) (\<lambda>behaviour.
      bind_err (Inr (map_err MultiAddr (wl_parse_addr wl (pc_server_address p2p_config)))) (\<lambda>addr.
      bind_err (Inr (case wl_listen_on wl addr of Some e \<Rightarrow> Inl (Trasnport e) | None \<Rightarrow> Inr ())) (\<lambda>_.
      Inr (Inr
        (\<lparr>sw_transport = transport, sw_behaviour = behaviour, sw_local_peer_id = local_peer_id, sw_listen_on = addr\<rparr>,
         \<lparr>ps_discovery_status = discovery, ps_local_peer_id = local_peer_id, ps_messages = [],
          ps_message_channel_open = True, ps_calls = []\<rparr>)))))))"


section \<open>The JSON-RPC server and the application\<close>

record rpc_lib =
  rl_build :: "string \<Rightarrow> string option"
  rl_start :: "string option"

record json_rpc_server =
  jr_address :: string
  jr_running :: bool

definition json_rpc_start :: "rpc_lib \<Rightarrow> string \<Rightarrow> rpc_error + json_rpc_server" where
  "json_rpc_start rl addrs =
     and_then (case rl_build rl addrs of Some e \<Rightarrow> Inl (RpcCustom e) | None \<Rightarrow> Inr ()) (\<lambda>_.
     and_then (case rl_start rl of Some e \<Rightarrow> Inl (RpcCustom e) | None \<Rightarrow> Inr ()) (\<lambda>_.
     Inr \<lparr>jr_address = addrs, jr_running = True\<rparr>))"

text \<open>\<open>ServerHandle::stop\<close> refuses a server that was stopped already.\<close>

definition json_rpc_stop :: "json_rpc_server \<Rightarrow> json_rpc_server \<times> (rpc_error + unit)" where
  "json_rpc_stop s =
     (if jr_running s then (s\<lparr>jr_running := False\<rparr>, Inr ()) else (s, Inl (RpcCustom ''Already stopped'')))"

text \<open>
  A node that is up: its actors and mailboxes, the workers with the configuration each of them
  gets, the RPC server, the channel of commands to the peer-to-peer server, and that server.
\<close>

record ('a, 'p, 'sw, 'bsk, 'bpk, 'esk, 'epk) started_node =
  sn_system :: node_system
  sn_workers :: nat
  sn_node_config :: "('bsk, 'bpk, 'esk, 'epk) node_config"
  sn_chain_configs :: chain_configs
  sn_rpc_server :: json_rpc_server
  sn_commands :: command_channel
  sn_swarm :: 'sw
  sn_server :: "('a, 'p) p2p_server"

text \<open>
  \<open>App::new\<close> starts the workers and the RPC server; the application itself and the messages of its
  \<open>started\<close> method are \<open>node_init\<close>.
\<close>

definition app_create ::
  "rpc_lib \<Rightarrow> ('bsk, 'bpk, 'esk, 'epk) node_config \<Rightarrow> string \<Rightarrow> (nat \<times> json_rpc_server \<times> node_system) res" where
  "app_create rl node_config rpc_server_address =
     (let workers = unat (nc_runtime_worker_threads node_config) in
      case json_rpc_start rl rpc_server_address of
        Inl e \<Rightarrow> Inl (Panic ''Error starting jsonrpsee server'')
      | Inr rpc_server \<Rightarrow> Inr (workers, rpc_server, node_init))"

definition node_run ::
  "('a, 'p) p2p_lib \<Rightarrow> ('a, 'p, 'key, 'noise, 'gs, 'md) swarm_lib \<Rightarrow> rpc_lib \<Rightarrow> nat \<Rightarrow> 'key \<Rightarrow> string
    \<Rightarrow> ('bsk, 'bpk, 'esk, 'epk) node_config \<Rightarrow> p2p_config \<Rightarrow> chain_configs
    \<Rightarrow> ('a, 'p, ('a, 'p, 'noise, 'gs, 'md) swarm, 'bsk, 'bpk, 'esk, 'epk) started_node res" where
  "node_run lib wl rl now local_key seda_server_address config p2p_config chain_configs =
     and_then (run_discovery_status (pl_parse_addr lib) p2p_config) (\<lambda>discovery.
     and_then (app_create rl config seda_server_address) (\<lambda>(workers, rpc_server, system).
     and_then (p2p_server_new wl local_key discovery p2p_config) (\<lambda>r.
     case r of
       Inl e \<Rightarrow> Inl (Panic ''P2P swarm cannot be started'')
     | Inr (swarm, p2p_server) \<Rightarrow>
         Inr \<lparr>sn_system = system, sn_workers = workers, sn_node_config = config, sn_chain_configs = chain_configs,
              sn_rpc_server = rpc_server, sn_commands = \<lparr>cch_commands = [], cch_open = True\<rparr>,
              sn_swarm = swarm, sn_server = p2p_start lib now p2p_server\<rparr>)))"


section \<open>Requests\<close>

text \<open>
  The methods of the trait \<open>Rpc\<close> by their names, with the parameters they take by position. \<open>run_cli\<close>
  is what the workers make of a call (\<open>rpc_cli\<close>); \<open>None\<close> is a call that never ends. The messages
  for a method or parameters that the server does not have are those of \<open>jsonrpsee\<close>.
\<close>

definition answer ::
  "('n \<Rightarrow> command_channel \<Rightarrow> 'n) \<Rightarrow> 'n \<Rightarrow> command_channel \<times> (rpc_error + unit) \<Rightarrow> ('n \<times> (rpc_error + json)) option" where
  "answer upd n r = (case r of (ch, res) \<Rightarrow> Some (upd n ch, and_then res (\<lambda>_. Inr JNull)))"

definition rpc_request ::
  "('a, 'p) p2p_lib \<Rightarrow> (string \<Rightarrow> string) \<Rightarrow> (('p \<times> 'a) list \<Rightarrow> ('p \<times> 'a) list) \<Rightarrow> ('a \<Rightarrow> string) \<Rightarrow> ('p \<Rightarrow> string)
    \<Rightarrow> (string list \<Rightarrow> ('a, 'p, 'sw, 'bsk, 'bpk, 'esk, 'epk) started_node
        \<Rightarrow> (('a, 'p, 'sw, 'bsk, 'bpk, 'esk, 'epk) started_node \<times> (rpc_error + string list)) option)
    \<Rightarrow> string \<Rightarrow> json list \<Rightarrow> ('a, 'p, 'sw, 'bsk, 'bpk, 'esk, 'epk) started_node
    \<Rightarrow> (('a, 'p, 'sw, 'bsk, 'bpk, 'esk, 'epk) started_node \<times> (rpc_error + json)) option" where
  "rpc_request lib parse_message perm show_addr show_peer run_cli method params n =
     (let send = answer (\<lambda>n ch. n\<lparr>sn_commands := ch\<rparr>) n; invalid = Some (n, Inl (RpcCustom ''Invalid params'')) in
      if method = ''cli'' then
        (case map_err RpcCustom (case params of [v] \<Rightarrow> strings_of_json v | _ \<Rightarrow> Inl ''Invalid params'') of
           Inl e \<Rightarrow> Some (n, Inl e)
         | Inr args \<Rightarrow> map_option (\<lambda>(n', r). (n', and_then r (Inr \<circ> json_of_strings))) (run_cli args n))
      else if method = ''add_peer'' then
        (case params of [JString multi_addr] \<Rightarrow> send (rpc_add_peer lib parse_message multi_addr (sn_commands n))
         | _ \<Rightarrow> invalid)
      else if method = ''list_peers'' then
        Some (n, Inr (JObject (map (\<lambda>(addr, peer). (addr, JString peer))
          (rpc_list_peers perm show_addr show_peer (ps_discovery_status (sn_server n))))))
      else if method = ''remove_peer'' then
        (case params of [JString peer_id] \<Rightarrow> send (rpc_remove_peer lib parse_message peer_id (sn_commands n))
         | _ \<Rightarrow> invalid)
      else if method = ''discover_peers'' then send (rpc_discover_peers (sn_commands n))
      else Some (n, Inl (RpcCustom ''Method not found'')))"


section \<open>A node that starts\<close>

text \<open>The addresses a server has heard of.\<close>

definition found_addrs :: "('a, 'p) discovery_status \<Rightarrow> 'a set" where
  "found_addrs d = fst ` (set (get_all_info (d_found_manual_peers d)) \<union> set (get_all_info (d_found_mdns_peers d))
     \<union> set (get_all_info (d_found_kademlia_peers d)))"

definition dials_within :: "'a set \<Rightarrow> ('a, 'p) p2p_server \<Rightarrow> ('a, 'p) p2p_server \<Rightarrow> bool" where
  "dials_within K s s' \<longleftrightarrow> (\<exists>new. ps_calls s' = ps_calls s @ new \<and> (\<forall>a. Dial a \<in> set new \<longrightarrow> a \<in> K))"

lemma found_addrs_frame: "search_frame now d d' \<Longrightarrow> found_addrs d' = found_addrs d"
  by (simp add: search_frame_def found_addrs_def)

lemma perm_set: "perm_ok lib \<Longrightarrow> set (pl_perm lib xs) = set xs"
  unfolding perm_ok_def by (metis set_mset_mset)

lemma found_addrs_parts:
  "fst ` set (get_all_info (d_found_manual_peers d)) \<subseteq> found_addrs d"
  "fst ` set (get_all_info (d_found_mdns_peers d)) \<subseteq> found_addrs d"
  "fst ` set (get_all_info (d_found_kademlia_peers d)) \<subseteq> found_addrs d"
  by (auto simp: found_addrs_def)

lemma dials_within_simps [simp]:
  "dials_within K s s" "dials_within K s (p2p_call (KadGetClosestPeers p) s)"
  "dials_within K (s\<lparr>ps_discovery_status := d\<rparr>) s' \<longleftrightarrow> dials_within K s s'"
  "dials_within K s (p2p_call c (s'\<lparr>ps_discovery_status := d\<rparr>)) \<longleftrightarrow> dials_within K s (p2p_call c s')"
  by (simp_all add: dials_within_def p2p_call_def)

lemma dial_found:
  assumes "perm_ok lib" "next_unused now c (pl_perm lib (get_all_info l)) d = (d', Some (addr, info))"
    and "fst ` set (get_all_info l) \<subseteq> K"
  shows "dials_within K s (dial_peer addr (s\<lparr>ps_discovery_status := d'\<rparr>))"
proof -
  have "(addr, info) \<in> set (get_all_info l)"
    using next_unused_some [OF assms(2)] perm_set [OF assms(1)] by auto
  with assms(3) have "addr \<in> K" by force
  then show ?thesis by (auto simp: dials_within_def dial_peer_def p2p_call_def)
qed

lemma search_dials_found:
  "perm_ok lib \<Longrightarrow> dials_within (found_addrs (ps_discovery_status s)) s (search_new_peer lib now skip s)"
  "perm_ok lib \<Longrightarrow> dials_within (found_addrs (ps_discovery_status s)) s (search_manual_peers lib now s)"
  "perm_ok lib \<Longrightarrow> dials_within (found_addrs (ps_discovery_status s)) s (search_mdns_peers lib now s)"
proof (induction lib now skip s and lib now s and lib now s
    rule: search_new_peer_search_manual_peers_search_mdns_peers.induct)
  case (1 lib now skip s)
  have "dials_within (found_addrs (ps_discovery_status s)) s (search_kademlia_peers lib now s)"
    using dial_found [OF 1(4) _ found_addrs_parts(3)]
    by (auto simp: search_kademlia_peers_def get_next_kademlia_peer_def split: prod.splits option.splits)
  then show ?case
    using 1 by (cases "get_current_discovery_method skip (ps_discovery_status s)")
      (auto simp: search_new_peer.simps [of lib now skip s])
next
  case (2 lib now s)
  show ?case
  proof (cases "get_next_manual_peer (pl_perm lib) now (ps_discovery_status s)")
    case (Pair d r)
    then show ?thesis
      using 2(1) [OF Pair [symmetric] _ 2(2)] found_addrs_frame [OF next_unused_frame [OF Pair [unfolded get_next_manual_peer_def]]]
        dial_found [OF 2(2) _ found_addrs_parts(1)]
      by (cases r) (auto simp: search_manual_peers.simps [of lib now s] get_next_manual_peer_def)
  qed
next
  case (3 lib now s)
  show ?case
  proof (cases "get_next_mdns_peer (pl_perm lib) now (ps_discovery_status s)")
    case (Pair d r)
    then show ?thesis
      using 3(1) [OF Pair [symmetric] _ 3(2)] found_addrs_frame [OF next_unused_frame [OF Pair [unfolded get_next_mdns_peer_def]]]
        dial_found [OF 3(2) _ found_addrs_parts(2)]
      by (cases r) (auto simp: search_mdns_peers.simps [of lib now s] get_next_mdns_peer_def)
  qed
qed

lemma search_local_peer_id:
  "ps_local_peer_id (search_new_peer lib now skip s) = ps_local_peer_id s"
  "ps_local_peer_id (search_manual_peers lib now s) = ps_local_peer_id s"
  "ps_local_peer_id (search_mdns_peers lib now s) = ps_local_peer_id s"
  by (induction lib now skip s and lib now s and lib now s
      rule: search_new_peer_search_manual_peers_search_mdns_peers.induct)
    (subst search_new_peer.simps search_manual_peers.simps search_mdns_peers.simps,
      auto simp: search_kademlia_peers_def dial_peer_def p2p_call_def
        split: connection_type.split prod.split option.split)+

lemma manual_addrs_parsed:
  "manual_addrs parse ss m = Inr m' \<Longrightarrow> fst ` set m' \<subseteq> fst ` set m \<union> {a. \<exists>s \<in> set ss. parse s = Some a}"
proof (induction ss arbitrary: m)
  case (Cons s ss)
  from Cons.prems obtain a where a: "parse s = Some a"
    "manual_addrs parse ss (AList.update a \<lparr>pi_peer_id = None, pi_conn_type = Manual\<rparr> m) = Inr m'"
    by (auto simp: res_simps)
  then show ?case
    using Cons.IH [OF a(2)] dom_update [of a _ m] by (auto simp: dom_map_of_conv_image_fst)
qed simp

lemma manual_addrs_all: "manual_addrs parse ss m = Inr m' \<Longrightarrow> \<forall>s \<in> set ss. parse s \<noteq> None"
  by (induction ss arbitrary: m) (auto simp: res_simps)

lemma p2p_server_new_Ok:
  assumes "p2p_server_new wl key d p2p_config = Inr (Inr (sw, server))"
  shows "server = \<lparr>ps_discovery_status = d, ps_local_peer_id = wl_peer_id wl key, ps_messages = [],
      ps_message_channel_open = True, ps_calls = []\<rparr>"
    "sw_local_peer_id sw = wl_peer_id wl key" "wl_parse_addr wl (pc_server_address p2p_config) = Inr (sw_listen_on sw)"
    "wl_listen_on wl (sw_listen_on sw) = None" "seda_behaviour_new wl key = Inr (Inr (sw_behaviour sw))"
  using assms by (auto simp: p2p_server_new_def Let_def res_simps split: option.splits)

lemma app_create_Ok:
  "app_create rl config addr = Inr (workers, server, system) \<longleftrightarrow>
    rl_build rl addr = None \<and> rl_start rl = None \<and> workers = unat (nc_runtime_worker_threads config) \<and>
    server = \<lparr>jr_address = addr, jr_running = True\<rparr> \<and> system = node_init"
  by (auto simp: app_create_def json_rpc_start_def Let_def split: option.split)

lemma node_run_elim:
  assumes "node_run lib wl rl now key addr config p2p_config chain_cfg = Inr n"
  obtains m server where "manual_addrs (pl_parse_addr lib) (pc_known_peers p2p_config) [] = Inr m"
    "app_create rl config addr = Inr (sn_workers n, sn_rpc_server n, sn_system n)"
    "p2p_server_new wl key (discovery_new p2p_config \<lparr>addr_to_peer = m, peer_to_addr = []\<rparr>) p2p_config
      = Inr (Inr (sn_swarm n, server))"
    "sn_node_config n = config" "sn_chain_configs n = chain_cfg"
    "sn_commands n = \<lparr>cch_commands = [], cch_open = True\<rparr>" "sn_server n = p2p_start lib now server"
proof -
  from assms obtain m workers rpc system r where
    1: "manual_addrs (pl_parse_addr lib) (pc_known_peers p2p_config) [] = Inr m"
    "app_create rl config addr = Inr (workers, rpc, system)"
    "p2p_server_new wl key (discovery_new p2p_config \<lparr>addr_to_peer = m, peer_to_addr = []\<rparr>) p2p_config = Inr r"
    and n: "(case r of Inl e \<Rightarrow> Inl (Panic ''P2P swarm cannot be started'')
     | Inr (swarm, p2p_server) \<Rightarrow>
         Inr \<lparr>sn_system = system, sn_workers = workers, sn_node_config = config, sn_chain_configs = chain_cfg,
              sn_rpc_server = rpc, sn_commands = \<lparr>cch_commands = [], cch_open = True\<rparr>,
              sn_swarm = swarm, sn_server = p2p_start lib now p2p_server\<rparr>) = Inr n"
    unfolding node_run_def run_discovery_status_def peer_list_from_vec_def by (auto simp: res_simps)
  from n obtain sw server where "r = Inr (sw, server)" by (auto split: sum.splits prod.splits)
  with 1 n show thesis by (intro that [of m server]) auto
qed

text \<open>
  C31: A node that starts is in the initial state of the event loop, with the configured number of
  workers, an RPC server on the configured address and an empty channel of commands; its
  peer-to-peer server listens on the configured address and has made at most one call to the swarm:
  a dial to one of the configured known peers or a query to Kademlia. All configured addresses were
  parsed: one that cannot be is a panic, not an error.
\<close>

theorem node_run_starts:
  assumes "perm_ok lib" "node_run lib wl rl now key addr config p2p_config chain_cfg = Inr n"
  shows "sn_system n = node_init \<and> sn_workers n = unat (nc_runtime_worker_threads config) \<and>
    sn_rpc_server n = \<lparr>jr_address = addr, jr_running = True\<rparr> \<and> sn_commands n = \<lparr>cch_commands = [], cch_open = True\<rparr> \<and>
    wl_parse_addr wl (pc_server_address p2p_config) = Inr (sw_listen_on (sn_swarm n)) \<and>
    ps_local_peer_id (sn_server n) = sw_local_peer_id (sn_swarm n) \<and>
    (\<forall>s \<in> set (pc_known_peers p2p_config). pl_parse_addr lib s \<noteq> None) \<and>
    length (ps_calls (sn_server n)) \<le> 1 \<and>
    (\<forall>c \<in> set (ps_calls (sn_server n)).
      c = KadGetClosestPeers (ps_local_peer_id (sn_server n)) \<or>
      (\<exists>s \<in> set (pc_known_peers p2p_config). \<exists>a. pl_parse_addr lib s = Some a \<and> c = Dial a))"
proof -
  from assms(2) obtain m server where 1: "manual_addrs (pl_parse_addr lib) (pc_known_peers p2p_config) [] = Inr m"
    "app_create rl config addr = Inr (sn_workers n, sn_rpc_server n, sn_system n)"
    "p2p_server_new wl key (discovery_new p2p_config \<lparr>addr_to_peer = m, peer_to_addr = []\<rparr>) p2p_config
      = Inr (Inr (sn_swarm n, server))"
    "sn_commands n = \<lparr>cch_commands = [], cch_open = True\<rparr>" "sn_server n = p2p_start lib now server"
    by (elim node_run_elim)
  note new = p2p_server_new_Ok [OF 1(3)]
  have found: "found_addrs (ps_discovery_status server) \<subseteq> {a. \<exists>s \<in> set (pc_known_peers p2p_config). pl_parse_addr lib s = Some a}"
    using manual_addrs_parsed [OF 1(1)]
    by (auto simp: new(1) found_addrs_def discovery_new_def peer_list_default_def get_all_info_def)
  have ok: "search_ok now server (sn_server n)"
    unfolding 1(5) p2p_start_def by (rule search_all_ok(1))
  have dials: "\<forall>a. Dial a \<in> set (ps_calls (sn_server n)) \<longrightarrow> a \<in> found_addrs (ps_discovery_status server)"
    using search_dials_found(1) [OF assms(1), of server now None] 1(5) new(1) by (simp add: p2p_start_def dials_within_def)
  have parsed: "\<forall>s \<in> set (pc_known_peers p2p_config). pl_parse_addr lib s \<noteq> None"
    using 1(1) manual_addrs_all by blast
  have id: "ps_local_peer_id (sn_server n) = wl_peer_id wl key"
    using new(1) by (simp add: 1(5) p2p_start_def search_local_peer_id)
  have "ps_calls (sn_server n) = [] \<or> ps_calls (sn_server n) = [KadGetClosestPeers (wl_peer_id wl key)] \<or>
      (\<exists>a. ps_calls (sn_server n) = [Dial a])"
    using ok by (auto simp: search_ok_def new(1))
  then have calls: "length (ps_calls (sn_server n)) \<le> 1 \<and>
    (\<forall>c \<in> set (ps_calls (sn_server n)). c = KadGetClosestPeers (wl_peer_id wl key) \<or>
      (\<exists>s \<in> set (pc_known_peers p2p_config). \<exists>a. pl_parse_addr lib s = Some a \<and> c = Dial a))"
    using dials found by auto
  show ?thesis
    using 1(2,4) [unfolded app_create_Ok] new(2,3) id calls parsed by simp
qed

text \<open>An instance for the witnesses: an address is the length of its text, nothing fails.\<close>

definition demo_start_lib :: "(nat, nat) p2p_lib" where
  "demo_start_lib = demo_p2p_lib\<lparr>pl_parse_addr := (\<lambda>s. Some (length s)), pl_parse_peer := (\<lambda>s. Some (length s))\<rparr>"

definition demo_swarm_lib :: "(nat, nat, nat, unit, string, unit) swarm_lib" where
  "demo_swarm_lib =
     \<lparr>wl_peer_id = (\<lambda>k. k), wl_into_authentic = (\<lambda>_. Some ()), wl_hasher = (\<lambda>bs. of_nat (length bs)),
      wl_config_build = Some, wl_gossipsub_new = (\<lambda>_ _. Inr []), wl_subscribe = (\<lambda>topic _. Inr topic),
      wl_mdns_new = Inr (), wl_parse_addr = (\<lambda>s. Inr (length s)), wl_listen_on = (\<lambda>_. None)\<rparr>"

definition demo_rpc_lib :: rpc_lib where
  "demo_rpc_lib = \<lparr>rl_build = (\<lambda>_. None), rl_start = None\<rparr>"

definition demo_p2p_config :: p2p_config where
  "demo_p2p_config = p2p_test_config\<lparr>pc_known_peers := [''abc'']\<rparr>"

lemma demo_start_perm: "perm_ok demo_start_lib"
  by (simp add: perm_ok_def demo_start_lib_def demo_p2p_lib_def)

lemma demo_node_run:
  "\<exists>n. node_run demo_start_lib demo_swarm_lib demo_rpc_lib now 1 ''url'' cfg demo_p2p_config chain_cfg = Inr n"
  by (simp add: node_run_def run_discovery_status_def peer_list_from_vec_def app_create_def json_rpc_start_def
      p2p_server_new_def build_tcp_transport_def seda_behaviour_new_def demo_start_lib_def demo_swarm_lib_def
      demo_rpc_lib_def demo_p2p_config_def Let_def)

theorem node_run_starts_witness:
  "\<exists>n. node_run demo_start_lib demo_swarm_lib demo_rpc_lib 5 1 ''url'' (demo_config (replicate 32 7)) demo_p2p_config
      chains_test_config = Inr n \<and> sn_system n = node_init \<and> sn_workers n = 2 \<and> length (ps_calls (sn_server n)) \<le> 1"
proof -
  obtain n where n: "node_run demo_start_lib demo_swarm_lib demo_rpc_lib 5 1 ''url'' (demo_config (replicate 32 7))
      demo_p2p_config chains_test_config = Inr n" using demo_node_run by blast
  have "nc_runtime_worker_threads (demo_config (replicate 32 7)) = 2"
    by (simp add: demo_config_def RUNTIME_WORKER_THREADS_def Let_def)
  then show ?thesis using node_run_starts [OF demo_start_perm n] n by auto
qed

end
