(* ===== verification/Common_Json.thy ===== *)
theory Common_Json
  imports Json Keys Mainchain_State
begin

text \<open>
  The arguments of contract calls (\<open>common/src/node\<close>) as JSON, the random node of the test server,
  and what the contract's public methods expect: their names and the names of their parameters, from
  the signatures in \<open>contracts/src\<close>.
\<close>

section \<open>Arguments of calls\<close>

record get_node_args =
  gna_account_id :: string

definition get_node_args_of :: "string \<Rightarrow> get_node_args" where
  "get_node_args_of account_id = \<lparr>gna_account_id = account_id\<rparr>"

definition get_node_args_json :: "get_node_args \<Rightarrow> json" where
  "get_node_args_json a = JObject [(''account_id'', JString (gna_account_id a))]"

record get_nodes_args =
  gns_limit :: string
  gns_offset :: string

definition get_nodes_args_of :: "u64 \<times> u64 \<Rightarrow> get_nodes_args" where
  "get_nodes_args_of a = (case a of (limit, offset) \<Rightarrow>
     \<lparr>gns_limit = decimal (unat limit), gns_offset = decimal (unat offset)\<rparr>)"

definition get_nodes_args_json :: "get_nodes_args \<Rightarrow> json" where
  "get_nodes_args_json a = JObject [(''limit'', JString (gns_limit a)), (''offset'', JString (gns_offset a))]"

record register_node_args =
  rna_multi_addr :: string
  rna_bn254_public_key :: bytes
  rna_signature :: bytes

definition register_node_args_json :: "register_node_args \<Rightarrow> json" where
  "register_node_args_json a =
     JObject [(''multi_addr'', JString (rna_multi_addr a)), (''bn254_public_key'', json_of_bytes (rna_bn254_public_key a)),
              (''signature'', json_of_bytes (rna_signature a))]"

text \<open>An enum is rendered with its variant's name as the only key.\<close>

definition update_node_json :: "update_node_command \<Rightarrow> json" where
  "update_node_json c =
     (case c of SetSocketAddress new_multi_addr \<Rightarrow>
        JObject [(''SetSocketAddress'', JObject [(''new_multi_addr'', JString new_multi_addr)])])"

text \<open>\<open>NodeInfo::random\<close>; what the generator draws is the record \<open>node_draw\<close>.\<close>

record node_draw =
  dr_stem :: string
  dr_host :: "nat \<times> nat \<times> nat \<times> nat"
  dr_port :: nat
  dr_balance :: u128
  dr_seed :: bytes

definition unwrap_ok :: "('e + 'a) res \<Rightarrow> 'a res" where
  "unwrap_ok r = and_then r (\<lambda>x. case x of Inl _ \<Rightarrow> Inl (Panic ''unwrap on an Err value'') | Inr a \<Rightarrow> Inr a)"

definition node_info_random ::
  "('bsk, 'bpk, 'esk, 'epk) crypto_lib \<Rightarrow> ('bpk \<Rightarrow> string + bytes) \<Rightarrow> ('epk \<Rightarrow> bytes) \<Rightarrow> node_draw \<Rightarrow> node_info res" where
  "node_info_random lib to_uncompressed public_bytes dr =
     (let mk = master_key_random (dr_seed dr); (a, b, c, d) = dr_host dr in
      and_then (unwrap_ok (derive_bn254 lib mk 0)) (\<lambda>bn.
      and_then (unwrap_ok (Inr (to_uncompressed (public_key bn)))) (\<lambda>bn_bytes.
      and_then (unwrap_ok (derive_ed25519 lib mk 0)) (\<lambda>ed.
      Inr \<lparr>ni_account_id = dr_stem dr @ ''.testnet'',
           ni_multi_addr = decimal a @ ''.'' @ decimal b @ ''.'' @ decimal c @ ''.'' @ decimal d @ '':'' @ decimal (dr_port dr),
           ni_balance = dr_balance dr, ni_bn254_public_key = bn_bytes,
           ni_ed25519_public_key = public_bytes (public_key ed)\<rparr>))))"


section \<open>What the contract's methods take\<close>

type_synonym method_table = "(string \<times> string list) list"

definition node_registry_methods :: method_table where
  "node_registry_methods =
     [(''register_node'', [''multi_addr'', ''bn254_public_key'', ''signature'']),
      (''unregister_node'', [''ed25519_public_key'']),
      (''update_node'', [''command'']),
      (''deposit'', [''amount'', ''ed25519_public_key'']),
      (''request_withdraw'', [''amount'', ''ed25519_public_key'']),
      (''cancel_withdraw_request'', [''ed25519_public_key'']),
      (''withdraw'', [''amount'', ''ed25519_public_key'']),
      (''is_node_active'', [''account_id'']),
      (''get_node_balance'', [''account_id'']),
      (''get_node'', [''account_id'']),
      (''get_inactive_nodes'', [''limit'', ''offset'']),
      (''get_active_nodes'', [''limit'', ''offset'']),
      (''get_deposits'', [''account_id'']),
      (''get_node_by_ed25519_public_key'', [''ed25519_public_key'']),
      (''get_node_by_bn254_public_key'', [''bn254_public_key''])]"

definition dao_methods :: method_table where
  "dao_methods = [(''get_config'', []), (''update_config'', [''key'', ''value''])]"

definition batch_methods :: method_table where
  "batch_methods =
     [(''get_latest_batch_id'', []),
      (''post_signed_batch'', [''aggregate_signature'', ''aggregate_public_key'', ''signers'', ''leader_signature''])]"

definition data_request_methods :: method_table where
  "data_request_methods = [(''post_data_request'', [''data_request'']), (''compute_merkle_root'', [])]"

definition epoch_methods :: method_table where
  "epoch_methods = [(''get_current_epoch'', []), (''process_epoch'', [])]"

definition committee_methods :: method_table where
  "committee_methods =
     [(''get_committee'', [''epoch'']), (''get_last_generated_random_number'', []), (''get_current_slot_leader'', [])]"

text \<open>The methods of the token, added by the macros of \<open>near_contract_standards\<close>, are an argument.\<close>

definition contract_methods :: "method_table \<Rightarrow> method_table" where
  "contract_methods token_methods =
     node_registry_methods @ dao_methods @ batch_methods @ data_request_methods @ epoch_methods @ committee_methods @
     [(''get_current_slot'', []), (''bn254_verify'', [''message'', ''signature'', ''public_key'']),
      (''new'', [''dao'', ''initial_supply'', ''metadata'', ''committee_size'', ''random_seed'']),
      (''ft_metadata'', [])] @ token_methods"

text \<open>
  How \<open>near_bindgen\<close> calls a method: every parameter is read from the field of its name, a field
  that is missing ends the call, and a method that does not exist cannot be called.
\<close>

definition accepts_call :: "method_table \<Rightarrow> string \<Rightarrow> json \<Rightarrow> bool" where
  "accepts_call methods name args =
     (case map_of methods name of
        None \<Rightarrow> False
      | Some params \<Rightarrow> list_all (\<lambda>p. json_field p args \<noteq> None) params)"

end
