(* ===== verification/Config_Files.thy ===== *)
theory Config_Files
  imports Config
begin

text \<open>
  The configuration file (\<open>config/src/lib.rs\<close> and the second half of \<open>config/src/config.rs\<close>): writing
  the template of a new installation, and the start of every program, which creates the file when
  there is none and reads it.

  TOML is third-party code: \<open>to_str\<close> and \<open>from_str\<close> stand for \<open>toml::to_string_pretty\<close> and
  \<open>toml::from_str\<close>. An exit of the process is the value \<open>Inl\<close> of its code; messages on the standard
  error stream are left out.
\<close>

section \<open>Paths and directories\<close>

text \<open>
  \<open>Path::parent\<close> on a Unix host, on the reversed path: separators and components \<open>.\<close> at the end do
  not count, except at the root and at the start of a relative path.
\<close>

fun path_trim :: "string \<Rightarrow> string" where
  "path_trim (c # d # r) =
     (if c = CHR ''/'' \<or> c = CHR ''.'' \<and> d = CHR ''/'' then path_trim (d # r) else c # d # r)"
| "path_trim r = r"

definition path_parent :: "string \<Rightarrow> string option" where
  "path_parent p =
     (let r = path_trim (rev p) in
      if takeWhile (\<lambda>c. c \<noteq> CHR ''/'') r = [] then None
      else Some (rev (path_trim (dropWhile (\<lambda>c. c \<noteq> CHR ''/'') r))))"

lemma path_trim_length: "length (path_trim r) \<le> length r"
  by (induction r rule: path_trim.induct) auto

lemma path_parent_shorter: "path_parent p = Some q \<Longrightarrow> length q < length p"
proof -
  let ?r = "path_trim (rev p)" and ?sep = "\<lambda>c. c \<noteq> CHR ''/''"
  assume "path_parent p = Some q"
  then have name: "takeWhile ?sep ?r \<noteq> []" and q: "q = rev (path_trim (dropWhile ?sep ?r))"
    by (auto simp: path_parent_def Let_def split: if_splits)
  have "length (takeWhile ?sep ?r) + length (dropWhile ?sep ?r) = length ?r"
    by (metis length_append takeWhile_dropWhile_id)
  moreover have "0 < length (takeWhile ?sep ?r)" using name by simp
  ultimately show ?thesis
    using path_trim_length [of "rev p", unfolded length_rev] path_trim_length [of "dropWhile ?sep ?r"]
    unfolding q length_rev by linarith
qed

text \<open>\<open>std::fs::create_dir_all\<close>: the directories of the path that are missing, from the root on.\<close>

function create_dir_all :: "string \<Rightarrow> host \<Rightarrow> host \<times> (string + unit)" where
  "create_dir_all p h =
     (if p = [] then (h, Inr ())
      else case files h p of
        Some Directory \<Rightarrow> (h, Inr ())
      | Some (File _) \<Rightarrow> (h, Inl ''File exists'')
      | None \<Rightarrow>
          (case path_parent p of
             None \<Rightarrow> (h, Inl ''failed to create whole tree'')
           | Some q \<Rightarrow>
               (case create_dir_all q h of
                  (h1, Inl e) \<Rightarrow> (h1, Inl e)
                | (h1, Inr _) \<Rightarrow>
                    if writable h1 p then (h1\<lparr>files := (files h1)(p \<mapsto> Directory)\<rparr>, Inr ())
                    else (h1, Inl ''Permission denied''))))"
  by pat_completeness auto

termination create_dir_all
  by (relation "measure (length \<circ> fst)") (auto simp: path_parent_shorter)

declare create_dir_all.simps [simp del]

text \<open>
  \<open>OpenOptions::new().create(true).write(true).open(p)\<close> and \<open>write_all\<close> on the file: the file is not
  truncated, what is longer than the new content stays.
\<close>

definition open_create :: "string \<Rightarrow> host \<Rightarrow> host \<times> (string + unit)" where
  "open_create p h =
     (if files h p = Some Directory then (h, Inl ''Is a directory'')
      else if \<not> writable h p then (h, Inl ''Permission denied'')
      else case files h p of
        None \<Rightarrow> (h\<lparr>files := (files h)(p \<mapsto> File [])\<rparr>, Inr ())
      | Some _ \<Rightarrow> (h, Inr ()))"

definition write_all :: "string \<Rightarrow> bytes \<Rightarrow> host \<Rightarrow> host" where
  "write_all p bs h =
     (case files h p of
        Some (File old) \<Rightarrow> h\<lparr>files := (files h)(p \<mapsto> File (bs @ drop (length bs) old))\<rparr>
      | _ \<Rightarrow> h)"


section \<open>The file\<close>

definition write_template ::
  "(partial_app_config \<Rightarrow> string + string) \<Rightarrow> string \<Rightarrow> host \<Rightarrow> host \<times> (config_error + unit)" where
  "write_template to_str p h =
     (case to_str (partial_app_template h) of
        Inl e \<Rightarrow> (h, Inl (InvalidTomlConfig (TomlSerialize e)))
      | Inr content \<Rightarrow> (write_all p (as_bytes content) h, Inr ()))"

definition create_template_from_path ::
  "(partial_app_config \<Rightarrow> string + string) \<Rightarrow> string \<Rightarrow> host \<Rightarrow> host \<times> (config_error + unit)" where
  "create_template_from_path to_str p h =
     (case (case path_parent p of
              Some prefix \<Rightarrow> if path_exists h prefix then (h, Inr ()) else create_dir_all prefix h
            | None \<Rightarrow> (h, Inr ())) of
        (h, Inl e) \<Rightarrow> (h, Inl (ConfigIoError e))
      | (h, Inr _) \<Rightarrow>
          (case open_create p h of
             (h, Inl e) \<Rightarrow> (h, Inl (ConfigIoError e))
           | (h, Inr _) \<Rightarrow> write_template to_str p h))"

definition create_and_load_or_load_config ::
  "(partial_app_config \<Rightarrow> string + string) \<Rightarrow> (string \<Rightarrow> string + partial_app_config) \<Rightarrow> string option \<Rightarrow> host
    \<Rightarrow> host \<times> (int + app_config \<times> partial_logger_config) res" where
  "create_and_load_or_load_config to_str from_str config_toml_path h =
     (let path = (case config_toml_path of Some config_path \<Rightarrow> config_path | None \<Rightarrow> default_config_path h) in
      case (if path_exists h path then (h, Inr ()) else create_template_from_path to_str path h) of
        (h, Inl err) \<Rightarrow> (h, Inr (Inl 1))
      | (h, Inr _) \<Rightarrow>
          (h, and_then (app_read_from_path from_str h path) (\<lambda>r.
                case r of Inl err \<Rightarrow> Inr (Inl 1) | Inr config \<Rightarrow> Inr (Inr (app_config_of_partial config)))))"

text \<open>The constructors from JSON; the parser is an argument.\<close>

definition p2p_from_json_str :: "(string \<Rightarrow> string + p2p_config) \<Rightarrow> string \<Rightarrow> p2p_config res" where
  "p2p_from_json_str from_str s = map_err (\<lambda>_. Panic ''unwrap on an Err value'') (from_str s)"

definition delegate_from_json_str :: "(string \<Rightarrow> string + delegate_config) \<Rightarrow> string \<Rightarrow> delegate_config res" where
  "delegate_from_json_str from_str s = map_err (\<lambda>_. Panic ''unwrap on an Err value'') (from_str s)"


section \<open>The first start and the later ones\<close>

text \<open>The documented behaviour of \<open>toml\<close>: what it renders it reads back, and it renders UTF-8.\<close>

definition toml_ok ::
  "(partial_app_config \<Rightarrow> string + string) \<Rightarrow> (string \<Rightarrow> string + partial_app_config) \<Rightarrow> bool" where
  "toml_ok to_str from_str \<longleftrightarrow> (\<forall>c s. to_str c = Inr s \<longrightarrow> from_str s = Inr c \<and> rust_string s)"

text \<open>The host as far as the environment of the process is concerned.\<close>

definition same_process :: "host \<Rightarrow> host \<Rightarrow> bool" where
  "same_process h h' \<longleftrightarrow> env_vars h' = env_vars h \<and> current_dir h' = current_dir h"

lemma same_process_trans [trans]: "same_process h h1 \<Longrightarrow> same_process h1 h2 \<Longrightarrow> same_process h h2"
  by (simp add: same_process_def)

lemma create_dir_all_frame:
  "create_dir_all p h = (h', r) \<Longrightarrow> same_process h h' \<and> (length p < length q \<longrightarrow> files h' q = files h q)"
proof (induction p h arbitrary: h' r rule: create_dir_all.induct)
  case (1 p h)
  have "same_process h h1 \<and> (length p < length q \<longrightarrow> files h1 q = files h q)"
    if "p \<noteq> []" "files h p = None" "path_parent p = Some pre" "create_dir_all pre h = (h1, r1)" for pre h1 r1
    using 1(1) [OF that] path_parent_shorter [OF that(3)] by auto
  then show ?case
    using 1(2) create_dir_all.simps [of p h]
    by (fastforce simp: same_process_def split: if_splits option.splits file_entry.splits prod.splits sum.splits)
qed

lemma template_files [simp]: "partial_app_template (h\<lparr>files := fs\<rparr>) = partial_app_template h"
  by (simp add: partial_app_template_def partial_logger_template_def)

lemma template_same_process: "same_process h h' \<Longrightarrow> partial_app_template h' = partial_app_template h"
  by (simp add: partial_app_template_def partial_logger_template_def same_process_def)

lemma create_template_effect:
  assumes "create_template_from_path to_str p h = (h', Inr ())" "\<not> path_exists h p"
  shows "same_process h h'"
    "\<exists>s. to_str (partial_app_template h) = Inr s \<and> files h' p = Some (File (as_bytes s))"
proof -
  let ?prep = "case path_parent p of
      Some prefix \<Rightarrow> if path_exists h prefix then (h, Inr ()) else create_dir_all prefix h
    | None \<Rightarrow> (h, Inr ())"
  obtain h1 r where prep: "?prep = (h1, r)" by fastforce
  have frame: "same_process h h1" "files h1 p = None"
    using prep assms(2) create_dir_all_frame [of _ h h1 r p] path_parent_shorter [of p]
    by (auto simp: path_exists_def same_process_def split: option.splits if_splits)
  from assms(1) prep frame(2) obtain s where
    "to_str (partial_app_template h1) = Inr s" "h' = h1\<lparr>files := (files h1)(p \<mapsto> File (as_bytes s))\<rparr>"
    by (auto simp: create_template_from_path_def open_create_def write_template_def write_all_def
        split: sum.splits if_splits)
  then show "same_process h h'"
    "\<exists>s. to_str (partial_app_template h) = Inr s \<and> files h' p = Some (File (as_bytes s))"
    using frame(1) template_same_process [OF frame(1)] by (auto simp: same_process_def)
qed

text \<open>A file that exists is never written; one that was created holds the template.\<close>

lemma load_elim:
  assumes "create_and_load_or_load_config to_str from_str path h = (h', Inr (Inr cfg))"
    and "p = (case path of Some config_path \<Rightarrow> config_path | None \<Rightarrow> default_config_path h)"
  obtains c where "app_read_from_path from_str h' p = Inr (Inr c)" "cfg = app_config_of_partial c"
    "path_exists h p \<and> h' = h \<or> \<not> path_exists h p \<and> create_template_from_path to_str p h = (h', Inr ())"
proof -
  let ?ready = "if path_exists h p then (h, Inr ()) else create_template_from_path to_str p h"
  obtain h1 r where ready: "?ready = (h1, r)" by fastforce
  have run: "create_and_load_or_load_config to_str from_str path h =
      (case r of Inl err \<Rightarrow> (h1, Inr (Inl 1))
       | Inr _ \<Rightarrow> (h1, and_then (app_read_from_path from_str h1 p) (\<lambda>r.
           case r of Inl err \<Rightarrow> Inr (Inl 1) | Inr config \<Rightarrow> Inr (Inr (app_config_of_partial config)))))"
    unfolding create_and_load_or_load_config_def Let_def assms(2) [symmetric] ready by simp
  then have "h1 = h'" "r = Inr ()" using assms(1) by (auto split: sum.splits)
  moreover from this obtain c where "app_read_from_path from_str h' p = Inr (Inr c)" "cfg = app_config_of_partial c"
    using assms(1) unfolding run by (auto simp: res_simps split: sum.splits) (metis sum.exhaust)
  ultimately show thesis using ready by (intro that) (auto split: if_splits)
qed

lemma load_same_process:
  assumes "create_and_load_or_load_config to_str from_str path h = (h', Inr (Inr cfg))"
  shows "same_process h h'"
  using load_elim [OF assms refl] create_template_effect(1) by (metis same_process_def)

lemma load_again:
  assumes "create_and_load_or_load_config to_str from_str path h = (h', Inr (Inr cfg))"
  shows "create_and_load_or_load_config to_str from_str path h' = (h', Inr (Inr cfg))"
proof -
  let ?p = "\<lambda>h. case path of Some config_path \<Rightarrow> config_path | None \<Rightarrow> default_config_path h"
  from load_elim [OF assms refl] obtain c where c:
    "app_read_from_path from_str h' (?p h) = Inr (Inr c)" "cfg = app_config_of_partial c"
    and cases: "path_exists h (?p h) \<and> h' = h \<or>
      \<not> path_exists h (?p h) \<and> create_template_from_path to_str (?p h) h = (h', Inr ())" by blast
  have p: "?p h' = ?p h"
    using load_same_process [OF assms] by (simp add: default_config_path_def same_process_def split: option.split)
  have "path_exists h' (?p h)"
    using cases create_template_effect(2) [of to_str "?p h" h h'] by (auto simp: path_exists_def)
  then show ?thesis
    using c unfolding create_and_load_or_load_config_def Let_def p by simp
qed

lemma load_fresh:
  assumes "toml_ok to_str from_str"
    and "create_and_load_or_load_config to_str from_str path h = (h', Inr (Inr cfg))"
    and "\<not> path_exists h (case path of Some config_path \<Rightarrow> config_path | None \<Rightarrow> default_config_path h)"
  shows "\<exists>c. app_overwrite_from_env h (partial_app_template h) = Inr c \<and> cfg = app_config_of_partial c"
proof -
  let ?p = "case path of Some config_path \<Rightarrow> config_path | None \<Rightarrow> default_config_path h"
  from load_elim [OF assms(2) refl] assms(3) obtain c where c:
    "app_read_from_path from_str h' ?p = Inr (Inr c)" "cfg = app_config_of_partial c"
    and create: "create_template_from_path to_str ?p h = (h', Inr ())" by blast
  from create_template_effect(2) [OF create assms(3)] obtain s where
    s: "to_str (partial_app_template h) = Inr s" "files h' ?p = Some (File (as_bytes s))" by blast
  then have "from_str s = Inr (partial_app_template h)" "rust_string s"
    using assms(1) by (auto simp: toml_ok_def)
  moreover have "app_overwrite_from_env h' d = app_overwrite_from_env h d" for d
    using load_same_process [OF assms(2)]
    by (simp add: app_overwrite_from_env_def env_overwrite_def env_overwrite_parse_def same_process_def
        chains_overwrite_from_env_def node_overwrite_from_env_def logger_overwrite_from_env_def)
  ultimately show ?thesis
    using c s by (auto simp: app_read_from_path_def read_to_string_def rust_string_def res_simps)
qed

text \<open>Other files are left alone.\<close>

lemma create_dir_all_keeps:
  "create_dir_all p h = (h', r) \<Longrightarrow> files h q = Some x \<Longrightarrow> files h' q = Some x"
proof (induction p h arbitrary: h' r rule: create_dir_all.induct)
  case (1 p h)
  have keeps: "files h1 q = Some x"
    if "p \<noteq> []" "files h p = None" "path_parent p = Some pre" "create_dir_all pre h = (h1, r1)" for pre h1 r1
    using 1(1) [OF that 1(3)] .
  show ?case
    using 1(2,3) keeps create_dir_all.simps [of p h]
    by (fastforce split: if_splits option.splits file_entry.splits prod.splits sum.splits)
qed

lemma create_template_keeps:
  assumes "create_template_from_path to_str p h = (h', r)" "q \<noteq> p" "files h q = Some x"
  shows "files h' q = Some x"
  using assms
  by (auto simp: create_template_from_path_def open_create_def write_template_def write_all_def
      split: option.splits if_splits prod.splits sum.splits file_entry.splits dest: create_dir_all_keeps)

lemma load_keeps:
  assumes "create_and_load_or_load_config to_str from_str (Some p) h = (h', Inr (Inr cfg))" "q \<noteq> p" "files h q = Some x"
  shows "files h' q = Some x"
  using load_elim [OF assms(1) refl] create_template_keeps [OF _ assms(2,3)] assms(3) by (metis option.simps(5))

text \<open>
  The first start leaves a configuration file that every later start reads back: a start that
  succeeds fixes the outcome of the next one with the same environment, without touching the file
  again; and where there was no file, the configuration is the template overwritten by the
  environment.
\<close>

theorem load_config_stable:
  assumes "toml_ok to_str from_str"
    and "create_and_load_or_load_config to_str from_str path h = (h', Inr (Inr cfg))"
  shows "create_and_load_or_load_config to_str from_str path h' = (h', Inr (Inr cfg)) \<and>
    env_vars h' = env_vars h \<and>
    (\<not> path_exists h (case path of Some config_path \<Rightarrow> config_path | None \<Rightarrow> default_config_path h) \<longrightarrow>
      (\<exists>c. app_overwrite_from_env h (partial_app_template h) = Inr c \<and> cfg = app_config_of_partial c))"
  using load_again [OF assms(2)] load_fresh [OF assms] load_same_process [OF assms(2)]
  by (simp add: same_process_def)

text \<open>An instance of the file format for the witness: it knows the template of the demo host.\<close>

definition demo_to_toml :: "partial_app_config \<Rightarrow> string + string" where
  "demo_to_toml c = (if c = partial_app_template demo_host then Inr ''template'' else Inl ''unsupported'')"

definition demo_from_toml :: "string \<Rightarrow> string + partial_app_config" where
  "demo_from_toml s = (if s = ''template'' then Inr (partial_app_template demo_host) else Inl ''unsupported'')"

lemma demo_toml_ok: "toml_ok demo_to_toml demo_from_toml"
  by (auto simp: toml_ok_def demo_to_toml_def demo_from_toml_def rust_string_def as_bytes_def)

definition demo_like :: "host \<Rightarrow> bool" where
  "demo_like h \<longleftrightarrow> env_vars h = Map.empty \<and> (\<forall>p. writable h p) \<and> current_dir h = Inr ''/'' \<and> files h ''c'' = None"

lemma demo_host_like: "demo_like demo_host"
  by (simp add: demo_like_def demo_host_def)

lemma demo_like_template: "demo_like h \<Longrightarrow> partial_app_template h = partial_app_template demo_host"
  by (simp add: demo_like_def demo_host_def partial_app_template_def partial_logger_template_def)

lemma demo_create:
  assumes "demo_like h"
  shows "create_template_from_path demo_to_toml ''c'' h
     = (h\<lparr>files := (files h)(''c'' \<mapsto> File (as_bytes ''template''))\<rparr>, Inr ())"
proof -
  have "path_parent ''c'' = Some []" by (simp add: path_parent_def)
  then show ?thesis using assms demo_like_template [OF assms]
    by (simp add: create_template_from_path_def path_exists_def create_dir_all.simps [of "[]"] open_create_def
        write_template_def write_all_def demo_to_toml_def demo_like_def)
qed

lemma demo_no_env: "env_vars h = Map.empty \<Longrightarrow> app_overwrite_from_env h c = Inr c"
  by (simp add: app_overwrite_from_env_def env_overwrite_def env_overwrite_parse_def chains_overwrite_from_env_def
      node_overwrite_from_env_def logger_overwrite_from_env_def)

lemma demo_first_load:
  assumes "demo_like h"
  shows "create_and_load_or_load_config demo_to_toml demo_from_toml (Some ''c'') h
     = (h\<lparr>files := (files h)(''c'' \<mapsto> File (as_bytes ''template''))\<rparr>,
        Inr (Inr (app_config_of_partial (partial_app_template demo_host))))"
proof -
  have "valid_utf8 (as_bytes ''template'')" by (simp add: as_bytes_def)
  then have "app_read_from_path demo_from_toml (h\<lparr>files := (files h)(''c'' \<mapsto> File (as_bytes ''template''))\<rparr>) ''c''
      = Inr (Inr (partial_app_template demo_host))"
    using assms by (simp add: app_read_from_path_def read_to_string_def demo_from_toml_def demo_no_env demo_like_def)
  then show ?thesis using assms
    by (simp add: create_and_load_or_load_config_def demo_create path_exists_def demo_like_def)
qed

theorem load_config_stable_witness:
  "\<exists>h. \<not> path_exists demo_host ''c'' \<and>
     create_and_load_or_load_config demo_to_toml demo_from_toml (Some ''c'') demo_host
       = (h, Inr (Inr (app_config_of_partial (partial_app_template demo_host)))) \<and>
     create_and_load_or_load_config demo_to_toml demo_from_toml (Some ''c'') h
       = (h, Inr (Inr (app_config_of_partial (partial_app_template demo_host))))"
  using load_config_stable [OF demo_toml_ok demo_first_load [OF demo_host_like]] demo_first_load [OF demo_host_like] by (auto simp: path_exists_def)

end
