(* ===== verification/Node_Cli.thy ===== *)
theory Node_Cli
  imports Node_Start Common_Json Config_Files
begin

text \<open>
  The node's command line (\<open>cli/src\<close>) with the logger it installs (\<open>logger/src/lib.rs\<close>): initialising a
  node, running it, asking a running node over JSON-RPC, and calling and viewing the contract. \<open>clap\<close>
  hands over the parsed command.

  A command acts on the process and its files, the network, and the standard output, which accepts
  what is printed. JSON, WebSocket, Base58, the curves and \<open>clap\<close>'s generators are third-party code,
  in the record \<open>cli_lib\<close>. The random seed of a fresh key is an argument.
\<close>

section \<open>Errors and outcomes\<close>

datatype cli_error =
    JsonRpcClient string
  | CliChainAdapter chain_adapter_error
  | LoadConfig config_error
  | CliConfig string
  | CliNode node_error
  | CliJson string
  | CliBn254 string
  | CLIDocument string
  | CliCrypto crypto_error

text \<open>
  How a command ends: with a value, an error, a panic, an exit of the process, never, or as a node
  that serves until it is stopped.
\<close>

datatype ('n, 'a) outcome =
    Done 'a
  | Fails cli_error
  | Panics panic
  | Exits int
  | Hangs
  | Serves 'n

record 'w cli_world =
  cw_host :: host
  cw_net :: 'w
  cw_stdout :: "string list"

type_synonym ('w, 'n, 'a) cli = "'w cli_world \<times> ('n, 'a) outcome"

fun cli_bind ::
  "('w, 'n, 'a) cli \<Rightarrow> ('w cli_world \<Rightarrow> 'a \<Rightarrow> ('w, 'n, 'b) cli) \<Rightarrow> ('w, 'n, 'b) cli" where
  "cli_bind (w, Done a) k = k w a"
| "cli_bind (w, Fails e) k = (w, Fails e)"
| "cli_bind (w, Panics p) k = (w, Panics p)"
| "cli_bind (w, Exits c) k = (w, Exits c)"
| "cli_bind (w, Hangs) k = (w, Hangs)"
| "cli_bind (w, Serves n) k = (w, Serves n)"

definition outcome_of :: "('e \<Rightarrow> cli_error) \<Rightarrow> ('e + 'a) res \<Rightarrow> ('n, 'a) outcome" where
  "outcome_of f r = (case r of Inl p \<Rightarrow> Panics p | Inr (Inl e) \<Rightarrow> Fails (f e) | Inr (Inr a) \<Rightarrow> Done a)"

text \<open>Steps on the host, on the network, and on a network that may keep the command waiting.\<close>

definition cli_pure :: "('e \<Rightarrow> cli_error) \<Rightarrow> 'e + 'a \<Rightarrow> 'w cli_world \<Rightarrow> ('w, 'n, 'a) cli" where
  "cli_pure f r w = (w, outcome_of f (Inr r))"

definition cli_host :: "('e \<Rightarrow> cli_error) \<Rightarrow> host \<times> ('e + 'a) res \<Rightarrow> 'w cli_world \<Rightarrow> ('w, 'n, 'a) cli" where
  "cli_host f r w = (w\<lparr>cw_host := fst r\<rparr>, outcome_of f (snd r))"

definition cli_net :: "('e \<Rightarrow> cli_error) \<Rightarrow> 'w \<times> ('e + 'a) res \<Rightarrow> 'w cli_world \<Rightarrow> ('w, 'n, 'a) cli" where
  "cli_net f r w = (w\<lparr>cw_net := fst r\<rparr>, outcome_of f (snd r))"

definition cli_wait ::
  "('e \<Rightarrow> cli_error) \<Rightarrow> ('w \<times> ('e + 'a) res) option \<Rightarrow> 'w cli_world \<Rightarrow> ('w, 'n, 'a) cli" where
  "cli_wait f r w = (case r of None \<Rightarrow> (w, Hangs) | Some x \<Rightarrow> cli_net f x w)"

definition cli_print :: "string \<Rightarrow> 'w cli_world \<Rightarrow> ('w, 'n, unit) cli" where
  "cli_print s w = (w\<lparr>cw_stdout := cw_stdout w @ [s]\<rparr>, Done ())"

definition cli_print_all :: "string list \<Rightarrow> 'w cli_world \<Rightarrow> ('w, 'n, unit) cli" where
  "cli_print_all ss w = (w\<lparr>cw_stdout := cw_stdout w @ ss\<rparr>, Done ())"


section \<open>The third-party crates\<close>

record ('cl, 'w, 'pk, 'bh, 'stx, 'hash, 'sig, 'bsk, 'bpk, 'esk, 'epk, 'ws) cli_lib =
  cl_near :: "('cl, 'w, 'pk, 'bh, 'stx, 'hash) near_lib"
  cl_crypto :: "('bsk, 'bpk, 'esk, 'epk) crypto_lib"
  cl_ecdsa_sign :: "bytes \<Rightarrow> 'bsk \<Rightarrow> string + 'sig"
  cl_sig_to_uncompressed :: "'sig \<Rightarrow> string + bytes"
  cl_pk_to_uncompressed :: "'bpk \<Rightarrow> string + bytes"
  cl_pk_to_compressed :: "'bpk \<Rightarrow> string + bytes"
  cl_private_bytes :: "'esk \<Rightarrow> bytes"
  cl_public_bytes :: "'epk \<Rightarrow> bytes"
  cl_base58 :: "bytes \<Rightarrow> string"
  cl_ws_build :: "string \<Rightarrow> 'w \<Rightarrow> 'w \<times> (string + 'ws)"
  cl_ws_request :: "'ws \<Rightarrow> string \<Rightarrow> json list \<Rightarrow> 'w \<Rightarrow> ('w \<times> (string + json)) option"
  cl_json_to_string :: "json \<Rightarrow> string"
  cl_json_pretty :: "json \<Rightarrow> string"
  cl_value :: "json serde"
  cl_opt_value :: "json option serde"
  cl_string :: "string serde"
  cl_opt_node :: "node_info option serde"
  cl_nodes :: "node_info list serde"
  cl_to_toml :: "partial_app_config \<Rightarrow> string + string"
  cl_from_toml :: "string \<Rightarrow> string + partial_app_config"

text \<open>What the build fixes: the profile, the overflow checks, and the directories of two manifests.\<close>

record build =
  bd_debug :: bool
  bd_checks :: bool
  bd_config_dir :: string
  bd_cli_dir :: string


section \<open>Calling and viewing the contract\<close>

definition cli_call ::
  "('cl, 'w, 'pk, 'bh, 'stx, 'hash, 'sig, 'bsk, 'bpk, 'esk, 'epk, 'ws) cli_lib \<Rightarrow> build \<Rightarrow> 't serde \<Rightarrow> chain_kind
    \<Rightarrow> string \<Rightarrow> string \<Rightarrow> u128 \<Rightarrow> string \<Rightarrow> ('bsk, 'bpk, 'esk, 'epk) node_config \<Rightarrow> chain_configs \<Rightarrow> 'w cli_world
    \<Rightarrow> ('w, 'n, unit) cli" where
  "cli_call lib bd sd chain contract_id method_name dep args node_cfg chain_cfg w =
     cli_bind (cli_pure CliChainAdapter (client_new (cl_near lib) chain chain_cfg) w) (\<lambda>w client.
     let server_url = (case chain of Another \<Rightarrow> ch_another_rpc_url chain_cfg | Near \<Rightarrow> ch_near_rpc_url chain_cfg);
         keypair = ed25519_key_pair_bytes (cl_private_bytes lib) (cl_public_bytes lib) (nc_keypair_ed25519 node_cfg) in
     cli_bind (cli_net CliChainAdapter (chain_construct_signed_tx (cl_near lib) (bd_checks bd) chain None keypair
         contract_id method_name (as_bytes args) (nc_gas node_cfg) dep server_url (cw_net w)) w) (\<lambda>w signed_txn.
     cli_bind (cli_wait CliChainAdapter (chain_send_tx (cl_near lib) chain client signed_txn (cw_net w)) w) (\<lambda>w result.
     cli_bind (cli_pure CliJson (sd_from_slice sd result) w) (\<lambda>w result_value.
     cli_print (cl_json_pretty lib
       (JObject [(''status'', JString ''success''), (''result'', sd_to_value sd result_value)])) w))))"

definition cli_view ::
  "('cl, 'w, 'pk, 'bh, 'stx, 'hash, 'sig, 'bsk, 'bpk, 'esk, 'epk, 'ws) cli_lib \<Rightarrow> 't serde \<Rightarrow> chain_kind \<Rightarrow> string
    \<Rightarrow> string \<Rightarrow> string option \<Rightarrow> chain_configs \<Rightarrow> 'w cli_world \<Rightarrow> ('w, 'n, unit) cli" where
  "cli_view lib sd chain contract_id method_name args chain_cfg w =
     cli_bind (cli_pure CliChainAdapter (client_new (cl_near lib) chain chain_cfg) w) (\<lambda>w client.
     cli_bind (cli_net CliChainAdapter (chain_view_call (cl_near lib) chain client contract_id method_name
         (as_bytes (case args of Some a \<Rightarrow> a | None \<Rightarrow> [])) (cw_net w)) w) (\<lambda>w result.
     cli_bind (cli_pure CliJson (sd_from_slice sd result) w) (\<lambda>w v.
     cli_print (sd_to_pretty sd v) w)))"

text \<open>The two merges that the commands start with.\<close>

definition cli_chains ::
  "app_config \<Rightarrow> partial_chain_configs \<Rightarrow> 'w cli_world \<Rightarrow> ('w, 'n, chain_configs) cli" where
  "cli_chains app chains_opt w = cli_pure LoadConfig (chains_to_config (ac_chains app) chains_opt) w"

definition cli_node ::
  "('cl, 'w, 'pk, 'bh, 'stx, 'hash, 'sig, 'bsk, 'bpk, 'esk, 'epk, 'ws) cli_lib \<Rightarrow> build \<Rightarrow> bytes \<Rightarrow> app_config
    \<Rightarrow> partial_node_config \<Rightarrow> 'w cli_world \<Rightarrow> ('w, 'n, ('bsk, 'bpk, 'esk, 'epk) node_config) cli" where
  "cli_node lib bd rng app node_opt w =
     cli_host LoadConfig (node_to_config (cl_crypto lib) (bd_debug bd) (bd_config_dir bd) rng (ac_node app) node_opt
       (cw_host w)) w"


section \<open>The commands on the contract\<close>

text \<open>\<open>.expect(..)\<close> on the node's configuration turns its errors into a panic.\<close>

definition cli_expect_node ::
  "('cl, 'w, 'pk, 'bh, 'stx, 'hash, 'sig, 'bsk, 'bpk, 'esk, 'epk, 'ws) cli_lib \<Rightarrow> build \<Rightarrow> bytes \<Rightarrow> app_config
    \<Rightarrow> 'w cli_world \<Rightarrow> ('w, 'n, ('bsk, 'bpk, 'esk, 'epk) node_config) cli" where
  "cli_expect_node lib bd rng app w =
     (case cli_node lib bd rng app partial_node_template w of
        (w, Fails e) \<Rightarrow> (w, Panics (Panic ''Could not get default node configuration''))
      | (w, out) \<Rightarrow> (w, out))"

definition get_node_handle ::
  "('cl, 'w, 'pk, 'bh, 'stx, 'hash, 'sig, 'bsk, 'bpk, 'esk, 'epk, 'ws) cli_lib \<Rightarrow> build \<Rightarrow> bytes \<Rightarrow> string option
    \<Rightarrow> string option \<Rightarrow> app_config \<Rightarrow> partial_chain_configs \<Rightarrow> 'w cli_world \<Rightarrow> ('w, 'n, unit) cli" where
  "get_node_handle lib bd rng contract_id_opt node_id_opt app chains_opt w =
     cli_bind (cli_chains app chains_opt w) (\<lambda>w chain_cfg.
     cli_bind (cli_expect_node lib bd rng app w) (\<lambda>w node_cfg.
     let contract_id = (case contract_id_opt of Some c \<Rightarrow> c | None \<Rightarrow> nc_contract_account_id node_cfg);
         node_id = (case node_id_opt of Some n \<Rightarrow> n
           | None \<Rightarrow> hex_encode (cl_crypto lib) (cl_public_bytes lib (public_key (nc_keypair_ed25519 node_cfg))));
         args = cl_json_to_string lib (get_node_args_json (get_node_args_of node_id)) in
     cli_view lib (cl_opt_node lib) Near contract_id ''get_node'' (Some args) chain_cfg w))"

definition get_nodes_handle ::
  "('cl, 'w, 'pk, 'bh, 'stx, 'hash, 'sig, 'bsk, 'bpk, 'esk, 'epk, 'ws) cli_lib \<Rightarrow> build \<Rightarrow> bytes \<Rightarrow> u64 \<Rightarrow> u64
    \<Rightarrow> string option \<Rightarrow> app_config \<Rightarrow> partial_chain_configs \<Rightarrow> 'w cli_world \<Rightarrow> ('w, 'n, unit) cli" where
  "get_nodes_handle lib bd rng limit offset contract_id_opt app chains_opt w =
     cli_bind (cli_chains app chains_opt w) (\<lambda>w chain_cfg.
     cli_bind (cli_expect_node lib bd rng app w) (\<lambda>w node_cfg.
     let contract_id = (case contract_id_opt of Some c \<Rightarrow> c | None \<Rightarrow> nc_contract_account_id node_cfg);
         args = cl_json_to_string lib (get_nodes_args_json (get_nodes_args_of (limit, offset))) in
     cli_view lib (cl_nodes lib) Near contract_id ''get_nodes'' (Some args) chain_cfg w))"

text \<open>The signature and the arguments; every failure here is an error of the curve.\<close>

definition cli_register_args ::
  "('cl, 'w, 'pk, 'bh, 'stx, 'hash, 'sig, 'bsk, 'bpk, 'esk, 'epk, 'ws) cli_lib \<Rightarrow> ('bsk, 'bpk) key_pair \<Rightarrow> string \<Rightarrow> string + register_node_args" where
  "cli_register_args lib keys socket_address =
     and_then (cl_pk_to_uncompressed lib (public_key keys)) (\<lambda>message.
     and_then (cl_ecdsa_sign lib message (private_key keys)) (\<lambda>sig.
     and_then (cl_pk_to_uncompressed lib (public_key keys)) (\<lambda>pk_bytes.
     and_then (cl_sig_to_uncompressed lib sig) (\<lambda>sig_bytes.
     Inr \<lparr>rna_multi_addr = socket_address, rna_bn254_public_key = pk_bytes, rna_signature = sig_bytes\<rparr>))))"

definition cli_register_handle ::
  "('cl, 'w, 'pk, 'bh, 'stx, 'hash, 'sig, 'bsk, 'bpk, 'esk, 'epk, 'ws) cli_lib \<Rightarrow> build \<Rightarrow> bytes \<Rightarrow> u128 \<Rightarrow> string
    \<Rightarrow> partial_node_config \<Rightarrow> app_config \<Rightarrow> partial_chain_configs \<Rightarrow> 'w cli_world \<Rightarrow> ('w, 'n, unit) cli" where
  "cli_register_handle lib bd rng register_deposit socket_address node_opt app chains_opt w =
     cli_bind (cli_chains app chains_opt w) (\<lambda>w chain_cfg.
     cli_bind (cli_node lib bd rng app node_opt w) (\<lambda>w node_cfg.
     cli_bind (cli_pure CliBn254 (cli_register_args lib (nc_keypair_bn254 node_cfg) socket_address) w) (\<lambda>w args.
     cli_call lib bd (cl_opt_value lib) Near (nc_contract_account_id node_cfg) ''register_node'' register_deposit
       (cl_json_to_string lib (register_node_args_json args)) node_cfg chain_cfg w)))"

definition unregister_args_json :: "u64 \<Rightarrow> json" where
  "unregister_args_json node_id = JObject [(''node_id'', JString (decimal (unat node_id)))]"

definition cli_unregister_handle ::
  "('cl, 'w, 'pk, 'bh, 'stx, 'hash, 'sig, 'bsk, 'bpk, 'esk, 'epk, 'ws) cli_lib \<Rightarrow> build \<Rightarrow> bytes \<Rightarrow> u64
    \<Rightarrow> partial_node_config \<Rightarrow> app_config \<Rightarrow> partial_chain_configs \<Rightarrow> 'w cli_world \<Rightarrow> ('w, 'n, unit) cli" where
  "cli_unregister_handle lib bd rng node_id node_opt app chains_opt w =
     cli_bind (cli_chains app chains_opt w) (\<lambda>w chain_cfg.
     cli_bind (cli_node lib bd rng app node_opt w) (\<lambda>w node_cfg.
     let args = cl_json_to_string lib (unregister_args_json node_id) in
     cli_call lib bd (cl_string lib) Near (nc_contract_account_id node_cfg) ''unregister_node'' 0 args
       node_cfg chain_cfg w))"

definition cli_update_handle ::
  "('cl, 'w, 'pk, 'bh, 'stx, 'hash, 'sig, 'bsk, 'bpk, 'esk, 'epk, 'ws) cli_lib \<Rightarrow> build \<Rightarrow> bytes \<Rightarrow> update_node_command
    \<Rightarrow> partial_node_config \<Rightarrow> app_config \<Rightarrow> partial_chain_configs \<Rightarrow> 'w cli_world \<Rightarrow> ('w, 'n, unit) cli" where
  "cli_update_handle lib bd rng command node_opt app chains_opt w =
     cli_bind (cli_chains app chains_opt w) (\<lambda>w chain_cfg.
     cli_bind (cli_node lib bd rng app node_opt w) (\<lambda>w node_cfg.
     let args = cl_json_to_string lib (update_node_json command) in
     cli_call lib bd (cl_opt_value lib) Near (nc_contract_account_id node_cfg) ''update_node'' 0 args
       node_cfg chain_cfg w))"

datatype sub_chain_command =
    SubCall chain_kind string string string u128 partial_node_config
  | SubView chain_kind string string "string option"

definition sub_call_handle ::
  "('cl, 'w, 'pk, 'bh, 'stx, 'hash, 'sig, 'bsk, 'bpk, 'esk, 'epk, 'ws) cli_lib \<Rightarrow> build \<Rightarrow> bytes \<Rightarrow> chain_kind
    \<Rightarrow> string \<Rightarrow> string \<Rightarrow> string \<Rightarrow> u128 \<Rightarrow> partial_node_config \<Rightarrow> app_config \<Rightarrow> partial_chain_configs \<Rightarrow> 'w cli_world
    \<Rightarrow> ('w, 'n, unit) cli" where
  "sub_call_handle lib bd rng chain contract_id method_name args call_deposit node_opt app chains_opt w =
     cli_bind (cli_node lib bd rng app node_opt w) (\<lambda>w node_cfg.
     cli_bind (cli_chains app chains_opt w) (\<lambda>w chain_cfg.
     cli_call lib bd (cl_value lib) chain contract_id method_name call_deposit args node_cfg chain_cfg w))"

definition sub_view_handle ::
  "('cl, 'w, 'pk, 'bh, 'stx, 'hash, 'sig, 'bsk, 'bpk, 'esk, 'epk, 'ws) cli_lib \<Rightarrow> chain_kind \<Rightarrow> string \<Rightarrow> string
    \<Rightarrow> string option \<Rightarrow> app_config \<Rightarrow> partial_chain_configs \<Rightarrow> 'w cli_world \<Rightarrow> ('w, 'n, unit) cli" where
  "sub_view_handle lib chain contract_id method_name args app chains_opt w =
     cli_bind (cli_chains app chains_opt w) (\<lambda>w chain_cfg.
     cli_view lib (cl_value lib) chain contract_id method_name args chain_cfg w)"

definition sub_chain_handle ::
  "('cl, 'w, 'pk, 'bh, 'stx, 'hash, 'sig, 'bsk, 'bpk, 'esk, 'epk, 'ws) cli_lib \<Rightarrow> build \<Rightarrow> bytes
    \<Rightarrow> sub_chain_command \<Rightarrow> app_config \<Rightarrow> partial_chain_configs \<Rightarrow> 'w cli_world \<Rightarrow> ('w, 'n, unit) cli" where
  "sub_chain_handle lib bd rng cmd app chains_opt w =
     (case cmd of
        SubCall chain contract_id method_name args call_deposit node_opt \<Rightarrow>
          sub_call_handle lib bd rng chain contract_id method_name args call_deposit node_opt app chains_opt w
      | SubView chain contract_id method_name args \<Rightarrow>
          sub_view_handle lib chain contract_id method_name args app chains_opt w)"


section \<open>The commands on a running node\<close>

definition ws_client :: "('cl, 'w, 'pk, 'bh, 'stx, 'hash, 'sig, 'bsk, 'bpk, 'esk, 'epk, 'ws) cli_lib \<Rightarrow> app_config \<Rightarrow> 'w cli_world \<Rightarrow> ('w, 'n, 'ws) cli" where
  "ws_client lib app w =
     (case cl_ws_build lib (''ws://'' @ ac_seda_server_url app) (cw_net w) of
        (net, r) \<Rightarrow> cli_net JsonRpcClient (net, Inr r) w)"

text \<open>\<open>client.request\<close> at a result type; an answer that cannot be read at the type is an error too.\<close>

definition ws_request ::
  "('cl, 'w, 'pk, 'bh, 'stx, 'hash, 'sig, 'bsk, 'bpk, 'esk, 'epk, 'ws) cli_lib \<Rightarrow> (json \<Rightarrow> string + 'r) \<Rightarrow> 'ws \<Rightarrow> string \<Rightarrow> json list \<Rightarrow> 'w cli_world \<Rightarrow> ('w, 'n, 'r) cli" where
  "ws_request lib decode client method params w =
     cli_bind (cli_wait JsonRpcClient (map_option (\<lambda>(net, r). (net, Inr r)) (cl_ws_request lib client method params (cw_net w))) w)
       (\<lambda>w v. cli_pure JsonRpcClient (decode v) w)"

definition cli_bridge_handle ::
  "('cl, 'w, 'pk, 'bh, 'stx, 'hash, 'sig, 'bsk, 'bpk, 'esk, 'epk, 'ws) cli_lib \<Rightarrow> chain_kind \<Rightarrow> string \<Rightarrow> string
    \<Rightarrow> u128 \<Rightarrow> string \<Rightarrow> app_config \<Rightarrow> 'w cli_world \<Rightarrow> ('w, 'n, unit) cli" where
  "cli_bridge_handle lib chain sub_chain_contract_id sub_chain_method_name bridge_deposit args app w =
     cli_bind (ws_client lib app w) (\<lambda>w client.
     let args = [''bridge'', chain_display chain, sub_chain_contract_id, sub_chain_method_name,
                 decimal (unat bridge_deposit), args] in
     cli_bind (ws_request lib strings_of_json client ''cli'' [json_of_strings args] w) (\<lambda>w response.
     cli_print (cl_json_pretty lib (json_of_strings response)) w))"

definition add_peer_handle ::
  "('cl, 'w, 'pk, 'bh, 'stx, 'hash, 'sig, 'bsk, 'bpk, 'esk, 'epk, 'ws) cli_lib \<Rightarrow> string \<Rightarrow> app_config \<Rightarrow> 'w cli_world \<Rightarrow> ('w, 'n, unit) cli" where
  "add_peer_handle lib addr app w =
     cli_bind (ws_client lib app w) (\<lambda>w client.
     cli_bind (ws_request lib unit_of_json client ''add_peer'' [JString addr] w) (\<lambda>w _.
     cli_print (''Peer '' @ addr @ '' has been added'') w))"

definition list_peers_handle ::
  "('cl, 'w, 'pk, 'bh, 'stx, 'hash, 'sig, 'bsk, 'bpk, 'esk, 'epk, 'ws) cli_lib \<Rightarrow> app_config \<Rightarrow> 'w cli_world \<Rightarrow> ('w, 'n, unit) cli" where
  "list_peers_handle lib app w =
     cli_bind (ws_client lib app w) (\<lambda>w client.
     cli_bind (ws_request lib Inr client ''list_peers'' [] w) (\<lambda>w response.
     cli_print (cl_json_pretty lib response) w))"

definition remove_peer_handle ::
  "('cl, 'w, 'pk, 'bh, 'stx, 'hash, 'sig, 'bsk, 'bpk, 'esk, 'epk, 'ws) cli_lib \<Rightarrow> string \<Rightarrow> app_config \<Rightarrow> 'w cli_world \<Rightarrow> ('w, 'n, unit) cli" where
  "remove_peer_handle lib peer_id app w =
     cli_bind (ws_client lib app w) (\<lambda>w client.
     cli_bind (ws_request lib unit_of_json client ''remove_peer'' [JString peer_id] w) (\<lambda>w _.
     cli_print (''Peer '' @ peer_id @ '' has been removed'') w))"

definition discover_peers_handle ::
  "('cl, 'w, 'pk, 'bh, 'stx, 'hash, 'sig, 'bsk, 'bpk, 'esk, 'epk, 'ws) cli_lib \<Rightarrow> app_config \<Rightarrow> 'w cli_world \<Rightarrow> ('w, 'n, unit) cli" where
  "discover_peers_handle lib app w =
     cli_bind (ws_client lib app w) (\<lambda>w client.
     ws_request lib unit_of_json client ''discover_peers'' [] w)"

datatype peers_command = PeersAdd string | PeersList | PeersRemove string | PeersDiscover

definition peers_handle ::
  "('cl, 'w, 'pk, 'bh, 'stx, 'hash, 'sig, 'bsk, 'bpk, 'esk, 'epk, 'ws) cli_lib \<Rightarrow> peers_command \<Rightarrow> app_config \<Rightarrow> 'w cli_world \<Rightarrow> ('w, 'n, unit) cli" where
  "peers_handle lib cmd app w =
     (case cmd of
        PeersAdd addr \<Rightarrow> add_peer_handle lib addr app w
      | PeersList \<Rightarrow> list_peers_handle lib app w
      | PeersRemove peer_id \<Rightarrow> remove_peer_handle lib peer_id app w
      | PeersDiscover \<Rightarrow> discover_peers_handle lib app w)"

datatype node_command =
    NodeBridge chain_kind string string u128 string
  | NodeGet "string option" "string option"
  | NodeGetNodes u64 u64 "string option"
  | NodeRegister u128 string partial_node_config
  | NodeUpdate partial_node_config update_node_command
  | NodeUnregister u64 partial_node_config
  | NodePeers peers_command

definition node_handle ::
  "('cl, 'w, 'pk, 'bh, 'stx, 'hash, 'sig, 'bsk, 'bpk, 'esk, 'epk, 'ws) cli_lib \<Rightarrow> build \<Rightarrow> bytes
    \<Rightarrow> node_command \<Rightarrow> app_config \<Rightarrow> partial_chain_configs \<Rightarrow> 'w cli_world \<Rightarrow> ('w, 'n, unit) cli" where
  "node_handle lib bd rng cmd app chains_opt w =
     (case cmd of
        NodeBridge chain contract_id method_name dep args \<Rightarrow> cli_bridge_handle lib chain contract_id method_name dep args app w
      | NodeGet contract_id node_id \<Rightarrow> get_node_handle lib bd rng contract_id node_id app chains_opt w
      | NodeGetNodes limit offset contract_id \<Rightarrow> get_nodes_handle lib bd rng limit offset contract_id app chains_opt w
      | NodeRegister dep addr node_opt \<Rightarrow> cli_register_handle lib bd rng dep addr node_opt app chains_opt w
      | NodeUpdate node_opt command \<Rightarrow> cli_update_handle lib bd rng command node_opt app chains_opt w
      | NodeUnregister node_id node_opt \<Rightarrow> cli_unregister_handle lib bd rng node_id node_opt app chains_opt w
      | NodePeers sub \<Rightarrow> peers_handle lib sub app w)"


section \<open>Initialising and running a node\<close>

definition cli_load ::
  "('cl, 'w, 'pk, 'bh, 'stx, 'hash, 'sig, 'bsk, 'bpk, 'esk, 'epk, 'ws) cli_lib \<Rightarrow> string option \<Rightarrow> 'w cli_world \<Rightarrow> ('w, 'n, app_config \<times> partial_logger_config) cli" where
  "cli_load lib path w =
     (case create_and_load_or_load_config (cl_to_toml lib) (cl_from_toml lib) path (cw_host w) of
        (h, Inl p) \<Rightarrow> (w\<lparr>cw_host := h\<rparr>, Panics p)
      | (h, Inr (Inl code)) \<Rightarrow> (w\<lparr>cw_host := h\<rparr>, Exits code)
      | (h, Inr (Inr r)) \<Rightarrow> (w\<lparr>cw_host := h\<rparr>, Done r))"

text \<open>The key that \<open>init\<close> works with: from the environment, from its file, or a fresh one.\<close>

definition init_master_key ::
  "('cl, 'w, 'pk, 'bh, 'stx, 'hash, 'sig, 'bsk, 'bpk, 'esk, 'epk, 'ws) cli_lib \<Rightarrow> bytes \<Rightarrow> string \<Rightarrow> 'w cli_world \<Rightarrow> ('w, 'n, master_key) cli" where
  "init_master_key lib rng key_path w =
     (case env_vars (cw_host w) ''SEDA_SECRET_KEY'' of
        Some env_secret_key \<Rightarrow> cli_pure CliCrypto (master_key_of_hex (cl_crypto lib) env_secret_key) w
      | None \<Rightarrow>
          if path_exists (cw_host w) key_path
          then cli_pure CliCrypto (master_key_read_from_path (cl_crypto lib) (cw_host w) key_path) w
          else
            let key = master_key_random rng in
            cli_bind (case master_key_write_to_path (cl_crypto lib) key key_path (cw_host w) of
                (h, r) \<Rightarrow> cli_host CliCrypto (h, Inr r) w) (\<lambda>w _.
            cli_bind (cli_print (''Written SEDA secret key to '' @ key_path) w) (\<lambda>w _.
            (w, Done key))))"

definition init_report ::
  "('cl, 'w, 'pk, 'bh, 'stx, 'hash, 'sig, 'bsk, 'bpk, 'esk, 'epk, 'ws) cli_lib \<Rightarrow> string \<Rightarrow> bytes \<Rightarrow> bytes \<Rightarrow> string list" where
  "init_report lib account ed25519_public bn254_public =
     [''Key information: '' @ [CHR 0x0A],
      ''NEAR Account ID: '' @ account,
      ''ED25519 Public Key (base58 encoded): ed25519:'' @ cl_base58 lib ed25519_public,
      ''BN254 Public Key (base58 encoded): bn254:'' @ cl_base58 lib bn254_public]"

definition init_handle ::
  "('cl, 'w, 'pk, 'bh, 'stx, 'hash, 'sig, 'bsk, 'bpk, 'esk, 'epk, 'ws) cli_lib \<Rightarrow> bytes \<Rightarrow> string \<Rightarrow> string \<Rightarrow> 'w cli_world \<Rightarrow> ('w, 'n, unit) cli" where
  "init_handle lib rng key_path config_path w =
     cli_bind (init_master_key lib rng key_path w) (\<lambda>w mk.
     cli_bind (w, outcome_of CliCrypto (derive_bn254 (cl_crypto lib) mk 0)) (\<lambda>w bn254_key.
     cli_bind (w, outcome_of CliCrypto (derive_ed25519 (cl_crypto lib) mk 0)) (\<lambda>w ed25519_key.
     let ed25519_public = cl_public_bytes lib (public_key ed25519_key) in
     cli_bind (cli_pure CliBn254 (cl_pk_to_compressed lib (public_key bn254_key)) w) (\<lambda>w bn254_public.
     let account = hex_encode (cl_crypto lib) ed25519_public in
     cli_bind (cli_load lib (Some config_path) w) (\<lambda>w _.
     cli_print_all (init_report lib account ed25519_public bn254_public) w)))))"

text \<open>What a node that is run needs besides: the swarm, the RPC server, the clock and the peer key.\<close>

record ('a, 'p, 'key, 'noise, 'gs, 'md) node_env =
  ne_p2p :: "('a, 'p) p2p_lib"
  ne_swarm :: "('a, 'p, 'key, 'noise, 'gs, 'md) swarm_lib"
  ne_rpc :: rpc_lib
  ne_now :: nat
  ne_key :: 'key

definition run_handle ::
  "('cl, 'w, 'pk, 'bh, 'stx, 'hash, 'sig, 'bsk, 'bpk, 'esk, 'epk, 'ws) cli_lib \<Rightarrow> ('a, 'p, 'key, 'noise, 'gs, 'md) node_env \<Rightarrow> build \<Rightarrow> bytes \<Rightarrow> partial_node_config \<Rightarrow> partial_chain_configs
    \<Rightarrow> partial_p2p_config \<Rightarrow> app_config \<Rightarrow> 'w cli_world \<Rightarrow> ('w, ('a, 'p, ('a, 'p, 'noise, 'gs, 'md) swarm, 'bsk, 'bpk, 'esk, 'epk) started_node, unit) cli" where
  "run_handle lib ne bd rng node_opt chains_opt p2p_opt app w =
     cli_bind (cli_node lib bd rng app node_opt w) (\<lambda>w node_cfg.
     cli_bind (cli_chains app chains_opt w) (\<lambda>w chain_cfg.
     cli_bind (w, outcome_of LoadConfig (p2p_to_config (ac_p2p app) p2p_opt)) (\<lambda>w p2p_cfg.
     (w, case node_run (ne_p2p ne) (ne_swarm ne) (ne_rpc ne) (ne_now ne) (ne_key ne) (ac_seda_server_url app)
               node_cfg p2p_cfg chain_cfg of
           Inl p \<Rightarrow> Panics p
         | Inr n \<Rightarrow> Serves n))))"


section \<open>The logger\<close>

text \<open>What \<open>init\<close> asks of the tracing crates.\<close>

record logger_setup =
  lg_directives :: "string list"
  lg_thread_ids :: bool
  lg_location :: bool
  lg_directory :: string
  lg_file_prefix :: string
  lg_file_ansi :: bool

definition logger_directives :: "bool \<Rightarrow> string list" where
  "logger_directives debug =
     (let level = (if debug then ''trace'' else ''info'') in
      map (\<lambda>crate. crate @ ''='' @ level)
        [''seda_chains'', ''seda_p2p'', ''seda_cli'', ''seda_node'', ''seda_runtime''])"

definition logger_init :: "bool \<Rightarrow> string \<Rightarrow> logger_setup" where
  "logger_init debug log_file_path =
     \<lparr>lg_directives = logger_directives debug, lg_thread_ids = True, lg_location = debug,
      lg_directory = log_file_path, lg_file_prefix = ''seda_log'', lg_file_ansi = False\<rparr>"


section \<open>The program\<close>

datatype seda_command =
    CmdDocument
  | CmdGenerate string
  | CmdRun partial_node_config partial_chain_configs partial_p2p_config
  | CmdNode partial_chain_configs node_command
  | CmdSubChain partial_chain_configs sub_chain_command
  | CmdInit string string

text \<open>\<open>OpenOptions::new().write(true).open(p)\<close>: the file has to exist and is not truncated.\<close>

definition open_write :: "string \<Rightarrow> host \<Rightarrow> string + unit" where
  "open_write p h =
     (case files h p of
        None \<Rightarrow> Inl ''No such file or directory''
      | Some Directory \<Rightarrow> Inl ''Is a directory''
      | Some (File _) \<Rightarrow> if writable h p then Inr () else Inl ''Permission denied'')"

definition path_pop :: "string \<Rightarrow> string" where
  "path_pop p = (case path_parent p of Some q \<Rightarrow> q | None \<Rightarrow> p)"

definition document_handle :: "build \<Rightarrow> string \<Rightarrow> 'w cli_world \<Rightarrow> ('w, 'n, unit) cli" where
  "document_handle bd help_content w =
     (let path = path_push (path_pop (bd_cli_dir bd)) ''CLI.md'' in
      cli_bind (cli_pure CLIDocument (open_write path (cw_host w)) w) (\<lambda>w _.
      (w\<lparr>cw_host := write_all path (as_bytes help_content) (cw_host w)\<rparr>, Done ())))"

definition seda_handle ::
  "('cl, 'w, 'pk, 'bh, 'stx, 'hash, 'sig, 'bsk, 'bpk, 'esk, 'epk, 'ws) cli_lib \<Rightarrow> ('a, 'p, 'key, 'noise, 'gs, 'md) node_env \<Rightarrow> build \<Rightarrow> bytes \<Rightarrow> string \<Rightarrow> (string \<Rightarrow> string) \<Rightarrow> seda_command
    \<Rightarrow> app_config \<Rightarrow> 'w cli_world \<Rightarrow> ('w, ('a, 'p, ('a, 'p, 'noise, 'gs, 'md) swarm, 'bsk, 'bpk, 'esk, 'epk) started_node, unit) cli" where
  "seda_handle lib ne bd rng help_markdown completions cmd app w =
     (case cmd of
        CmdDocument \<Rightarrow> document_handle bd help_markdown w
      | CmdInit key_path config_path \<Rightarrow> init_handle lib rng key_path config_path w
      | CmdGenerate shell \<Rightarrow> cli_print (completions shell) w
      | CmdNode chains_opt sub \<Rightarrow> node_handle lib bd rng sub app chains_opt w
      | CmdRun node_opt chains_opt p2p_opt \<Rightarrow> run_handle lib ne bd rng node_opt chains_opt p2p_opt app w
      | CmdSubChain chains_opt sub \<Rightarrow> sub_chain_handle lib bd rng sub app chains_opt w)"

text \<open>
  \<open>dotenv\<close> extends the environment from a file and is an argument, as is the installation of the
  logger, which may create its file and may panic.
\<close>

definition seda_main ::
  "('cl, 'w, 'pk, 'bh, 'stx, 'hash, 'sig, 'bsk, 'bpk, 'esk, 'epk, 'ws) cli_lib \<Rightarrow> ('a, 'p, 'key, 'noise, 'gs, 'md) node_env \<Rightarrow> build \<Rightarrow> bytes \<Rightarrow> string \<Rightarrow> (string \<Rightarrow> string)
    \<Rightarrow> (host \<Rightarrow> host) \<Rightarrow> (logger_setup \<Rightarrow> host \<Rightarrow> host \<times> unit res) \<Rightarrow> partial_logger_config \<Rightarrow> seda_command
    \<Rightarrow> 'w cli_world \<Rightarrow> ('w, ('a, 'p, ('a, 'p, 'noise, 'gs, 'md) swarm, 'bsk, 'bpk, 'esk, 'epk) started_node, unit) cli" where
  "seda_main lib ne bd rng help_markdown completions dotenv install log_options cmd w =
     cli_bind (cli_load lib None (w\<lparr>cw_host := dotenv (cw_host w)\<rparr>)) (\<lambda>w (app, partial_log).
     cli_bind (cli_pure LoadConfig (logger_to_config (cw_host w) partial_log log_options) w) (\<lambda>w log_file_path.
     cli_bind (case install (logger_init (bd_debug bd) log_file_path) (cw_host w) of
         (h, r) \<Rightarrow> cli_host LoadConfig (h, and_then r (Inr \<circ> Inr)) w) (\<lambda>w _.
     seda_handle lib ne bd rng help_markdown completions cmd app w)))"

end
