(* ===== verification/Node_Cli_Properties.thy ===== *)
theory Node_Cli_Properties
  imports Node_Cli Node_Registry
begin

text \<open>
  What the commands of the node's command line do: the identity that \<open>init\<close> announces is the one the
  node runs with, a call of the contract settles; and the defects of the registration, of the
  arguments the contract is sent, of the configuration a view needs and of the file of the
  documentation. The peer commands are in \<open>Node_Cli_Peers\<close>.
\<close>

section \<open>Running commands\<close>

lemma cli_bind_Done:
  assumes "cli_bind m k = (w', Done b)"
  obtains w a where "m = (w, Done a)" "k w a = (w', Done b)"
  using assms by (cases "(m, k)" rule: cli_bind.cases) auto

lemma outcome_of_simps [simp]:
  "outcome_of f (Inl p) = Panics p" "outcome_of f (Inr (Inl e)) = Fails (f e)" "outcome_of f (Inr (Inr a)) = Done a"
  by (simp_all add: outcome_of_def)

lemma outcome_of_Done [simp]: "outcome_of f r = Done a \<longleftrightarrow> r = Inr (Inr a)"
  by (auto simp: outcome_of_def split: sum.splits)

lemma cli_steps_Done [simp]:
  "cli_pure f r w = (w', Done a) \<longleftrightarrow> r = Inr a \<and> w' = w"
  "cli_host f (h, s) w = (w', Done a) \<longleftrightarrow> s = Inr (Inr a) \<and> w' = w\<lparr>cw_host := h\<rparr>"
  "cli_net f (net, s) w = (w', Done a) \<longleftrightarrow> s = Inr (Inr a) \<and> w' = w\<lparr>cw_net := net\<rparr>"
  by (auto simp: cli_pure_def cli_host_def cli_net_def)

lemma cli_print_Done [simp]: "cli_print s w = (w\<lparr>cw_stdout := cw_stdout w @ [s]\<rparr>, Done ())"
  by (simp add: cli_print_def)

lemma cli_pure_simps [simp]:
  "cli_pure f (Inl e) w = (w, Fails (f e))" "cli_pure f (Inr a) w = (w, Done a)"
  by (simp_all add: cli_pure_def)


section \<open>The registration is refused\<close>

text \<open>
  A signature verifies only for the message that was signed. (Signatures of this scheme are unique:
  the signature of a message is the private key times the hash of the message, so one that verified
  for another message would exhibit a collision of the hash.)
\<close>

definition signature_binds ::
  "('cl, 'w, 'pk, 'bh, 'stx, 'hash, 'sig, 'bsk, 'bpk, 'esk, 'epk, 'ws) cli_lib \<Rightarrow> near_env \<Rightarrow> bool" where
  "signature_binds lib env \<longleftrightarrow>
     (\<forall>message message' sk sig sig_bytes pk_bytes.
        cl_ecdsa_sign lib message sk = Inr sig \<longrightarrow> cl_sig_to_uncompressed lib sig = Inr sig_bytes \<longrightarrow>
        cl_pk_to_uncompressed lib (bn_public (cl_crypto lib) sk) = Inr pk_bytes \<longrightarrow>
        bn254_verify env message' sig_bytes pk_bytes = Inr True \<longrightarrow> message' = message)"

text \<open>An uncompressed public key has 128 bytes; an account of NEAR has at most 64 characters.\<close>

definition uncompressed_keys ::
  "('cl, 'w, 'pk, 'bh, 'stx, 'hash, 'sig, 'bsk, 'bpk, 'esk, 'epk, 'ws) cli_lib \<Rightarrow> bool" where
  "uncompressed_keys lib \<longleftrightarrow> (\<forall>pk bs. cl_pk_to_uncompressed lib pk = Inr bs \<longrightarrow> length bs = 128)"

lemma register_node_verified:
  assumes "register_node env addr pk sig s = Inr s'"
  shows "bn254_verify env (as_bytes (signer_account_id env)) sig pk = Inr True"
  using assms by (auto simp: register_node_def Let_def as_bytes_def comp_def res_simps)

lemma node_config_keys:
  assumes "node_to_config lib dbg dir rng self opt h = (h', Inr (Inr cfg))"
  shows "public_key (nc_keypair_bn254 cfg) = bn_public lib (private_key (nc_keypair_bn254 cfg))"
    "public_key (nc_keypair_ed25519 cfg) = ed_public lib (private_key (nc_keypair_ed25519 cfg))"
proof -
  from assms obtain mk where "derive_ed25519 lib mk 0 = Inr (Inr (nc_keypair_ed25519 cfg))"
    "derive_bn254 lib mk 0 = Inr (Inr (nc_keypair_bn254 cfg))"
    by (elim node_to_config_elim) (blast dest: node_config_of_key_keys)
  then show "public_key (nc_keypair_bn254 cfg) = bn_public lib (private_key (nc_keypair_bn254 cfg))"
    "public_key (nc_keypair_ed25519 cfg) = ed_public lib (private_key (nc_keypair_ed25519 cfg))"
    using derive_public_matches by blast+
qed

text \<open>
  C35: The contract refuses every registration that the command line prepares. The command signs the
  node's public key, while the contract verifies the signature for the account of the caller; as
  the two never have the same length, no state of the contract and no caller makes the call succeed.
\<close>

theorem cli_register_refused:
  assumes "signature_binds lib env" "uncompressed_keys lib" "length (signer_account_id env) \<le> 64"
    and "node_to_config (cl_crypto lib) dbg dir rng self opt h = (h', Inr (Inr cfg))"
    and "cli_register_args lib (nc_keypair_bn254 cfg) addr = Inr a"
  shows "register_node env (rna_multi_addr a) (rna_bn254_public_key a) (rna_signature a) s \<noteq> Inr s'"
proof
  assume ok: "register_node env (rna_multi_addr a) (rna_bn254_public_key a) (rna_signature a) s = Inr s'"
  let ?keys = "nc_keypair_bn254 cfg"
  from assms(5) obtain message sig where sig:
    "cl_pk_to_uncompressed lib (public_key ?keys) = Inr message" "cl_ecdsa_sign lib message (private_key ?keys) = Inr sig"
    "cl_sig_to_uncompressed lib sig = Inr (rna_signature a)" "rna_bn254_public_key a = message"
    by (auto simp: cli_register_args_def res_simps)
  have "as_bytes (signer_account_id env) = message"
    using register_node_verified [OF ok] sig assms(1) node_config_keys(1) [OF assms(4)]
    unfolding signature_binds_def by metis
  moreover have "length message = 128" using sig(1) assms(2) by (simp add: uncompressed_keys_def)
  ultimately show False using assms(3) by (auto simp: as_bytes_def)
qed

text \<open>
  The instance for the witnesses: a signature is the signed message, JSON is read as nothing unless
  it is empty, and the environment verifies a signature by comparing it with the message.
\<close>

definition demo_serde :: "'t \<Rightarrow> 't serde" where
  "demo_serde v = \<lparr>sd_from_slice = (\<lambda>bs. if bs = [] then Inl ''EOF while parsing a value'' else Inr v),
     sd_to_value = (\<lambda>_. JNull), sd_to_pretty = (\<lambda>_. ''null'')\<rparr>"

definition demo_cli :: "(string, nat, bytes, unit, string, unit, bytes, bytes, bytes, bytes, bytes, string) cli_lib" where
  "demo_cli =
     \<lparr>cl_near = demo_near, cl_crypto = demo_lib, cl_ecdsa_sign = (\<lambda>m _. Inr m), cl_sig_to_uncompressed = Inr,
      cl_pk_to_uncompressed = (\<lambda>k. Inr (take 128 (k @ replicate 128 0))), cl_pk_to_compressed = Inr,
      cl_private_bytes = (\<lambda>k. k), cl_public_bytes = (\<lambda>k. k), cl_base58 = demo_hex,
      cl_ws_build = (\<lambda>url n. (n, Inr url)), cl_ws_request = (\<lambda>_ _ _ n. Some (n, Inr JNull)),
      cl_json_to_string = (\<lambda>_. ''{}''), cl_json_pretty = (\<lambda>_. ''{}''), cl_value = demo_serde JNull,
      cl_opt_value = demo_serde None, cl_string = demo_serde [], cl_opt_node = demo_serde None, cl_nodes = demo_serde [],
      cl_to_toml = demo_to_toml, cl_from_toml = demo_from_toml\<rparr>"

definition demo_verifier :: near_env where
  "demo_verifier =
     \<lparr>block_height = 0, signer_account_id = ''alice.near'', signer_account_pk = [1], attached_deposit = 1000,
      storage_byte_cost = 1, storage_usage = (\<lambda>_. 500), overflow_checks = True, remove_order = swap_remove,
      gas_rerolls = 8, sha256 = (\<lambda>_. array32 []),
      format_pairing_check_uncompressed_values = (\<lambda>m s p. Some (if m = s then [1] else [])),
      alt_bn128_pairing_check = (\<lambda>v. of_nat (length v))\<rparr>"

lemma demo_signature_binds: "signature_binds demo_cli demo_verifier"
  by (auto simp: signature_binds_def demo_cli_def demo_verifier_def bn254_verify_def split: if_splits)

lemma demo_uncompressed_keys: "uncompressed_keys demo_cli"
  by (auto simp: uncompressed_keys_def demo_cli_def)

theorem cli_register_refused_witness:
  "\<exists>a. cli_register_args demo_cli (nc_keypair_bn254 (demo_config (replicate 32 7))) ''/ip4/127.0.0.1'' = Inr a \<and>
    (\<forall>s s'. register_node demo_verifier (rna_multi_addr a) (rna_bn254_public_key a) (rna_signature a) s \<noteq> Inr s')"
proof -
  obtain a where a: "cli_register_args demo_cli (nc_keypair_bn254 (demo_config (replicate 32 7))) ''/ip4/127.0.0.1'' = Inr a"
    by (simp add: cli_register_args_def demo_cli_def)
  have crypto: "cl_crypto demo_cli = demo_lib" by (simp add: demo_cli_def)
  have "register_node demo_verifier (rna_multi_addr a) (rna_bn254_public_key a) (rna_signature a) s \<noteq> Inr s'" for s s'
    by (rule cli_register_refused [OF demo_signature_binds demo_uncompressed_keys _ _ a, unfolded crypto,
          OF _ demo_start [of demo_host "[]" None "replicate 32 7"]])
      (simp_all add: demo_verifier_def path_exists_def)
  with a show ?thesis by blast
qed


section \<open>A call settles\<close>

abbreviation call_result :: "json \<Rightarrow> json" where
  "call_result v \<equiv> JObject [(''status'', JString ''success''), (''result'', v)]"

abbreviation cli_keypair ::
  "('cl, 'w, 'pk, 'bh, 'stx, 'hash, 'sig, 'bsk, 'bpk, 'esk, 'epk, 'ws) cli_lib
    \<Rightarrow> ('bsk, 'bpk, 'esk, 'epk) node_config \<Rightarrow> bytes" where
  "cli_keypair lib cfg \<equiv>
     ed25519_key_pair_bytes (cl_private_bytes lib) (cl_public_bytes lib) (nc_keypair_ed25519 cfg)"

text \<open>On NEAR a call is a signed transaction, the wait for it, and the reading of its value.\<close>

lemma cli_call_near:
  "cli_call lib bd sd Near contract_id method_name dep args node_cfg chain_cfg w =
     cli_bind (cli_net CliChainAdapter (near_construct_signed_tx (cl_near lib) (bd_checks bd) None (cli_keypair lib node_cfg)
         contract_id method_name (as_bytes args) (nc_gas node_cfg) dep (ch_near_rpc_url chain_cfg) (cw_net w)) w) (\<lambda>w signed_txn.
     cli_bind (cli_wait CliChainAdapter (map_option (\<lambda>(net, r). (net, Inr r))
         (near_send_tx (cl_near lib) (nl_connect (cl_near lib) (ch_near_rpc_url chain_cfg)) signed_txn (cw_net w))) w) (\<lambda>w result.
     cli_bind (cli_pure CliJson (sd_from_slice sd result) w) (\<lambda>w v.
     cli_print (cl_json_pretty lib (call_result (sd_to_value sd v))) w)))"
  by (simp add: cli_call_def client_new_def near_new_client_def chain_construct_signed_tx_def chain_send_tx_def
      client_near_def Let_def del: cli_print_Done)

lemma cli_call_cases:
  assumes "clock_ok (cl_near lib)"
    and "cli_call lib bd sd Near contract_id method_name dep args node_cfg chain_cfg w = (w', out)"
  obtains (unsigned) net where "w' = w\<lparr>cw_net := net\<rparr>"
    "(\<exists>e. out = Fails (CliChainAdapter e)) \<or> (\<exists>p. out = Panics p)"
  | (sent) net1 bs net2 r where
    "near_construct_signed_tx (cl_near lib) (bd_checks bd) None (cli_keypair lib node_cfg) contract_id method_name
       (as_bytes args) (nc_gas node_cfg) dep (ch_near_rpc_url chain_cfg) (cw_net w) = (net1, Inr (Inr bs))"
    "near_send_tx (cl_near lib) (nl_connect (cl_near lib) (ch_near_rpc_url chain_cfg)) bs net1 = Some (net2, r)"
    "w' = w\<lparr>cw_net := net2, cw_stdout := cw_stdout w'\<rparr>"
    "case r of Inl e \<Rightarrow> out = Fails (CliChainAdapter e) \<and> cw_stdout w' = cw_stdout w
     | Inr result \<Rightarrow> (case sd_from_slice sd result of
         Inl e \<Rightarrow> out = Fails (CliJson e) \<and> cw_stdout w' = cw_stdout w
       | Inr v \<Rightarrow> out = Done () \<and> cw_stdout w' = cw_stdout w @ [cl_json_pretty lib (call_result (sd_to_value sd v))])"
proof -
  let ?tx = "near_construct_signed_tx (cl_near lib) (bd_checks bd) None (cli_keypair lib node_cfg) contract_id method_name
       (as_bytes args) (nc_gas node_cfg) dep (ch_near_rpc_url chain_cfg) (cw_net w)"
  obtain net1 x where tx: "?tx = (net1, x)" by fastforce
  show thesis
  proof (cases "\<exists>bs. x = Inr (Inr bs)")
    case False
    then show thesis
      using assms(2) tx unsigned [of net1] unfolding cli_call_near
      by (auto simp: cli_net_def outcome_of_def split: sum.splits)
  next
    case True
    then obtain bs where bs: "x = Inr (Inr bs)" by blast
    obtain net2 r where send: "near_send_tx (cl_near lib) (nl_connect (cl_near lib) (ch_near_rpc_url chain_cfg)) bs net1
        = Some (net2, r)"
      using near_send_tx_total [OF assms(1)] by fastforce
    show thesis
      using assms(2) tx bs send sent [OF tx [unfolded bs] send] unfolding cli_call_near
      by (auto simp: cli_net_def cli_wait_def cli_pure_def outcome_of_def split: sum.splits)
  qed
qed

text \<open>The chain has executed the one transaction that makes a call, and reported a value.\<close>

definition call_confirmed ::
  "('cl, 'w, 'pk, 'bh, 'stx, 'hash) near_lib \<Rightarrow> string \<Rightarrow> bytes \<Rightarrow> string \<Rightarrow> near_action \<Rightarrow> bytes \<Rightarrow> bool" where
  "call_confirmed near url keypair contract_id action v \<longleftrightarrow>
     (\<exists>signer tx net1 net2 net3 tx_hash.
       get_in_memory_signer near None keypair = Inr signer \<and> tx_signer_id tx = sg_account_id signer \<and>
       nl_parse_account near contract_id = Inr (tx_receiver_id tx) \<and> tx_actions tx = [action] \<and>
       nl_broadcast near (nl_connect near url) (nl_sign near tx signer) net1 = (net2, Inr tx_hash) \<and>
       confirmed near (nl_connect near url) tx_hash (sg_account_id signer) (nl_now near net1) v net3)"

lemma sent_call_confirmed:
  assumes "borsh_ok near" "clock_ok near"
    and "near_construct_signed_tx near checks None keypair contract_id method_name args gas dep url net = (net1, Inr (Inr bs))"
    and "near_send_tx near (nl_connect near url) bs net1 = Some (net2, Inr v)"
  shows "call_confirmed near url keypair contract_id (FunctionCall method_name args gas dep) v"
proof -
  from near_construct_tx_Ok [OF assms(3) [unfolded construct_signed_tx_construct_tx]] obtain signer tx where tx:
    "get_in_memory_signer near None keypair = Inr signer" "tx_signer_id tx = sg_account_id signer"
    "nl_parse_account near contract_id = Inr (tx_receiver_id tx)" "tx_actions tx = [FunctionCall method_name args gas dep]"
    "nl_encode near (nl_sign near tx signer) = Inr bs" by blast
  have dec: "nl_decode near bs = Inr (nl_sign near tx signer)"
    and sg: "nl_signer_id near (nl_sign near tx signer) = sg_account_id signer"
    using assms(1) tx(2,5) by (simp_all add: borsh_ok_def)
  have "\<exists>net3 tx_hash. nl_broadcast near (nl_connect near url) (nl_sign near tx signer) net1 = (net3, Inr tx_hash) \<and>
      confirmed near (nl_connect near url) tx_hash (sg_account_id signer) (nl_now near net1) v net2"
    using near_send_tx_returns [OF assms(2) dec, of "nl_connect near url" net1, unfolded sg] assms(4) by auto
  with tx show ?thesis unfolding call_confirmed_def by blast
qed

definition cli_call_confirmed ::
  "('cl, 'w, 'pk, 'bh, 'stx, 'hash, 'sig, 'bsk, 'bpk, 'esk, 'epk, 'ws) cli_lib \<Rightarrow> string \<Rightarrow> string \<Rightarrow> u128 \<Rightarrow> string
    \<Rightarrow> ('bsk, 'bpk, 'esk, 'epk) node_config \<Rightarrow> chain_configs \<Rightarrow> bytes \<Rightarrow> bool" where
  "cli_call_confirmed lib contract_id method_name dep args node_cfg chain_cfg v \<longleftrightarrow>
     call_confirmed (cl_near lib) (ch_near_rpc_url chain_cfg) (cli_keypair lib node_cfg) contract_id
       (FunctionCall method_name (as_bytes args) (nc_gas node_cfg) dep) v"

text \<open>
  C34: A call from the command line always ends. It reports success, and prints the value, only when
  the one transaction it signed with the node's key, with exactly the method, arguments, gas and
  deposit asked for, was confirmed with a value that can be read. A complaint about JSON means that
  the chain has executed the call; and as the empty value cannot be read, a method that returns
  nothing, as registering, updating and unregistering do, never reports success.
\<close>

theorem cli_call_settles:
  assumes "borsh_ok (cl_near lib)" "clock_ok (cl_near lib)"
    and "cli_call lib bd sd Near contract_id method_name dep args node_cfg chain_cfg w = (w', out)"
  shows "out \<noteq> Hangs \<and>
    (out = Done () \<longrightarrow> (\<exists>v t. cli_call_confirmed lib contract_id method_name dep args node_cfg chain_cfg v \<and>
      sd_from_slice sd v = Inr t \<and> cw_stdout w' = cw_stdout w @ [cl_json_pretty lib (call_result (sd_to_value sd t))])) \<and>
    (\<forall>e. out = Fails (CliJson e) \<longrightarrow> (\<exists>v. cli_call_confirmed lib contract_id method_name dep args node_cfg chain_cfg v \<and>
      sd_from_slice sd v = Inl e)) \<and>
    (refuses_empty sd \<longrightarrow> (\<forall>v. cli_call_confirmed lib contract_id method_name dep args node_cfg chain_cfg v \<longrightarrow> v = []) \<longrightarrow>
      out \<noteq> Done ())"
  using assms(2,3)
proof (cases rule: cli_call_cases)
  case (unsigned net)
  show ?thesis using unsigned(2) by auto
next
  case (sent net1 bs net2 r)
  have "cli_call_confirmed lib contract_id method_name dep args node_cfg chain_cfg v" if "r = Inr v" for v
    unfolding cli_call_confirmed_def using sent_call_confirmed [OF assms(1,2) sent(1)] sent(2) that by blast
  with sent(4) show ?thesis by (auto simp: refuses_empty_def split: sum.splits)
qed

text \<open>The demo chain confirms the value \<open>[7]\<close>, which the demo reader accepts.\<close>

definition demo_build :: build where
  "demo_build = \<lparr>bd_debug = True, bd_checks = False, bd_config_dir = ''/seda'', bd_cli_dir = ''/seda/cli''\<rparr>"

definition demo_world :: "nat cli_world" where
  "demo_world = \<lparr>cw_host = demo_host, cw_net = 0, cw_stdout = []\<rparr>"

lemma demo_keypair_length: "length (cli_keypair demo_cli (demo_config (replicate 32 7))) = 64"
  by (simp add: ed25519_key_pair_bytes_def demo_cli_def demo_config_def as_bytes_def Let_def del: replicate.simps)

lemma demo_cli_signed:
  assumes "length keypair = 64"
  shows "near_construct_signed_tx demo_near False None keypair ''mc'' ''m'' a g dep url 0
     = (10, Inr (Inr (as_bytes (demo_hex (drop 32 keypair)))))"
  using assms by (simp add: near_construct_signed_tx_def get_in_memory_signer_def demo_near_def Let_def arith_add_def)

lemma demo_cli_sent: "near_send_tx demo_near c (as_bytes s) 10 = Some (4050, Inr [7])"
proof -
  have step: "near_poll_tx demo_near c () x 10 now =
      (if 61010 \<le> now + 10 then Some (now + 10, Inl BadTransactionTimestamp)
       else if now < 3000 then near_poll_tx demo_near c () x 10 (now + 2010) else Some (now + 10, Inr [7]))" for x now
    by (subst near_poll_tx.simps) (use poll_delta [of "now + 10" 10] in \<open>simp add: demo_near_simps add.commute\<close>)
  have "near_send_tx demo_near c (as_bytes s) 10 = near_poll_tx demo_near c () (chars_of (as_bytes s)) 10 20"
    by (simp add: near_send_tx_def demo_near_simps Let_def)
  then show ?thesis by (simp add: step [of _ 20] step [of _ 2030] step [of _ 4040])
qed

lemma demo_cli_call:
  "cli_call demo_cli demo_build (demo_serde ()) Near ''mc'' ''m'' 0 args (demo_config (replicate 32 7)) chains_test_config
     demo_world = (demo_world\<lparr>cw_net := 4050, cw_stdout := [''{}'']\<rparr>, Done ())"
proof -
  have near: "cl_near demo_cli = demo_near" "cl_json_pretty demo_cli v = ''{}''" for v by (simp_all add: demo_cli_def)
  show ?thesis
    unfolding cli_call_near near
    by (simp add: demo_cli_signed [OF demo_keypair_length] demo_cli_sent demo_build_def demo_world_def cli_net_def cli_wait_def
        demo_serde_def)
qed

theorem cli_call_settles_witness:
  "cli_call demo_cli demo_build (demo_serde ()) Near ''mc'' ''m'' 0 ''{}'' (demo_config (replicate 32 7)) chains_test_config
     demo_world = (demo_world\<lparr>cw_net := 4050, cw_stdout := [''{}'']\<rparr>, Done ()) \<and>
   (\<exists>v. cli_call_confirmed demo_cli ''mc'' ''m'' 0 ''{}'' (demo_config (replicate 32 7)) chains_test_config v \<and> v \<noteq> [])"
proof -
  have ok: "borsh_ok (cl_near demo_cli)" "clock_ok (cl_near demo_cli)"
    using demo_near_ok by (simp_all add: demo_cli_def)
  have "refuses_empty (demo_serde ())" by (simp add: refuses_empty_def demo_serde_def)
  then show ?thesis using cli_call_settles [OF ok demo_cli_call] demo_cli_call by fastforce
qed


section \<open>The identity that is announced\<close>

lemma cli_load_Done:
  "cli_load lib path w = (w', Done r) \<longleftrightarrow>
    (\<exists>h. create_and_load_or_load_config (cl_to_toml lib) (cl_from_toml lib) path (cw_host w) = (h, Inr (Inr r)) \<and>
      w' = w\<lparr>cw_host := h\<rparr>)"
  by (auto simp: cli_load_def split: prod.splits sum.splits)

lemma cli_node_Done:
  "cli_node lib bd rng app node_opt w = (w', Done cfg) \<longleftrightarrow>
    (\<exists>h. node_to_config (cl_crypto lib) (bd_debug bd) (bd_config_dir bd) rng (ac_node app) node_opt (cw_host w)
        = (h, Inr (Inr cfg)) \<and> w' = w\<lparr>cw_host := h\<rparr>)"
  by (cases "node_to_config (cl_crypto lib) (bd_debug bd) (bd_config_dir bd) rng (ac_node app) node_opt (cw_host w)")
    (auto simp: cli_node_def)

text \<open>The key that \<open>init\<close> has settled on can be had again from the host it leaves behind.\<close>

lemma init_master_key_Done:
  assumes "hex_ok (cl_crypto lib)" "length rng = 32"
    and "init_master_key lib rng p w = (w', Done mk)"
  shows "\<exists>printed. cw_stdout w' = cw_stdout w @ printed"
    "env_vars (cw_host w') = env_vars (cw_host w)" "q \<noteq> p \<Longrightarrow> files (cw_host w') q = files (cw_host w) q"
    "case env_vars (cw_host w) ''SEDA_SECRET_KEY'' of
       Some k \<Rightarrow> master_key_of_hex (cl_crypto lib) k = Inr mk
     | None \<Rightarrow> \<exists>x. files (cw_host w') p = Some x \<and> master_key_read_from_path (cl_crypto lib) (cw_host w') p = Inr mk"
proof -
  have fresh: "env_vars h = env_vars (cw_host w) \<and> (q \<noteq> p \<longrightarrow> files h q = files (cw_host w) q) \<and>
      (\<exists>x. files h p = Some x) \<and> master_key_read_from_path (cl_crypto lib) h p = Inr \<lparr>seed = rng\<rparr>"
    if "master_key_write_to_path (cl_crypto lib) \<lparr>seed = rng\<rparr> p (cw_host w) = (h, Inr ())" for h
    using write_to_path_effect [OF that] master_key_read_back [OF assms(1) _ that] assms(2) that
    by (auto simp: valid_master_key_def master_key_write_to_path_def fs_write_def split: if_splits)
  show "\<exists>printed. cw_stdout w' = cw_stdout w @ printed"
    using assms(3) by (auto simp: init_master_key_def Let_def elim!: cli_bind_Done split: option.splits if_splits prod.splits)
  have "(case env_vars (cw_host w) ''SEDA_SECRET_KEY'' of
      Some k \<Rightarrow> w' = w \<and> master_key_of_hex (cl_crypto lib) k = Inr mk
    | None \<Rightarrow> path_exists (cw_host w) p \<and> w' = w \<and> master_key_read_from_path (cl_crypto lib) (cw_host w) p = Inr mk \<or>
        mk = \<lparr>seed = rng\<rparr> \<and> master_key_write_to_path (cl_crypto lib) \<lparr>seed = rng\<rparr> p (cw_host w) = (cw_host w', Inr ()))"
    using assms(3)
    by (auto simp: init_master_key_def master_key_random_def Let_def elim!: cli_bind_Done
        split: option.splits if_splits prod.splits)
  then show "env_vars (cw_host w') = env_vars (cw_host w)" "q \<noteq> p \<Longrightarrow> files (cw_host w') q = files (cw_host w) q"
    "case env_vars (cw_host w) ''SEDA_SECRET_KEY'' of
       Some k \<Rightarrow> master_key_of_hex (cl_crypto lib) k = Inr mk
     | None \<Rightarrow> \<exists>x. files (cw_host w') p = Some x \<and> master_key_read_from_path (cl_crypto lib) (cw_host w') p = Inr mk"
    using fresh by (auto simp: path_exists_def split: option.splits)
qed

lemma init_handle_Done:
  assumes "init_handle lib rng key_path config_path w = (w', Done () :: ('n, unit) outcome)"
  obtains w1 mk bn ed bs h r where "init_master_key lib rng key_path w = (w1, Done mk :: ('n, _) outcome)"
    "derive_bn254 (cl_crypto lib) mk 0 = Inr (Inr bn)" "derive_ed25519 (cl_crypto lib) mk 0 = Inr (Inr ed)"
    "cl_pk_to_compressed lib (public_key bn) = Inr bs"
    "create_and_load_or_load_config (cl_to_toml lib) (cl_from_toml lib) (Some config_path) (cw_host w1) = (h, Inr (Inr r))"
    "cw_host w' = h"
    "cw_stdout w' = cw_stdout w1 @ init_report lib
      (hex_encode (cl_crypto lib) (cl_public_bytes lib (public_key ed))) (cl_public_bytes lib (public_key ed)) bs"
proof -
  from assms obtain w1 mk bn ed bs w2 r where key: "init_master_key lib rng key_path w = (w1, Done mk :: ('n, _) outcome)"
    and derived: "derive_bn254 (cl_crypto lib) mk 0 = Inr (Inr bn)" "derive_ed25519 (cl_crypto lib) mk 0 = Inr (Inr ed)"
      "cl_pk_to_compressed lib (public_key bn) = Inr bs"
    and load: "cli_load lib (Some config_path) w1 = (w2, Done r :: ('n, _) outcome)"
    and out: "cli_print_all (init_report lib (hex_encode (cl_crypto lib) (cl_public_bytes lib (public_key ed)))
      (cl_public_bytes lib (public_key ed)) bs) w2 = (w', Done () :: ('n, unit) outcome)"
    unfolding init_handle_def Let_def by (elim cli_bind_Done) auto
  from load obtain h where "create_and_load_or_load_config (cl_to_toml lib) (cl_from_toml lib) (Some config_path) (cw_host w1)
      = (h, Inr (Inr r))" "w2 = w1\<lparr>cw_host := h\<rparr>" by (auto simp: cli_load_Done)
  with key derived out show thesis by (intro that [of w1 mk bn ed bs h r]) (auto simp: cli_print_all_def)
qed

text \<open>
  C33: The node runs with the identity that \<open>init\<close> announces. After an initialisation with the default
  key file and a new configuration file, loading that file and merging it with a command line that
  names no other key gives the key pairs whose account and public keys were printed, whatever the
  random number generator delivers then, and changes no file.
\<close>

theorem init_then_run:
  assumes "hex_ok (cl_crypto lib)" "toml_ok (cl_to_toml lib) (cl_from_toml lib)" "length rng = 32"
    and "config_path \<noteq> SEDA_SECRET_KEY_PATH" "\<not> path_exists (cw_host w) config_path"
    and "init_handle lib rng SEDA_SECRET_KEY_PATH config_path w = (w1, Done () :: ('n, unit) outcome)"
    and "cli_load lib (Some config_path) w1 = (w2, Done (app, log))"
    and "pn_master_key node_opt = None" "pn_seda_sk_file_path node_opt = None"
    and "cli_node lib bd rng' app node_opt w2 = (w3, Done cfg)"
  shows "w3 = w1 \<and> (\<exists>bs printed. cl_pk_to_compressed lib (public_key (nc_keypair_bn254 cfg)) = Inr bs \<and>
    cw_stdout w1 = cw_stdout w @ printed @
      init_report lib (hex_encode (cl_crypto lib) (cl_public_bytes lib (public_key (nc_keypair_ed25519 cfg))))
        (cl_public_bytes lib (public_key (nc_keypair_ed25519 cfg))) bs)"
proof -
  let ?lib = "cl_crypto lib" and ?p = SEDA_SECRET_KEY_PATH
  from assms(6) obtain wk mk bn ed bs h r where key: "init_master_key lib rng ?p w = (wk, Done mk :: ('n, _) outcome)"
    and derived: "derive_bn254 ?lib mk 0 = Inr (Inr bn)" "derive_ed25519 ?lib mk 0 = Inr (Inr ed)"
      "cl_pk_to_compressed lib (public_key bn) = Inr bs"
    and load: "create_and_load_or_load_config (cl_to_toml lib) (cl_from_toml lib) (Some config_path) (cw_host wk)
      = (h, Inr (Inr r))"
    and w1: "cw_host w1 = h" "cw_stdout w1 = cw_stdout wk @ init_report lib
      (hex_encode ?lib (cl_public_bytes lib (public_key ed))) (cl_public_bytes lib (public_key ed)) bs"
    by (elim init_handle_Done)
  note mk = init_master_key_Done [OF assms(1,3) key]
  have "\<not> path_exists (cw_host wk) config_path" using mk(3) [of config_path] assms(4,5) by (simp add: path_exists_def)
  with load_fresh [OF assms(2) load] obtain c where
    c: "app_overwrite_from_env (cw_host wk) (partial_app_template (cw_host wk)) = Inr c" "r = app_config_of_partial c" by auto
  have w2: "w2 = w1" and r: "r = (app, log)"
    using assms(7) load_again [OF load] w1(1) by (auto simp: cli_load_Done)
  have env: "env_vars h = env_vars (cw_host w)" using load_same_process [OF load] mk(2) by (simp add: same_process_def)
  have node: "pn_master_key (ac_node app) = env_vars (cw_host w) ''SEDA_SECRET_KEY''" "pn_seda_sk_file_path (ac_node app) = None"
    using c r mk(2) by (auto simp: app_overwrite_from_env_def app_config_of_partial_def partial_app_template_def res_simps
        node_overwrite_from_env_def env_overwrite_def Let_def split: option.splits)
  have resolved: "resolve_master_key ?lib rng' (pn_master_key (ac_node app)) ?p h = (h, Inr mk)"
  proof (cases "env_vars (cw_host w) ''SEDA_SECRET_KEY''")
    case None
    then obtain x where "files (cw_host wk) ?p = Some x" "master_key_read_from_path ?lib (cw_host wk) ?p = Inr mk"
      using mk(4) by auto
    moreover from this have "files h ?p = Some x" using load_keeps [OF load] assms(4) by metis
    ultimately show ?thesis
      using None node(1) by (simp add: resolve_master_key_def path_exists_def master_key_read_from_path_def read_to_string_def)
  qed (use mk(4) node(1) in \<open>simp add: resolve_master_key_def\<close>)
  from assms(10) obtain h3 where h3: "node_to_config ?lib (bd_debug bd) (bd_config_dir bd) rng' (ac_node app) node_opt h
      = (h3, Inr (Inr cfg))" "w3 = w1\<lparr>cw_host := h3\<rparr>" using w1(1) w2 by (auto simp: cli_node_Done)
  from h3(1) obtain d g where "h3 = h" "node_config_of_key ?lib (bd_debug bd) (bd_config_dir bd) h3 (ac_node app) node_opt d g mk
      = Inr (Inr cfg)" using resolved node(2) assms(8,9) by (elim node_to_config_elim) simp
  with node_config_of_key_keys derived have "ed = nc_keypair_ed25519 cfg" "bn = nc_keypair_bn254 cfg" by fastforce+
  then show ?thesis using h3(2) \<open>h3 = h\<close> w1 derived(3) mk(1) by auto
qed

text \<open>The demo host after \<open>init\<close>: it holds the key file and the template.\<close>

definition demo_initialised :: "bytes \<Rightarrow> host" where
  "demo_initialised rng = (demo_host_with_key rng)
     \<lparr>files := (files (demo_host_with_key rng))(''c'' \<mapsto> File (as_bytes ''template''))\<rparr>"

definition demo_announced :: "bytes \<Rightarrow> nat cli_world" where
  "demo_announced rng = demo_world\<lparr>cw_host := demo_initialised rng, cw_stdout :=
     (''Written SEDA secret key to '' @ SEDA_SECRET_KEY_PATH) #
     init_report demo_cli (hex_encode demo_lib (public_key (nc_keypair_ed25519 (demo_config rng))))
       (public_key (nc_keypair_ed25519 (demo_config rng))) (public_key (nc_keypair_bn254 (demo_config rng)))\<rparr>"

lemma demo_init_key:
  "init_master_key demo_cli rng SEDA_SECRET_KEY_PATH demo_world =
     (demo_world\<lparr>cw_host := demo_host_with_key rng, cw_stdout := [''Written SEDA secret key to '' @ SEDA_SECRET_KEY_PATH]\<rparr>,
      Done \<lparr>seed = rng\<rparr>)"
  by (simp add: init_master_key_def demo_cli_def demo_world_def path_exists_def master_key_random_def Let_def
      master_key_write_to_path_def fs_write_def demo_host_def demo_host_with_key_def demo_lib_def cli_host_def)

lemma demo_key_like: "demo_like (demo_host_with_key rng)"
  by (simp add: demo_like_def demo_host_with_key_def demo_host_def SEDA_SECRET_KEY_PATH_def)

lemma demo_keys:
  "derive_bn254 demo_lib \<lparr>seed = rng\<rparr> 0 = Inr (Inr (nc_keypair_bn254 (demo_config rng)))"
  "derive_ed25519 demo_lib \<lparr>seed = rng\<rparr> 0 = Inr (Inr (nc_keypair_ed25519 (demo_config rng)))"
  by (simp_all add: derive_bn254_def derive_ed25519_def demo_lib_def to_le_bytes_0 demo_config_def Let_def)

lemma demo_cli_parts:
  "cl_crypto demo_cli = demo_lib" "cl_public_bytes demo_cli k = k" "cl_pk_to_compressed demo_cli pk = Inr pk"
  "cl_to_toml demo_cli = demo_to_toml" "cl_from_toml demo_cli = demo_from_toml"
  by (simp_all add: demo_cli_def)

lemma demo_init:
  "init_handle demo_cli rng SEDA_SECRET_KEY_PATH ''c'' demo_world = (demo_announced rng, Done ())"
  using demo_first_load [OF demo_key_like, of rng]
  by (simp add: init_handle_def demo_init_key demo_cli_parts demo_keys Let_def cli_load_def cli_print_all_def
      demo_announced_def demo_initialised_def cli_host_def)

lemma demo_reload:
  "cli_load demo_cli (Some ''c'') (demo_announced rng) =
     (demo_announced rng, Done (app_config_of_partial (partial_app_template demo_host)))"
  using load_again [OF demo_first_load [OF demo_key_like, of rng]]
  by (simp add: cli_load_def demo_cli_parts demo_announced_def demo_initialised_def cli_host_def)

lemma demo_run_config:
  assumes "length rng = 32"
  shows "cli_node demo_cli demo_build rng' (fst (app_config_of_partial (partial_app_template demo_host))) (demo_node None)
     (demo_announced rng) = (demo_announced rng, Done (demo_config rng))"
proof -
  have "resolve_master_key demo_lib rng' None SEDA_SECRET_KEY_PATH (demo_initialised rng) = (demo_initialised rng, Inr \<lparr>seed = rng\<rparr>)"
    using init_master_key_Done(4) [OF demo_hex_ok [folded demo_cli_parts(1)] assms demo_init_key [where 'a = unit]]
    by (simp add: resolve_master_key_def path_exists_def demo_initialised_def demo_world_def demo_cli_parts
        master_key_read_from_path_def read_to_string_def SEDA_SECRET_KEY_PATH_def)
  moreover have "env_vars (demo_initialised rng) = Map.empty" by (simp add: demo_initialised_def)
  ultimately show ?thesis
    by (simp add: cli_node_def demo_cli_parts demo_build_def demo_announced_def cli_host_def node_to_config_def
        app_config_of_partial_def partial_app_template_def node_config_of_key_def demo_keys demo_config_def Let_def)
qed

theorem init_then_run_witness:
  "init_handle demo_cli (replicate 32 7) SEDA_SECRET_KEY_PATH ''c'' demo_world = (demo_announced (replicate 32 7), Done ()) \<and>
   cli_node demo_cli demo_build (replicate 32 9) (fst (app_config_of_partial (partial_app_template demo_host))) (demo_node None)
     (demo_announced (replicate 32 7)) = (demo_announced (replicate 32 7), Done (demo_config (replicate 32 7))) \<and>
   (\<exists>bs. cl_pk_to_compressed demo_cli (public_key (nc_keypair_bn254 (demo_config (replicate 32 7)))) = Inr bs)"
proof -
  let ?t = "app_config_of_partial (partial_app_template demo_host)" and ?r = "replicate 32 7"
  have crypto: "hex_ok (cl_crypto demo_cli)" and toml: "toml_ok (cl_to_toml demo_cli) (cl_from_toml demo_cli)"
    using demo_hex_ok demo_toml_ok by (simp_all add: demo_cli_parts)
  have path: "''c'' \<noteq> SEDA_SECRET_KEY_PATH" "\<not> path_exists (cw_host demo_world) ''c''"
    by (simp_all add: SEDA_SECRET_KEY_PATH_def path_exists_def demo_world_def)
  have load: "cli_load demo_cli (Some ''c'') (demo_announced ?r) = (demo_announced ?r, Done (fst ?t, snd ?t))"
    by (simp only: demo_reload prod.collapse)
  have run: "cli_node demo_cli demo_build (replicate 32 9) (fst ?t) (demo_node None) (demo_announced ?r)
      = (demo_announced ?r, Done (demo_config ?r))" by (rule demo_run_config, rule length_replicate)
  have "\<exists>bs. cl_pk_to_compressed demo_cli (public_key (nc_keypair_bn254 (demo_config ?r))) = Inr bs"
    using init_then_run [OF crypto toml length_replicate path demo_init load demo_node_fields(3) demo_node_fields(4) run]
    by blast
  then show ?thesis by (intro conjI demo_init run)
qed


section \<open>The requests and the contract\<close>

text \<open>
  Of the five requests that the command line sends to the contract, two can be carried out. The
  arguments of a registration and of a node's view have the fields that the methods take, whatever
  their values. The list of nodes asks for a method that the contract does not have; leaving and
  updating send no field of the name that the method takes, so both calls fail before they start.
\<close>

theorem cli_requests_accepted:
  assumes "map_of token_methods ''get_nodes'' = None"
  shows "accepts_call (contract_methods token_methods) ''register_node'' (register_node_args_json a) \<and>
    accepts_call (contract_methods token_methods) ''get_node'' (get_node_args_json (get_node_args_of node_id)) \<and>
    \<not> accepts_call (contract_methods token_methods) ''get_nodes'' (get_nodes_args_json (get_nodes_args_of (limit, offset))) \<and>
    \<not> accepts_call (contract_methods token_methods) ''unregister_node'' (unregister_args_json n) \<and>
    \<not> accepts_call (contract_methods token_methods) ''update_node'' (update_node_json command)"
  using assms
  by (cases command)
    (simp add: accepts_call_def contract_methods_def node_registry_methods_def dao_methods_def batch_methods_def
      data_request_methods_def epoch_methods_def committee_methods_def register_node_args_json_def get_node_args_json_def
      get_node_args_of_def get_nodes_args_json_def get_nodes_args_of_def unregister_args_json_def update_node_json_def json_field_def)

theorem cli_requests_accepted_witness:
  "accepts_call (contract_methods [(''ft_transfer'', [''receiver_id'', ''amount''])]) ''get_node''
     (get_node_args_json (get_node_args_of ''node.near'')) \<and>
   \<not> accepts_call (contract_methods [(''ft_transfer'', [''receiver_id'', ''amount''])]) ''unregister_node'' (unregister_args_json 18)"
  using cli_requests_accepted [of "[(''ft_transfer'', [''receiver_id'', ''amount''])]"] by simp

text \<open>
  A view of the contract needs the contract in the configuration file or in the environment: given
  on the command line only, it is a panic.
\<close>

lemma get_node_needs_configuration:
  assumes "chains_to_config (ac_chains app) chains_opt = Inr chain_cfg"
    and "node_to_config (cl_crypto lib) (bd_debug bd) (bd_config_dir bd) rng (ac_node app) partial_node_template (cw_host w)
      = (h, Inr (Inl e))"
  shows "get_node_handle lib bd rng (Some contract_id) node_id app chains_opt w
    = (w\<lparr>cw_host := h\<rparr>, Panics (Panic ''Could not get default node configuration''))"
  using assms by (simp add: get_node_handle_def cli_chains_def cli_expect_node_def cli_node_def cli_host_def)

text \<open>
  The documentation is written over the file without truncating it: of a longer file the end stays.
\<close>

lemma document_keeps_tail:
  assumes "files (cw_host w) (path_push (path_pop (bd_cli_dir bd)) ''CLI.md'') = Some (File old)"
    and "writable (cw_host w) (path_push (path_pop (bd_cli_dir bd)) ''CLI.md'')"
  shows "\<exists>w'. document_handle bd help w = (w', Done ()) \<and>
    files (cw_host w') (path_push (path_pop (bd_cli_dir bd)) ''CLI.md'') =
      Some (File (as_bytes help @ drop (length help) old))"
  using assms by (simp add: document_handle_def open_write_def write_all_def as_bytes_def)

end
