(* ===== verification/Node_Cli_Peers.thy ===== *)
theory Node_Cli_Peers
  imports Node_Cli
begin

text \<open>
  The peer commands of the command line against the node they talk to: \<open>cli/src/cli/commands/node/peers\<close>
  at one end of the connection, the RPC server of \<open>node/src/rpc.rs\<close> and the peer-to-peer server of
  \<open>p2p/src/libp2p\<close> at the other. The network of the command line is instantiated by the started node.
  A channel of commands that is full makes a sender wait until the server has taken one; the model
  is the channel after that.
\<close>


section \<open>The connection\<close>

text \<open>
  What the WebSocket crates of both ends promise: a client connects without changing the node, and a
  request gets the answer of the server's method, an error of it as a message.
\<close>

definition serves_rpc where
  "serves_rpc cl serve show_error \<longleftrightarrow>
     (\<forall>url n. \<exists>client. cl_ws_build cl url n = (n, Inr client)) \<and>
     (\<forall>client method params n. cl_ws_request cl client method params n =
        map_option (\<lambda>(n', r). (n', map_err show_error r)) (serve method params n))"

definition peers_tasks :: "peers_command \<Rightarrow> p2p_command list" where
  "peers_tasks cmd =
     (case cmd of
        PeersAdd addr \<Rightarrow> [AddPeer addr]
      | PeersList \<Rightarrow> []
      | PeersRemove peer_id \<Rightarrow> [RemovePeer peer_id]
      | PeersDiscover \<Rightarrow> [DiscoverPeers])"

text \<open>What the node accepts: a command that needs the channel finds it open, and its argument can be read.\<close>

definition peers_accepted :: "('a, 'p) p2p_lib \<Rightarrow> peers_command \<Rightarrow> command_channel \<Rightarrow> bool" where
  "peers_accepted plib cmd ch \<longleftrightarrow>
     (case cmd of
        PeersAdd addr \<Rightarrow> pl_parse_addr plib addr \<noteq> None \<and> cch_open ch
      | PeersList \<Rightarrow> True
      | PeersRemove peer_id \<Rightarrow> pl_parse_peer plib peer_id \<noteq> None \<and> cch_open ch
      | PeersDiscover \<Rightarrow> cch_open ch)"

text \<open>What the server has done about a task: the address is one it knows, the peer is disconnected.\<close>

definition task_done :: "('a, 'p) p2p_lib \<Rightarrow> p2p_command \<Rightarrow> ('a, 'p) p2p_server \<Rightarrow> ('a, 'p) p2p_server \<Rightarrow> bool" where
  "task_done plib task s s' \<longleftrightarrow>
     (\<exists>new. ps_calls s' = ps_calls s @ new \<and>
       (case task of
          AddPeer addr \<Rightarrow> (\<exists>a. pl_parse_addr plib addr = Some a \<and> a \<in> found_addrs (ps_discovery_status s'))
        | RemovePeer peer_id \<Rightarrow> (\<exists>p. pl_parse_peer plib peer_id = Some p \<and> DisconnectPeer p \<in> set new)
        | _ \<Rightarrow> True))"

lemma search_calls: "\<exists>new. ps_calls (search_new_peer lib now skip s) = ps_calls s @ new"
  using search_all_ok(1) [of now s lib skip] by (auto simp: search_ok_def)

lemma search_found: "found_addrs (ps_discovery_status (search_new_peer lib now skip s)) = found_addrs (ps_discovery_status s)"
  using search_all_ok(1) [of now s lib skip] found_addrs_frame by (auto simp: search_ok_def)

lemma add_manual_found: "addr \<in> found_addrs (add_manual_peer addr p d)"
proof -
  have "addr \<in> fst ` set (get_all_info (add_peer addr p Kademlia l))" for l :: "('a, 'b) peer_list"
    using has_addr_add_peer [of addr addr p Kademlia l] by (simp add: has_addr_def get_all_info_def map_of_eq_None_iff)
  then show ?thesis by (auto simp: found_addrs_def add_manual_peer_def)
qed

lemma accepted_task_done:
  assumes "peers_accepted plib cmd ch" "task \<in> set (peers_tasks cmd)"
  shows "\<exists>s'. handle_command plib now (Some task) s = Inr s' \<and> task_done plib task s s'"
proof (cases cmd)
  case (PeersAdd addr)
  then obtain a where a: "pl_parse_addr plib addr = Some a" "task = AddPeer addr"
    using assms by (auto simp: peers_accepted_def peers_tasks_def)
  moreover obtain new where
    "ps_calls (search_new_peer plib now None (on_discovery (add_manual_peer a None) s)) = ps_calls s @ new"
    using search_calls [of plib now None "on_discovery (add_manual_peer a None) s"] by (auto simp: on_discovery_def)
  ultimately show ?thesis
    by (simp add: handle_command_def task_done_def search_found add_manual_found on_discovery_def)
next
  case (PeersRemove peer_id)
  then obtain p where p: "pl_parse_peer plib peer_id = Some p" "task = RemovePeer peer_id"
    using assms by (auto simp: peers_accepted_def peers_tasks_def)
  moreover obtain new where
    "ps_calls (search_new_peer plib now None (on_discovery (remove_connected_peer (Some p) None) (p2p_call (DisconnectPeer p) s)))
      = ps_calls s @ DisconnectPeer p # new"
    using search_calls [of plib now None "on_discovery (remove_connected_peer (Some p) None) (p2p_call (DisconnectPeer p) s)"]
    by (auto simp: on_discovery_def p2p_call_def)
  ultimately show ?thesis by (simp add: handle_command_def task_done_def)
next
  case PeersDiscover
  with assms(2) search_calls show ?thesis by (auto simp: peers_tasks_def handle_command_def task_done_def)
qed (use assms(2) in \<open>simp add: peers_tasks_def\<close>)


section \<open>The commands\<close>

definition enqueue ::
  "p2p_command list \<Rightarrow> ('a, 'p, 'sw, 'bsk, 'bpk, 'esk, 'epk) started_node \<Rightarrow> ('a, 'p, 'sw, 'bsk, 'bpk, 'esk, 'epk) started_node" where
  "enqueue tasks n =
     n\<lparr>sn_commands := (sn_commands n)\<lparr>cch_commands := cch_commands (sn_commands n) @ tasks\<rparr>\<rparr>"

text \<open>The request that a command makes, and the answer of the server's method to it.\<close>

definition peers_request :: "peers_command \<Rightarrow> string \<times> json list" where
  "peers_request cmd =
     (case cmd of
        PeersAdd addr \<Rightarrow> (''add_peer'', [JString addr])
      | PeersList \<Rightarrow> (''list_peers'', [])
      | PeersRemove peer_id \<Rightarrow> (''remove_peer'', [JString peer_id])
      | PeersDiscover \<Rightarrow> (''discover_peers'', []))"

lemma answer_send:
  "answer (\<lambda>n ch. n\<lparr>sn_commands := ch\<rparr>) n (send_command c (sn_commands n)) =
     (if cch_open (sn_commands n) then Some (enqueue [c] n, Inr JNull) else Some (n, Inl (RpcCustom ''channel closed'')))"
  by (simp add: answer_def send_command_def enqueue_def)

lemma answer_refused: "answer (\<lambda>n ch. n\<lparr>sn_commands := ch\<rparr>) n (sn_commands n, Inl e) = Some (n, Inl e)"
  by (simp add: answer_def)

lemma peers_request_served:
  "\<exists>e v. rpc_request plib parse_message perm show_addr show_peer run_cli
      (fst (peers_request cmd)) (snd (peers_request cmd)) n =
    Some (if peers_accepted plib cmd (sn_commands n) then (enqueue (peers_tasks cmd) n, Inr v) else (n, Inl e)) \<and>
    (cmd \<noteq> PeersList \<longrightarrow> v = JNull)"
  by (cases cmd) (auto simp: rpc_request_def peers_request_def peers_accepted_def peers_tasks_def rpc_add_peer_def
      rpc_remove_peer_def rpc_discover_peers_def answer_send answer_refused Let_def enqueue_def split: option.splits)

lemma world_silent: "w\<lparr>cw_net := n\<rparr> = w\<lparr>cw_net := n, cw_stdout := cw_stdout w @ out\<rparr> \<longleftrightarrow> out = []"
  by (cases w) simp

lemma ws_requested:
  assumes "cl_ws_request cl client method params (cw_net w) = Some (n, r)"
  shows "ws_request cl decode client method params w =
    (w\<lparr>cw_net := n\<rparr>, case r of Inl e \<Rightarrow> Fails (JsonRpcClient e)
       | Inr v \<Rightarrow> (case decode v of Inl e \<Rightarrow> Fails (JsonRpcClient e) | Inr x \<Rightarrow> Done x))"
  using assms by (auto simp: ws_request_def cli_wait_def cli_net_def cli_pure_def outcome_of_def split: sum.splits)

lemma ws_connected:
  "cl_ws_build cl (''ws://'' @ ac_seda_server_url app) (cw_net w) = (cw_net w, Inr client) \<Longrightarrow>
   ws_client cl app w = (w, Done client)"
  by (simp add: ws_client_def cli_net_def outcome_of_def)

text \<open>One request of a client, at the outcome of the server's method.\<close>

lemma peers_handle_outcome:
  assumes "serves_rpc cl (rpc_request plib parse_message perm show_addr show_peer run_cli) show_error"
  shows "if peers_accepted plib cmd (sn_commands (cw_net w))
    then \<exists>out. peers_handle cl cmd app w
      = (w\<lparr>cw_net := enqueue (peers_tasks cmd) (cw_net w), cw_stdout := cw_stdout w @ out\<rparr>, Done ())
    else \<exists>message. peers_handle cl cmd app w = (w, Fails (JsonRpcClient message))"
proof -
  let ?n = "cw_net w"
  obtain client where client: "cl_ws_build cl (''ws://'' @ ac_seda_server_url app) ?n = (?n, Inr client)"
    using assms unfolding serves_rpc_def by blast
  obtain e v where "rpc_request plib parse_message perm show_addr show_peer run_cli
      (fst (peers_request cmd)) (snd (peers_request cmd)) ?n =
    Some (if peers_accepted plib cmd (sn_commands ?n) then (enqueue (peers_tasks cmd) ?n, Inr v) else (?n, Inl e))"
    and v: "cmd \<noteq> PeersList \<longrightarrow> v = JNull" using peers_request_served by blast
  then have "cl_ws_request cl client (fst (peers_request cmd)) (snd (peers_request cmd)) ?n =
      Some (if peers_accepted plib cmd (sn_commands ?n) then (enqueue (peers_tasks cmd) ?n, Inr v) else (?n, Inl (show_error e)))"
    using assms by (simp add: serves_rpc_def map_err_def)
  then show ?thesis using v
    by (cases cmd) (auto simp: peers_handle_def add_peer_handle_def list_peers_handle_def remove_peer_handle_def
        discover_peers_handle_def peers_request_def unit_of_json_def cli_print_def ws_connected [OF client] ws_requested
        world_silent)
qed

text \<open>
  C32: The peer commands of the command line reach the peer-to-peer server. Against a node that
  serves its RPC methods, a command whose argument the node can read puts exactly its task at the
  end of the node's command channel, reports success, and the server carries the task out without a
  panic whenever it gets to it: an added address is one it may dial, a removed peer is disconnected.
  Every other command fails with an error of the RPC client and leaves the node as it was.
\<close>

theorem peers_commands_reach_server:
  assumes "serves_rpc cl (rpc_request plib parse_message perm show_addr show_peer run_cli) show_error"
  shows "if peers_accepted plib cmd (sn_commands (cw_net w))
    then (\<exists>out. peers_handle cl cmd app w
        = (w\<lparr>cw_net := enqueue (peers_tasks cmd) (cw_net w), cw_stdout := cw_stdout w @ out\<rparr>, Done () :: ('n, unit) outcome)) \<and>
      (\<forall>task \<in> set (peers_tasks cmd). \<exists>s'. handle_command plib now (Some task) s = Inr s' \<and> task_done plib task s s')
    else \<exists>message. peers_handle cl cmd app w = (w, Fails (JsonRpcClient message) :: ('n, unit) outcome)"
proof (cases "peers_accepted plib cmd (sn_commands (cw_net w))")
  case True
  then show ?thesis using peers_handle_outcome [OF assms, of cmd w app] accepted_task_done [OF True] by auto
qed (use peers_handle_outcome [OF assms, of cmd w app] in auto)

text \<open>An instance for the witness: a client of a given server, with no chain behind it.\<close>

definition demo_offline :: "(unit, 'w, unit, unit, unit, unit) near_lib" where
  "demo_offline =
     \<lparr>nl_connect = (\<lambda>_. ()), nl_parse_account = Inr, nl_hex_encode = demo_hex, nl_public_key = (\<lambda>_. ()),
      nl_query = (\<lambda>_ _ n. (n, Inl ''offline'')), nl_sign = (\<lambda>_ _. ()), nl_encode = (\<lambda>_. Inl ''offline''),
      nl_decode = (\<lambda>_. Inl ''offline''), nl_signer_id = (\<lambda>_. []), nl_broadcast = (\<lambda>_ _ n. (n, Inl ''offline'')),
      nl_tx_status = (\<lambda>_ _ _ n. (n, Inl UnknownTransaction)), nl_now = (\<lambda>_. 0), nl_sleep = (\<lambda>_ n. n)\<rparr>"

definition demo_unread :: "'t serde" where
  "demo_unread = \<lparr>sd_from_slice = (\<lambda>_. Inl ''unsupported''), sd_to_value = (\<lambda>_. JNull), sd_to_pretty = (\<lambda>_. ''null'')\<rparr>"

definition demo_client ::
  "(string \<Rightarrow> json list \<Rightarrow> 'w \<Rightarrow> ('w \<times> (rpc_error + json)) option)
    \<Rightarrow> (unit, 'w, unit, unit, unit, unit, bytes, bytes, bytes, bytes, bytes, string) cli_lib" where
  "demo_client serve =
     \<lparr>cl_near = demo_offline, cl_crypto = demo_lib, cl_ecdsa_sign = (\<lambda>m _. Inr m), cl_sig_to_uncompressed = Inr,
      cl_pk_to_uncompressed = Inr, cl_pk_to_compressed = Inr, cl_private_bytes = (\<lambda>k. k), cl_public_bytes = (\<lambda>k. k),
      cl_base58 = demo_hex, cl_ws_build = (\<lambda>url n. (n, Inr url)),
      cl_ws_request = (\<lambda>_ method params n. map_option (\<lambda>(n', r). (n', map_err (\<lambda>_. ''refused'') r)) (serve method params n)),
      cl_json_to_string = (\<lambda>_. ''{}''), cl_json_pretty = (\<lambda>_. ''{}''), cl_value = demo_unread,
      cl_opt_value = demo_unread, cl_string = demo_unread, cl_opt_node = demo_unread, cl_nodes = demo_unread,
      cl_to_toml = demo_to_toml, cl_from_toml = demo_from_toml\<rparr>"

lemma demo_client_serves: "serves_rpc (demo_client serve) serve (\<lambda>_. ''refused'')"
  by (simp add: serves_rpc_def demo_client_def)

theorem peers_commands_reach_server_witness:
  "\<exists>n out s'. node_run demo_start_lib demo_swarm_lib demo_rpc_lib 5 1 ''url'' (demo_config (replicate 32 7)) demo_p2p_config
      chains_test_config = Inr n \<and>
    peers_handle (demo_client (rpc_request demo_start_lib (\<lambda>s. s) (\<lambda>x. x) (\<lambda>_. []) (\<lambda>_. []) (\<lambda>_ _. None)))
      (PeersAdd ''abc'') (fst (app_config_of_partial (partial_app_template demo_host)))
      \<lparr>cw_host = demo_host, cw_net = n, cw_stdout = []\<rparr>
      = (\<lparr>cw_host = demo_host, cw_net = enqueue [AddPeer ''abc''] n, cw_stdout = out\<rparr>, Done () :: (unit, unit) outcome) \<and>
    handle_command demo_start_lib 9 (Some (AddPeer ''abc'')) (sn_server n) = Inr s' \<and>
    3 \<in> found_addrs (ps_discovery_status s')"
proof -
  let ?serve = "rpc_request demo_start_lib (\<lambda>s. s) (\<lambda>x. x) (\<lambda>_. []) (\<lambda>_. []) (\<lambda>_ _. None)"
    and ?app = "fst (app_config_of_partial (partial_app_template demo_host))"
  obtain n where n: "node_run demo_start_lib demo_swarm_lib demo_rpc_lib 5 1 ''url'' (demo_config (replicate 32 7))
      demo_p2p_config chains_test_config = Inr n" using demo_node_run by blast
  have parse: "pl_parse_addr demo_start_lib ''abc'' = Some 3" by (simp add: demo_start_lib_def)
  have "peers_accepted demo_start_lib (PeersAdd ''abc'') (sn_commands n)"
    using n parse by (auto simp: peers_accepted_def elim!: node_run_elim)
  then show ?thesis
    using n parse peers_commands_reach_server [where 'n = unit and cmd = "PeersAdd ''abc''" and app = ?app and now = 9 and s = "sn_server n",
        OF demo_client_serves [of ?serve], of "\<lparr>cw_host = demo_host, cw_net = n, cw_stdout = []\<rparr>"]
    by (auto simp: peers_tasks_def task_done_def)
qed

end
