(* ===== verification/Vm_Link.thy ===== *)
theory Vm_Link
  imports Vm_Guest "HOL-Library.AList"
begin

text \<open>
  The link between the guest library and the host: the functions that \<open>runtime/sdk/src/wasm/raw.rs\<close>
  declares, and the import object that \<open>create_wasm_imports\<close> of \<open>runtime/core/src/imports.rs\<close>
  offers to a module. The theorem says that every declared function is offered under its name and
  with its type, so that a module built with the library can be instantiated whatever WASI exports.
\<close>


section \<open>Values and functions of WebAssembly\<close>

datatype wasm_type = WI32 | WI64

datatype wasm_value = I32 i32 | I64 i64

fun wasm_type_of :: "wasm_value \<Rightarrow> wasm_type" where
  "wasm_type_of (I32 _) = WI32"
| "wasm_type_of (I64 _) = WI64"

text \<open>
  A function of the host with its type. A call with values of other types is \<open>None\<close>; the engine
  rules it out when it checks a module against its imports.
\<close>

record ('bsk, 'bpk, 'esk, 'epk) wasm_export =
  ex_params :: "wasm_type list"
  ex_result :: "wasm_type option"
  ex_call :: "wasm_value list \<Rightarrow> ('bsk, 'bpk, 'esk, 'epk) vm_context
    \<Rightarrow> (('bsk, 'bpk, 'esk, 'epk) vm_context \<times> (runtime_error + wasm_value option) res) option"

text \<open>
  \<open>Function::new_native_with_env\<close>: the types of WebAssembly for those of Rust. A pointer and an
  \<open>i32\<close> are an \<open>I32\<close>, an \<open>i64\<close> is an \<open>I64\<close>, a result \<open>u8\<close> is widened to an \<open>I32\<close>.
\<close>

definition native_result ::
  "('r \<Rightarrow> wasm_value option) \<Rightarrow> 's \<times> (runtime_error + 'r) res \<Rightarrow> 's \<times> (runtime_error + wasm_value option) res" where
  "native_result f r = (fst r, bind_err (snd r) (\<lambda>v. Inr (Inr (f v))))"

abbreviation returns_unit where "returns_unit r \<equiv> native_result (\<lambda>_. None) r"

abbreviation returns_i64 where "returns_i64 r \<equiv> native_result (\<lambda>v :: i64. Some (I64 v)) r"

abbreviation returns_u8 where "returns_u8 r \<equiv> native_result (\<lambda>v :: u8. Some (I32 (ucast v))) r"

definition native_index_i64 where
  "native_index_i64 f = \<lparr>ex_params = [WI32], ex_result = Some WI64,
     ex_call = (\<lambda>args env. case args of [I32 i] \<Rightarrow> Some (returns_i64 (f env i)) | _ \<Rightarrow> None)\<rparr>"

definition native_index_slice where
  "native_index_slice f = \<lparr>ex_params = [WI32, WI32, WI64], ex_result = None,
     ex_call = (\<lambda>args env. case args of [I32 i, I32 p, I64 n] \<Rightarrow> Some (returns_unit (f env i p n)) | _ \<Rightarrow> None)\<rparr>"

definition native_short_slice where
  "native_short_slice f = \<lparr>ex_params = [WI32, WI32], ex_result = None,
     ex_call = (\<lambda>args env. case args of [I32 p, I32 n] \<Rightarrow> Some (returns_unit (f env p n)) | _ \<Rightarrow> None)\<rparr>"

definition native_slice_i64 where
  "native_slice_i64 f = \<lparr>ex_params = [WI32, WI64], ex_result = Some WI64,
     ex_call = (\<lambda>args env. case args of [I32 p, I64 n] \<Rightarrow> Some (returns_i64 (f env p n)) | _ \<Rightarrow> None)\<rparr>"

definition native_slice_u8 where
  "native_slice_u8 f = \<lparr>ex_params = [WI32, WI64], ex_result = Some WI32,
     ex_call = (\<lambda>args env. case args of [I32 p, I64 n] \<Rightarrow> Some (returns_u8 (f env p n)) | _ \<Rightarrow> None)\<rparr>"

definition native_two_slices where
  "native_two_slices f = \<lparr>ex_params = [WI32, WI64, WI32, WI64], ex_result = None,
     ex_call = (\<lambda>args env. case args of [I32 p, I64 n, I32 q, I64 m] \<Rightarrow> Some (returns_unit (f env p n q m)) | _ \<Rightarrow> None)\<rparr>"

definition native_log where
  "native_log f = \<lparr>ex_params = [WI32, WI32, WI32, WI64, WI32, WI64], ex_result = None,
     ex_call = (\<lambda>args env. case args of [I32 p, I32 n, I32 q, I64 m, I32 r, I64 k] \<Rightarrow>
       Some (returns_unit (f env p n q m r k)) | _ \<Rightarrow> None)\<rparr>"

definition native_three_slices_u8 where
  "native_three_slices_u8 f = \<lparr>ex_params = [WI32, WI64, WI32, WI64, WI32, WI64], ex_result = Some WI32,
     ex_call = (\<lambda>args env. case args of [I32 p, I64 n, I32 q, I64 m, I32 r, I64 k] \<Rightarrow>
       Some (returns_u8 (f env p n q m r k)) | _ \<Rightarrow> None)\<rparr>"


section \<open>The import object\<close>

definition host_exports ::
  "('sig, 'bsk, 'bpk) vm_lib \<Rightarrow> (string \<times> ('bsk, 'bpk, 'esk, 'epk) wasm_export) list" where
  "host_exports lib =
     [(''promise_then'', native_short_slice (promise_then_import lib)),
      (''promise_status_length'', native_index_i64 (promise_status_length_import lib)),
      (''promise_status_write'', native_index_slice (promise_status_write_import lib)),
      (''memory_read'', native_two_slices (memory_read_import lib)),
      (''memory_read_length'', native_slice_i64 (memory_read_length_import lib)),
      (''memory_write'', native_two_slices (memory_write_import lib)),
      (''shared_memory_contains_key'', native_slice_u8 (shared_memory_contains_key_import lib)),
      (''shared_memory_read'', native_two_slices (shared_memory_read_import lib)),
      (''shared_memory_read_length'', native_slice_i64 (shared_memory_read_length_import lib)),
      (''shared_memory_write'', native_two_slices (shared_memory_write_import lib)),
      (''execution_result'', native_short_slice (execution_result_import lib)),
      (''_log'', native_log (log_import lib)),
      (''bn254_verify'', native_three_slices_u8 (bn254_verify_import lib)),
      (''bn254_sign'', native_two_slices (bn254_sign_import lib))]"

text \<open>The exports of WASI for the module are an argument, by namespace.\<close>

definition create_wasm_imports ::
  "('sig, 'bsk, 'bpk) vm_lib
    \<Rightarrow> string + (string \<times> (string \<times> ('bsk, 'bpk, 'esk, 'epk) wasm_export) list) list
    \<Rightarrow> runtime_error + (string \<times> (string \<times> ('bsk, 'bpk, 'esk, 'epk) wasm_export) list) list" where
  "create_wasm_imports lib wasi =
     (let host_import_obj = [(''env'', host_exports lib)] in
      and_then (map_err WasiError wasi) (\<lambda>wasi_import_obj.
      and_then (ok_or (runtime_error_of_message ''VM could not get env namespace'') (map_of host_import_obj ''env''))
        (\<lambda>exports. Inr (AList.update ''env'' exports wasi_import_obj))))"

definition get_export ::
  "(string \<times> (string \<times> ('bsk, 'bpk, 'esk, 'epk) wasm_export) list) list \<Rightarrow> string \<Rightarrow> string
    \<Rightarrow> ('bsk, 'bpk, 'esk, 'epk) wasm_export option" where
  "get_export imports ns name = Option.bind (map_of imports ns) (\<lambda>exports. map_of exports name)"


section \<open>The declarations of the guest\<close>

text \<open>The types of the declarations, and what the C ABI of \<open>wasm32\<close> makes of them.\<close>

datatype c_type = CPtr | CI32 | CI64 | CU8

fun c_abi :: "c_type \<Rightarrow> wasm_type" where
  "c_abi CPtr = WI32"
| "c_abi CI32 = WI32"
| "c_abi CI64 = WI64"
| "c_abi CU8 = WI32"

definition raw_externs :: "(string \<times> c_type list \<times> c_type option) list" where
  "raw_externs =
     [(''promise_then'', [CPtr, CI32], None),
      (''promise_status_length'', [CI32], Some CI64),
      (''promise_status_write'', [CI32, CPtr, CI64], None),
      (''memory_read'', [CPtr, CI64, CPtr, CI64], None),
      (''memory_read_length'', [CPtr, CI64], Some CI64),
      (''memory_write'', [CPtr, CI64, CPtr, CI64], None),
      (''shared_memory_read'', [CPtr, CI64, CPtr, CI64], None),
      (''shared_memory_contains_key'', [CPtr, CI64], Some CU8),
      (''shared_memory_read_length'', [CPtr, CI64], Some CI64),
      (''shared_memory_write'', [CPtr, CI64, CPtr, CI64], None),
      (''execution_result'', [CPtr, CI32], None),
      (''_log'', [CPtr, CI32, CPtr, CI64, CPtr, CI64], None),
      (''bn254_verify'', [CPtr, CI64, CPtr, CI64, CPtr, CI64], Some CU8),
      (''bn254_sign'', [CPtr, CI64, CPtr, CI64], None)]"


section \<open>Linking\<close>

text \<open>An export that takes every argument of its type and answers with its type.\<close>

definition export_typed :: "('bsk, 'bpk, 'esk, 'epk) wasm_export \<Rightarrow> bool" where
  "export_typed e \<longleftrightarrow>
     (\<forall>args env. map wasm_type_of args = ex_params e \<longrightarrow>
        (\<exists>env' r. ex_call e args env = Some (env', r) \<and>
          (\<forall>v. r = Inr (Inr v) \<longrightarrow> map_option wasm_type_of v = ex_result e)))"

lemma wasm_type_of_iff: "wasm_type_of v = WI32 \<longleftrightarrow> (\<exists>x. v = I32 x)" "wasm_type_of v = WI64 \<longleftrightarrow> (\<exists>x. v = I64 x)"
  by (cases v; simp)+

lemma natives_typed:
  "export_typed (native_index_i64 f1)" "export_typed (native_index_slice f2)" "export_typed (native_short_slice f3)"
  "export_typed (native_slice_i64 f4)" "export_typed (native_slice_u8 f5)" "export_typed (native_two_slices f6)"
  "export_typed (native_log f7)" "export_typed (native_three_slices_u8 f8)"
  by (auto simp: export_typed_def native_index_i64_def native_index_slice_def native_short_slice_def native_slice_i64_def
      native_slice_u8_def native_two_slices_def native_log_def native_three_slices_u8_def native_result_def
      wasm_type_of_iff map_eq_Cons_conv res_simps)

text \<open>The types of the natives, for comparing them with a declaration.\<close>

lemma native_types:
  "ex_params (native_index_i64 f1) = [WI32]" "ex_result (native_index_i64 f1) = Some WI64"
  "ex_params (native_index_slice f2) = [WI32, WI32, WI64]" "ex_result (native_index_slice f2) = None"
  "ex_params (native_short_slice f3) = [WI32, WI32]" "ex_result (native_short_slice f3) = None"
  "ex_params (native_slice_i64 f4) = [WI32, WI64]" "ex_result (native_slice_i64 f4) = Some WI64"
  "ex_params (native_slice_u8 f5) = [WI32, WI64]" "ex_result (native_slice_u8 f5) = Some WI32"
  "ex_params (native_two_slices f6) = [WI32, WI64, WI32, WI64]" "ex_result (native_two_slices f6) = None"
  "ex_params (native_log f7) = [WI32, WI32, WI32, WI64, WI32, WI64]" "ex_result (native_log f7) = None"
  "ex_params (native_three_slices_u8 f8) = [WI32, WI64, WI32, WI64, WI32, WI64]"
  "ex_result (native_three_slices_u8 f8) = Some WI32"
  by (simp_all add: native_index_i64_def native_index_slice_def native_short_slice_def native_slice_i64_def
      native_slice_u8_def native_two_slices_def native_log_def native_three_slices_u8_def)

definition provides :: "('bsk, 'bpk, 'esk, 'epk) wasm_export option \<Rightarrow> c_type list \<Rightarrow> c_type option \<Rightarrow> bool" where
  "provides found params result \<longleftrightarrow>
     (\<exists>e. found = Some e \<and> ex_params e = map c_abi params \<and> ex_result e = map_option c_abi result \<and> export_typed e)"

lemma externs_provided:
  "list_all (\<lambda>(name, params, result). provides (map_of (host_exports lib) name) params result) raw_externs"
  by (simp add: raw_externs_def host_exports_def provides_def native_types natives_typed)

text \<open>
  C26: A program built with the guest library can be linked. Whatever namespaces WASI exports, the
  import object offers every function that the library declares, in the namespace \<open>env\<close>, with the
  declared parameters and result, and such a function answers every call at these types with a
  value of the result type, an error or a panic. The library declares everything that is offered,
  and the other namespaces are those of WASI. Without the exports of WASI there is no import object.
\<close>

theorem guest_library_links:
  "case create_wasm_imports lib wasi of
     Inl e \<Rightarrow> (\<exists>m. wasi = Inl m \<and> e = WasiError m)
   | Inr imports \<Rightarrow>
       list_all (\<lambda>(name, params, result). provides (get_export imports ''env'' name) params result) raw_externs \<and>
       (\<forall>name. get_export imports ''env'' name = None \<or> name \<in> fst ` set raw_externs) \<and>
       (\<exists>obj. wasi = Inr obj \<and> (\<forall>ns name. ns = ''env'' \<or> get_export imports ns name = get_export obj ns name))"
proof (cases wasi)
  case (Inr obj)
  have "map_of (host_exports lib) name = None \<or> name \<in> fst ` set raw_externs" for name
    by (simp add: host_exports_def raw_externs_def)
  moreover have "create_wasm_imports lib wasi = Inr (AList.update ''env'' (host_exports lib) obj)"
    using Inr by (simp add: create_wasm_imports_def map_err_def ok_or_def)
  ultimately show ?thesis
    using Inr externs_provided [of lib] by (auto simp: get_export_def AList.update_conv')
qed (simp add: create_wasm_imports_def map_err_def)

end
