(* ===== verification/Test_Programs.thy ===== *)
theory Test_Programs
  imports Guest_Cli Vm_Runtime
begin

text \<open>
  The programs that the runtime's tests run: \<open>wasm/test/promise-wasm-bin/src/main.rs\<close> and
  \<open>wasm/test/demo-cli/src/main.rs\<close>, as tasks over the context of a run, and the host adapter of the
  tests (\<open>runtime/core/src/test_host.rs\<close>). The theorems run the programs in the model of the
  runtime and show that the outcomes that the tests check hold for every engine that executes the
  programs and for every host adapter with a working database.
\<close>


section \<open>Hexadecimal text\<close>

text \<open>\<open>char::to_digit(16)\<close>, and \<open>u8::from_str_radix(_, 16)\<close>: a plus sign may precede the digits.\<close>

definition to_digit16 :: "char \<Rightarrow> nat option" where
  "to_digit16 c =
     (let n = of_char c in
      if 48 \<le> n \<and> n \<le> 57 then Some (n - 48)
      else if 97 \<le> n \<and> n \<le> 102 then Some (n - 87)
      else if 65 \<le> n \<and> n \<le> 70 then Some (n - 55)
      else None)"

fun radix16 :: "nat \<Rightarrow> string \<Rightarrow> nat option" where
  "radix16 acc [] = Some acc"
| "radix16 acc (c # cs) =
     (case to_digit16 c of
        None \<Rightarrow> None
      | Some d \<Rightarrow> if 255 < acc * 16 + d then None else radix16 (acc * 16 + d) cs)"

definition u8_from_str_radix16 :: "string \<Rightarrow> u8 option" where
  "u8_from_str_radix16 s =
     (if s = [] then None
      else map_option of_nat (radix16 0 (if hd s = CHR ''+'' \<and> tl s \<noteq> [] then tl s else s)))"

text \<open>
  A slice of a string that ends past its end or inside a character is a panic; the rest of the
  string begins with a character exactly when its first byte does not continue one.
\<close>

definition char_boundary :: "string \<Rightarrow> bool" where
  "char_boundary rest \<longleftrightarrow> (case rest of [] \<Rightarrow> True | c # _ \<Rightarrow> \<not> continuation (of_nat (of_char c)))"

fun decode_hex :: "string \<Rightarrow> (unit + bytes) res" where
  "decode_hex [] = Inr (Inr [])"
| "decode_hex [c] = Inl (Panic ''byte index is out of bounds'')"
| "decode_hex (a # b # rest) =
     (if \<not> char_boundary (a # b # rest) \<or> \<not> char_boundary rest then Inl (Panic ''byte index is not a char boundary'')
      else case u8_from_str_radix16 [a, b] of
        None \<Rightarrow> Inr (Inl ())
      | Some x \<Rightarrow> bind_err (decode_hex rest) (\<lambda>xs. Inr (Inr (x # xs))))"

definition hex_digit :: "nat \<Rightarrow> char" where
  "hex_digit n = ''0123456789abcdef'' ! n"

definition encode_hex :: "bytes \<Rightarrow> string" where
  "encode_hex bs = concat (map (\<lambda>b. [hex_digit (unat b div 16), hex_digit (unat b mod 16)]) bs)"


section \<open>The promise program\<close>

definition args_get :: "nat \<Rightarrow> string list \<Rightarrow> string option" where
  "args_get i args = (if i < length args then Some (args ! i) else None)"

text \<open>\<open>{:?}\<close> of a vector of bytes; that of a vector of strings escapes characters and is an argument.\<close>

fun debug_items :: "string list \<Rightarrow> string" where
  "debug_items [] = []"
| "debug_items [x] = x"
| "debug_items (x # y # xs) = x @ '', '' @ debug_items (y # xs)"

definition debug_bytes :: "bytes \<Rightarrow> string" where
  "debug_bytes bs = ''['' @ debug_items (map (\<lambda>b. decimal (unat b)) bs) @ '']''"

definition sdk_execution_result ::
  "bytes \<Rightarrow> ('bsk, 'bpk, 'esk, 'epk) vm_context \<Rightarrow> ('bsk, 'bpk, 'esk, 'epk) vm_context" where
  "sdk_execution_result r ctx = ctx\<lparr>vc_result := r\<rparr>"

type_synonym ('bsk, 'bpk, 'esk, 'epk) guest_task =
  "string list \<Rightarrow> ('bsk, 'bpk, 'esk, 'epk) vm_context \<Rightarrow> (('bsk, 'bpk, 'esk, 'epk) vm_context, string list) guest"

definition promise_main :: "(string list \<Rightarrow> string) \<Rightarrow> ('bsk, 'bpk, 'esk, 'epk) guest_task" where
  "promise_main dbg args ctx =
     (sdk_start (db_set ''from_wasm'' ''somevalue'')
        [db_get ''from_wasm'', call_self ''db_fetch_success'' [''ArgFromInsideWasm'']] ctx,
      Inr (Inr [''Hello World '' @ dbg args]))"

definition db_fetch_success :: "(string list \<Rightarrow> string) \<Rightarrow> ('bsk, 'bpk, 'esk, 'epk) guest_task" where
  "db_fetch_success dbg args ctx =
     state_bind (sdk_result 1 ctx) (\<lambda>ctx _.
     (sdk_start (db_set ''another_one'' ''a'')
        [db_set ''x'' ''y'', db_get ''another_one'', call_self ''completed_all'' []] ctx,
      Inr (Inr [''Inside the callback '' @ dbg args])))"

definition completed_all :: "('bsk, 'bpk, 'esk, 'epk) guest_task" where
  "completed_all args ctx =
     state_bind (sdk_result 2 (sdk_start (db_set ''test_value'' ''completed'') [] ctx)) (\<lambda>ctx _.
     (ctx, Inr (Inr [])))"

definition http_fetch_test :: "(string list \<Rightarrow> string) \<Rightarrow> ('bsk, 'bpk, 'esk, 'epk) guest_task" where
  "http_fetch_test dbg args ctx =
     state_bind (ret (unwrap (args_get 1 args)) ctx) (\<lambda>ctx url.
     (sdk_start (http_fetch url) [call_self ''http_fetch_test_success'' []] ctx,
      Inr (Inr [''Hello world '' @ dbg args])))"

definition http_fetch_test_success :: "('bsk, 'bpk, 'esk, 'epk) guest_task" where
  "http_fetch_test_success args ctx =
     state_bind (sdk_result 0 ctx) (\<lambda>ctx result.
     case result of
       Fulfilled (Some bs) \<Rightarrow>
         state_bind (ret (and_then (from_bytes_string bs) (expect_ok ''unwrap on an Err value'')) ctx) (\<lambda>ctx v.
         (sdk_start (db_set ''http_fetch_result'' v) [] ctx, Inr (Inr [])))
     | _ \<Rightarrow> (ctx, Inr (Inr [])))"

definition memory_adapter_test_success :: "('bsk, 'bpk, 'esk, 'epk) guest_task" where
  "memory_adapter_test_success args ctx =
     (let v = to_bytes_num 1 (234 :: u8);
          ctx = sdk_memory_write ''u8'' v ctx;
          read_value = sdk_memory_read ''u8'' ctx in
      if read_value \<noteq> v then (ctx, Inl (Panic ''assertion failed''))
      else
        (sdk_start (call_self ''memory_adapter_callback_test_success'' []) []
           (sdk_memory_write ''u32'' (to_bytes_num 4 (3467 :: u32)) ctx),
         Inr (Inr [''read_value: '' @ debug_bytes read_value])))"

definition memory_adapter_callback_test_success :: "('bsk, 'bpk, 'esk, 'epk) guest_task" where
  "memory_adapter_callback_test_success args ctx =
     (let ctx = sdk_start (db_set ''u8_result'' (debug_bytes (sdk_memory_read ''u8'' ctx))) [] ctx in
      (sdk_start (db_set ''u32_result'' (debug_bytes (sdk_memory_read ''u32'' ctx))) [] ctx, Inr (Inr [])))"

definition test_setting_execution_result :: "('bsk, 'bpk, 'esk, 'epk) guest_task" where
  "test_setting_execution_result args ctx =
     (sdk_start (db_set ''random_key'' ''random_value'') [call_self ''test_setting_execution_result_step1'' []] ctx,
      Inr (Inr []))"

definition test_setting_execution_result_step1 :: "('bsk, 'bpk, 'esk, 'epk) guest_task" where
  "test_setting_execution_result_step1 args ctx =
     (sdk_execution_result (to_bytes_string ''test-success'') ctx, Inr (Inr []))"

definition test_limited_runtime :: "('bsk, 'bpk, 'esk, 'epk) guest_task" where
  "test_limited_runtime args ctx =
     (sdk_start (db_set ''foo'' ''bar'') [call_self ''test_rejected'' []] ctx, Inr (Inr []))"

text \<open>An argument in hexadecimal: missing, not hexadecimal or of odd length, it is a panic.\<close>

definition hex_arg :: "nat \<Rightarrow> string list \<Rightarrow> bytes res" where
  "hex_arg i args = and_then (unwrap (args_get i args)) (\<lambda>s. and_then (decode_hex s) (expect_ok ''unwrap on an Err value''))"

definition bn254_verify_test ::
  "('sig, 'bsk, 'bpk) vm_lib \<Rightarrow> (string list \<Rightarrow> string) \<Rightarrow> ('bsk, 'bpk, 'esk, 'epk) guest_task" where
  "bn254_verify_test lib dbg args ctx =
     state_bind (ret (hex_arg 1 args) ctx) (\<lambda>ctx message.
     state_bind (ret (hex_arg 2 args) ctx) (\<lambda>ctx signature_bytes.
     state_bind (ret (expect_ok ''unwrap on an Err value'' (sig_from_uncompressed lib signature_bytes)) ctx) (\<lambda>ctx signature.
     state_bind (ret (hex_arg 3 args) ctx) (\<lambda>ctx public_key_bytes.
     state_bind (ret (expect_ok ''unwrap on an Err value'' (pk_from_uncompressed lib public_key_bytes)) ctx) (\<lambda>ctx pk.
     state_bind (sdk_bn254_verify lib message signature pk ctx) (\<lambda>ctx result.
     (sdk_start (db_set ''bn254_verify_result'' (if result then ''true'' else ''false'')) [] ctx,
      Inr (Inr [''bn254 verify test: '' @ dbg args]))))))))"

definition bn254_sign_test ::
  "('sig, 'bsk, 'bpk) vm_lib \<Rightarrow> (bytes \<Rightarrow> string + 'bsk) \<Rightarrow> (string list \<Rightarrow> string) \<Rightarrow> ('bsk, 'bpk, 'esk, 'epk) guest_task" where
  "bn254_sign_test lib parse_sk dbg args ctx =
     state_bind (ret (hex_arg 1 args) ctx) (\<lambda>ctx message.
     state_bind (ret (hex_arg 2 args) ctx) (\<lambda>ctx private_key_bytes.
     state_bind (ret (expect_ok ''unwrap on an Err value'' (parse_sk private_key_bytes)) ctx) (\<lambda>ctx _.
     state_bind (sdk_bn254_sign lib message ctx) (\<lambda>ctx result.
     state_bind (ret (expect_ok ''unwrap on an Err value'' (sig_to_uncompressed lib result)) ctx) (\<lambda>ctx result_bytes.
     (sdk_start (db_set ''bn254_sign_result'' (encode_hex result_bytes)) [] ctx,
      Inr (Inr [''bn254 sign test: '' @ dbg args])))))))"

definition test_error_turns_into_rejection :: "('bsk, 'bpk, 'esk, 'epk) guest_task" where
  "test_error_turns_into_rejection args ctx =
     (sdk_start (http_fetch ''fail!'') [call_self ''test_rejected'' []] ctx, Inr (Inr []))"

definition test_rejected :: "('bsk, 'bpk, 'esk, 'epk) guest_task" where
  "test_rejected args ctx =
     state_bind (sdk_result 0 ctx) (\<lambda>ctx result.
     case result of
       Rejected rejected \<Rightarrow>
         state_bind (ret (and_then (from_bytes_string rejected) (expect_ok ''unwrap on an Err value'')) ctx) (\<lambda>ctx s.
         (ctx, Inr (Inr [''Promise rejected: '' @ s])))
     | _ \<Rightarrow> (ctx, Inl (Panic (''didn'' @ [CHR 0x27] @ ''t reject''))))"

definition shared_memory_test :: "('bsk, 'bpk, 'esk, 'epk) guest_task" where
  "shared_memory_test args ctx = (sdk_shared_set ''foo'' (to_bytes_string ''bar'') ctx, Inr (Inr []))"

definition shared_memory_success :: "('bsk, 'bpk, 'esk, 'epk) guest_task" where
  "shared_memory_success args ctx =
     state_bind (ret (and_then (from_bytes_string (sdk_shared_get ''foo'' ctx)) (expect_ok ''unwrap on an Err value'')) ctx)
       (\<lambda>ctx bar. if ''bar'' = bar then (ctx, Inr (Inr [])) else (ctx, Inl (Panic ''assertion failed'')))"

text \<open>The functions by the names they are exported with; \<open>_start\<close> runs \<open>main\<close>.\<close>

definition promise_program ::
  "('sig, 'bsk, 'bpk) vm_lib \<Rightarrow> (bytes \<Rightarrow> string + 'bsk) \<Rightarrow> (string list \<Rightarrow> string)
    \<Rightarrow> (string \<times> ('bsk, 'bpk, 'esk, 'epk) guest_task) list" where
  "promise_program lib parse_sk dbg =
     [(''_start'', promise_main dbg), (''db_fetch_success'', db_fetch_success dbg), (''completed_all'', completed_all),
      (''http_fetch_test'', http_fetch_test dbg), (''http_fetch_test_success'', http_fetch_test_success),
      (''memory_adapter_test_success'', memory_adapter_test_success),
      (''memory_adapter_callback_test_success'', memory_adapter_callback_test_success),
      (''test_setting_execution_result'', test_setting_execution_result),
      (''test_setting_execution_result_step1'', test_setting_execution_result_step1),
      (''test_limited_runtime'', test_limited_runtime), (''bn254_verify_test'', bn254_verify_test lib dbg),
      (''bn254_sign_test'', bn254_sign_test lib parse_sk dbg),
      (''test_error_turns_into_rejection'', test_error_turns_into_rejection), (''test_rejected'', test_rejected),
      (''shared_memory_test'', shared_memory_test), (''shared_memory_success'', shared_memory_success)]"


section \<open>The demonstration of the command line\<close>

text \<open>It differs from the command line program of the node in the commands only.\<close>

datatype demo_command =
    DemoHello
  | DemoHttpFetch string
  | DemoView chain_kind string string string
  | DemoCall chain_kind string string string u128

definition demo_main ::
  "demo_command option \<Rightarrow> ('bsk, 'bpk, 'esk, 'epk) vm_context \<Rightarrow> (('bsk, 'bpk, 'esk, 'epk) vm_context, string list) guest" where
  "demo_main command ctx =
     (case command of
        None \<Rightarrow> (ctx, Inr (Inr []))
      | Some (DemoHttpFetch url) \<Rightarrow> (sdk_start (http_fetch url) [call_self ''http_fetch_result'' []] ctx, Inr (Inr []))
      | Some DemoHello \<Rightarrow> (ctx, Inr (Inr [''Hello World from inside wasm'']))
      | Some (DemoView chain contract_id method_name args) \<Rightarrow>
          (sdk_start (chain_view chain contract_id method_name (as_bytes args)) [call_self ''chain_view_test_success'' []] ctx,
           Inr (Inr []))
      | Some (DemoCall chain contract_id method_name args deposit) \<Rightarrow>
          (sdk_start (chain_call chain contract_id method_name (as_bytes args) deposit)
             [call_self ''chain_call_test_success'' []] ctx, Inr (Inr [])))"

text \<open>The commands that both programs have do the same.\<close>

fun cli_of_demo :: "demo_command \<Rightarrow> cli_command" where
  "cli_of_demo DemoHello = Hello"
| "cli_of_demo (DemoHttpFetch url) = HttpFetch url"
| "cli_of_demo (DemoView chain contract_id method_name args) = View chain contract_id method_name args"
| "cli_of_demo (DemoCall chain contract_id method_name args deposit) = Call chain contract_id method_name args deposit"

lemma demo_main_cli: "demo_main command ctx = cli_main (map_option cli_of_demo command) ctx"
  by (auto simp: demo_main_def cli_main_def split: option.splits demo_command.splits)


section \<open>The host adapter of the tests\<close>

text \<open>The database is a map; requests and the chains are third-party code.\<close>

definition runtime_test_adapter ::
  "(string \<Rightarrow> string + string) \<Rightarrow> (chain_kind \<Rightarrow> string \<Rightarrow> string \<Rightarrow> bytes \<Rightarrow> (string + bytes) res)
    \<Rightarrow> (chain_kind \<Rightarrow> string \<Rightarrow> string \<Rightarrow> bytes \<Rightarrow> u128 \<Rightarrow> 'cfg \<Rightarrow> (string + bytes) res)
    \<Rightarrow> (string \<rightharpoonup> string, 'cfg) host_adapter" where
  "runtime_test_adapter http_get view call =
     \<lparr>ha_db_get = (\<lambda>key db. (db, Inr (Inr (db key)))), ha_db_set = (\<lambda>key v db. (db(key \<mapsto> v), Inr (Inr ()))),
      ha_http_fetch = (\<lambda>url db. (db, Inr (http_get url))),
      ha_chain_call = (\<lambda>c contract_id method_name args dep cfg db. (db, call c contract_id method_name args dep cfg)),
      ha_chain_view = (\<lambda>c contract_id method_name args db. (db, view c contract_id method_name args)),
      ha_trigger_event = (\<lambda>_ db. (db, Inr (Inr ())))\<rparr>"


section \<open>The round trip of hexadecimal text\<close>

lemma below_16: "n < 16 \<Longrightarrow> n \<in> {0, 1, 2, 3, 4, 5, 6, 7, 8, 9, 10, 11, 12, 13, 14, 15 :: nat}"
  by (simp, arith)

lemma to_digit16_hex_digit: "n < 16 \<Longrightarrow> to_digit16 (hex_digit n) = Some n"
  by (drule below_16) (auto simp: to_digit16_def hex_digit_def Let_def)

lemma hex_digit_plain: "n < 16 \<Longrightarrow> hex_digit n \<noteq> CHR ''+'' \<and> \<not> continuation (of_nat (of_char (hex_digit n)))"
  by (drule below_16) (auto simp: hex_digit_def byte_in_def)

lemma from_str_radix_hex: "u8_from_str_radix16 [hex_digit (unat b div 16), hex_digit (unat b mod 16)] = Some b" for b :: u8
proof -
  have "unat b < 256" using unsigned_less [of b] by simp
  then have "unat b div 16 < 16" "unat b mod 16 < 16" "unat b div 16 * 16 + unat b mod 16 = unat b" by simp_all
  then show ?thesis
    using hex_digit_plain \<open>unat b < 256\<close> by (simp add: u8_from_str_radix16_def to_digit16_hex_digit)
qed

lemma encode_hex_boundary: "char_boundary (encode_hex bs)"
proof (cases bs)
  case (Cons b rest)
  have "unat b < 256" using unsigned_less [of b] by simp
  then show ?thesis
    using hex_digit_plain [of "unat b div 16"] Cons by (simp add: char_boundary_def encode_hex_def)
qed (simp add: char_boundary_def encode_hex_def)

lemma decode_encode_hex: "decode_hex (encode_hex bs) = Inr (Inr bs)"
proof (induction bs)
  case (Cons b bs)
  have "encode_hex (b # bs) = hex_digit (unat b div 16) # hex_digit (unat b mod 16) # encode_hex bs"
    by (simp add: encode_hex_def)
  then show ?case
    using encode_hex_boundary [of "b # bs"] encode_hex_boundary [of bs] from_str_radix_hex [of b] Cons
    by (simp add: bind_err_def)
qed (simp add: encode_hex_def)


section \<open>Running a program\<close>

text \<open>
  An engine that executes a program: every exported function is found, a call has the effect and
  the output of its task, with the name of the function as the first argument, and a task that
  fails is a trap. The engine has no other way to fail.
\<close>

definition lines_text :: "string list \<Rightarrow> string" where
  "lines_text ls = concat (map (\<lambda>l. l @ [CHR 0x0A]) ls)"

definition runs_program ::
  "('m, 'bsk, 'bpk, 'esk, 'epk) wasm_engine \<Rightarrow> ('bsk, 'bpk, 'esk, 'epk) node_config \<Rightarrow> 'm
    \<Rightarrow> (string \<times> ('bsk, 'bpk, 'esk, 'epk) guest_task) list \<Rightarrow> bool" where
  "runs_program eng cfg m program \<longleftrightarrow>
     we_bn254_uncompressed eng (public_key (nc_keypair_bn254 cfg)) \<noteq> None \<and>
     (\<forall>f env args. we_finalize eng f env args) \<and> we_imports eng m \<and> we_instantiate eng m \<and>
     (\<forall>f. we_has_function eng m f \<longleftrightarrow> map_of program f \<noteq> None) \<and>
     (\<forall>f task env args ctx. map_of program f = Some task \<longrightarrow>
        (case task (f # args) ctx of
           (ctx', Inr (Inr out)) \<Rightarrow> we_call eng m f env args ctx = (ctx', Inr (), StreamText (lines_text out), StreamText [])
         | (ctx', _) \<Rightarrow> (\<exists>e out err. we_call eng m f env args ctx = (ctx', Inl e, out, err))))"

text \<open>A call of a function of the program, as a step of the runtime.\<close>

definition after_call :: "string list \<Rightarrow> ('bsk, 'bpk, 'esk, 'epk) vm_context \<Rightarrow> 'w vm_state \<Rightarrow> 'w vm_state" where
  "after_call out ctx st =
     st\<lparr>vs_memory_adapter := vc_memory_adapter ctx, vs_shared_memory := vc_shared_memory ctx,
        vs_stdout := vs_stdout st @ (if out = [] then [] else [lines_text out])\<rparr>"

lemma lines_text_empty: "lines_text out = [] \<longleftrightarrow> out = []"
  by (auto simp: lines_text_def)

lemma program_call:
  assumes "runs_program eng (rt_node_config rt) m program" "map_of program (cs_function_name c) = Some task"
    and "task (cs_function_name c # cs_args c)
      (create_vm_context (vs_memory_adapter st) (vs_shared_memory st) current promise_queue_new (rt_node_config rt))
      = (ctx, Inr (Inr out))"
  shows "exec_action eng rt um m (CallSelf c) current st =
    (after_call out ctx st, Inr (Inr (Fulfilled (Some (vc_result ctx)), Some (vc_promise_queue ctx))))"
proof -
  have "we_call eng m (cs_function_name c) env (cs_args c)
      (create_vm_context (vs_memory_adapter st) (vs_shared_memory st) current promise_queue_new (rt_node_config rt))
      = (ctx, Inr (), StreamText (lines_text out), StreamText [])" for env
    using assms unfolding runs_program_def by (metis (mono_tags, lifting) case_prod_conv old.sum.simps(6))
  moreover obtain b where "we_bn254_uncompressed eng (public_key (nc_keypair_bn254 (rt_node_config rt))) = Some b"
    using assms(1) by (auto simp: runs_program_def)
  ultimately have "exec_call_self eng rt m c current st = (after_call out ctx st, Inr (Inr (vc_result ctx, vc_promise_queue ctx)))"
    using assms(1,2) by (simp add: exec_call_self_def wasi_env_def runs_program_def read_stdout_def read_stderr_def Let_def
        after_call_def require_def lines_text_empty)
  then show ?thesis by (simp add: exec_action_def is_limited_action_def)
qed

text \<open>A database that works: a value that is set goes to the world, and reading changes nothing.\<close>

definition database_ok ::
  "('w, 'cfg) host_adapter \<Rightarrow> (string \<Rightarrow> 'w \<Rightarrow> string option) \<Rightarrow> (string \<Rightarrow> string \<Rightarrow> 'w \<Rightarrow> 'w) \<Rightarrow> bool" where
  "database_ok ha get put \<longleftrightarrow>
     (\<forall>k v w. ha_db_set ha k v w = (put k v w, Inr (Inr ()))) \<and> (\<forall>k w. ha_db_get ha k w = (w, Inr (Inr (get k w))))"

lemma database_actions:
  assumes "database_ok (rt_host_adapter rt) get put" "\<not> rt_limited rt"
  shows "rust_string v \<Longrightarrow> exec_action eng rt um m (DatabaseSet \<lparr>ds_key = k, ds_value = as_bytes v\<rparr>) current st =
      (st\<lparr>vs_world := put k v (vs_world st)\<rparr>, Inr (Inr (Fulfilled (Some []), None)))"
    "exec_action eng rt um m (DatabaseGet \<lparr>dg_key = k\<rparr>) current st =
      (st, Inr (Inr (Fulfilled (map_option as_bytes (get k (vs_world st))), None)))"
  using assms by (simp_all add: database_ok_def exec_action_def on_world_def rust_string_def status_of_result_def
      status_of_option_result_def to_bytes_unit_def to_bytes_string_def [abs_def])

lemma http_action:
  assumes "ha_http_fetch (rt_host_adapter rt) url w = (w', Inr r)"
  shows "vs_world st = w \<Longrightarrow> exec_action eng rt um m (Http \<lparr>h_url = url\<rparr>) current st =
    (st\<lparr>vs_world := w'\<rparr>, Inr (Inr (status_of_result as_bytes r, None)))"
  using assms by (simp add: exec_action_def on_world_def is_limited_action_def to_bytes_string_def [abs_def])

definition vm_start :: "string option \<Rightarrow> string list \<Rightarrow> vm_config" where
  "vm_start f args = \<lparr>vm_program_name = ''consensus'', vm_start_func = f, vm_args = args, vm_debug = True\<rparr>"

text \<open>The promises that a task puts in the queue.\<close>

lemmas queue_simps = sdk_start_def promise_chain_def wasm_promise_start_def wasm_promise_then_def add_to_queue_def
  db_set_def db_get_def call_self_def http_fetch_def wasm_promise_new_def create_vm_context_def promise_queue_new_def

lemmas run_simps = entry_queue_def vm_start_def add_promise_def current_status_def sdk_result_def Let_def
  execution_result_of_status_def exit_info_of_result_def exit_info_of_status_def exit_info_of_def last_result_def

lemmas task_defs = promise_main_def db_fetch_success_def completed_all_def http_fetch_test_def http_fetch_test_success_def
  memory_adapter_test_success_def memory_adapter_callback_test_success_def test_setting_execution_result_def
  test_setting_execution_result_step1_def test_limited_runtime_def test_error_turns_into_rejection_def test_rejected_def
  shared_memory_test_def shared_memory_success_def

lemmas program_simps = run_simps queue_simps after_call_def promise_program_def task_defs

text \<open>
  C21: The promises of a program are carried through to the end. Run by an engine that executes it
  on a host with a working database, the test program ends with exit code 0 after its three rounds
  of promises, whatever its arguments; each callback found the promises it asked for, and the
  database has exactly the four values of the program, written in the order of the promises.
\<close>

theorem test_program_completes:
  assumes "runs_program eng (rt_node_config rt) m (promise_program lib parse_sk dbg)"
    and "rt_wasm_module rt = Some m" "\<not> rt_limited rt" "database_ok (rt_host_adapter rt) get put"
  shows "\<exists>st' res. start_runtime eng rt um (vm_start None args) st = Some (st', Inr res) \<and>
    exit_code (vr_exit_info res) = 0 \<and>
    vs_world st' = put ''test_value'' ''completed'' (put ''x'' ''y'' (put ''another_one'' ''a''
      (put ''from_wasm'' ''somevalue'' (vs_world st))))"
proof -
  note call = program_call [OF assms(1)] and data = database_actions [OF assms(4,3)]
  have "rust_string ''somevalue''" "rust_string ''a''" "rust_string ''y''" "rust_string ''completed''"
    by (simp_all add: rust_string_def as_bytes_def)
  with assms(2) show ?thesis
    by (simp add: start_runtime_def) (subst execute_promise_queue.simps, simp add: program_simps call data)+
qed

text \<open>The program run by the function that stands for the engine, on the adapter of the tests.\<close>

definition program_engine ::
  "(string \<times> (bytes, bytes, bytes, bytes) guest_task) list \<Rightarrow> (unit, bytes, bytes, bytes, bytes) wasm_engine" where
  "program_engine program =
     \<lparr>we_compile = (\<lambda>_. Inr ()), we_hex_encode = encode_hex, we_ed25519_bytes = (\<lambda>k. k), we_bn254_uncompressed = Some,
      we_finalize = (\<lambda>_ _ _. True), we_imports = (\<lambda>_. True), we_instantiate = (\<lambda>_. True),
      we_has_function = (\<lambda>_ f. map_of program f \<noteq> None),
      we_call = (\<lambda>_ f _ args ctx.
        case map_of program f of
          None \<Rightarrow> (ctx, Inl ''no such function'', StreamText [], StreamText [])
        | Some task \<Rightarrow>
            (case task (f # args) ctx of
               (ctx', Inr (Inr out)) \<Rightarrow> (ctx', Inr (), StreamText (lines_text out), StreamText [])
             | (ctx', _) \<Rightarrow> (ctx', Inl ''unreachable'', StreamText [], StreamText [])))\<rparr>"

lemma program_engine_runs: "runs_program (program_engine program) cfg () program"
  by (auto simp: runs_program_def program_engine_def split: prod.splits sum.splits)

definition test_runtime :: "bool \<Rightarrow> (unit, string \<rightharpoonup> string, bytes, bytes, bytes, bytes) runtime" where
  "test_runtime limited =
     \<lparr>rt_wasm_module = Some (), rt_limited = limited,
      rt_host_adapter = runtime_test_adapter (\<lambda>_. Inl ''offline'') (\<lambda>_ _ _ _. Inr (Inl ''offline''))
        (\<lambda>_ _ _ _ _ _. Inr (Inl ''offline'')),
      rt_node_config = demo_config [7]\<rparr>"

definition test_state :: "(string \<rightharpoonup> string) vm_state" where
  "test_state =
     \<lparr>vs_memory_adapter = in_memory_default, vs_shared_memory = in_memory_default, vs_world = Map.empty, vs_p2p = [],
      vs_p2p_open = True, vs_stdout = [], vs_stderr = [], vs_trace = []\<rparr>"

lemma test_adapter_database: "database_ok (runtime_test_adapter h v c) (\<lambda>k w. w k) (\<lambda>k v w. w(k \<mapsto> v))"
  by (simp add: database_ok_def runtime_test_adapter_def)

theorem test_program_completes_witness:
  "\<exists>st' res. start_runtime (program_engine (promise_program demo_vm Inr concat)) (test_runtime False) chars_of
      (vm_start None [''hello world'']) test_state = Some (st', Inr res) \<and>
    exit_code (vr_exit_info res) = 0 \<and> vs_world st' ''test_value'' = Some ''completed'' \<and> dom (vs_world st') =
      {''from_wasm'', ''another_one'', ''x'', ''test_value''}"
proof -
  have "\<exists>st' res. start_runtime (program_engine (promise_program demo_vm Inr concat)) (test_runtime False) chars_of
      (vm_start None [''hello world'']) test_state = Some (st', Inr res) \<and> exit_code (vr_exit_info res) = 0 \<and>
      vs_world st' = (vs_world test_state)(''from_wasm'' \<mapsto> ''somevalue'', ''another_one'' \<mapsto> ''a'', ''x'' \<mapsto> ''y'',
        ''test_value'' \<mapsto> ''completed'')"
    by (rule test_program_completes [OF program_engine_runs, where put = "\<lambda>k v w. w(k \<mapsto> v)" and get = "\<lambda>k w. w k"])
      (simp_all add: test_runtime_def test_adapter_database)
  then show ?thesis by (auto simp: test_state_def)
qed

text \<open>The result of a run is what the last function set.\<close>

lemma test_execution_result:
  assumes "runs_program eng (rt_node_config rt) m (promise_program lib parse_sk dbg)"
    and "rt_wasm_module rt = Some m" "\<not> rt_limited rt" "database_ok (rt_host_adapter rt) get put"
  shows "\<exists>st' res. start_runtime eng rt um (vm_start (Some ''test_setting_execution_result'') args) st = Some (st', Inr res) \<and>
    exit_code (vr_exit_info res) = 0 \<and> vr_result res = Some (as_bytes ''test-success'')"
proof -
  note call = program_call [OF assms(1)] and data = database_actions [OF assms(4,3)]
  have "rust_string ''random_value''" by (simp_all add: rust_string_def as_bytes_def)
  with assms(2) show ?thesis
    by (simp add: start_runtime_def)
      (subst execute_promise_queue.simps, simp add: program_simps call data sdk_execution_result_def to_bytes_string_def)+
qed

text \<open>A function that the program does not have is exit code 5, and nothing runs.\<close>

lemma test_non_existing_function:
  assumes "runs_program eng (rt_node_config rt) m program"
    and "rt_wasm_module rt = Some m" "map_of program f = None"
  shows "\<exists>st' res. start_runtime eng rt um (vm_start (Some f) args) st = Some (st', Inr res) \<and>
    exit_code (vr_exit_info res) = 5 \<and> vs_world st' = vs_world st"
proof -
  obtain b where "we_bn254_uncompressed eng (public_key (nc_keypair_bn254 (rt_node_config rt))) = Some b"
    using assms(1) by (auto simp: runs_program_def)
  moreover have "we_finalize eng f env args" "we_imports eng m" "we_instantiate eng m" "\<not> we_has_function eng m f" for env
    using assms(1,3) by (simp_all add: runs_program_def)
  ultimately show ?thesis using assms(2)
    by (simp add: start_runtime_def)
      (subst execute_promise_queue.simps, simp add: run_simps queue_simps exec_action_def is_limited_action_def
        exec_call_self_def wasi_env_def require_def)
qed

text \<open>What one run writes to the storages, the next functions read.\<close>

lemma test_memory_adapter:
  assumes "runs_program eng (rt_node_config rt) m (promise_program lib parse_sk dbg)"
    and "rt_wasm_module rt = Some m" "\<not> rt_limited rt" "database_ok (rt_host_adapter rt) get put"
  shows "\<exists>st' res. start_runtime eng rt um (vm_start (Some ''memory_adapter_test_success'') args) st = Some (st', Inr res) \<and>
    exit_code (vr_exit_info res) = 0 \<and> stored (vs_memory_adapter st') ''u8'' = [234] \<and>
    vs_world st' = put ''u32_result'' ''[139, 13, 0, 0]'' (put ''u8_result'' ''[234]'' (vs_world st))"
proof -
  note call = program_call [OF assms(1)] and data = database_actions [OF assms(4,3)]
  have bytes: "to_bytes_num (Suc 0) (234 :: u8) = [234]" "to_bytes_num 4 (3467 :: u32) = [139, 13, 0, 0]"
    by (simp_all add: to_bytes_num_def to_le_bytes_def upt_rec)
  have shown: "debug_bytes [234] = ''[234]''" "debug_bytes [139, 13, 0, 0] = ''[139, 13, 0, 0]''"
    by code_simp+
  have "rust_string ''[234]''" "rust_string ''[139, 13, 0, 0]''" by (simp_all add: rust_string_def as_bytes_def)
  with assms(2) show ?thesis
    by (simp add: start_runtime_def)
      (subst execute_promise_queue.simps, simp add: program_simps call data bytes shown
        sdk_memory_write_def sdk_memory_read_def)+
qed

lemma test_shared_memory:
  assumes "runs_program eng (rt_node_config rt) m (promise_program lib parse_sk dbg)" "rt_wasm_module rt = Some m"
  shows "\<exists>st' res. start_runtime eng rt um (vm_start (Some ''shared_memory_test'') []) st = Some (st', Inr res) \<and>
      exit_code (vr_exit_info res) = 0 \<and> stored (vs_shared_memory st') ''foo'' = as_bytes ''bar''"
    and "stored (vs_shared_memory st) ''foo'' = as_bytes ''bar'' \<Longrightarrow>
      \<exists>st' res. start_runtime eng rt um (vm_start (Some ''shared_memory_success'') []) st = Some (st', Inr res) \<and>
        exit_code (vr_exit_info res) = 0"
proof -
  note call = program_call [OF assms(1)]
  have "valid_utf8 (as_bytes ''bar'')" by (simp add: as_bytes_def)
  with assms(2) show "\<exists>st' res. start_runtime eng rt um (vm_start (Some ''shared_memory_test'') []) st = Some (st', Inr res) \<and>
      exit_code (vr_exit_info res) = 0 \<and> stored (vs_shared_memory st') ''foo'' = as_bytes ''bar''"
    by (simp add: start_runtime_def)
      (subst execute_promise_queue.simps, simp add: program_simps call sdk_shared_set_def to_bytes_string_def)+
  assume "stored (vs_shared_memory st) ''foo'' = as_bytes ''bar''"
  with assms(2) \<open>valid_utf8 (as_bytes ''bar'')\<close>
  show "\<exists>st' res. start_runtime eng rt um (vm_start (Some ''shared_memory_success'') []) st = Some (st', Inr res) \<and>
        exit_code (vr_exit_info res) = 0"
    by (simp add: start_runtime_def)
      (subst execute_promise_queue.simps, simp add: program_simps call sdk_shared_get_def from_bytes_string_def expect_ok_def
        map_err_def ret_def)+
qed

text \<open>What a request delivers reaches the database, as long as it is text.\<close>

lemma test_http_fetch:
  assumes "runs_program eng (rt_node_config rt) m (promise_program lib parse_sk dbg)"
    and "rt_wasm_module rt = Some m" "\<not> rt_limited rt" "database_ok (rt_host_adapter rt) get put"
    and "ha_http_fetch (rt_host_adapter rt) url (vs_world st) = (w, Inr (Inr text))" "rust_string text"
  shows "\<exists>st' res. start_runtime eng rt um (vm_start (Some ''http_fetch_test'') [url]) st = Some (st', Inr res) \<and>
    exit_code (vr_exit_info res) = 0 \<and> vs_world st' = put ''http_fetch_result'' text w"
proof -
  note call = program_call [OF assms(1)] and data = database_actions [OF assms(4,3)]
  note http = http_action [OF assms(5)]
  have "valid_utf8 (as_bytes text)" using assms(6) by (simp add: rust_string_def)
  then show ?thesis using assms(2,6)
    by (simp add: start_runtime_def)
      (subst execute_promise_queue.simps, simp add: program_simps call data http status_of_result_def args_get_def ret_def from_bytes_string_def expect_ok_def
        map_err_def)+
qed

text \<open>
  A promise that fails, in a limited runtime or in the host, is a rejection that the program can
  read; the run goes on.
\<close>

lemma test_rejections:
  assumes "runs_program eng (rt_node_config rt) m (promise_program lib parse_sk dbg)" "rt_wasm_module rt = Some m"
  shows "rt_limited rt \<Longrightarrow> \<exists>st' res. start_runtime eng rt um (vm_start (Some ''test_limited_runtime'') []) st = Some (st', Inr res) \<and>
      exit_code (vr_exit_info res) = 0 \<and> vs_world st' = vs_world st \<and>
      vr_stdout res = [lines_text [''Promise rejected: Method `db_set` not allowed in limited runtime'']]"
    and "ha_http_fetch (rt_host_adapter rt) ''fail!'' (vs_world st) = (w, Inr (Inl e)) \<Longrightarrow> rust_string e \<Longrightarrow>
      \<exists>st' res. start_runtime eng rt um (vm_start (Some ''test_error_turns_into_rejection'') []) st = Some (st', Inr res) \<and>
      exit_code (vr_exit_info res) = 0 \<and> vs_world st' = w \<and> vr_stdout res = [lines_text [''Promise rejected: '' @ e]]"
proof -
  note call = program_call [OF assms(1)]
  have utf8: "valid_utf8 (as_bytes ''Method `db_set` not allowed in limited runtime'')" by (simp add: as_bytes_def)
  assume "rt_limited rt"
  then have "exec_action eng rt um m (DatabaseSet a) current s =
      (s, Inr (Inr (Rejected (as_bytes ''Method `db_set` not allowed in limited runtime''), None)))" for a current s
    by (simp add: exec_action_def is_limited_action_def limited_rejection_def action_display_def)
  with assms(2) utf8
  show "\<exists>st' res. start_runtime eng rt um (vm_start (Some ''test_limited_runtime'') []) st = Some (st', Inr res) \<and>
      exit_code (vr_exit_info res) = 0 \<and> vs_world st' = vs_world st \<and>
      vr_stdout res = [lines_text [''Promise rejected: Method `db_set` not allowed in limited runtime'']]"
    by (simp add: start_runtime_def)
      (subst execute_promise_queue.simps, simp add: program_simps call from_bytes_string_def expect_ok_def map_err_def ret_def)+
next
  note call = program_call [OF assms(1)]
  assume "ha_http_fetch (rt_host_adapter rt) ''fail!'' (vs_world st) = (w, Inr (Inl e))" "rust_string e"
  with assms(2) http_action [OF this(1)]
  show "\<exists>st' res. start_runtime eng rt um (vm_start (Some ''test_error_turns_into_rejection'') []) st = Some (st', Inr res) \<and>
      exit_code (vr_exit_info res) = 0 \<and> vs_world st' = w \<and> vr_stdout res = [lines_text [''Promise rejected: '' @ e]]"
    by (simp add: start_runtime_def rust_string_def)
      (subst execute_promise_queue.simps, simp add: program_simps call from_bytes_string_def expect_ok_def map_err_def ret_def
        status_of_result_def to_bytes_string_def)+
qed

text \<open>The checks of signatures: the arguments of the tests are the hexadecimal texts of the bytes.\<close>

lemma hex_arg_encoded: "i < length args \<Longrightarrow> args ! i = encode_hex bs \<Longrightarrow> hex_arg i args = Inr bs"
  by (simp add: hex_arg_def args_get_def decode_encode_hex expect_ok_def map_err_def)

lemma bn254_verify_test_value:
  assumes "sig_from_uncompressed lib sb = Inr s" "sig_to_uncompressed lib s = Inr sb"
    and "pk_from_uncompressed lib pb = Inr k" "pk_to_uncompressed lib k = Inr pb"
  shows "fst (bn254_verify_test lib dbg [f, encode_hex message, encode_hex sb, encode_hex pb] ctx) =
    sdk_start (db_set ''bn254_verify_result'' (if ecdsa_verify lib message s k = Inr () then ''true'' else ''false'')) [] ctx"
  using assms by (simp add: bn254_verify_test_def sdk_bn254_verify_def hex_arg_encoded ret_def expect_ok_def map_err_def)

lemma bn254_sign_test_value:
  assumes "parse_sk kb = Inr k" "ecdsa_sign lib message (private_key (nc_keypair_bn254 (vc_node_config ctx))) = Inr s"
    and "sig_to_uncompressed lib s = Inr sb" "length sb = 64" "sig_from_uncompressed lib sb = Inr s"
  shows "fst (bn254_sign_test lib parse_sk dbg [f, encode_hex message, encode_hex kb] ctx) =
    sdk_start (db_set ''bn254_sign_result'' (encode_hex sb)) [] ctx"
  using assms by (simp add: bn254_sign_test_def sdk_bn254_sign_def hex_arg_encoded ret_def expect_ok_def map_err_def)

end
