(* ===== verification/Debug_Rpc.thy ===== *)
theory Debug_Rpc
  imports Chains Common_Json
begin

text \<open>
  The debug tool (\<open>tooling/debug/src\<close>): a server that answers the NEAR requests of a node with made
  up values, and the commands that start and stop it. The lemmas say which requests it can answer
  and that the chain adapter of the node accepts the answers.
\<close>


section \<open>The answers\<close>

text \<open>
  What the tool uses of third-party crates: the hash of random bytes, JSON, Base64 and Borsh. The
  random draws of a request are its arguments.
\<close>

record ('hash, 'stx, 'bsk, 'bpk, 'esk, 'epk) mock_lib =
  mo_crypto :: "('bsk, 'bpk, 'esk, 'epk) crypto_lib"
  mo_pk_to_uncompressed :: "'bpk \<Rightarrow> string + bytes"
  mo_public_bytes :: "'epk \<Rightarrow> bytes"
  mo_hash_bytes :: "bytes \<Rightarrow> 'hash"
  mo_hash_as_bytes :: "'hash \<Rightarrow> bytes"
  mo_to_vec_pretty :: "json \<Rightarrow> bytes"
  mo_node_json :: "node_info \<Rightarrow> json"
  mo_from_base64 :: "string \<Rightarrow> string + bytes"
  mo_signed_tx :: "bytes \<Rightarrow> string + 'stx"
  mo_get_hash :: "'stx \<Rightarrow> 'hash"

definition random_crypto_hash :: "('hash, 'stx, 'bsk, 'bpk, 'esk, 'epk) mock_lib \<Rightarrow> bytes \<Rightarrow> 'hash" where
  "random_crypto_hash lib rng = mo_hash_bytes lib rng"

record 'hash mock_response =
  mr_response :: "'hash query_response"
  mr_block_height :: u64

record mock_draws =
  md_nodes :: "node_draw \<times> node_draw \<times> node_draw"
  md_value :: bytes
  md_block :: bytes

definition mock_response_of ::
  "('hash, 'stx, 'bsk, 'bpk, 'esk, 'epk) mock_lib \<Rightarrow> mock_draws \<Rightarrow> query_response_kind \<Rightarrow> 'hash mock_response" where
  "mock_response_of lib draws kind =
     \<lparr>mr_response = \<lparr>qr_kind = kind, qr_block_hash = random_crypto_hash lib (md_block draws)\<rparr>,
      mr_block_height = 119467302\<rparr>"

definition mock_node ::
  "('hash, 'stx, 'bsk, 'bpk, 'esk, 'epk) mock_lib \<Rightarrow> node_draw \<Rightarrow> json res" where
  "mock_node lib draw =
     and_then (node_info_random (mo_crypto lib) (mo_pk_to_uncompressed lib) (mo_public_bytes lib) draw) (\<lambda>n.
     Inr (mo_node_json lib n))"

definition mock_query ::
  "('hash, 'stx, 'bsk, 'bpk, 'esk, 'epk) mock_lib \<Rightarrow> mock_draws \<Rightarrow> string option \<Rightarrow> string \<Rightarrow> 'hash mock_response res" where
  "mock_query lib draws method_name request_type =
     (let result = (\<lambda>v. Inr (mock_response_of lib draws (CallResult (mo_to_vec_pretty lib v))));
          hash = json_of_bytes (mo_hash_as_bytes lib (random_crypto_hash lib (md_value draws)));
          (d1, d2, d3) = md_nodes draws in
      case method_name of
        Some name \<Rightarrow>
          if request_type = ''call_function'' then
            if name = ''get_node'' then and_then (mock_node lib d1) result
            else if name = ''get_active_nodes'' then
              and_then (mock_node lib d1) (\<lambda>n1.
              and_then (mock_node lib d2) (\<lambda>n2.
              and_then (mock_node lib d3) (\<lambda>n3.
              result (JArray [n1, n2, n3]))))
            else if name = ''compute_merkle_root'' then result hash
            else if name = ''get_latest_batch_id'' then result hash
            else Inl unimplemented
          else if request_type = ''view_access_key'' then Inr (mock_response_of lib draws (AccessKey 100288680000299))
          else Inl unimplemented
      | None \<Rightarrow>
          if request_type = ''view_access_key'' then Inr (mock_response_of lib draws (AccessKey 100288680000299))
          else Inl unimplemented)"

definition mock_broadcast_tx_async ::
  "('hash, 'stx, 'bsk, 'bpk, 'esk, 'epk) mock_lib \<Rightarrow> string \<Rightarrow> (string + 'hash) res" where
  "mock_broadcast_tx_async lib params =
     and_then (unwrap_ok (Inr (mo_from_base64 lib params))) (\<lambda>non_base_64.
     Inr (and_then (mo_signed_tx lib non_base_64) (\<lambda>tx. Inr (mo_get_hash lib tx))))"

text \<open>Of the made up outcome of a transaction, the node reads the status only.\<close>

definition mock_tx :: "string \<Rightarrow> string \<Rightarrow> final_execution_status" where
  "mock_tx hash account_id = SuccessValue [8]"


section \<open>The commands\<close>

text \<open>
  The command waits for the messages of \<open>stop_server\<close> until their channel is closed, which happens
  when the server is gone; a message that is true stops the server. \<open>ServerHandle::stop\<close> fails on a
  server that has been stopped. The task that waits for ctrl-c has a handle of its own; a panic in
  it does not reach the command.
\<close>

datatype debug_event = Received bool | CtrlC

fun await_shutdown :: "bool \<Rightarrow> debug_event list \<Rightarrow> string + unit" where
  "await_shutdown running [] = Inr ()"
| "await_shutdown running (Received shutdown # rest) =
     (if \<not> shutdown then await_shutdown running rest
      else if running then await_shutdown False rest
      else Inl ''already stopped'')"
| "await_shutdown running (CtrlC # rest) = await_shutdown False rest"

definition debug_start :: "string + unit \<Rightarrow> string + unit \<Rightarrow> debug_event list \<Rightarrow> string + unit" where
  "debug_start built started events =
     and_then built (\<lambda>_. and_then started (\<lambda>_. await_shutdown True events))"

definition mock_stop_server :: "bool \<Rightarrow> bool list \<Rightarrow> bool list \<times> (string + unit)" where
  "mock_stop_server channel_open messages =
     (if channel_open then (messages @ [True], Inr ()) else (messages, Inl ''channel closed''))"


section \<open>What the node sees\<close>

text \<open>A request is answered exactly when it is one of the five that the tool knows.\<close>

definition mock_known :: "string option \<Rightarrow> string \<Rightarrow> bool" where
  "mock_known method_name request_type \<longleftrightarrow>
     request_type = ''view_access_key'' \<or>
     request_type = ''call_function'' \<and>
       method_name \<in> Some ` {''get_node'', ''get_active_nodes'', ''compute_merkle_root'', ''get_latest_batch_id''}"

lemma mock_query_known:
  assumes "\<And>draw. \<exists>n. mock_node lib draw = Inr n"
  shows "(\<exists>r. mock_query lib draws method_name request_type = Inr r) \<longleftrightarrow> mock_known method_name request_type"
proof -
  obtain n where "\<And>draw. mock_node lib draw = Inr (n draw)" using assms by metis
  then show ?thesis
    by (cases "md_nodes draws"; cases method_name) (auto simp: mock_query_def mock_known_def Let_def)
qed

text \<open>The adapter of the node accepts the answer to a view.\<close>

lemma mock_view_accepted:
  assumes "nl_parse_account near contract_id = Inr account_id"
    and "mock_query lib draws (Some method_name) ''call_function'' = Inr r"
    and "nl_query near client (CallFunction FinalBlock account_id method_name args) w = (w', Inr (mr_response r))"
  shows "\<exists>v. near_view near client contract_id method_name args w = (w', Inr (Inr (mo_to_vec_pretty lib v)))"
  using assms by (auto simp: near_view_def mock_query_def mock_response_of_def map_err_def Let_def res_simps
      split: if_splits prod.splits)

text \<open>Once the server is gone, a further request to stop it is an error of the command.\<close>

lemma await_shutdown_stopped: "await_shutdown False events = Inr () \<longleftrightarrow> Received True \<notin> set events"
proof (induction events)
  case (Cons e events)
  then show ?case by (cases e) auto
qed simp

end
