(* ===== verification/Adapter_Macro.thy ===== *)
theory Adapter_Macro
  imports Rust_Std
begin

text \<open>
  The derive macro \<open>Adapter\<close> of \<open>runtime/macros/src/lib.rs\<close>: it reads the three types of a host
  adapter from the \<open>adapter\<close> attributes of a declaration and generates the implementation of
  \<open>HostAdapterTypes\<close>. The theorem says that it succeeds exactly when every one of the three types
  is given once, in any order and in any number of attributes, that each type is the one written
  after its keyword, and that the macro never panics.
\<close>


section \<open>The actions\<close>

record adapter_actions =
  db :: "string option"
  http :: "string option"
  chain_interactor :: "string option"

definition adapter_actions_default :: adapter_actions where
  "adapter_actions_default = \<lparr>db = None, http = None, chain_interactor = None\<rparr>"

definition adapter_into_iter :: "adapter_actions \<Rightarrow> (string \<times> string option) list" where
  "adapter_into_iter a = [(''database'', db a), (''http'', http a), (''chain_interactor'', chain_interactor a)]"

text \<open>An error of \<open>syn\<close> is the list of its combined messages.\<close>

type_synonym syn_error = "string list"

fun either :: "string option \<Rightarrow> string option \<Rightarrow> syn_error + string option" where
  "either None None = Inr None"
| "either (Some val) None = Inr (Some val)"
| "either None (Some val) = Inr (Some val)"
| "either (Some lhs) (Some rhs) = Inl [''redundant attribute argument'', ''note: first one here'']"

definition adapter_merge :: "adapter_actions \<Rightarrow> adapter_actions \<Rightarrow> syn_error + adapter_actions" where
  "adapter_merge self other =
     and_then (either (db self) (db other)) (\<lambda>d.
     and_then (either (http self) (http other)) (\<lambda>h.
     and_then (either (chain_interactor self) (chain_interactor other)) (\<lambda>c.
     Inr \<lparr>db = d, http = h, chain_interactor = c\<rparr>)))"

text \<open>\<open>Iterator::try_fold\<close>.\<close>

fun try_fold :: "('b \<Rightarrow> 'a \<Rightarrow> 'e + 'b) \<Rightarrow> 'b \<Rightarrow> 'a list \<Rightarrow> 'e + 'b" where
  "try_fold f b [] = Inr b"
| "try_fold f b (x # xs) = and_then (f b x) (\<lambda>b'. try_fold f b' xs)"


section \<open>The attributes\<close>

text \<open>
  What the macro uses of \<open>syn\<close>: the name of an attribute, its argument read as a list of items
  separated by commas, and the parse stream \<open>'s\<close> of an item.
\<close>

record ('attr, 's) syn_lib =
  sy_is_ident :: "'attr \<Rightarrow> string \<Rightarrow> bool"
  sy_parse_args :: "('s \<Rightarrow> syn_error + 's \<times> adapter_actions) \<Rightarrow> 'attr \<Rightarrow> syn_error + adapter_actions list"
  sy_peek :: "string \<Rightarrow> 's \<Rightarrow> bool"
  sy_parse_keyword :: "string \<Rightarrow> 's \<Rightarrow> syn_error + 's"
  sy_parse_eq :: "'s \<Rightarrow> syn_error + 's"
  sy_parse_ident :: "'s \<Rightarrow> syn_error + 's \<times> string"

definition parse_entry :: "('attr, 's) syn_lib \<Rightarrow> string \<Rightarrow> 's \<Rightarrow> syn_error + 's \<times> string" where
  "parse_entry lib keyword input =
     and_then (sy_parse_keyword lib keyword input) (\<lambda>input.
     and_then (sy_parse_eq lib input) (\<lambda>input.
     sy_parse_ident lib input))"

definition adapter_parse :: "('attr, 's) syn_lib \<Rightarrow> 's \<Rightarrow> syn_error + 's \<times> adapter_actions" where
  "adapter_parse lib input =
     (if sy_peek lib ''database'' input then
        and_then (parse_entry lib ''database'' input) (\<lambda>(input, x).
        Inr (input, \<lparr>db = Some x, http = None, chain_interactor = None\<rparr>))
      else if sy_peek lib ''http'' input then
        and_then (parse_entry lib ''http'' input) (\<lambda>(input, x).
        Inr (input, \<lparr>db = None, http = Some x, chain_interactor = None\<rparr>))
      else if sy_peek lib ''chain_interactor'' input then
        and_then (parse_entry lib ''chain_interactor'' input) (\<lambda>(input, x).
        Inr (input, \<lparr>db = None, http = None, chain_interactor = Some x\<rparr>))
      else Inl [''Unknown adapter type or empty parse stream''])"

definition from_attrs :: "('attr, 's) syn_lib \<Rightarrow> 'attr list \<Rightarrow> syn_error + adapter_actions" where
  "from_attrs lib attrs =
     and_then (try_fold
         (\<lambda>act attr. and_then (sy_parse_args lib (adapter_parse lib) attr) (try_fold adapter_merge act))
         adapter_actions_default (filter (\<lambda>attr. sy_is_ident lib attr ''adapter'') attrs)) (\<lambda>actions.
     and_then (try_fold
         (\<lambda>_ (field, action).
            case action of Some _ \<Rightarrow> Inr () | None \<Rightarrow> Inl [''Missing Adapter Type: '' @ field @ ''.''])
         () (adapter_into_iter actions)) (\<lambda>_.
     Inr actions))"

text \<open>The tokens the macro produces: the implementation of the trait, or a compile error.\<close>

datatype expansion = ImplHostAdapterTypes string string string string | CompileError syn_error

definition adapter :: "('attr, 's) syn_lib \<Rightarrow> syn_error + string \<times> 'attr list \<Rightarrow> expansion res" where
  "adapter lib input =
     (case input of
        Inl err \<Rightarrow> Inr (CompileError err)
      | Inr (name, attrs) \<Rightarrow>
          (case from_attrs lib attrs of
             Inl err \<Rightarrow> Inr (CompileError err)
           | Inr actions \<Rightarrow>
               and_then (unwrap (db actions)) (\<lambda>d.
               and_then (unwrap (http actions)) (\<lambda>h.
               and_then (unwrap (chain_interactor actions)) (\<lambda>c.
               Inr (ImplHostAdapterTypes name d h c))))))"


section \<open>Exactly one of each type\<close>

text \<open>
  What an item of an attribute means: one of the three keywords, an equals sign and a type, which it
  gives to the field that goes with the keyword. The keywords are tried in this order.
\<close>

definition adapter_keywords :: "string list" where
  "adapter_keywords = [''database'', ''http'', ''chain_interactor'']"

definition item_of :: "string \<Rightarrow> string \<Rightarrow> adapter_actions" where
  "item_of keyword x =
     \<lparr>db = (if keyword = ''database'' then Some x else None),
      http = (if keyword = ''http'' then Some x else None),
      chain_interactor = (if keyword = ''chain_interactor'' then Some x else None)\<rparr>"

definition read_item :: "('attr, 's) syn_lib \<Rightarrow> 's \<Rightarrow> syn_error + 's \<times> adapter_actions" where
  "read_item lib input =
     (case find (\<lambda>keyword. sy_peek lib keyword input) adapter_keywords of
        None \<Rightarrow> Inl [''Unknown adapter type or empty parse stream'']
      | Some keyword \<Rightarrow>
          and_then (parse_entry lib keyword input) (\<lambda>(rest, x). Inr (rest, item_of keyword x)))"

lemma adapter_parse_item: "adapter_parse lib = read_item lib"
  by (auto simp: adapter_parse_def read_item_def adapter_keywords_def item_of_def)

text \<open>All items of the adapter attributes, in order.\<close>

fun adapter_items :: "('attr, 's) syn_lib \<Rightarrow> 'attr list \<Rightarrow> syn_error + adapter_actions list" where
  "adapter_items lib [] = Inr []"
| "adapter_items lib (attr # attrs) =
     (if sy_is_ident lib attr ''adapter''
      then and_then (sy_parse_args lib (read_item lib) attr) (\<lambda>xs.
           and_then (adapter_items lib attrs) (\<lambda>ys. Inr (xs @ ys)))
      else adapter_items lib attrs)"

abbreviation given :: "(adapter_actions \<Rightarrow> string option) \<Rightarrow> adapter_actions list \<Rightarrow> string list" where
  "given f items \<equiv> List.map_filter f items"

text \<open>Folding the items in keeps what a field has, and fails on a second value for it.\<close>

definition absorbs :: "string option \<Rightarrow> string list \<Rightarrow> string option \<Rightarrow> bool" where
  "absorbs a xs r \<longleftrightarrow> (case a of None \<Rightarrow> [] | Some x \<Rightarrow> [x]) @ xs = (case r of None \<Rightarrow> [] | Some x \<Rightarrow> [x])"

lemma either_Inr: "either a b = Inr r \<longleftrightarrow> absorbs a (case b of None \<Rightarrow> [] | Some x \<Rightarrow> [x]) r"
  by (cases a; cases b; cases r) (auto simp: absorbs_def)

lemma adapter_merge_Inr:
  "adapter_merge a x = Inr r \<longleftrightarrow>
     either (db a) (db x) = Inr (db r) \<and> either (http a) (http x) = Inr (http r) \<and>
     either (chain_interactor a) (chain_interactor x) = Inr (chain_interactor r)"
  by (cases r) (auto simp: adapter_merge_def res_simps)

lemma absorbs_step:
  "absorbs a (List.map_filter f (x # xs)) r \<longleftrightarrow> (\<exists>m. either a (f x) = Inr m \<and> absorbs m (List.map_filter f xs) r)"
  by (cases a; cases "f x") (auto simp: absorbs_def List.map_filter_simps split: option.splits)

lemma ex_actions: "(\<exists>m. P m) \<longleftrightarrow> (\<exists>d h c. P \<lparr>db = d, http = h, chain_interactor = c\<rparr>)"
  by (metis adapter_actions.cases)

lemma merge_items:
  "try_fold adapter_merge a items = Inr r \<longleftrightarrow>
     absorbs (db a) (given db items) (db r) \<and> absorbs (http a) (given http items) (http r) \<and>
     absorbs (chain_interactor a) (given chain_interactor items) (chain_interactor r)"
proof (induction items arbitrary: a)
  case Nil
  show ?case by (cases a; cases r) (auto simp: absorbs_def List.map_filter_simps split: option.splits)
next
  case (Cons x items)
  have "try_fold adapter_merge a (x # items) = Inr r \<longleftrightarrow>
      (\<exists>m. adapter_merge a x = Inr m \<and> try_fold adapter_merge m items = Inr r)"
    by (auto simp: res_simps)
  also have "\<dots> \<longleftrightarrow> (\<exists>m. adapter_merge a x = Inr m \<and> absorbs (db m) (given db items) (db r) \<and>
      absorbs (http m) (given http items) (http r) \<and> absorbs (chain_interactor m) (given chain_interactor items) (chain_interactor r))"
    by (simp add: Cons.IH)
  also have "\<dots> \<longleftrightarrow> (\<exists>d h c. adapter_merge a x = Inr \<lparr>db = d, http = h, chain_interactor = c\<rparr> \<and> absorbs d (given db items) (db r) \<and>
      absorbs h (given http items) (http r) \<and> absorbs c (given chain_interactor items) (chain_interactor r))"
    by (simp add: ex_actions)
  finally show ?case unfolding absorbs_step adapter_merge_Inr by simp blast
qed

lemma try_fold_append: "try_fold f b (xs @ ys) = and_then (try_fold f b xs) (\<lambda>b'. try_fold f b' ys)"
proof (induction xs arbitrary: b)
  case (Cons x xs)
  then show ?case by (cases "f b x") simp_all
qed simp

lemma attrs_fold:
  "try_fold (\<lambda>act attr. and_then (sy_parse_args lib (adapter_parse lib) attr) (try_fold adapter_merge act))
     a (filter (\<lambda>attr. sy_is_ident lib attr ''adapter'') attrs) = Inr r \<longleftrightarrow>
   (\<exists>items. adapter_items lib attrs = Inr items \<and> try_fold adapter_merge a items = Inr r)"
  unfolding adapter_parse_item by (induction attrs arbitrary: a) (auto simp: res_simps try_fold_append)

lemma adapter_complete:
  "(\<exists>u. try_fold (\<lambda>_ (field, action). case action of Some _ \<Rightarrow> Inr () | None \<Rightarrow> Inl (g field)) () (adapter_into_iter a) = Inr u) \<longleftrightarrow>
   (\<exists>d h c. a = \<lparr>db = Some d, http = Some h, chain_interactor = Some c\<rparr>)"
  by (cases a) (auto simp: adapter_into_iter_def split: option.splits)

lemma from_attrs_iff:
  "from_attrs lib attrs = Inr actions \<longleftrightarrow>
     (\<exists>items d h c. adapter_items lib attrs = Inr items \<and>
        given db items = [d] \<and> given http items = [h] \<and> given chain_interactor items = [c] \<and>
        actions = \<lparr>db = Some d, http = Some h, chain_interactor = Some c\<rparr>)"
proof -
  have "from_attrs lib attrs = Inr actions \<longleftrightarrow>
      (\<exists>items. adapter_items lib attrs = Inr items \<and> try_fold adapter_merge adapter_actions_default items = Inr actions) \<and>
      (\<exists>d h c. actions = \<lparr>db = Some d, http = Some h, chain_interactor = Some c\<rparr>)"
    unfolding from_attrs_def attrs_fold [symmetric]
    using adapter_complete [of "\<lambda>field. [''Missing Adapter Type: '' @ field @ ''.'']" actions] by (auto simp: res_simps)
  then show ?thesis
    by (auto simp: merge_items adapter_actions_default_def absorbs_def)
qed

text \<open>
  C40: The derive macro expands to an implementation of the trait exactly when the attributes can be
  read and give each of the three types once, in whatever order and grouping; the database type of
  the implementation is the one written after the keyword \<open>database\<close>, and so for \<open>http\<close> and
  \<open>chain_interactor\<close>. In every other case it reports a compile error: none of its \<open>unwrap\<close>s can panic.
\<close>

theorem adapter_exactly_once:
  "\<exists>e. adapter lib input = Inr e \<and>
     (\<forall>name d h c. e = ImplHostAdapterTypes name d h c \<longleftrightarrow>
       (\<exists>attrs items. input = Inr (name, attrs) \<and> adapter_items lib attrs = Inr items \<and>
         given db items = [d] \<and> given http items = [h] \<and> given chain_interactor items = [c]))"
proof (cases input)
  case (Inr x)
  obtain name attrs where x: "x = (name, attrs)" by (cases x)
  show ?thesis
  proof (cases "from_attrs lib attrs")
    case (Inl err)
    then have "\<not> (\<exists>items d h c. adapter_items lib attrs = Inr items \<and>
        given db items = [d] \<and> given http items = [h] \<and> given chain_interactor items = [c])"
      using from_attrs_iff [of lib attrs] by fastforce
    with Inl Inr x show ?thesis by (auto simp: adapter_def)
  next
    case (Inr actions)
    then obtain items d h c where "adapter_items lib attrs = Inr items" "given db items = [d]" "given http items = [h]"
      "given chain_interactor items = [c]" "actions = \<lparr>db = Some d, http = Some h, chain_interactor = Some c\<rparr>"
      using from_attrs_iff by blast
    with Inr \<open>input = Inr x\<close> x show ?thesis by (auto simp: adapter_def)
  qed
qed (simp add: adapter_def)


section \<open>An expansion\<close>

text \<open>
  Attributes as names with a list of tokens, read item by item up to the commas: two attributes that
  give the three types expand to an implementation, and a second type for the database is an error.
\<close>

fun demo_parse_args ::
  "nat \<Rightarrow> (string list \<Rightarrow> syn_error + string list \<times> adapter_actions) \<Rightarrow> string list \<Rightarrow> syn_error + adapter_actions list" where
  "demo_parse_args 0 parse ts = Inl [''out of fuel'']"
| "demo_parse_args (Suc n) parse ts =
     (if ts = [] then Inr []
      else and_then (parse ts) (\<lambda>(rest, x).
        case rest of
          [] \<Rightarrow> Inr [x]
        | t # rest \<Rightarrow>
            if t = '','' then and_then (demo_parse_args n parse rest) (\<lambda>xs. Inr (x # xs)) else Inl [''expected `,`'']))"

definition demo_token :: "string \<Rightarrow> string list \<Rightarrow> syn_error + string list" where
  "demo_token t ts = (case ts of [] \<Rightarrow> Inl [''unexpected end''] | u # us \<Rightarrow> if u = t then Inr us else Inl [''unexpected token''])"

definition demo_syn :: "(string \<times> string list, string list) syn_lib" where
  "demo_syn =
     \<lparr>sy_is_ident = (\<lambda>attr name. fst attr = name),
      sy_parse_args = (\<lambda>parse attr. demo_parse_args (Suc (length (snd attr))) parse (snd attr)),
      sy_peek = (\<lambda>t ts. ts \<noteq> [] \<and> hd ts = t), sy_parse_keyword = demo_token, sy_parse_eq = demo_token ''='',
      sy_parse_ident = (\<lambda>ts. case ts of [] \<Rightarrow> Inl [''unexpected end''] | u # us \<Rightarrow> Inr (us, u))\<rparr>"

lemma demo_expansion:
  "adapter demo_syn (Inr (''RuntimeAdapter'',
     [(''derive'', [''Clone'']),
      (''adapter'', [''http'', ''='', ''NodeHttp'', '','', ''database'', ''='', ''NodeDb'']),
      (''adapter'', [''chain_interactor'', ''='', ''NodeChain'', '',''])]))
   = Inr (ImplHostAdapterTypes ''RuntimeAdapter'' ''NodeDb'' ''NodeHttp'' ''NodeChain'')"
  "adapter demo_syn (Inr (''RuntimeAdapter'',
     [(''adapter'', [''database'', ''='', ''A'', '','', ''database'', ''='', ''B''])]))
   = Inr (CompileError [''redundant attribute argument'', ''note: first one here''])"
  by code_simp+

end
