(* ===== verification/Spec2Isabelle.thy ===== *)
theory Spec2Isabelle
  imports Mainchain_Properties Node_Host Guest_Cli Delegate Node_Cli_Properties Node_Cli_Peers Vm_Link Test_Programs
    Debug_Rpc Adapter_Macro
begin

text \<open>
  A model of the SEDA oracle node and its main-chain contract, and what is proved of it.

  \<^bold>\<open>The program and its parts.\<close>
  Nodes register and stake in a NEAR contract (\<open>contracts/\<close>), which draws a committee for every epoch
  and a slot leader for every slot, collects data requests, and accepts a batch of them once the slot
  leader hands in an aggregated BN254 signature of the committee. A node (\<open>node/\<close>) runs actors around
  an event queue; its workers run a WASM program (\<open>wasm/consensus/\<close>) in a virtual machine
  (\<open>runtime/core/\<close>, with the guest library \<open>runtime/sdk/\<close>). The program asks for effects by promises;
  the virtual machine performs them through an adapter that reaches the database, HTTP and the
  chains (\<open>chains/\<close>). Nodes gossip signatures over libp2p (\<open>p2p/\<close>). Keys and configuration come from
  \<open>crypto/\<close> and \<open>config/\<close>. The command line (\<open>cli/\<close>) sets a node up, starts it, asks a running node
  over RPC and calls the contract.

  \<^bold>\<open>Which theory models what.\<close>
  \<^item> \<open>Prelude\<close>: machine integers, panics as values (\<open>'a res\<close>), arithmetic under the two build profiles,
    the \<open>UnorderedMap\<close> container, reachability, and the locale \<open>inductive_invariant\<close>.
  \<^item> \<open>Merkle\<close>: \<open>contracts/src/merkle.rs\<close>. \<open>Mainchain_State\<close>: the contract's struct, the types of \<open>common/\<close>,
    the constants and the constructor. \<open>Contract_Basics\<close>: token, storage deposits, DAO, clocks,
    \<open>verify.rs\<close>. \<open>Node_Registry\<close>, \<open>Committee\<close> (with \<open>epoch.rs\<close>) and \<open>Batch\<close> (with \<open>data_request.rs\<close>): the
    modules of these names. One definition per method, from state and call environment to a panic or
    the new state. \<open>Mainchain\<close> makes them a transition system with the block height as its clock.
  \<^item> \<open>Registry_Invariant\<close>, \<open>Epoch_Invariant\<close>: what the methods keep. \<open>Blocked_Epochs\<close>: the same for a pending
    node that is no longer registered. \<open>Mainchain_Scenario\<close>: a run of the contract with two nodes.
    \<open>Mainchain_Properties\<close>: the theorems about the contract.
  \<^item> \<open>Rust_Std\<close>: strings and UTF-8, parsing, errors next to panics, and the sequencing \<open>state_bind\<close> of
    stateful code that may fail. \<open>Sdk\<close>: bytes, events, promises and amounts of \<open>runtime/sdk/src\<close>, with
    the locale \<open>byte_codec\<close>.
  \<^item> \<open>Vm_Host\<close>: the host functions of \<open>imports.rs\<close> over the guest's linear memory, storage and the context
    of a run. \<open>Vm_Guest\<close>: the guest library of \<open>runtime/sdk/src/wasm\<close> composed with the host functions.
    \<open>Vm_Runtime\<close>: \<open>runtime.rs\<close> and \<open>vm_result.rs\<close>. \<open>Vm_Link\<close>: the declarations of \<open>raw.rs\<close> against the import
    object of \<open>create_wasm_imports\<close>. \<open>Adapter_Macro\<close>: the derive macro of \<open>runtime/macros/src\<close>.
  \<^item> \<open>Keys\<close>, \<open>Config\<close>: \<open>crypto/src\<close> and \<open>config/src\<close> over a model of files and environment variables.
    \<open>Config_Files\<close>: the creation of the configuration file and the loading that follows it.
  \<^item> \<open>Peer_List\<close>, \<open>Discovery\<close>, \<open>P2p_Server\<close>: \<open>p2p/src/libp2p\<close>, the last with every arm of the event loop.
  \<^item> \<open>Chains\<close>: \<open>chains/src\<close>. \<open>Fifo\<close>: the specification of a queue as the locale \<open>fifo_refinement\<close>.
    \<open>Event_Loop\<close>: the actors of \<open>node/src\<close> as a step relation over mailboxes, timers and the channel.
    \<open>Node_Host\<close>: database, adapter, workers and RPC methods of \<open>node/src\<close>. \<open>Node_Start\<close>: the start of the
    node, from the swarm and its behaviour to the RPC server and the dispatch of its requests.
  \<^item> \<open>Consensus\<close>: the tasks of \<open>wasm/consensus/src\<close> and their later stages. \<open>Guest_Cli\<close>: \<open>wasm/cli/src\<close>.
  \<^item> \<open>Json\<close>, \<open>Common_Json\<close>: JSON values, the arguments of calls in \<open>common/src\<close> and the parameters of the
    contract's methods. \<open>Node_Cli\<close>: every command of \<open>cli/src\<close> and the logger's set-up, over a host, a
    network and the ways a process can end. \<open>Node_Cli_Properties\<close>, \<open>Node_Cli_Peers\<close>: the theorems about
    it, the latter with the network instantiated by a started node.
  \<^item> \<open>Delegate\<close>: the commands of \<open>delegate-cli/src\<close>. \<open>Test_Programs\<close>: the guest programs of \<open>wasm/test\<close>, run in
    the model of the runtime. \<open>Debug_Rpc\<close>: the mock of a NEAR node in \<open>tooling/debug/src\<close>.
  \<^item> This theory: what the consensus program submits against what the contract checks.

  A struct is a record with a prefix for its fields, an enum a datatype, a method a function of the
  same name where Isabelle allows it. A panic, a failed assertion, an index out of range, an overflow
  in a checked build and an \<open>unwrap\<close> of nothing are values on the left of \<open>res\<close>; an error that the code
  returns is a value on the left of the inner sum.

  \<^bold>\<open>What is shown.\<close>
  \<^item> The Merkle root is that of a reference tree and does not depend on the order of the requests; two
    lists of one length with the same root hold the same requests, unless two of the values hashed
    for them collide. No call creates tokens in a checked build; recorded stakes are backed; a
    withdrawal and the round trip of a stake do what they should, also in a build whose sums wrap;
    nodes are found by their keys.
  \<^item> Committees are drawn without repetition from the active nodes, the loop ends, a committee once
    drawn stays, and the slot leader is one of them unless the committee is configured to be empty.
    Epochs activate what is pending. Batches are numbered without gaps, and one is accepted only with
    the signatures of committee members.
  \<^item> A run of the virtual machine settles every promise it starts; a limited run makes HTTP requests and
    does nothing else to the world outside, neither to the database nor to the chains nor to the
    peers; and a program whose calls go down in rank ends. The guest reads back what
    it stored, its chained promises arrive in order, host functions write only where the guest asked,
    and what it signs verifies.
  \<^item> Events and messages of peers are first in, first out; the two tickers of the node neither stop nor
    multiply; every adapter is well typed, so that the \<open>unreachable!\<close> branches are not reached; a signed
    call that the chain confirms yields its value; gossip reaches the guest as its arguments. A node
    starts in the initial state of its event loop and dials at most one known peer.
  \<^item> A program built with the guest library finds every function it declares, with its type. The test
    program runs to its end in the runtime and leaves its values in the database. The derive macro
    succeeds exactly when each type is given once.
  \<^item> The peer commands of the command line reach the peer-to-peer server of the node they talk to, or
    leave it alone; a node runs with the keys that \<open>init\<close> announced; a call that is reported as a
    success was confirmed by the chain.
  \<^item> An address that failed is not dialled before its cooldown is over. A node keeps its keys.
  \<^item> The slot leader submits only aggregates that verify, over as many keys as the committee has
    members, and these pass the checks of the contract.
  \<^item> Where the code does not do what it means to, a theorem shows it: a second deposit hides the
    first, registering again loses the stake, a node that leaves while it is pending blocks every
    later epoch until it registers again, an empty committee has no slot leader and asking for one
    panics, the committee loop has no end with too few nodes, the first write to a database key wins, the
    delegation tool sends to the test network, and an amount that wraps in a release build, a slot leader may submit the signatures of the
    previous batch, and the command line signs a registration that the contract refuses and sends
    three requests that the contract cannot accept.

  \<^bold>\<open>Bounds, fuel and non-termination.\<close>
  The reroll loop of the committee has the gas of a call as its fuel (\<open>gas_rerolls\<close>); \<open>select_committee\<close>
  is shown to end within it for every hash that hits every index in a window of draws. The loop over
  promise queues and the poll for a transaction are partial functions whose value \<open>None\<close> stands for
  not returning, and there are theorems that they return: for ranked programs, and for a transaction
  that is found or whose time runs out. All other recursion is total. Numbers keep their width;
  \<open>overflow_checks\<close> and \<open>checks\<close> tell the build profile.

  \<^bold>\<open>What the models assume.\<close>
  Third-party code is an argument of the definitions that use it (the records \<open>near_env\<close>, \<open>crates\<close>,
  \<open>crypto_lib\<close>, \<open>vm_lib\<close>, \<open>wasm_engine\<close>, \<open>p2p_lib\<close>, \<open>near_lib\<close>, \<open>sql_lib\<close>, \<open>consensus_lib\<close>,
  \<open>delegate_lib\<close>, \<open>swarm_lib\<close>, \<open>rpc_lib\<close>, \<open>cli_lib\<close>, \<open>syn_lib\<close>, \<open>mock_lib\<close>), and what is relied on
  is a named hypothesis such as \<open>wasm_ok\<close>, \<open>bn254_ok\<close>, \<open>bls_ok\<close>, \<open>borsh_ok\<close>, \<open>clock_ok\<close>, \<open>toml_ok\<close>,
  \<open>serves_rpc\<close> or \<open>runs_program\<close>. The host has 64 bits and little-endian numbers. A handler of an actor is one step; the clock is read once per event.
  Hash maps are association lists whose iteration order is an argument or does not matter. An operation
  of the host adapter may panic; one that never returns is outside the model.

  \<^bold>\<open>Not modelled.\<close>
  The methods of the token standard that near-sdk macros generate; the parsing of command lines by
  clap, which hands over the commands as values; the contents of log lines; the wrapping of libp2p
  events into one enum; the shim that gives the contract its source of random numbers; the made up
  transaction of the mock RPC apart from its status, and the command that stops the mock, which is
  one request of a third-party client. The unit tests of the repository are not part
  of the program; the programs they run are.
\<close>


section \<open>The consensus program and the contract\<close>

text \<open>
  The node and the contract use the same curve library: keys form a commutative group under
  addition, what the node's library decodes, encodes and adds the contract's does too, and the
  pairing check accepts what the library verifies. Hexadecimal is injective.
\<close>

definition same_curve :: "('sig, 'bsk, 'bpk) consensus_lib \<Rightarrow> 'bpk crates \<Rightarrow> near_env \<Rightarrow> bool" where
  "same_curve lib cr nenv \<longleftrightarrow>
     (\<forall>a b. cl_pk_add lib a b = cl_pk_add lib b a) \<and>
     (\<forall>a b c. cl_pk_add lib (cl_pk_add lib a b) c = cl_pk_add lib a (cl_pk_add lib b c)) \<and>
     (\<forall>b k. vm_lib.pk_from_uncompressed (cl_vm lib) b = Inr k \<longrightarrow> crates.pk_from_uncompressed cr b = Some k) \<and>
     (\<forall>k b. vm_lib.pk_to_uncompressed (cl_vm lib) k = Inr b \<longrightarrow> crates.pk_to_uncompressed cr k = Some b) \<and>
     pk_add cr = cl_pk_add lib \<and>
     (\<forall>m sb kb sg k. sig_from_uncompressed (cl_vm lib) sb = Inr sg \<longrightarrow>
        vm_lib.pk_from_uncompressed (cl_vm lib) kb = Inr k \<longrightarrow> ecdsa_verify (cl_vm lib) m sg k = Inr () \<longrightarrow>
        bn254_verify nenv m sb kb = Inr True) \<and>
     inj (cl_hex_encode lib)"

text \<open>Every signer is in the committee and registered with its key.\<close>

definition signers_registered :: "mainchain_contract \<Rightarrow> account_id list \<Rightarrow> account_id list \<Rightarrow> bytes list \<Rightarrow> bool" where
  "signers_registered s committee signers keys \<longleftrightarrow>
     list_all2 (\<lambda>signer key. signer \<in> set committee \<and>
       (\<exists>n. um_get (active_nodes s) signer = Some n \<and> bn254_public_key n = key)) signers keys"

text \<open>A sum does not depend on the order.\<close>

lemma foldl_order:
  assumes "\<And>a b. add a b = add b a" "\<And>a b c. add (add a b) c = add a (add b c)" "mset xs = mset ys"
  shows "foldl add a xs = foldl add a ys"
proof -
  have "fold (\<lambda>x acc. add acc x) xs = fold (\<lambda>x acc. add acc x) ys"
    using assms(3) by (rule fold_multiset_equiv [rotated]) (simp add: fun_eq_iff, metis assms(1,2))
  then show ?thesis by (simp add: foldl_conv_fold)
qed

lemma sum_of_order:
  assumes "\<And>a b. add a b = add b a" "\<And>a b c. add (add a b) c = add a (add b c)" "mset xs = mset ys"
  shows "sum_of add xs = sum_of add ys"
proof (cases xs)
  case (Cons x xs')
  then obtain y ys' where ys: "ys = y # ys'" using assms(3) by (cases ys) auto
  note order = foldl_order [OF assms(1,2)]
  show ?thesis
  proof (cases "x = y")
    case True
    with assms(3) Cons ys order [of xs' ys' x] show ?thesis by (simp add: sum_of_def)
  next
    case False
    then have "x \<in># mset ys'" using assms(3) Cons ys by (metis insert_noteq_member mset.simps(2))
    then obtain zs where zs: "mset ys' = mset (x # zs)" by (metis ex_mset insert_DiffM mset.simps(2))
    then have "mset xs' = mset (y # zs)" using assms(3) Cons ys by simp
    with zs order [of xs' "y # zs" x] order [of ys' "x # zs" y] Cons ys show ?thesis
      by (simp add: sum_of_def assms(1))
  qed
qed (use assms(3) in \<open>simp add: sum_of_def\<close>)

lemma aggregate_keys_sum:
  assumes "same_curve lib cr nenv" "signers_registered s committee signers keys"
    and "list_all2 (\<lambda>b k. vm_lib.pk_from_uncompressed (cl_vm lib) b = Inr k) keys ks"
  shows "aggregate_keys cr s committee signers acc = Inr (foldl (cl_pk_add lib) acc ks)"
  using assms(2,3)
proof (induction signers arbitrary: keys ks acc)
  case (Cons signer signers)
  then obtain n keys' k ks' where "signer \<in> set committee" "um_get (active_nodes s) signer = Some n"
    "keys = bn254_public_key n # keys'" "ks = k # ks'" "signers_registered s committee signers keys'"
    "vm_lib.pk_from_uncompressed (cl_vm lib) (bn254_public_key n) = Inr k"
    "list_all2 (\<lambda>b k. vm_lib.pk_from_uncompressed (cl_vm lib) b = Inr k) keys' ks'"
    by (auto simp: signers_registered_def list_all2_Cons1)
  with Cons.IH assms(1) show ?case
    by (simp add: signer_key_def same_curve_def res_simps)
qed (auto simp: signers_registered_def)

lemma decoded_order:
  assumes "list_all2 (\<lambda>b k. f b = Inr k) xs ks" "mset xs = mset ys"
  shows "\<exists>ks'. list_all2 (\<lambda>b k. f b = Inr k) ys ks' \<and> mset ks' = mset ks"
proof -
  have ks: "ks = map (\<lambda>b. projr (f b)) xs" using assms(1) by (induction rule: list_all2_induct) auto
  have "\<forall>b \<in> set xs. \<exists>k. f b = Inr k" using assms(1) by (induction rule: list_all2_induct) auto
  then have "\<forall>b \<in> set ys. f b = Inr (projr (f b))" using mset_eq_setD [OF assms(2)] by auto
  then have "list_all2 (\<lambda>b k. f b = Inr k) ys (map (\<lambda>b. projr (f b)) ys)"
    by (simp add: list_all2_map2 list.rel_refl_strong)
  with ks assms(2) show ?thesis by (intro exI [of _ "map (\<lambda>b. projr (f b)) ys"]) simp
qed

lemma check_signers_accepts:
  assumes "bls_ok lib public_of" "same_curve lib cr nenv" "signed_entries lib root es ks ss" "aggregates lib store ks ss"
    and "keys \<noteq> []" "mset keys = mset (map fst es)" "committees s (get_current_epoch nenv) = Some committee"
    and "signers_registered s committee signers keys" "internal_compute_merkle_root nenv cr s = Inr root"
  shows "check_signers nenv cr (bs_aggregated_signature store) (bs_aggregated_public_keys store) signers s = Inr root"
proof -
  let ?dec = "\<lambda>b k. vm_lib.pk_from_uncompressed (cl_vm lib) b = Inr k"
  have es: "es \<noteq> []" using assms(5,6) by auto
  have valid: "list_all2 (\<lambda>s k. ecdsa_verify (cl_vm lib) root s k = Inr ()) ss ks" and ne: "ks \<noteq> []" "ss \<noteq> []"
    and decs: "list_all2 ?dec (map fst es) ks"
    using assms(3) es by (auto simp: signed_entries_def list_all2_map1)
  from decoded_order [OF decs assms(6) [symmetric]] obtain ks0 where ks0: "list_all2 ?dec keys ks0" "mset ks0 = mset ks"
    by blast
  have sum0: "sum_of (cl_pk_add lib) ks0 = sum_of (cl_pk_add lib) ks"
    using assms(2) ks0(2) unfolding same_curve_def by (intro sum_of_order) blast+
  have sums: "sig_to_uncompressed (cl_vm lib) (sum_of (cl_sig_add lib) ss) = Inr (bs_aggregated_signature store)"
    "vm_lib.pk_to_uncompressed (cl_vm lib) (sum_of (cl_pk_add lib) ks) = Inr (bs_aggregated_public_keys store)"
    using assms(4) ne by (simp_all add: aggregates_def)
  then have "bn254_verify nenv root (bs_aggregated_signature store) (bs_aggregated_public_keys store) = Inr True"
    using sum_verifies [OF assms(1) ne(2) valid] bls_decodes [OF assms(1)] assms(2) unfolding same_curve_def by blast
  moreover obtain first rest k where "signers = first # rest" "first \<in> set committee"
    "signer_key cr s first = Inr k" "aggregate_keys cr s committee rest k = Inr (sum_of (cl_pk_add lib) ks)"
  proof -
    from assms(5,8) ks0 obtain first rest key keys' k ks' n where
      c: "signers = first # rest" "keys = key # keys'" "ks0 = k # ks'"
      "first \<in> set committee" "um_get (active_nodes s) first = Some n" "bn254_public_key n = key"
      "?dec key k" "signers_registered s committee rest keys'" "list_all2 ?dec keys' ks'"
      by (cases signers; cases keys; cases ks0) (auto simp: signers_registered_def)
    then have "signer_key cr s first = Inr k"
      using assms(2) by (simp add: signer_key_def same_curve_def res_simps)
    with c sum0 aggregate_keys_sum [OF assms(2) c(8,9), of k] that show thesis by (simp add: sum_of_def)
  qed
  moreover have "crates.pk_to_uncompressed cr (sum_of (cl_pk_add lib) ks) = Some (bs_aggregated_public_keys store)"
    using assms(2) sums(2) by (simp add: same_curve_def)
  ultimately show ?thesis using assms(7,9) by (simp add: check_signers_def index_def)
qed

lemma check_slot_leader_accepts:
  assumes "bls_ok lib public_of" "same_curve lib cr nenv"
    and "snd (sdk_bn254_sign (cl_vm lib) (to_le_bytes 32 (last_generated_random_number s)) ctx) = Inr (Inr sg)"
    and "sig_to_uncompressed (cl_vm lib) sg = Inr leader"
    and "get_current_slot_leader nenv s = Inr (Some (signer_account_id nenv))"
    and "um_get (active_nodes s) (signer_account_id nenv) = Some n"
    and "vm_lib.pk_from_uncompressed (cl_vm lib) (bn254_public_key n) = Inr (node_public_key public_of (vc_node_config ctx))"
  shows "\<exists>r. check_slot_leader nenv leader s = Inr (s\<lparr>last_generated_random_number := r\<rparr>)"
proof -
  have bn: "bn254_ok (cl_vm lib) public_of" using assms(1) by (simp add: bls_ok_def)
  have "sdk_bn254_sign (cl_vm lib) (to_le_bytes 32 (last_generated_random_number s)) ctx = (ctx, Inr (Inr sg))"
    using assms(3) sdk_sign_fst by (metis prod.collapse)
  from sdk_sign_Ok(2) [OF bn this] bn
  have "ecdsa_verify (cl_vm lib) (to_le_bytes 32 (last_generated_random_number s)) sg
      (node_public_key public_of (vc_node_config ctx)) = Inr ()" by (simp add: bn254_ok_def)
  then have "bn254_verify nenv (to_le_bytes 32 (last_generated_random_number s)) leader (bn254_public_key n) = Inr True"
    using assms(2,4,7) bls_decodes(1) [OF assms(1) assms(4)] unfolding same_curve_def by blast
  with assms(5,6) show ?thesis by (auto simp: check_slot_leader_def Let_def)
qed

text \<open>
  What the contract must hold for a submission to be the one it waits for: the random number the
  leader signed, the merkle root the signers signed, the sender as slot leader with its own key in
  the registry, and the signers in the committee with the keys of the stored signatures.
\<close>

definition contract_expects ::
  "('sig, 'bsk, 'bpk) consensus_lib \<Rightarrow> 'bpk \<Rightarrow> near_env \<Rightarrow> 'bpk crates \<Rightarrow> u256 \<Rightarrow> batch_signature_store
    \<Rightarrow> mainchain_contract \<Rightarrow> bool" where
  "contract_expects lib pk nenv cr r store s \<longleftrightarrow>
     last_generated_random_number s = r \<and> internal_compute_merkle_root nenv cr s = Inr (bs_batch_header store) \<and>
     get_current_slot_leader nenv s = Inr (Some (signer_account_id nenv)) \<and>
     (\<exists>n. um_get (active_nodes s) (signer_account_id nenv) = Some n \<and>
        vm_lib.pk_from_uncompressed (cl_vm lib) (bn254_public_key n) = Inr pk) \<and>
     (\<exists>committee keys. committees s (get_current_epoch nenv) = Some committee \<and> keys \<noteq> [] \<and>
        signers_registered s committee (bs_signers store) keys \<and>
        mset (map (cl_hex_encode lib) keys) = mset (map fst (bs_signatures store)))"

lemma contract_accepts:
  assumes "bls_ok lib public_of" "same_curve lib cr nenv" "store_sound lib store"
    and "snd (sdk_bn254_sign (cl_vm lib) (to_le_bytes 32 r) ctx) = Inr (Inr sg)"
    and "sig_to_uncompressed (cl_vm lib) sg = Inr leader"
    and "contract_expects lib (node_public_key public_of (vc_node_config ctx)) nenv cr r store s"
  shows "and_then (check_slot_leader nenv leader s)
    (check_signers nenv cr (bs_aggregated_signature store) (bs_aggregated_public_keys store) (bs_signers store))
    = Inr (bs_batch_header store)"
proof -
  from assms(3) obtain es ks ss where
    st: "mset (bs_signatures store) = mset (map (\<lambda>e. (cl_hex_encode lib (fst e), snd e)) es)"
    "signed_entries lib (bs_batch_header store) es ks ss" "aggregates lib store ks ss"
    unfolding store_sound_def by blast
  from assms(6) obtain n committee keys where ex: "last_generated_random_number s = r"
    "internal_compute_merkle_root nenv cr s = Inr (bs_batch_header store)"
    "get_current_slot_leader nenv s = Inr (Some (signer_account_id nenv))"
    "um_get (active_nodes s) (signer_account_id nenv) = Some n"
    "vm_lib.pk_from_uncompressed (cl_vm lib) (bn254_public_key n) = Inr (node_public_key public_of (vc_node_config ctx))"
    "committees s (get_current_epoch nenv) = Some committee" "signers_registered s committee (bs_signers store) keys"
    and keys: "keys \<noteq> []" "mset (map (cl_hex_encode lib) keys) = mset (map fst (bs_signatures store))"
    unfolding contract_expects_def by blast
  have "mset (map fst (bs_signatures store)) = mset (map (cl_hex_encode lib) (map fst es))"
    using arg_cong [OF st(1), of "image_mset fst"] by (simp add: image_mset.compositionality comp_def)
  with keys(2) have "image_mset (cl_hex_encode lib) (mset keys) = image_mset (cl_hex_encode lib) (mset (map fst es))"
    by (metis mset_map)
  then have perm: "mset keys = mset (map fst es)"
    using assms(2) injD [OF multiset.inj_map] unfolding same_curve_def by metis
  from check_slot_leader_accepts [OF assms(1,2) _ assms(5) ex(3-5)] assms(4) ex(1) obtain r'
    where "check_slot_leader nenv leader s = Inr (s\<lparr>last_generated_random_number := r'\<rparr>)" by auto
  moreover have "check_signers nenv cr (bs_aggregated_signature store) (bs_aggregated_public_keys store) (bs_signers store)
      (s\<lparr>last_generated_random_number := r'\<rparr>) = Inr (bs_batch_header store)"
    using ex by (intro check_signers_accepts [OF assms(1,2) st(2,3) keys(1) perm])
      (auto simp: signers_registered_def internal_compute_merkle_root_def)
  ultimately show ?thesis by simp
qed

text \<open>
  C17: What the slot leader's program submits passes the checks of the contract. In every shared
  memory that the tasks can leave behind, a call that \<open>batch_step_1\<close> adds to the queue carries
  aggregates and a leader signature that get through the slot-leader check and the signer check of
  \<open>post_signed_batch\<close>, in every state of the contract that still holds the random number and the
  merkle root that were signed, has the sender as its slot leader, and has the signers in its
  committee with the keys of the stored signatures, in whatever order these came in.
\<close>

theorem submission_accepted:
  assumes "program_ok lib public_of env cfg"
    and "reachable (\<lambda>sm. sm = in_memory_default) (consensus_step lib checks env cfg) (vc_shared_memory ctx)"
    and "vc_node_config ctx = cfg" "batch_step_1 lib checks ctx = (ctx', Inr (Inr ()))"
    and "p \<in> set (new_promises ctx ctx')" "p_action p = ChainCall call" "same_curve lib cr nenv"
  shows "\<exists>store leader num encoded r.
    p = bare_promise (batch_submission lib (chars_of (sdk_shared_get ''contract_id'' ctx)) store leader) \<and>
    get_or_create_batch_signature_store lib BATCH_SIGNATURE_STORE_KEY ctx = Inr store \<and>
    current_status ctx 2 = Inr (Fulfilled (Some num)) \<and> cl_string_of_json lib num = Some encoded \<and>
    cl_u256_of_dec lib encoded = Some r \<and>
    (\<forall>s. contract_expects lib (node_public_key public_of cfg) nenv cr r store s \<longrightarrow>
       and_then (check_slot_leader nenv leader s)
         (check_signers nenv cr (bs_aggregated_signature store) (bs_aggregated_public_keys store) (bs_signers store))
       = Inr (bs_batch_header store))"
proof -
  have bls: "bls_ok lib public_of" using assms(1) by (simp add: program_ok_def)
  from batch_step_1_submission [OF assms(4-6)] obtain store leader where sub:
    "get_or_create_batch_signature_store lib BATCH_SIGNATURE_STORE_KEY ctx = Inr store"
    "p = bare_promise (batch_submission lib (chars_of (sdk_shared_get ''contract_id'' ctx)) store leader)"
    "leader_signed lib ctx leader" by metis
  have "guest_inv lib public_of ctx" using stores.reachable_inv [OF assms(2)] assms(1,3) by (simp add: guest_inv_def)
  from get_store_sound [OF this sub(1)] have sound: "store_sound lib store" .
  from sub(3) obtain num encoded r sg where num: "current_status ctx 2 = Inr (Fulfilled (Some num))"
    "cl_string_of_json lib num = Some encoded" "cl_u256_of_dec lib encoded = Some r"
    "snd (sdk_bn254_sign (cl_vm lib) (to_le_bytes 32 r) ctx) = Inr (Inr sg)" "sig_to_uncompressed (cl_vm lib) sg = Inr leader"
    unfolding leader_signed_def by blast
  note accepts = contract_accepts [OF bls assms(7) sound num(4,5), unfolded assms(3)]
  show ?thesis using sub num accepts by blast
qed

lemma sample_submission:
  "\<exists>ctx' p call. batch_step_1 sample_lib True (sample_context sample_memory_3 [[5], [0], [0]]) = (ctx', Inr (Inr ())) \<and>
     p \<in> set (new_promises (sample_context sample_memory_3 [[5], [0], [0]]) ctx') \<and> p_action p = ChainCall call"
proof -
  let ?ctx = "sample_context sample_memory_3 [[5], [0], [0]]" and ?store = "sample_store [5] [65, 66] [''N'', ''M'']"
  obtain ctx1 leader where "batch_step_1 sample_lib True ?ctx =
      (sdk_start (batch_submission sample_lib ''mc'' ?store leader) [] ctx1, Inr (Inr ()))"
    and "length (queue_of ?ctx) \<le> length (queue_of ctx1)"
    using sample_submits [OF sample_process_batch(1)] by blast
  moreover obtain call where "p_action (bare_promise (batch_submission sample_lib ''mc'' ?store leader)) = ChainCall call"
    by (simp add: bare_promise_def chain_call_def wasm_promise_new_def)
  ultimately show ?thesis by (force simp: new_promises_def)
qed

text \<open>A contract that waits for the submission of the sample run.\<close>

definition sample_crates :: "u8 crates" where
  "sample_crates =
     \<lparr>crates.pk_from_uncompressed = (\<lambda>b. if length b = 1 then Some (hd b) else None), pk_add = (+), crates.pk_to_uncompressed = (\<lambda>k. Some [k]),
      borsh_string = (\<lambda>_. []), borsh_hash_pair = (\<lambda>_. []), borsh_merklized_batch = (\<lambda>_. [])\<rparr>"

definition sample_near_env :: near_env where
  "sample_near_env = (Mainchain_Scenario.demo_env 650 ''N'' [])\<lparr>sha256 := (\<lambda>_. array32 [5]),
     format_pairing_check_uncompressed_values := (\<lambda>m sb kb. Some [sample_hash m * hd kb, hd sb]),
     alt_bn128_pairing_check := (\<lambda>v. if hd v = v ! 1 then 1 else 0)\<rparr>"

definition sample_node :: "bytes \<Rightarrow> node" where
  "sample_node key = \<lparr>multi_addr = [], balance = 0, bn254_public_key = key, ed25519_public_key = []\<rparr>"

definition sample_contract :: mainchain_contract where
  "sample_contract = demo_requested\<lparr>active_nodes := um_insert ''N'' (sample_node [65]) (um_insert ''M'' (sample_node [66]) um_new),
     committees := [2 \<mapsto> [''M'', ''N'']], last_generated_random_number := 42\<rparr>"

lemma sample_same_curve: "same_curve sample_lib sample_crates sample_near_env"
  unfolding same_curve_def
  by (auto simp: sample_lib_def sample_vm_def sample_crates_def sample_near_env_def bn254_verify_def add_ac
      intro!: inj_on_inverseI [of _ as_bytes] split: if_splits)

lemma sample_contract_fields [simp]:
  "um_get (active_nodes sample_contract) ''N'' = Some (sample_node [65])"
  "um_get (active_nodes sample_contract) ''M'' = Some (sample_node [66])"
  "committees sample_contract 2 = Some [''M'', ''N'']" "last_generated_random_number sample_contract = 42"
  "data_request_accumulator sample_contract = [''r1'']" "committee_size (config sample_contract) = 2"
  by (simp_all add: sample_contract_def um_get_insert demo_requested_def demo_defs)

lemma sample_near_env_fields [simp]:
  "sha256 sample_near_env b = array32 [5]" "signer_account_id sample_near_env = ''N''"
  "get_current_epoch sample_near_env = 2" "get_current_slot sample_near_env = 65"
  by (simp_all add: get_current_epoch_def get_current_slot_def sample_near_env_def demo_defs)

lemma sample_expects:
  "contract_expects sample_lib 65 sample_near_env sample_crates 42 (sample_store [5] [65, 66] [''N'', ''M'']) sample_contract"
proof -
  have "signers_registered sample_contract [''M'', ''N''] [''N'', ''M''] [[65], [66]]"
    by (simp add: signers_registered_def sample_node_def)
  moreover have "get_current_slot_leader sample_near_env sample_contract = Inr (Some ''N'')"
    using from_le_bytes_nat_zeros [of "[5]" 31]
    by (simp add: get_current_slot_leader_def draw_def from_le_bytes_def array_bytes_array32 Let_def del: replicate.simps)
  moreover have "internal_compute_merkle_root sample_near_env sample_crates sample_contract = Inr (sample_digest [5])"
    by (simp add: array_bytes_array32 sample_digest_def internal_compute_merkle_root_def merklize_def hash_borsh_def index_def next_power_of_two.simps Let_def)
  moreover have "vm_lib.pk_from_uncompressed (cl_vm sample_lib) (bn254_public_key (sample_node [65])) = Inr 65"
    by (simp add: sample_lib_def sample_vm_def sample_node_def)
  ultimately show ?thesis
    unfolding contract_expects_def by (auto simp: sample_store_def intro!: exI [of _ "[[65], [66]]"])
qed

theorem submission_accepted_witness:
  "\<exists>leader. and_then (check_slot_leader sample_near_env leader sample_contract)
     (check_signers sample_near_env sample_crates (bs_aggregated_signature (sample_store [5] [65, 66] [''N'', ''M'']))
        [131] [''N'', ''M'']) = Inr (sample_digest [5])"
proof -
  let ?ctx = "sample_context sample_memory_3 [[5], [0], [0]]" and ?store = "sample_store [5] [65, 66] [''N'', ''M'']"
  obtain ctx' p call where run: "batch_step_1 sample_lib True ?ctx = (ctx', Inr (Inr ()))" "p \<in> set (new_promises ?ctx ctx')"
    "p_action p = ChainCall call"
    using sample_submission by blast
  have "reachable (\<lambda>sm. sm = in_memory_default) (consensus_step sample_lib True sample_env sample_config) (vc_shared_memory ?ctx)"
    using sample_reachable by simp
  from submission_accepted [OF sample_program_ok this sample_context_fields(2) run sample_same_curve]
  obtain leader where "contract_expects sample_lib 65 sample_near_env sample_crates 42 ?store s \<longrightarrow>
       and_then (check_slot_leader sample_near_env leader s)
         (check_signers sample_near_env sample_crates (bs_aggregated_signature ?store) (bs_aggregated_public_keys ?store)
           (bs_signers ?store)) = Inr (bs_batch_header ?store)" for s
    by (auto simp: sample_config_def)
  from this [rule_format, OF sample_expects] show ?thesis
    by (auto simp: sample_store_def)
qed

end
